(* ===== verification/Prelude.thy ===== *)
theory Prelude
  imports Complex_Main "HOL-Library.Product_Lexorder"
begin

text \<open>
  Shared vocabulary of the StudyFlow model: the names of the quantities the engine
  computes with (minutes, seconds, timestamps, calendar days), the JavaScript idioms
  the sources use on numbers (the falsy fallback \<open>x || d\<close>, the nullable column read
  \<open>v || 0\<close>), the seven-slot weekly array, and the generic list facts the component
  theories share. JavaScript numbers of the engine are whole numbers well inside the
  safe-integer range, so they are modelled as \<open>int\<close>; no claim depends on
  floating-point rounding.
\<close>

named_theorems engine_simps "equations of the model the component proofs unfold"

type_synonym minutes = int
type_synonym seconds = int
type_synonym timestamp = int \<comment> \<open>seconds since the epoch, in the client's local time\<close>
type_synonym day = int \<comment> \<open>local calendar day number, as \<open>Date.toDateString\<close> identifies it\<close>

subsection \<open>JavaScript idioms on numbers\<close>

text \<open>
  \<open>x || d\<close> on a number yields \<open>d\<close> exactly when \<open>x\<close> is falsy; for the whole
  numbers of the model that is \<open>x = 0\<close> (NaN and null are modelled where they occur).
\<close>

definition js_or :: "int \<Rightarrow> int \<Rightarrow> int" where
  "js_or x d = (if x = 0 then d else x)"

text \<open>A nullable numeric column read with \<open>v || 0\<close>: null (None) and 0 both give 0.\<close>

definition or_zero :: "int option \<Rightarrow> int" where
  "or_zero v = (case v of None \<Rightarrow> 0 | Some x \<Rightarrow> js_or x 0)"

subsection \<open>The seven-slot weekly array\<close>

text \<open>
  \<open>sessions.filter(s => s > 0).length\<close>: the number of positive slots, used both by
  \<open>getCurrentStreak\<close> and by the weekly streak card.
\<close>

definition count_pos :: "int list \<Rightarrow> nat" where
  "count_pos xs = length (filter (\<lambda>s. 0 < s) xs)"

text \<open>\<open>updated[i] = (updated[i] || 0) + 1\<close> on an array of numbers.\<close>

definition bump_slot :: "int list \<Rightarrow> nat \<Rightarrow> int list" where
  "bump_slot xs i = xs[i := xs ! i + 1]"

text \<open>\<open>xs[i]\<close> on a JavaScript array: \<open>undefined\<close> past the end.\<close>

definition js_at :: "'a list \<Rightarrow> nat \<Rightarrow> 'a option" where
  "js_at xs i = (if i < length xs then Some (xs ! i) else None)"

text \<open>\<open>Number.prototype.toString()\<close> of an integer: its decimal digits.\<close>

function digits :: "nat \<Rightarrow> string" where
  "digits n = (if n < 10 then [''0123456789'' ! n] else digits (n div 10) @ [''0123456789'' ! (n mod 10)])"
  by auto
termination
  by (relation "measure id") auto

definition int_to_string :: "int \<Rightarrow> string" where
  "int_to_string i = (if i < 0 then ''-'' @ digits (nat (- i)) else digits (nat i))"

text \<open>Reading a decimal numeral back, digit by digit.\<close>

definition digit_value :: "char \<Rightarrow> nat" where
  "digit_value c = of_char c - 48"

definition read_dec :: "string \<Rightarrow> nat" where
  "read_dec s = foldl (\<lambda>acc c. 10 * acc + digit_value c) 0 s"

subsection \<open>Runs of a step function that emits events\<close>

text \<open>
  Components that react to a sequence of inputs and emit outputs (the timer emits
  completed sessions) are run by folding their step over the inputs and collecting the
  outputs in order.
\<close>

fun run_emit :: "('s \<Rightarrow> 'i \<Rightarrow> 's \<times> 'o option) \<Rightarrow> 's \<Rightarrow> 'i list \<Rightarrow> 's \<times> 'o list" where
  "run_emit f s [] = (s, [])"
| "run_emit f s (i # ins) =
     (let (s', e) = f s i; (s'', es) = run_emit f s' ins
      in (s'', (case e of None \<Rightarrow> es | Some x \<Rightarrow> x # es)))"

subsection \<open>The first element of least key\<close>

text \<open>
  A stable sort followed by \<open>[0]\<close> picks the first element, in list order, among those
  of least key. \<open>first_min\<close> is that choice as a single linear scan: the reference the
  sorting code is compared with.
\<close>

fun first_min :: "('a \<Rightarrow> 'k::linorder) \<Rightarrow> 'a list \<Rightarrow> 'a option" where
  "first_min f [] = None"
| "first_min f (x # xs) =
     (case first_min f xs of None \<Rightarrow> Some x | Some y \<Rightarrow> if f x \<le> f y then Some x else Some y)"

subsection \<open>Substrings\<close>

text \<open>\<open>s.startsWith(p)\<close> and \<open>s.includes(p)\<close> on strings (lists of characters).\<close>

fun starts_with :: "string \<Rightarrow> string \<Rightarrow> bool" where
  "starts_with [] s = True"
| "starts_with (p # ps) [] = False"
| "starts_with (p # ps) (c # cs) = (p = c \<and> starts_with ps cs)"

fun contains :: "string \<Rightarrow> string \<Rightarrow> bool" where
  "contains p [] = (p = [])"
| "contains p (c # cs) = (starts_with p (c # cs) \<or> contains p cs)"

subsection \<open>Generic facts\<close>

lemma js_or_pos [simp]: "0 < d \<Longrightarrow> 0 \<le> x \<Longrightarrow> 0 < js_or x d"
  by (simp add: js_or_def)

lemma js_or_nonzero [simp]: "x \<noteq> 0 \<Longrightarrow> js_or x d = x"
  by (simp add: js_or_def)

lemma or_zero_Some [simp]: "or_zero (Some x) = x"
  by (simp add: or_zero_def js_or_def)

lemma or_zero_None [simp]: "or_zero None = 0"
  by (simp add: or_zero_def)

lemma length_bump_slot [simp]: "length (bump_slot xs i) = length xs"
  by (simp add: bump_slot_def)

lemma nth_bump_slot:
  "i < length xs \<Longrightarrow> bump_slot xs i ! j = (if j = i then xs ! i + 1 else xs ! j)"
  by (simp add: bump_slot_def nth_list_update)

lemma sum_list_bump_slot:
  "i < length xs \<Longrightarrow> sum_list (bump_slot xs i) = sum_list xs + 1"
  by (induction xs arbitrary: i) (auto simp: bump_slot_def split: nat.splits)

lemma bump_slot_nonneg:
  "list_all (\<lambda>x. 0 \<le> x) xs \<Longrightarrow> list_all (\<lambda>x. 0 \<le> x) (bump_slot xs i)"
  by (induction xs arbitrary: i) (auto simp: bump_slot_def split: nat.splits)

lemma count_pos_le_length: "count_pos xs \<le> length xs"
  by (simp add: count_pos_def)

lemma count_pos_update_mono:
  "0 \<le> xs ! i \<Longrightarrow> count_pos xs \<le> count_pos (bump_slot xs i)"
proof (induction xs arbitrary: i)
  case Nil
  then show ?case by (simp add: bump_slot_def)
next
  case (Cons x xs)
  then show ?case
    by (cases i) (auto simp: count_pos_def bump_slot_def)
qed

lemma hd_insort_key:
  "hd (insort_key f x ys) = (if ys = [] \<or> f x \<le> f (hd ys) then x else hd ys)"
  by (cases ys) auto

lemma hd_sort_key_first_min: "xs \<noteq> [] \<Longrightarrow> first_min f xs = Some (hd (sort_key f xs))"
proof (induction xs)
  case Nil
  then show ?case by simp
next
  case (Cons x xs)
  show ?case
  proof (cases "xs = []")
    case True
    then show ?thesis by simp
  next
    case False
    with Cons.IH have "first_min f xs = Some (hd (sort_key f xs))" by simp
    moreover have "sort_key f xs \<noteq> []" using False by (metis length_0_conv length_sort)
    ultimately show ?thesis by (simp add: hd_insort_key)
  qed
qed

lemma first_min_None [simp]: "first_min f xs = None \<longleftrightarrow> xs = []"
  by (induction xs) (auto split: option.splits)

lemma first_min_in: "first_min f xs = Some y \<Longrightarrow> y \<in> set xs"
  by (induction xs arbitrary: y) (auto split: option.splits if_splits)

lemma first_min_least: "first_min f xs = Some y \<Longrightarrow> x \<in> set xs \<Longrightarrow> f y \<le> f x"
proof (induction xs arbitrary: y)
  case Nil
  then show ?case by simp
next
  case (Cons z zs)
  then show ?case by (fastforce split: option.splits if_splits)
qed

lemma first_min_unique:
  "y \<in> set xs \<Longrightarrow> (\<forall>x\<in>set xs. x \<noteq> y \<longrightarrow> f y < f x) \<Longrightarrow> first_min f xs = Some y"
proof (induction xs)
  case Nil
  then show ?case by simp
next
  case (Cons z zs)
  show ?case
  proof (cases "z = y")
    case True
    have "f y \<le> f w" if "first_min f zs = Some w" for w
      using that Cons.prems True first_min_in [OF that] by (cases "w = y") auto
    with True show ?thesis by (auto split: option.splits)
  next
    case False
    with Cons.prems have "first_min f zs = Some y" by (intro Cons.IH) auto
    with False Cons.prems show ?thesis by auto
  qed
qed

text \<open>Ties go to the earliest: every element before the chosen one has a larger key.\<close>

lemma first_min_first:
  "first_min f xs = Some y \<Longrightarrow> x \<in> set (takeWhile (\<lambda>z. z \<noteq> y) xs) \<Longrightarrow> f y < f x"
proof (induction xs arbitrary: y)
  case Nil
  then show ?case by simp
next
  case (Cons z zs)
  show ?case
  proof (cases "first_min f zs")
    case None
    with Cons.prems show ?thesis by simp
  next
    case (Some w)
    show ?thesis
    proof (cases "f z \<le> f w")
      case True
      with Cons.prems Some show ?thesis by simp
    next
      case False
      with Cons.prems Some have y: "y = w" by simp
      from Cons.prems(2) y False have "x = z \<or> x \<in> set (takeWhile (\<lambda>u. u \<noteq> w) zs)"
        by (auto split: if_splits)
      with Cons.IH [OF Some] False y show ?thesis by auto
    qed
  qed
qed

lemma length_filter_eq_all: "length (filter P xs) = length xs \<longleftrightarrow> list_all P xs"
proof
  assume len: "length (filter P xs) = length xs"
  show "list_all P xs"
  proof (rule ccontr)
    assume "\<not> list_all P xs"
    then obtain x where "x \<in> set xs" and "\<not> P x" by (auto simp: list_all_iff)
    then have "length (filter P xs) < length xs" by (rule length_filter_less)
    with len show False by simp
  qed
next
  assume "list_all P xs"
  then show "length (filter P xs) = length xs" by (simp add: list_all_iff)
qed

lemma length_filter_pos_ex: "0 < length (filter P xs) \<longleftrightarrow> list_ex P xs"
  by (induction xs) auto

lemma run_emit_append:
  "run_emit f s (xs @ ys) =
     (let (s', es) = run_emit f s xs; (s'', es') = run_emit f s' ys in (s'', es @ es'))"
  by (induction xs arbitrary: s) (auto split: prod.splits option.splits)

lemma starts_with_iff: "starts_with p s \<longleftrightarrow> (\<exists>b. s = p @ b)"
  by (induction p s rule: starts_with.induct) auto

lemma contains_Cons_iff: "(\<exists>a b. c # cs = a @ p @ b) \<longleftrightarrow> (\<exists>b. c # cs = p @ b) \<or> (\<exists>a b. cs = a @ p @ b)"
  by (auto simp: Cons_eq_append_conv)

lemma contains_iff: "contains p s \<longleftrightarrow> (\<exists>a b. s = a @ p @ b)"
  by (induction s) (simp_all add: starts_with_iff contains_Cons_iff del: ex_simps)

lemma contains_trans: "contains q p \<Longrightarrow> contains p s \<Longrightarrow> contains q s"
  unfolding contains_iff by (metis append.assoc)

lemma length_filter_list_update:
  "i < length xs \<Longrightarrow>
   length (filter P (xs[i := x])) + (if P (xs ! i) then 1 else 0) =
     length (filter P xs) + (if P x then 1 else 0)"
proof (induction xs arbitrary: i)
  case Nil
  then show ?case by simp
next
  case (Cons y ys)
  show ?case
  proof (cases i)
    case 0
    then show ?thesis by simp
  next
    case (Suc j)
    with Cons.prems have "j < length ys" by simp
    from Cons.IH [OF this] Suc show ?thesis by simp
  qed
qed


subsection \<open>Lists with a key\<close>

text \<open>In a list whose keys are distinct (task ids), the element of a key is the only one
  with that key, and \<open>find\<close> returns it.\<close>

lemma filter_distinct_key:
  "distinct (map f xs) \<Longrightarrow> x \<in> set xs \<Longrightarrow> filter (\<lambda>u. f u = f x) xs = [x]"
proof (induction xs)
  case (Cons y ys)
  then show ?case by (cases "y = x") (auto simp: filter_empty_conv image_iff)
qed simp

lemma find_distinct_key:
  "distinct (map f xs) \<Longrightarrow> x \<in> set xs \<Longrightarrow> find (\<lambda>u. f u = f x) xs = Some x"
proof (induction xs)
  case (Cons y ys)
  then show ?case by (cases "y = x") auto
qed simp

lemma list_all_enumerate_snd:
  "list_all (\<lambda>x. P (snd x)) (enumerate n xs) \<longleftrightarrow> list_all P xs"
  by (induction xs arbitrary: n) simp_all

lemma digit_char_value: "d < 10 \<Longrightarrow> digit_value (''0123456789'' ! d) = d"
  by (auto simp: digit_value_def numeral_eq_Suc less_Suc_eq)

text \<open>The decimal digits of a number read back as that number.\<close>

lemma digits_roundtrip: "read_dec (digits n) = n"
proof (induction n rule: digits.induct)
  case (1 n)
  show ?case
  proof (cases "n < 10")
    case True
    then show ?thesis by (simp add: read_dec_def digit_char_value)
  next
    case False
    then have "read_dec (digits (n div 10)) = n div 10" using 1 by simp
    then show ?thesis using False by (simp add: read_dec_def digit_char_value)
  qed
qed

end
