(* ===== verification/Settings.thy ===== *)
theory Settings
  imports Prelude
begin

text \<open>
  The settings store (\<open>src/src/context/SettingsContext.tsx\<close>, the timer part of
  \<open>src/src/types/index.ts\<close>, and the duration inputs of
  \<open>src/src/pages/SettingsPage.tsx\<close> and \<open>src/src/components/timer/FocusTimer.tsx\<close>).
  The store holds the current \<open>TimerSettings\<close>; an update merges a partial object into
  it (\<open>{...timerSettings, ...settings}\<close>), applies it locally at once, and then upserts
  it remotely when a user is signed in, or writes it to local storage in demo mode.
  A failed upsert raises a toast and is not rolled back. The initial load reads the
  remote row with a 30-second timeout and falls back to the defaults.
\<close>

record timer_settings =
  focus_duration :: minutes
  short_break :: minutes
  long_break :: minutes
  sessions_before_long_break :: int
  auto_start_breaks :: bool
  auto_start_pomodoros :: bool

definition defaultTimerSettings :: timer_settings where
  "defaultTimerSettings =
     \<lparr>focus_duration = 25, short_break = 5, long_break = 15, sessions_before_long_break = 4,
      auto_start_breaks = False, auto_start_pomodoros = False\<rparr>"

text \<open>\<open>Partial<TimerSettings>\<close>: an absent key is \<open>None\<close> and keeps the old value.\<close>

record settings_patch =
  p_focus_duration :: "minutes option"
  p_short_break :: "minutes option"
  p_long_break :: "minutes option"
  p_sessions_before_long_break :: "int option"
  p_auto_start_breaks :: "bool option"
  p_auto_start_pomodoros :: "bool option"

definition empty_patch :: settings_patch where
  "empty_patch =
     \<lparr>p_focus_duration = None, p_short_break = None, p_long_break = None,
      p_sessions_before_long_break = None, p_auto_start_breaks = None,
      p_auto_start_pomodoros = None\<rparr>"

definition merge_settings :: "timer_settings \<Rightarrow> settings_patch \<Rightarrow> timer_settings" where
  "merge_settings s p =
     \<lparr>focus_duration = case_option (focus_duration s) id (p_focus_duration p),
      short_break = case_option (short_break s) id (p_short_break p),
      long_break = case_option (long_break s) id (p_long_break p),
      sessions_before_long_break =
        case_option (sessions_before_long_break s) id (p_sessions_before_long_break p),
      auto_start_breaks = case_option (auto_start_breaks s) id (p_auto_start_breaks p),
      auto_start_pomodoros =
        case_option (auto_start_pomodoros s) id (p_auto_start_pomodoros p)\<rparr>"

text \<open>The whole object as a patch, as \<open>SettingsPage.handleSave\<close> passes it.\<close>

definition patch_of :: "timer_settings \<Rightarrow> settings_patch" where
  "patch_of s =
     \<lparr>p_focus_duration = Some (focus_duration s), p_short_break = Some (short_break s),
      p_long_break = Some (long_break s),
      p_sessions_before_long_break = Some (sessions_before_long_break s),
      p_auto_start_breaks = Some (auto_start_breaks s),
      p_auto_start_pomodoros = Some (auto_start_pomodoros s)\<rparr>"

subsection \<open>Profile settings\<close>

datatype avatar_type = Panda | Custom

record profile_settings =
  full_name :: "string option"
  avatar_url :: "string option"
  avatar_type :: "avatar_type option"
  ps_total_study_minutes :: int
  ps_streak_days :: int

definition defaultProfileSettings :: profile_settings where
  "defaultProfileSettings =
     \<lparr>full_name = None, avatar_url = None, avatar_type = None, ps_total_study_minutes = 0,
      ps_streak_days = 0\<rparr>"

text \<open>A row of \<open>profiles\<close> as far as the settings read it; every column is nullable.\<close>

record profile_settings_row =
  pr_full_name :: "string option"
  pr_avatar_url :: "string option"
  pr_avatar_type :: "avatar_type option"
  pr_total_study_minutes :: "int option"
  pr_streak_days :: "int option"

text \<open>\<open>s || null\<close> on a nullable string: the empty string is falsy.\<close>

definition str_or_null :: "string option \<Rightarrow> string option" where
  "str_or_null v = (case v of Some s \<Rightarrow> if s = [] then None else Some s | None \<Rightarrow> None)"

definition profile_of_row :: "profile_settings_row \<Rightarrow> profile_settings" where
  "profile_of_row r =
     \<lparr>full_name = str_or_null (pr_full_name r), avatar_url = str_or_null (pr_avatar_url r),
      avatar_type = pr_avatar_type r, ps_total_study_minutes = or_zero (pr_total_study_minutes r),
      ps_streak_days = or_zero (pr_streak_days r)\<rparr>"

text \<open>\<open>user.email?.split('@')[0] || 'User'\<close>.\<close>

definition email_name :: "string option \<Rightarrow> string" where
  "email_name e =
     (case e of None \<Rightarrow> ''User''
      | Some s \<Rightarrow> (let p = takeWhile (\<lambda>c. c \<noteq> CHR ''@'') s in if p = [] then ''User'' else p))"

text \<open>The row \<open>initSettings\<close> inserts for a user without profile:
  \<open>{ user_id, full_name: ..., ...defaultProfileSettings }\<close>. The spread comes last, so
  each of its keys, \<open>full_name\<close> included, overrides what precedes it.\<close>

definition profile_insert_row :: "string option \<Rightarrow> profile_settings_row" where
  "profile_insert_row e =
     (let obj = \<lparr>pr_full_name = Some (email_name e), pr_avatar_url = None, pr_avatar_type = None,
                 pr_total_study_minutes = None, pr_streak_days = None\<rparr>
      in obj\<lparr>pr_full_name := full_name defaultProfileSettings,
             pr_avatar_url := avatar_url defaultProfileSettings,
             pr_avatar_type := avatar_type defaultProfileSettings,
             pr_total_study_minutes := Some (ps_total_study_minutes defaultProfileSettings),
             pr_streak_days := Some (ps_streak_days defaultProfileSettings)\<rparr>)"

text \<open>\<open>Partial<ProfileSettings>\<close>: \<open>None\<close> is an absent key, \<open>Some None\<close> an explicit null.\<close>

record profile_patch =
  pp_full_name :: "string option option"
  pp_avatar_url :: "string option option"
  pp_avatar_type :: "avatar_type option option"
  pp_total_study_minutes :: "int option"
  pp_streak_days :: "int option"

definition merge_profile :: "profile_settings \<Rightarrow> profile_patch \<Rightarrow> profile_settings" where
  "merge_profile s p =
     \<lparr>full_name = case_option (full_name s) id (pp_full_name p),
      avatar_url = case_option (avatar_url s) id (pp_avatar_url p),
      avatar_type = case_option (avatar_type s) id (pp_avatar_type p),
      ps_total_study_minutes = case_option (ps_total_study_minutes s) id (pp_total_study_minutes p),
      ps_streak_days = case_option (ps_streak_days s) id (pp_streak_days p)\<rparr>"

text \<open>The upsert writes only the keys of the patch; the other columns of an existing row
  keep their values, those of a new row are null.\<close>

definition upsert_profile :: "profile_settings_row option \<Rightarrow> profile_patch \<Rightarrow> profile_settings_row" where
  "upsert_profile r p =
     (let old = (case r of Some x \<Rightarrow> x
                 | None \<Rightarrow> \<lparr>pr_full_name = None, pr_avatar_url = None, pr_avatar_type = None,
                            pr_total_study_minutes = None, pr_streak_days = None\<rparr>)
      in \<lparr>pr_full_name = case_option (pr_full_name old) id (pp_full_name p),
          pr_avatar_url = case_option (pr_avatar_url old) id (pp_avatar_url p),
          pr_avatar_type = case_option (pr_avatar_type old) id (pp_avatar_type p),
          pr_total_study_minutes = case_option (pr_total_study_minutes old) Some (pp_total_study_minutes p),
          pr_streak_days = case_option (pr_streak_days old) Some (pp_streak_days p)\<rparr>)"

subsection \<open>The store and its operations\<close>

datatype notice = SyncFailed | NetworkTimeout | ErrorLoadingSettings

record settings_ctx =
  timerSettings :: timer_settings
  profileSettings :: profile_settings
  signed_in :: bool \<comment> \<open>\<open>user\<close> is not null\<close>
  user_email :: "string option"
  remote_timer :: "timer_settings option" \<comment> \<open>the user's \<open>timer_settings\<close> row\<close>
  remote_profile :: "profile_settings_row option" \<comment> \<open>the user's \<open>profiles\<close> row\<close>
  stored_timer :: "timer_settings option" \<comment> \<open>local storage key \<open>timerSettings\<close>\<close>
  settings_loading :: bool

text \<open>
  \<open>updateTimerSettings\<close>: the local state is replaced first; the upsert's outcome
  (\<open>upsert_ok\<close>) only decides the remote row and the toast. In demo mode the
  persistence effect writes the new object to local storage.
\<close>

definition updateTimerSettings ::
  "bool \<Rightarrow> settings_patch \<Rightarrow> settings_ctx \<Rightarrow> settings_ctx \<times> notice option" where
  "updateTimerSettings upsert_ok p c =
     (let newSettings = merge_settings (timerSettings c) p;
          c1 = c\<lparr>timerSettings := newSettings\<rparr>
      in if signed_in c then
           (if upsert_ok then (c1\<lparr>remote_timer := Some newSettings\<rparr>, None)
            else (c1, Some SyncFailed))
         else (c1\<lparr>stored_timer := Some newSettings\<rparr>, None))"

definition updateProfileSettings ::
  "bool \<Rightarrow> profile_patch \<Rightarrow> settings_ctx \<Rightarrow> settings_ctx \<times> notice option" where
  "updateProfileSettings upsert_ok p c =
     (let c1 = c\<lparr>profileSettings := merge_profile (profileSettings c) p\<rparr>
      in if signed_in c then
           (if upsert_ok then (c1\<lparr>remote_profile := Some (upsert_profile (remote_profile c) p)\<rparr>, None)
            else (c1, Some SyncFailed))
         else (c1, None))"

text \<open>The outcome of the initial fetch of both rows, raced against the 30-second timeout.\<close>

datatype fetch_result =
  FetchTimeout | FetchError | Fetched "profile_settings_row option" "timer_settings option"

text \<open>
  \<open>initSettings\<close>: nothing while the auth check runs; in demo mode the stored settings;
  otherwise the two rows, each created when missing (\<open>insert_ok\<close>: the insert's
  outcome, whose failure is only logged).
\<close>

definition initSettings :: "bool \<Rightarrow> bool \<Rightarrow> fetch_result \<Rightarrow> settings_ctx \<Rightarrow> settings_ctx \<times> notice option" where
  "initSettings authLoading insert_ok r c =
     (if authLoading then (c, None)
      else if \<not> signed_in c then
        (c\<lparr>settings_loading := False,
            timerSettings := case_option (timerSettings c) id (stored_timer c)\<rparr>, None)
      else (case r of
              FetchTimeout \<Rightarrow> (c\<lparr>settings_loading := False\<rparr>, Some NetworkTimeout)
            | FetchError \<Rightarrow> (c\<lparr>settings_loading := False\<rparr>, Some ErrorLoadingSettings)
            | Fetched prof tim \<Rightarrow>
                (let c1 = (case prof of Some row \<Rightarrow> c\<lparr>profileSettings := profile_of_row row\<rparr>
                           | None \<Rightarrow> if insert_ok then c\<lparr>remote_profile := Some (profile_insert_row (user_email c))\<rparr>
                                     else c);
                     c2 = (case tim of Some row \<Rightarrow> c1\<lparr>timerSettings := row\<rparr>
                           | None \<Rightarrow> if insert_ok then c1\<lparr>remote_timer := Some defaultTimerSettings\<rparr> else c1)
                 in (c2\<lparr>settings_loading := False\<rparr>, None))))"

subsection \<open>The settings boundary\<close>

text \<open>
  A duration field of \<open>SettingsPage\<close>: \<open>parseInt(e.target.value) || d\<close>. A value that
  does not parse is NaN (\<open>None\<close> here) and falls back to the default, as does 0; every
  other integer, negative ones included, is taken as typed (the \<open>min\<close> attribute of
  the input does not constrain typed values).
\<close>

definition parse_duration_input :: "int option \<Rightarrow> int \<Rightarrow> int" where
  "parse_duration_input v d = (case v of None \<Rightarrow> d | Some x \<Rightarrow> js_or x d)"

text \<open>\<open>FocusTimer.handleSaveSettings\<close>: the slider values of the settings dialog.\<close>

definition focus_timer_patch :: "minutes \<Rightarrow> minutes \<Rightarrow> settings_patch" where
  "focus_timer_patch tempFocus tempBreak =
     empty_patch\<lparr>p_focus_duration := Some tempFocus, p_short_break := Some tempBreak\<rparr>"

definition slider_focus_ok :: "minutes \<Rightarrow> bool" where
  "slider_focus_ok f = (5 \<le> f \<and> f \<le> 60 \<and> f mod 5 = 0)"

definition slider_break_ok :: "minutes \<Rightarrow> bool" where
  "slider_break_ok b = (1 \<le> b \<and> b \<le> 30)"

text \<open>The invariant the specification places on settings: every duration positive.\<close>

definition settings_valid :: "timer_settings \<Rightarrow> bool" where
  "settings_valid s =
     (0 < focus_duration s \<and> 0 < short_break s \<and> 0 < long_break s
      \<and> 0 < sessions_before_long_break s)"

text \<open>A signed-in store with the default settings, locally and in its row.\<close>

definition example_settings_ctx :: settings_ctx where
  "example_settings_ctx =
     \<lparr>timerSettings = defaultTimerSettings, profileSettings = defaultProfileSettings, signed_in = True,
      user_email = Some ''ana@uni.edu'', remote_timer = Some defaultTimerSettings, remote_profile = None,
      stored_timer = None, settings_loading = False\<rparr>"

lemma merge_settings_empty [simp]: "merge_settings s empty_patch = s"
  by (simp add: merge_settings_def empty_patch_def)

lemma merge_settings_patch_of [simp]: "merge_settings s (patch_of s') = s'"
  by (simp add: merge_settings_def patch_of_def)

lemma merge_focus_timer_patch [simp]:
  "merge_settings s (focus_timer_patch f b) = s\<lparr>focus_duration := f, short_break := b\<rparr>"
  by (simp add: merge_settings_def focus_timer_patch_def empty_patch_def)

lemma updateTimerSettings_local [simp]:
  "timerSettings (fst (updateTimerSettings ok p c)) = merge_settings (timerSettings c) p"
  by (simp add: updateTimerSettings_def Let_def)

lemma updateProfileSettings_local [simp]:
  "profileSettings (fst (updateProfileSettings ok p c)) = merge_profile (profileSettings c) p"
  by (simp add: updateProfileSettings_def Let_def)

text \<open>The profile created for a signed-in user without one has no name, whatever the
  e-mail: the spread of the default settings overwrites the name taken from it.\<close>

lemma initSettings_new_profile_unnamed:
  assumes "signed_in c"
  shows "remote_profile (fst (initSettings False True (Fetched None tim) c))
           = Some \<lparr>pr_full_name = None, pr_avatar_url = None, pr_avatar_type = None,
                   pr_total_study_minutes = Some 0, pr_streak_days = Some 0\<rparr>"
  using assms by (cases tim) (simp_all add: initSettings_def profile_insert_row_def defaultProfileSettings_def Let_def)

lemma upsert_profile_keeps:
  "pp_total_study_minutes p = None \<Longrightarrow> pp_streak_days p = None \<Longrightarrow> remote_profile c = Some r \<Longrightarrow>
   pr_total_study_minutes (upsert_profile (remote_profile c) p) = pr_total_study_minutes r
   \<and> pr_streak_days (upsert_profile (remote_profile c) p) = pr_streak_days r"
  by (simp add: upsert_profile_def)

text \<open>C40: a signed-in settings update applies the merged settings locally at once; when the upsert fails it shows the sync toast, and the next load of the row silently brings back the old settings, while after a successful upsert it gives the saved ones.\<close>

theorem updateTimerSettings_reload:
  assumes "signed_in c" and "remote_timer c = Some r"
  shows "snd (updateTimerSettings ok p c) = (if ok then None else Some SyncFailed)
         \<and> timerSettings (fst (updateTimerSettings ok p c)) = merge_settings (timerSettings c) p
         \<and> timerSettings (fst (initSettings False True (Fetched (remote_profile c) (remote_timer (fst (updateTimerSettings ok p c))))
                                           (fst (updateTimerSettings ok p c))))
             = (if ok then merge_settings (timerSettings c) p else r)"
  using assms by (simp add: updateTimerSettings_def initSettings_def Let_def)

theorem updateTimerSettings_reload_witness:
  "snd (updateTimerSettings False (focus_timer_patch 50 10) example_settings_ctx) = Some SyncFailed
   \<and> timerSettings (fst (initSettings False True
        (Fetched None (remote_timer (fst (updateTimerSettings False (focus_timer_patch 50 10) example_settings_ctx))))
        (fst (updateTimerSettings False (focus_timer_patch 50 10) example_settings_ctx))))
     = defaultTimerSettings"
  using updateTimerSettings_reload [of example_settings_ctx defaultTimerSettings False "focus_timer_patch 50 10"]
  by (simp add: example_settings_ctx_def)

end
