(* ===== verification/Timer.thy ===== *)
theory Timer
  imports Settings
begin

text \<open>
  The focus timer (\<open>src/src/context/TimerContext.tsx\<close>). Its state is three React
  state hooks: \<open>mode\<close>, \<open>isActive\<close> and \<open>timeLeft\<close> (seconds). The handlers
  (\<open>toggleTimer\<close>, \<open>resetTimer\<close>, the provider's \<open>setMode\<close>) and the one-second
  interval set state directly; after every render two effects run on the rendered state:
  \<^item> the sync effect (lines 32--36): when the timer is not active, \<open>timeLeft\<close> is set to
    the full duration of the current mode;
  \<^item> the countdown/completion effect (lines 38--68): while active with time left, an
    interval decrements \<open>timeLeft\<close> once; when \<open>timeLeft\<close> is 0 and the timer is
    active, a finished focus interval calls \<open>addSession(focusDuration)\<close> and switches
    to break, a finished break switches to focus, and the timer stops.
  A handler is modelled as its direct state update followed by one pass of the effects
  (\<open>render_effects\<close>); \<open>render_effects_idem\<close> shows that the re-render caused by the
  effects' own updates changes nothing more, so one pass is the settled state. The output
  of a step is the completed session it reports to the session ledger, if any.
\<close>

datatype mode = Focus | Break

record timer_state =
  mode :: mode
  isActive :: bool
  timeLeft :: seconds

definition focusDuration :: "timer_settings \<Rightarrow> minutes" where
  "focusDuration cfg = js_or (focus_duration cfg) 25"

definition breakDuration :: "timer_settings \<Rightarrow> minutes" where
  "breakDuration cfg = js_or (short_break cfg) 5"

text \<open>\<open>totalSeconds\<close>, and the duration every handler resets to.\<close>

definition totalSeconds :: "timer_settings \<Rightarrow> mode \<Rightarrow> seconds" where
  "totalSeconds cfg m = (if m = Focus then focusDuration cfg * 60 else breakDuration cfg * 60)"

definition initial_timer :: "timer_settings \<Rightarrow> timer_state" where
  "initial_timer cfg = \<lparr>mode = Focus, isActive = False, timeLeft = focusDuration cfg * 60\<rparr>"

subsection \<open>The two effects\<close>

definition sync_effect :: "timer_settings \<Rightarrow> timer_state \<Rightarrow> timer_state" where
  "sync_effect cfg s =
     (if \<not> isActive s then s\<lparr>timeLeft := totalSeconds cfg (mode s)\<rparr> else s)"

text \<open>
  The completion branch of the countdown effect; the output is the argument of
  \<open>addSession\<close>. Scheduling the interval changes no state, so that branch is the
  identity here and the interval itself is \<open>interval_tick\<close> below.
\<close>

definition completion_effect :: "timer_settings \<Rightarrow> timer_state \<Rightarrow> timer_state \<times> minutes option" where
  "completion_effect cfg s =
     (if isActive s \<and> 0 < timeLeft s then (s, None)
      else if timeLeft s = 0 then
        (if isActive s then
           (if mode s = Focus
            then (s\<lparr>mode := Break, timeLeft := breakDuration cfg * 60, isActive := False\<rparr>,
                  Some (focusDuration cfg))
            else (s\<lparr>mode := Focus, timeLeft := focusDuration cfg * 60, isActive := False\<rparr>, None))
         else (s, None))
      else (s, None))"

text \<open>
  Both effects read the same rendered state; their conditions exclude each other (the
  sync effect needs an inactive timer, every branch of the completion that changes state
  an active one), so running them in declaration order is the batched React update.
\<close>

definition render_effects :: "timer_settings \<Rightarrow> timer_state \<Rightarrow> timer_state \<times> minutes option" where
  "render_effects cfg s = completion_effect cfg (sync_effect cfg s)"

subsection \<open>Handlers and the interval\<close>

definition toggleTimer :: "timer_settings \<Rightarrow> timer_state \<Rightarrow> timer_state \<times> minutes option" where
  "toggleTimer cfg s = render_effects cfg (s\<lparr>isActive := \<not> isActive s\<rparr>)"

definition resetTimer :: "timer_settings \<Rightarrow> timer_state \<Rightarrow> timer_state \<times> minutes option" where
  "resetTimer cfg s =
     render_effects cfg (s\<lparr>isActive := False, timeLeft := totalSeconds cfg (mode s)\<rparr>)"

definition setMode :: "timer_settings \<Rightarrow> mode \<Rightarrow> timer_state \<Rightarrow> timer_state \<times> minutes option" where
  "setMode cfg m s =
     render_effects cfg (s\<lparr>mode := m, isActive := False, timeLeft := totalSeconds cfg m\<rparr>)"

text \<open>
  The interval exists only while the timer is active with time left; each firing runs
  \<open>setTimeLeft(prev => prev - 1)\<close>, and the changed \<open>timeLeft\<close> re-runs the effects
  (the old interval is cleared by the effect's cleanup).
\<close>

definition interval_tick :: "timer_settings \<Rightarrow> timer_state \<Rightarrow> timer_state \<times> minutes option" where
  "interval_tick cfg s =
     (if isActive s \<and> 0 < timeLeft s
      then render_effects cfg (s\<lparr>timeLeft := timeLeft s - 1\<rparr>)
      else (s, None))"

text \<open>A change of the settings object re-renders the provider and re-runs the effects.\<close>

definition settings_changed ::
  "timer_settings \<Rightarrow> timer_state \<Rightarrow> timer_state \<times> minutes option" where
  "settings_changed cfg' s = render_effects cfg' s"

definition progress :: "timer_settings \<Rightarrow> timer_state \<Rightarrow> real" where
  "progress cfg s =
     (let t = totalSeconds cfg (mode s) in real_of_int (t - timeLeft s) / real_of_int t * 100)"

subsection \<open>The timer as a state machine\<close>

datatype timer_input =
  SetModeIn mode | Toggle | Reset | Tick | SettingsChanged timer_settings

fun timer_step ::
  "timer_settings \<times> timer_state \<Rightarrow> timer_input \<Rightarrow> (timer_settings \<times> timer_state) \<times> minutes option"
where
  "timer_step (cfg, s) (SetModeIn m) = (let (s', e) = setMode cfg m s in ((cfg, s'), e))"
| "timer_step (cfg, s) Toggle = (let (s', e) = toggleTimer cfg s in ((cfg, s'), e))"
| "timer_step (cfg, s) Reset = (let (s', e) = resetTimer cfg s in ((cfg, s'), e))"
| "timer_step (cfg, s) Tick = (let (s', e) = interval_tick cfg s in ((cfg, s'), e))"
| "timer_step (cfg, s) (SettingsChanged cfg') =
     (let (s', e) = settings_changed cfg' s in ((cfg', s'), e))"

definition timer_run ::
  "timer_settings \<times> timer_state \<Rightarrow> timer_input list \<Rightarrow> (timer_settings \<times> timer_state) \<times> minutes list"
where
  "timer_run = run_emit timer_step"

text \<open>Settings the timer can run on: neither duration negative (0 falls back to the default).\<close>

definition durations_ok :: "timer_settings \<Rightarrow> bool" where
  "durations_ok cfg = (0 \<le> focus_duration cfg \<and> 0 \<le> short_break cfg)"

inductive timer_reachable :: "timer_settings \<times> timer_state \<Rightarrow> bool" where
  start: "durations_ok cfg \<Longrightarrow> timer_reachable (cfg, initial_timer cfg)"
| step: "timer_reachable cs \<Longrightarrow> (\<forall>cfg'. i = SettingsChanged cfg' \<longrightarrow> durations_ok cfg') \<Longrightarrow>
         timer_reachable (fst (timer_step cs i))"

text \<open>
  The invariant of a settled timer: time is never negative, an active timer has time
  left, and a stopped timer shows the full duration of its mode.
\<close>

definition timer_inv :: "timer_settings \<Rightarrow> timer_state \<Rightarrow> bool" where
  "timer_inv cfg s =
     (0 \<le> timeLeft s \<and> (isActive s \<longrightarrow> 0 < timeLeft s)
      \<and> (\<not> isActive s \<longrightarrow> timeLeft s = totalSeconds cfg (mode s)))"

subsection \<open>Basic facts\<close>

lemmas timer_defs [engine_simps] = render_effects_def sync_effect_def completion_effect_def

lemma totalSeconds_pos [simp]: "durations_ok cfg \<Longrightarrow> 0 < totalSeconds cfg m"
  by (simp add: durations_ok_def totalSeconds_def focusDuration_def breakDuration_def)

lemma focusDuration_pos [simp]: "durations_ok cfg \<Longrightarrow> 0 < focusDuration cfg"
  by (simp add: durations_ok_def focusDuration_def)

lemma breakDuration_pos [simp]: "durations_ok cfg \<Longrightarrow> 0 < breakDuration cfg"
  by (simp add: durations_ok_def breakDuration_def)

lemma totalSeconds_Focus [simp]: "totalSeconds cfg Focus = focusDuration cfg * 60"
  by (simp add: totalSeconds_def)

lemma totalSeconds_Break [simp]: "totalSeconds cfg Break = breakDuration cfg * 60"
  by (simp add: totalSeconds_def)

text \<open>One pass of the effects on a stopped timer, on a running one, and at zero.\<close>

lemma render_effects_stopped:
  "\<not> isActive s \<Longrightarrow> render_effects cfg s = (s\<lparr>timeLeft := totalSeconds cfg (mode s)\<rparr>, None)"
  by (simp add: engine_simps)

lemma render_effects_running:
  "isActive s \<Longrightarrow> 0 < timeLeft s \<Longrightarrow> render_effects cfg s = (s, None)"
  by (simp add: engine_simps)

lemma render_effects_finish:
  "isActive s \<Longrightarrow> timeLeft s = 0 \<Longrightarrow>
   render_effects cfg s =
     (if mode s = Focus
      then (s\<lparr>mode := Break, timeLeft := breakDuration cfg * 60, isActive := False\<rparr>,
            Some (focusDuration cfg))
      else (s\<lparr>mode := Focus, timeLeft := focusDuration cfg * 60, isActive := False\<rparr>, None))"
  by (simp add: engine_simps)

lemma render_effects_negative:
  "isActive s \<Longrightarrow> timeLeft s < 0 \<Longrightarrow> render_effects cfg s = (s, None)"
  by (simp add: engine_simps)

lemma render_effects_inv:
  assumes "durations_ok cfg" and "0 \<le> timeLeft s"
  shows "timer_inv cfg (fst (render_effects cfg s))"
proof (cases "isActive s")
  case False
  with assms show ?thesis by (simp add: render_effects_stopped timer_inv_def less_imp_le)
next
  case True
  show ?thesis
  proof (cases "timeLeft s = 0")
    case True
    with \<open>isActive s\<close> assms(1) show ?thesis
      by (cases "mode s") (simp_all add: render_effects_finish timer_inv_def less_imp_le)
  next
    case False
    with True assms show ?thesis by (simp add: render_effects_running timer_inv_def)
  qed
qed


subsection \<open>Settling of the effects\<close>

text \<open>One pass of the effects is a fixpoint: the re-render caused by their own updates changes nothing and reports no second session.\<close>

theorem render_effects_idem:
  "render_effects cfg (fst (render_effects cfg s)) = (fst (render_effects cfg s), None)"
proof (cases "isActive s")
  case False
  then show ?thesis by (simp add: render_effects_stopped)
next
  case True
  consider (pos) "0 < timeLeft s" | (zero) "timeLeft s = 0" | (neg) "timeLeft s < 0"
    by linarith
  then show ?thesis
  proof cases
    case pos
    with True show ?thesis by (simp add: render_effects_running)
  next
    case zero
    with True show ?thesis
      by (cases "mode s") (simp_all add: render_effects_finish render_effects_stopped)
  next
    case neg
    with True show ?thesis by (simp add: render_effects_negative)
  qed
qed

subsection \<open>Each handler\<close>

lemma toggle_start:
  "\<not> isActive s \<Longrightarrow> 0 < timeLeft s \<Longrightarrow> toggleTimer cfg s = (s\<lparr>isActive := True\<rparr>, None)"
  by (simp add: toggleTimer_def render_effects_running)

text \<open>C6: pausing a running timer does not keep the time left: the sync effect, triggered by the change of isActive, reloads the full duration of the mode.\<close>

theorem toggle_pause_resets:
  "isActive s \<Longrightarrow>
   toggleTimer cfg s = (s\<lparr>isActive := False, timeLeft := totalSeconds cfg (mode s)\<rparr>, None)"
  by (simp add: toggleTimer_def render_effects_stopped)

text \<open>SetMode switches the mode, stops the timer and loads the full duration of the new mode, discarding any progress and reporting no session.\<close>

theorem setMode_discards:
  "setMode cfg m s = (s\<lparr>mode := m, isActive := False, timeLeft := totalSeconds cfg m\<rparr>, None)"
  by (simp add: setMode_def render_effects_stopped)

text \<open>ResetTimer stops the timer and restores the full duration of the current mode.\<close>

theorem resetTimer_restores:
  "resetTimer cfg s = (s\<lparr>isActive := False, timeLeft := totalSeconds cfg (mode s)\<rparr>, None)"
  by (simp add: resetTimer_def render_effects_stopped)

text \<open>While the timer runs with more than one second left, each firing of the interval decrements the time left by exactly one and reports nothing.\<close>

theorem tick_decrements:
  "isActive s \<Longrightarrow> 1 < timeLeft s \<Longrightarrow> interval_tick cfg s = (s\<lparr>timeLeft := timeLeft s - 1\<rparr>, None)"
  by (simp add: interval_tick_def render_effects_running)

lemma tick_last:
  "isActive s \<Longrightarrow> timeLeft s = 1 \<Longrightarrow>
   interval_tick cfg s =
     (if mode s = Focus
      then (\<lparr>mode = Break, isActive = False, timeLeft = breakDuration cfg * 60\<rparr>,
            Some (focusDuration cfg))
      else (\<lparr>mode = Focus, isActive = False, timeLeft = focusDuration cfg * 60\<rparr>, None))"
  by (simp add: interval_tick_def render_effects_finish)

text \<open>The firing that takes a running focus interval from 1 to 0 switches to break, stops the timer, loads the break duration and reports one session of focusDuration minutes, whatever the auto-start settings say.\<close>

theorem focus_completion:
  "isActive s \<Longrightarrow> mode s = Focus \<Longrightarrow> timeLeft s = 1 \<Longrightarrow>
   interval_tick cfg s =
     (\<lparr>mode = Break, isActive = False, timeLeft = breakDuration cfg * 60\<rparr>, Some (focusDuration cfg))"
  by (simp add: tick_last)

text \<open>A settings change while the timer is stopped resizes the time left to the new duration of the current mode.\<close>

theorem settings_resize_paused:
  "\<not> isActive s \<Longrightarrow> settings_changed cfg' s = (s\<lparr>timeLeft := totalSeconds cfg' (mode s)\<rparr>, None)"
  by (simp add: settings_changed_def render_effects_stopped)

text \<open>A settings change while the timer runs with time left leaves the countdown untouched.\<close>

theorem settings_no_resize_running:
  "isActive s \<Longrightarrow> 0 < timeLeft s \<Longrightarrow> settings_changed cfg' s = (s, None)"
  by (simp add: settings_changed_def render_effects_running)

subsection \<open>Runs of the interval\<close>

lemma timer_run_Nil [simp]: "timer_run cs [] = (cs, [])"
  by (simp add: timer_run_def)

lemma timer_run_Tick:
  "timer_run (cfg, s) (Tick # ins) =
     (let (s', e) = interval_tick cfg s; (cs'', es) = timer_run (cfg, s') ins
      in (cs'', case e of None \<Rightarrow> es | Some x \<Rightarrow> x # es))"
  by (simp add: timer_run_def split: prod.splits)

text \<open>\<open>n\<close> firings of the interval from an active timer with \<open>n\<close> seconds left finish the interval.\<close>

lemma run_ticks_finish:
  assumes "isActive s" and "timeLeft s = int n" and "0 < n"
  shows "timer_run (cfg, s) (replicate n Tick) =
           (if mode s = Focus
            then ((cfg, \<lparr>mode = Break, isActive = False, timeLeft = breakDuration cfg * 60\<rparr>),
                  [focusDuration cfg])
            else ((cfg, \<lparr>mode = Focus, isActive = False, timeLeft = focusDuration cfg * 60\<rparr>), []))"
  using assms
proof (induction n arbitrary: s)
  case 0
  then show ?case by simp
next
  case (Suc m)
  show ?case
  proof (cases "m = 0")
    case True
    with Suc.prems show ?thesis
      by (simp add: timer_run_Tick tick_last)
  next
    case False
    let ?s' = "s\<lparr>timeLeft := int m\<rparr>"
    have tick: "interval_tick cfg s = (?s', None)"
      using Suc.prems False by (simp add: interval_tick_def render_effects_running)
    have "timer_run (cfg, ?s') (replicate m Tick) =
           (if mode s = Focus
            then ((cfg, \<lparr>mode = Break, isActive = False, timeLeft = breakDuration cfg * 60\<rparr>),
                  [focusDuration cfg])
            else ((cfg, \<lparr>mode = Focus, isActive = False, timeLeft = focusDuration cfg * 60\<rparr>), []))"
      using Suc.IH [of ?s'] Suc.prems False by simp
    with tick show ?thesis by (simp add: timer_run_Tick)
  qed
qed

text \<open>C1: a running focus interval with n seconds left finishes after exactly n firings of the interval: the timer is then stopped in break mode with the full break duration, and exactly one completed session of focusDuration minutes has been reported.\<close>

theorem focus_interval_completes:
  "isActive s \<Longrightarrow> mode s = Focus \<Longrightarrow> timeLeft s = int n \<Longrightarrow> 0 < n \<Longrightarrow>
   timer_run (cfg, s) (replicate n Tick) =
     ((cfg, \<lparr>mode = Break, isActive = False, timeLeft = breakDuration cfg * 60\<rparr>),
      [focusDuration cfg])"
  using run_ticks_finish [of s n cfg] by simp


subsection \<open>The invariant over reachable states\<close>

lemma timer_step_fst:
  "fst (timer_step (cfg, s) i) =
     (case i of SetModeIn m \<Rightarrow> (cfg, fst (setMode cfg m s))
      | Toggle \<Rightarrow> (cfg, fst (toggleTimer cfg s))
      | Reset \<Rightarrow> (cfg, fst (resetTimer cfg s))
      | Tick \<Rightarrow> (cfg, fst (interval_tick cfg s))
      | SettingsChanged c \<Rightarrow> (c, fst (settings_changed c s)))"
  by (cases i) (simp_all add: case_prod_beta)

lemma timer_inv_initial: "durations_ok cfg \<Longrightarrow> timer_inv cfg (initial_timer cfg)"
  by (simp add: timer_inv_def initial_timer_def less_imp_le)

lemma timer_inv_nonneg: "timer_inv cfg s \<Longrightarrow> 0 \<le> timeLeft s"
  by (simp add: timer_inv_def)

lemma interval_tick_idle:
  "\<not> (isActive s \<and> 0 < timeLeft s) \<Longrightarrow> interval_tick cfg s = (s, None)"
  unfolding interval_tick_def by (rule if_not_P)

lemma interval_tick_inv:
  assumes "durations_ok cfg" and "timer_inv cfg s"
  shows "timer_inv cfg (fst (interval_tick cfg s))"
proof (cases "isActive s \<and> 0 < timeLeft s")
  case True
  then have "0 \<le> timeLeft (s\<lparr>timeLeft := timeLeft s - 1\<rparr>)" by simp
  with assms(1) True show ?thesis by (simp add: interval_tick_def render_effects_inv)
next
  case False
  then have "interval_tick cfg s = (s, None)" by (rule interval_tick_idle)
  with assms(2) show ?thesis by simp
qed

lemma timer_step_inv:
  assumes "durations_ok cfg" and "timer_inv cfg s"
    and "\<forall>c. i = SettingsChanged c \<longrightarrow> durations_ok c"
  shows "durations_ok (fst (fst (timer_step (cfg, s) i)))
         \<and> timer_inv (fst (fst (timer_step (cfg, s) i))) (snd (fst (timer_step (cfg, s) i)))"
proof (cases i)
  case (SetModeIn m)
  with assms(1) show ?thesis
    by (simp del: timer_step.simps add: timer_step_fst setMode_def render_effects_inv less_imp_le)
next
  case Toggle
  with assms(1,2) show ?thesis
    by (simp del: timer_step.simps add: timer_step_fst toggleTimer_def render_effects_inv timer_inv_nonneg)
next
  case Reset
  with assms(1) show ?thesis
    by (simp del: timer_step.simps add: timer_step_fst resetTimer_def render_effects_inv less_imp_le)
next
  case Tick
  with assms(1,2) show ?thesis by (simp del: timer_step.simps add: timer_step_fst interval_tick_inv)
next
  case (SettingsChanged c)
  with assms show ?thesis
    by (simp del: timer_step.simps add: timer_step_fst settings_changed_def render_effects_inv timer_inv_nonneg)
qed

text \<open>C3: every reachable timer satisfies the invariant.\<close>

theorem timer_reachable_inv:
  "timer_reachable (cfg, s) \<Longrightarrow> durations_ok cfg \<and> timer_inv cfg s"
proof (induction "(cfg, s)" arbitrary: cfg s rule: timer_reachable.induct)
  case (start cfg)
  then show ?case by (simp add: timer_inv_initial)
next
  case (step cs i)
  obtain cfg0 s0 where cs: "cs = (cfg0, s0)" by (cases cs)
  with step.hyps(2) have "durations_ok cfg0 \<and> timer_inv cfg0 s0" by simp
  with step.hyps(3) step.hyps(4) cs show ?case
    using timer_step_inv [of cfg0 s0 i] by auto
qed

subsection \<open>The bound on the countdown\<close>

lemma render_effects_bound:
  assumes "durations_ok cfg" and "timeLeft s \<le> totalSeconds cfg (mode s)"
  shows "timeLeft (fst (render_effects cfg s)) \<le> totalSeconds cfg (mode (fst (render_effects cfg s)))"
proof (cases "isActive s")
  case False
  then show ?thesis by (simp add: render_effects_stopped)
next
  case True
  consider "0 < timeLeft s" | "timeLeft s = 0" | "timeLeft s < 0" by linarith
  then show ?thesis
    by cases (use True assms in \<open>simp_all add: render_effects_running render_effects_negative
                                              render_effects_finish\<close>)
qed

text \<open>Every input other than a settings change during a run keeps the time left within the duration of the current mode.\<close>

theorem timer_step_bounded:
  assumes "durations_ok cfg" and "timer_inv cfg s" and "timeLeft s \<le> totalSeconds cfg (mode s)"
    and "\<forall>c. i = SettingsChanged c \<longrightarrow> durations_ok c \<and> \<not> isActive s"
  shows "timeLeft (snd (fst (timer_step (cfg, s) i)))
           \<le> totalSeconds (fst (fst (timer_step (cfg, s) i))) (mode (snd (fst (timer_step (cfg, s) i))))"
proof (cases i)
  case (SetModeIn m)
  with assms(1) show ?thesis by (simp del: timer_step.simps add: timer_step_fst setMode_def render_effects_bound)
next
  case Toggle
  with assms(1,3) show ?thesis by (simp del: timer_step.simps add: timer_step_fst toggleTimer_def render_effects_bound)
next
  case Reset
  with assms(1) show ?thesis by (simp del: timer_step.simps add: timer_step_fst resetTimer_def render_effects_bound)
next
  case Tick
  with assms(1,3) show ?thesis
    by (simp del: timer_step.simps add: timer_step_fst interval_tick_def render_effects_bound)
next
  case (SettingsChanged c)
  with assms(4) show ?thesis
    by (simp del: timer_step.simps add: timer_step_fst settings_changed_def render_effects_stopped)
qed


text \<open>The progress percentage lies between 0 and 100 whenever the time left lies between 0 and the duration of the mode.\<close>

theorem progress_bounds:
  assumes "durations_ok cfg" and "0 \<le> timeLeft s" and "timeLeft s \<le> totalSeconds cfg (mode s)"
  shows "0 \<le> progress cfg s \<and> progress cfg s \<le> 100"
proof -
  let ?t = "totalSeconds cfg (mode s)"
  define q where "q = real_of_int (?t - timeLeft s) / real_of_int ?t"
  have t: "0 < real_of_int ?t" using assms(1) by simp
  have "0 \<le> q" using t assms(3) by (simp add: q_def)
  moreover have "q \<le> 1" using t assms(2) by (simp add: q_def)
  moreover have "progress cfg s = q * 100" by (simp only: progress_def Let_def q_def)
  ultimately show ?thesis by linarith
qed

subsection \<open>Durations the settings boundary lets through\<close>

lemma run_ticks_idle:
  "\<not> (isActive s \<and> 0 < timeLeft s) \<Longrightarrow> timer_run (cfg, s) (replicate n Tick) = ((cfg, s), [])"
  by (induction n) (simp_all add: timer_run_Tick interval_tick_idle)

text \<open>A negative focus duration, which the settings page accepts, starts a timer that never completes: the interval is never scheduled and no session is ever reported.\<close>

theorem negative_focus_stalls:
  assumes "focus_duration cfg < 0"
  shows "isActive (fst (toggleTimer cfg (initial_timer cfg)))
         \<and> timer_run (cfg, fst (toggleTimer cfg (initial_timer cfg))) (replicate n Tick)
             = ((cfg, fst (toggleTimer cfg (initial_timer cfg))), [])"
proof -
  have neg: "focusDuration cfg * 60 < 0" using assms by (simp add: focusDuration_def)
  then have "toggleTimer cfg (initial_timer cfg) = ((initial_timer cfg)\<lparr>isActive := True\<rparr>, None)"
    by (simp add: toggleTimer_def initial_timer_def render_effects_negative)
  with neg show ?thesis by (simp add: run_ticks_idle initial_timer_def)
qed


subsection \<open>Witnesses at concrete inputs\<close>

lemma defaults_eval [simp]:
  "focusDuration defaultTimerSettings = 25" "breakDuration defaultTimerSettings = 5"
  "durations_ok defaultTimerSettings"
  by (simp_all add: focusDuration_def breakDuration_def durations_ok_def defaultTimerSettings_def)

theorem focus_interval_completes_witness:
  "timer_run (defaultTimerSettings, \<lparr>mode = Focus, isActive = True, timeLeft = 3\<rparr>) (replicate 3 Tick)
     = ((defaultTimerSettings, \<lparr>mode = Break, isActive = False, timeLeft = 300\<rparr>), [25])"
  using focus_interval_completes [of "\<lparr>mode = Focus, isActive = True, timeLeft = 3\<rparr>" 3
                                     defaultTimerSettings]
  by simp

theorem focus_completion_witness:
  "interval_tick (defaultTimerSettings\<lparr>auto_start_breaks := True\<rparr>)
     \<lparr>mode = Focus, isActive = True, timeLeft = 1\<rparr>
   = (\<lparr>mode = Break, isActive = False, timeLeft = 300\<rparr>, Some 25)"
  using focus_completion [of "\<lparr>mode = Focus, isActive = True, timeLeft = 1\<rparr>"
                             "defaultTimerSettings\<lparr>auto_start_breaks := True\<rparr>"]
  by (simp add: focusDuration_def breakDuration_def defaultTimerSettings_def)

theorem timer_reachable_inv_witness:
  "durations_ok defaultTimerSettings
   \<and> timer_inv defaultTimerSettings \<lparr>mode = Focus, isActive = True, timeLeft = 1500\<rparr>"
proof -
  have r: "timer_reachable (fst (timer_step (defaultTimerSettings, initial_timer defaultTimerSettings) Toggle))"
    by (rule timer_reachable.step [OF timer_reachable.start]) simp_all
  have "fst (timer_step (defaultTimerSettings, initial_timer defaultTimerSettings) Toggle)
          = (defaultTimerSettings, \<lparr>mode = Focus, isActive = True, timeLeft = 1500\<rparr>)"
    by (simp add: toggleTimer_def initial_timer_def render_effects_running)
  with r show ?thesis using timer_reachable_inv by simp
qed

theorem tick_decrements_witness:
  "interval_tick defaultTimerSettings \<lparr>mode = Focus, isActive = True, timeLeft = 600\<rparr>
     = (\<lparr>mode = Focus, isActive = True, timeLeft = 599\<rparr>, None)"
  using tick_decrements [of "\<lparr>mode = Focus, isActive = True, timeLeft = 600\<rparr>" defaultTimerSettings]
  by simp

theorem toggle_pause_resets_witness:
  "toggleTimer defaultTimerSettings \<lparr>mode = Focus, isActive = True, timeLeft = 600\<rparr>
     = (\<lparr>mode = Focus, isActive = False, timeLeft = 1500\<rparr>, None)"
  using toggle_pause_resets [of "\<lparr>mode = Focus, isActive = True, timeLeft = 600\<rparr>" defaultTimerSettings]
  by simp

theorem settings_resize_paused_witness:
  "settings_changed (defaultTimerSettings\<lparr>focus_duration := 30\<rparr>)
     \<lparr>mode = Focus, isActive = False, timeLeft = 1500\<rparr>
   = (\<lparr>mode = Focus, isActive = False, timeLeft = 1800\<rparr>, None)"
  using settings_resize_paused [of "\<lparr>mode = Focus, isActive = False, timeLeft = 1500\<rparr>"
                                   "defaultTimerSettings\<lparr>focus_duration := 30\<rparr>"]
  by (simp add: focusDuration_def)

theorem settings_no_resize_running_witness:
  "settings_changed (defaultTimerSettings\<lparr>focus_duration := 30\<rparr>)
     \<lparr>mode = Focus, isActive = True, timeLeft = 600\<rparr>
   = (\<lparr>mode = Focus, isActive = True, timeLeft = 600\<rparr>, None)"
  using settings_no_resize_running [of "\<lparr>mode = Focus, isActive = True, timeLeft = 600\<rparr>"
                                       "defaultTimerSettings\<lparr>focus_duration := 30\<rparr>"]
  by simp

theorem timer_step_bounded_witness:
  "timeLeft (snd (fst (timer_step (defaultTimerSettings, \<lparr>mode = Focus, isActive = True, timeLeft = 600\<rparr>) Tick)))
     \<le> totalSeconds defaultTimerSettings Focus"
  using timer_step_bounded [of defaultTimerSettings "\<lparr>mode = Focus, isActive = True, timeLeft = 600\<rparr>" Tick]
  by (simp add: timer_inv_def interval_tick_def render_effects_running)

theorem progress_bounds_witness:
  "0 \<le> progress defaultTimerSettings \<lparr>mode = Focus, isActive = True, timeLeft = 600\<rparr>
   \<and> progress defaultTimerSettings \<lparr>mode = Focus, isActive = True, timeLeft = 600\<rparr> \<le> 100"
  using progress_bounds [of defaultTimerSettings "\<lparr>mode = Focus, isActive = True, timeLeft = 600\<rparr>"]
  by simp

theorem negative_focus_stalls_witness:
  "isActive (fst (toggleTimer (defaultTimerSettings\<lparr>focus_duration := -5\<rparr>)
                   (initial_timer (defaultTimerSettings\<lparr>focus_duration := -5\<rparr>))))"
  using negative_focus_stalls [of "defaultTimerSettings\<lparr>focus_duration := -5\<rparr>" 3]
  by simp

end
