(* ===== verification/Ledger.thy ===== *)
theory Ledger
  imports Prelude
begin

text \<open>
  The session and streak ledger (\<open>src/src/context/SessionContext.tsx\<close>) and the daily
  streak check of the authentication provider (\<open>src/src/hooks/useAuth.tsx\<close>).
  The local state is the provider's hooks (the seven weekly slots \<open>sessions\<close>,
  \<open>totalMinutes\<close>, \<open>previousUserId\<close>, \<open>accumulatedMinutes\<close> and the celebration
  modal) together with the two local-storage keys of demo mode. The remote store is the
  \<open>profiles\<close> table (per user: total study minutes, streak days, last active date) and
  the append-only \<open>study_sessions\<close> table. Every remote call takes the network outcome
  \<open>ok\<close>: supabase reports a failure as an error value that the code ignores, so a failed
  read yields no data and a failed write changes nothing. Timestamps are seconds in the
  client's local time; the calendar day is \<open>t div 86400\<close> and day 0 (1970-01-01) was a
  Thursday, so \<open>Date.getDay\<close> is \<open>(day + 4) mod 7\<close> with Sunday = 0.
\<close>

type_synonym uid = nat

record profile_row =
  total_study_minutes :: "int option"
  streak_days :: "int option"
  last_active_date :: "timestamp option"

record session_row =
  sr_user :: uid
  focus_minutes :: int
  duration_seconds :: seconds
  completed_at :: timestamp
  created_at :: timestamp

record db =
  profiles :: "uid \<Rightarrow> profile_row option"
  study_sessions :: "session_row list"
  timer_rows :: "uid \<Rightarrow> bool" \<comment> \<open>whether the user has a \<open>timer_settings\<close> row\<close>

record ledger =
  sessions :: "int list"
  totalMinutes :: minutes
  previousUserId :: "uid option"
  accumulatedMinutes :: minutes
  showStreakModal :: bool
  newStreakValue :: int
  stored_sessions :: "int list option" \<comment> \<open>local storage \<open>weeklyFocusSessions\<close>\<close>
  stored_total :: "minutes option" \<comment> \<open>local storage \<open>totalFocusMinutes\<close>\<close>

text \<open>What every call of the ledger is given: the signed-in user, the clock, the network.\<close>

record env =
  user :: "uid option"
  now :: timestamp
  net_ok :: bool

definition zero_week :: "int list" where
  "zero_week = [0, 0, 0, 0, 0, 0, 0]"

definition initial_ledger :: ledger where
  "initial_ledger =
     \<lparr>sessions = zero_week, totalMinutes = 0, previousUserId = None, accumulatedMinutes = 0,
      showStreakModal = False, newStreakValue = 0, stored_sessions = None, stored_total = None\<rparr>"

subsection \<open>Calendar helpers\<close>

definition day_of :: "timestamp \<Rightarrow> day" where
  "day_of t = t div 86400"

definition getDay :: "timestamp \<Rightarrow> nat" where
  "getDay t = nat ((day_of t + 4) mod 7)"

text \<open>\<open>getDay() === 0 ? 6 : getDay() - 1\<close>: Monday-first slot index.\<close>

definition dayIndex :: "nat \<Rightarrow> nat" where
  "dayIndex d = (if d = 0 then 6 else d - 1)"

subsection \<open>Remote operations\<close>

definition read_profile :: "bool \<Rightarrow> db \<Rightarrow> uid \<Rightarrow> profile_row option" where
  "read_profile ok d u = (if ok then profiles d u else None)"

text \<open>\<open>.update(...).eq('user_id', ...)\<close>: changes the row if there is one.\<close>

definition update_profile ::
  "bool \<Rightarrow> uid \<Rightarrow> (profile_row \<Rightarrow> profile_row) \<Rightarrow> db \<Rightarrow> db" where
  "update_profile ok u f d =
     (if ok then d\<lparr>profiles := (profiles d)(u := map_option f (profiles d u))\<rparr> else d)"

text \<open>
  \<open>updateProfileStudyTime(minutes)\<close>: reads the stored total and writes
  \<open>currentTotal + minutes\<close>, where \<open>minutes\<close> is the caller's running total, not a delta.
\<close>

definition updateProfileStudyTime :: "env \<Rightarrow> minutes \<Rightarrow> db \<Rightarrow> db" where
  "updateProfileStudyTime e m d =
     (case user e of None \<Rightarrow> d
      | Some u \<Rightarrow>
          (let currentTotal =
                 (case read_profile (net_ok e) d u of None \<Rightarrow> 0
                  | Some p \<Rightarrow> or_zero (total_study_minutes p))
           in if 0 < m
              then update_profile (net_ok e) u (\<lambda>p. p\<lparr>total_study_minutes := Some (currentTotal + m)\<rparr>) d
              else d))"

text \<open>The effect on \<open>[totalMinutes, user]\<close> (lines 49--56), run when the total changes.\<close>

definition total_effect :: "env \<Rightarrow> ledger \<times> db \<Rightarrow> ledger \<times> db" where
  "total_effect e ld =
     (let (l, d) = ld
      in if user e = None then (l\<lparr>stored_total := Some (totalMinutes l)\<rparr>, d)
         else (l, updateProfileStudyTime e (totalMinutes l) d))"

text \<open>The effect on \<open>[sessions, user]\<close> (lines 43--47): demo mode mirrors the slots.\<close>

definition sessions_effect :: "env \<Rightarrow> ledger \<Rightarrow> ledger" where
  "sessions_effect e l =
     (if user e = None then l\<lparr>stored_sessions := Some (sessions l)\<rparr> else l)"

definition incrementStreak :: "env \<Rightarrow> ledger \<times> db \<Rightarrow> ledger \<times> db" where
  "incrementStreak e ld =
     (let (l, d) = ld
      in case user e of None \<Rightarrow> (l, d)
         | Some u \<Rightarrow>
             (case read_profile (net_ok e) d u of None \<Rightarrow> (l, d)
              | Some p \<Rightarrow>
                  (let nextStreak = or_zero (streak_days p) + 1
                   in (l\<lparr>newStreakValue := nextStreak, showStreakModal := True\<rparr>,
                       update_profile (net_ok e) u (\<lambda>q. q\<lparr>streak_days := Some nextStreak\<rparr>) d))))"

definition insert_session :: "env \<Rightarrow> minutes \<Rightarrow> db \<Rightarrow> db" where
  "insert_session e m d =
     (case user e of None \<Rightarrow> d
      | Some u \<Rightarrow>
          if net_ok e
          then d\<lparr>study_sessions := study_sessions d @
                   [\<lparr>sr_user = u, focus_minutes = m, duration_seconds = m * 60,
                     completed_at = now e, created_at = now e\<rparr>]\<rparr>
          else d)"


subsection \<open>The ledger's operations\<close>

text \<open>
  \<open>addSession(minutes)\<close> (lines 127--171). The local total is set first; the re-render
  this causes runs the total effect, whose remote update starts before the awaited
  \<open>incrementStreak\<close> reaches the store, and is taken to complete first (the two touch
  different columns). Then the accumulator is cleared, the session row is inserted
  (\<open>Math.floor\<close> is the identity on the model's whole minutes), the profile total is
  updated again with the new running total, and a session of two hours or more bumps
  today's slot, which the sessions effect mirrors in demo mode.
\<close>

definition addSession :: "env \<Rightarrow> minutes \<Rightarrow> ledger \<times> db \<Rightarrow> ledger \<times> db" where
  "addSession e m ld =
     (let (l, d) = ld;
          i = dayIndex (getDay (now e));
          newTotalMinutes = totalMinutes l + m;
          (l2, d2) = (if m \<noteq> 0 then total_effect e (l\<lparr>totalMinutes := newTotalMinutes\<rparr>, d)
                      else (l, d));
          (l3, d3) = incrementStreak e (l2, d2);
          l4 = l3\<lparr>accumulatedMinutes := 0\<rparr>;
          d5 = updateProfileStudyTime e newTotalMinutes (insert_session e m d3);
          l5 = (if 120 \<le> m then sessions_effect e (l4\<lparr>sessions := bump_slot (sessions l4) i\<rparr>)
                else l4)
      in (l5, d5))"

text \<open>The bucketing loop of \<open>fetchSessions\<close> (lines 84--94).\<close>

definition bucket_row :: "int list \<Rightarrow> session_row \<Rightarrow> int list" where
  "bucket_row w r =
     (if 120 * 60 \<le> duration_seconds r then bump_slot w (dayIndex (getDay (created_at r))) else w)"

definition weekly_buckets :: "session_row list \<Rightarrow> int list" where
  "weekly_buckets rows = foldl bucket_row zero_week rows"

text \<open>\<open>.eq('user_id', u).gte('created_at', weekAgo)\<close>, \<open>weekAgo\<close> seven days before now.\<close>

definition recent_rows :: "uid \<Rightarrow> timestamp \<Rightarrow> session_row list \<Rightarrow> session_row list" where
  "recent_rows u t rows = filter (\<lambda>r. sr_user r = u \<and> t - 7 * 86400 \<le> created_at r) rows"

text \<open>
  \<open>fetchSessions\<close> (lines 58--101): the stored total replaces the local one (and the
  changed total re-runs the total effect); the weekly slots are recomputed from the last
  seven days of rows, or zeroed when the query returns nothing.
\<close>

definition fetchSessions :: "env \<Rightarrow> ledger \<times> db \<Rightarrow> ledger \<times> db" where
  "fetchSessions e ld =
     (let (l, d) = ld
      in case user e of None \<Rightarrow> (l, d)
         | Some u \<Rightarrow>
             (let l1 = (case read_profile (net_ok e) d u of None \<Rightarrow> l
                        | Some p \<Rightarrow> l\<lparr>totalMinutes := or_zero (total_study_minutes p)\<rparr>);
                  rows = (if net_ok e then recent_rows u (now e) (study_sessions d) else []);
                  l2 = l1\<lparr>sessions := (if rows \<noteq> [] then weekly_buckets rows else zero_week)\<rparr>
              in if totalMinutes l2 \<noteq> totalMinutes l then total_effect e (l2, d) else (l2, d)))"

text \<open>
  The render after \<open>user\<close> changes: the total effect runs for the changed \<open>user\<close>
  dependency with the total of that render, and the load effect (lines 25--40) fetches
  for a new user or clears the slots and the total on sign-out (then mirrored to local
  storage by the two effects).
\<close>

definition auth_changed :: "env \<Rightarrow> ledger \<times> db \<Rightarrow> ledger \<times> db" where
  "auth_changed e ld =
     (let (l1, d1) = total_effect e ld
      in case user e of
           Some u \<Rightarrow>
             (if previousUserId l1 \<noteq> Some u
              then (let (l2, d2) = fetchSessions e (l1, d1) in (l2\<lparr>previousUserId := Some u\<rparr>, d2))
              else (l1, d1))
         | None \<Rightarrow>
             (if previousUserId l1 \<noteq> None
              then (l1\<lparr>sessions := zero_week, totalMinutes := 0, previousUserId := None,
                        stored_sessions := Some zero_week, stored_total := Some 0\<rparr>, d1)
              else (l1, d1)))"

definition getCurrentStreak :: "ledger \<Rightarrow> nat" where
  "getCurrentStreak l = count_pos (sessions l)"

subsection \<open>The daily streak of the authentication provider\<close>

text \<open>
  \<open>checkDailyStreak\<close> (useAuth.tsx lines 106--146): on a calendar day other than the
  stored one (or none stored) the streak goes up by one, whatever the gap, and the day is
  recorded; the output is the value the celebration modal shows.
\<close>

definition checkDailyStreak :: "bool \<Rightarrow> uid \<Rightarrow> timestamp \<Rightarrow> db \<Rightarrow> db \<times> int option" where
  "checkDailyStreak ok u t d =
     (case read_profile ok d u of None \<Rightarrow> (d, None)
      | Some p \<Rightarrow>
          (if map_option day_of (last_active_date p) \<noteq> Some (day_of t)
           then (let nextStreak = or_zero (streak_days p) + 1
                 in (update_profile ok u
                       (\<lambda>q. q\<lparr>streak_days := Some nextStreak, last_active_date := Some t\<rparr>) d,
                     Some nextStreak))
           else (d, None)))"

text \<open>
  \<open>checkAndInitializeUser\<close> (lines 57--104): a user without a profile row gets one
  with streak 1 and today as last active day, and a user without a \<open>timer_settings\<close>
  row gets one. The total column and the timer columns are left to the tables' defaults;
  the total is read as null, and the timer row's values are the settings store's concern
  (\<open>Settings\<close>), so only the row's existence is recorded here.
\<close>

definition checkAndInitializeUser :: "bool \<Rightarrow> uid \<Rightarrow> timestamp \<Rightarrow> db \<Rightarrow> db \<times> int option" where
  "checkAndInitializeUser ok u t d =
     (let (d1, c) =
        (if ok \<and> profiles d u = None
         then (d\<lparr>profiles := (profiles d)(u \<mapsto>
                 \<lparr>total_study_minutes = None, streak_days = Some 1, last_active_date = Some t\<rparr>)\<rparr>,
               Some 1)
         else (d, None))
      in (if ok \<and> \<not> timer_rows d1 u then d1\<lparr>timer_rows := (timer_rows d1)(u := True)\<rparr> else d1, c))"

text \<open>Sign-in and initial load (lines 28--52): initialise, then check the daily streak.\<close>

definition auth_bootstrap :: "bool \<Rightarrow> uid \<Rightarrow> timestamp \<Rightarrow> db \<Rightarrow> db \<times> int list" where
  "auth_bootstrap ok u t d =
     (let (d1, c1) = checkAndInitializeUser ok u t d; (d2, c2) = checkDailyStreak ok u t d1
      in (d2, List.map_filter id [c1, c2]))"

text \<open>The specification's reading of a slot: the qualifying rows of that weekday.\<close>

definition slot_count :: "session_row list \<Rightarrow> nat \<Rightarrow> int" where
  "slot_count rows i =
     int (length (filter (\<lambda>r. 120 * 60 \<le> duration_seconds r \<and> dayIndex (getDay (created_at r)) = i) rows))"

definition ledger_inv :: "ledger \<Rightarrow> bool" where
  "ledger_inv l = (length (sessions l) = 7 \<and> list_all (\<lambda>x. 0 \<le> x) (sessions l))"


subsection \<open>A concrete configuration for the witnesses\<close>

text \<open>User 0 signed in on a Friday (day 20000), an existing profile with 100 minutes and a streak of 3 last active the day before.\<close>

definition example_env :: env where
  "example_env = \<lparr>user = Some 0, now = 1728003600, net_ok = True\<rparr>"

definition example_profile :: profile_row where
  "example_profile = \<lparr>total_study_minutes = Some 100, streak_days = Some 3, last_active_date = Some 1727913600\<rparr>"

definition example_db :: db where
  "example_db = \<lparr>profiles = [0 \<mapsto> example_profile], study_sessions = [], timer_rows = (\<lambda>_. False)\<rparr>"

definition example_ledger :: ledger where
  "example_ledger = initial_ledger\<lparr>totalMinutes := 100, previousUserId := Some 0\<rparr>"

subsection \<open>Each remote operation on its branches\<close>

lemma read_profile_simps [simp]:
  "read_profile True d u = profiles d u" "read_profile False d u = None"
  by (simp_all add: read_profile_def)

lemma update_profile_simps [simp]:
  "update_profile False u f d = d"
  "profiles (update_profile True u f d) = (profiles d)(u := map_option f (profiles d u))"
  "study_sessions (update_profile ok u f d) = study_sessions d"
  by (simp_all add: update_profile_def)

lemma updateProfileStudyTime_None [simp]: "user e = None \<Longrightarrow> updateProfileStudyTime e m d = d"
  by (simp add: updateProfileStudyTime_def)

lemma updateProfileStudyTime_failed [simp]: "\<not> net_ok e \<Longrightarrow> updateProfileStudyTime e m d = d"
  by (simp add: updateProfileStudyTime_def Let_def split: option.splits)

lemma study_sessions_updateProfileStudyTime [simp]:
  "study_sessions (updateProfileStudyTime e m d) = study_sessions d"
  by (simp add: updateProfileStudyTime_def Let_def split: option.splits)

lemma updateProfileStudyTime_row:
  "user e = Some u \<Longrightarrow> net_ok e \<Longrightarrow> profiles d u = Some p \<Longrightarrow> 0 < m \<Longrightarrow>
   profiles (updateProfileStudyTime e m d) u =
     Some (p\<lparr>total_study_minutes := Some (or_zero (total_study_minutes p) + m)\<rparr>)"
  by (simp add: updateProfileStudyTime_def)

lemma updateProfileStudyTime_other:
  "user e = Some u \<Longrightarrow> v \<noteq> u \<Longrightarrow> profiles (updateProfileStudyTime e m d) v = profiles d v"
  by (auto simp: updateProfileStudyTime_def Let_def update_profile_def split: option.splits)

lemma updateProfileStudyTime_streak:
  "map_option streak_days (profiles (updateProfileStudyTime e m d) v) = map_option streak_days (profiles d v)"
  by (auto simp: updateProfileStudyTime_def Let_def update_profile_def option.map_comp comp_def
           split: option.splits)

lemma total_effect_simps [simp]:
  "user e = None \<Longrightarrow> total_effect e (l, d) = (l\<lparr>stored_total := Some (totalMinutes l)\<rparr>, d)"
  "user e = Some u \<Longrightarrow> total_effect e (l, d) = (l, updateProfileStudyTime e (totalMinutes l) d)"
  by (simp_all add: total_effect_def)

lemma incrementStreak_idle [simp]:
  "user e = None \<Longrightarrow> incrementStreak e (l, d) = (l, d)"
  "\<not> net_ok e \<Longrightarrow> incrementStreak e (l, d) = (l, d)"
  by (simp_all add: incrementStreak_def split: option.splits)

lemma incrementStreak_Some:
  "user e = Some u \<Longrightarrow> net_ok e \<Longrightarrow>
   incrementStreak e (l, d) =
     (case profiles d u of None \<Rightarrow> (l, d)
      | Some p \<Rightarrow> (l\<lparr>newStreakValue := or_zero (streak_days p) + 1, showStreakModal := True\<rparr>,
                   d\<lparr>profiles := (profiles d)(u \<mapsto> p\<lparr>streak_days := Some (or_zero (streak_days p) + 1)\<rparr>)\<rparr>))"
  by (auto simp: incrementStreak_def update_profile_def Let_def split: option.splits)

lemma incrementStreak_frame [simp]:
  "sessions (fst (incrementStreak e ld)) = sessions (fst ld)"
  "totalMinutes (fst (incrementStreak e ld)) = totalMinutes (fst ld)"
  "study_sessions (snd (incrementStreak e ld)) = study_sessions (snd ld)"
  by (auto simp: incrementStreak_def Let_def update_profile_def split: option.splits prod.splits)

lemma insert_session_simps [simp]:
  "user e = None \<Longrightarrow> insert_session e m d = d"
  "\<not> net_ok e \<Longrightarrow> insert_session e m d = d"
  "profiles (insert_session e m d) = profiles d"
  by (simp_all add: insert_session_def split: option.splits)

lemma insert_session_rows:
  "user e = Some u \<Longrightarrow> net_ok e \<Longrightarrow>
   study_sessions (insert_session e m d) = study_sessions d @
     [\<lparr>sr_user = u, focus_minutes = m, duration_seconds = m * 60, completed_at = now e,
       created_at = now e\<rparr>]"
  by (simp add: insert_session_def)

lemma sessions_effect_frame [simp]:
  "sessions (sessions_effect e l) = sessions l" "totalMinutes (sessions_effect e l) = totalMinutes l"
  by (simp_all add: sessions_effect_def)


subsection \<open>addSession\<close>

theorem addSession_totalMinutes:
  "totalMinutes (fst (addSession e m (l, d))) = totalMinutes l + m"
  by (cases "user e") (simp_all add: addSession_def Let_def split_def)

theorem addSession_sessions:
  "sessions (fst (addSession e m (l, d))) =
     (if 120 \<le> m then bump_slot (sessions l) (dayIndex (getDay (now e))) else sessions l)"
  by (cases "user e") (simp_all add: addSession_def Let_def split_def)

lemma addSession_stages:
  "addSession e m (l, d) =
     (let ld2 = (if m \<noteq> 0 then total_effect e (l\<lparr>totalMinutes := totalMinutes l + m\<rparr>, d) else (l, d));
          ld3 = incrementStreak e ld2;
          l4 = (fst ld3)\<lparr>accumulatedMinutes := 0\<rparr>
      in (if 120 \<le> m
          then sessions_effect e (l4\<lparr>sessions := bump_slot (sessions l4) (dayIndex (getDay (now e)))\<rparr>)
          else l4,
          updateProfileStudyTime e (totalMinutes l + m) (insert_session e m (snd ld3))))"
  by (simp add: addSession_def Let_def split_def)

lemma total_effect_stage_streak:
  "user e = Some u \<Longrightarrow>
   map_option streak_days (profiles (snd (if b then total_effect e (l', d) else (l, d))) v)
     = map_option streak_days (profiles d v)"
  by (simp add: updateProfileStudyTime_streak)

text \<open>C17: every completed session raises the stored streak by exactly one and shows the new value in the celebration modal; nothing deduplicates sessions of the same day.\<close>

theorem addSession_streak:
  assumes u: "user e = Some u" and ok: "net_ok e" and p: "profiles d u = Some p"
  shows "map_option streak_days (profiles (snd (addSession e m (l, d))) u)
           = Some (Some (or_zero (streak_days p) + 1))
         \<and> newStreakValue (fst (addSession e m (l, d))) = or_zero (streak_days p) + 1
         \<and> showStreakModal (fst (addSession e m (l, d)))"
proof -
  let ?ld2 = "if m \<noteq> 0 then total_effect e (l\<lparr>totalMinutes := totalMinutes l + m\<rparr>, d) else (l, d)"
  obtain l2 d2 where ld2: "?ld2 = (l2, d2)" by fastforce
  have "map_option streak_days (profiles (snd ?ld2) u) = map_option streak_days (profiles d u)"
    by (rule total_effect_stage_streak [OF u])
  with ld2 p have "map_option streak_days (profiles d2 u) = Some (streak_days p)" by simp
  then obtain p2 where p2: "profiles d2 u = Some p2" and sp: "streak_days p2 = streak_days p"
    by auto
  let ?n = "or_zero (streak_days p) + 1"
  have inc: "incrementStreak e (l2, d2) =
               (l2\<lparr>newStreakValue := ?n, showStreakModal := True\<rparr>,
                d2\<lparr>profiles := (profiles d2)(u \<mapsto> p2\<lparr>streak_days := Some ?n\<rparr>)\<rparr>)"
    using incrementStreak_Some [OF u ok, of l2 d2] p2 sp by simp
  show ?thesis
    using inc ld2 updateProfileStudyTime_streak
    by (simp add: addSession_stages Let_def sessions_effect_def)
qed


lemma updateProfileStudyTime_nonpos [simp]: "\<not> 0 < m \<Longrightarrow> updateProfileStudyTime e m d = d"
  by (simp add: updateProfileStudyTime_def Let_def split: option.splits)

text \<open>C15: with the network up and a profile row present, one completed session of m minutes raises the stored total_study_minutes by twice the new running total (once through the total effect, once through the explicit update), not by m as the specification says.\<close>

theorem addSession_stored_total:
  assumes u: "user e = Some u" and ok: "net_ok e" and p: "profiles d u = Some p"
    and m: "m \<noteq> 0" and pos: "0 < totalMinutes l + m"
  shows "map_option total_study_minutes (profiles (snd (addSession e m (l, d))) u)
           = Some (Some (or_zero (total_study_minutes p) + 2 * (totalMinutes l + m)))"
proof -
  let ?N = "totalMinutes l + m"
  let ?d2 = "updateProfileStudyTime e ?N d"
  have ld2: "(if m \<noteq> 0 then total_effect e (l\<lparr>totalMinutes := ?N\<rparr>, d) else (l, d))
               = (l\<lparr>totalMinutes := ?N\<rparr>, ?d2)"
    using u m by simp
  have p2: "profiles ?d2 u = Some (p\<lparr>total_study_minutes := Some (or_zero (total_study_minutes p) + ?N)\<rparr>)"
    by (rule updateProfileStudyTime_row [OF u ok p pos])
  obtain l3 d3 where inc: "incrementStreak e (l\<lparr>totalMinutes := ?N\<rparr>, ?d2) = (l3, d3)"
    by fastforce
  from inc p2 obtain p3 where p3: "profiles d3 u = Some p3"
    and t3: "total_study_minutes p3 = Some (or_zero (total_study_minutes p) + ?N)"
    by (auto simp: incrementStreak_Some [OF u ok])
  have "profiles (updateProfileStudyTime e ?N (insert_session e m d3)) u
          = Some (p3\<lparr>total_study_minutes := Some (or_zero (total_study_minutes p3) + ?N)\<rparr>)"
    using p3 by (simp add: updateProfileStudyTime_row [OF u ok _ pos])
  with ld2 inc t3 show ?thesis by (simp add: addSession_stages Let_def)
qed

subsection \<open>Loading after sign-in\<close>

lemma weekly_buckets_Nil [simp]: "weekly_buckets [] = zero_week"
  by (simp add: weekly_buckets_def)

lemma fetchSessions_sessions:
  "sessions (fst (fetchSessions e (l, d))) =
     (case user e of None \<Rightarrow> sessions l
      | Some u \<Rightarrow> weekly_buckets (if net_ok e then recent_rows u (now e) (study_sessions d) else []))"
  by (auto simp: fetchSessions_def Let_def split: option.splits)

lemma fetchSessions_rows [simp]: "study_sessions (snd (fetchSessions e ld)) = study_sessions (snd ld)"
  by (auto simp: fetchSessions_def total_effect_def Let_def split: option.splits prod.splits)

text \<open>C16: loading a signed-in user whose stored total is T > 0 shows T locally and writes 2T back: the changed local total re-runs the total effect, which adds it to the stored total again.\<close>

theorem auth_changed_doubles_total:
  assumes u: "user e = Some u" and ok: "net_ok e" and p: "profiles d u = Some p"
    and T: "total_study_minutes p = Some T" and pos: "0 < T"
  shows "totalMinutes (fst (auth_changed e (initial_ledger, d))) = T
         \<and> map_option total_study_minutes (profiles (snd (auth_changed e (initial_ledger, d))) u)
             = Some (Some (2 * T))"
proof -
  have row: "profiles (updateProfileStudyTime e T d) u
               = Some (p\<lparr>total_study_minutes := Some (T + T)\<rparr>)"
    using updateProfileStudyTime_row [OF u ok p pos] T by simp
  from u ok p T pos row show ?thesis
    by (simp add: auth_changed_def fetchSessions_def initial_ledger_def Let_def)
qed


subsection \<open>The weekly slots\<close>

lemma getDay_lt [simp]: "getDay t < 7"
  by (simp add: getDay_def nat_less_iff)

lemma dayIndex_lt [simp]: "d < 7 \<Longrightarrow> dayIndex d < 7"
  unfolding dayIndex_def by arith

lemma bucket_row_nth:
  "length w = 7 \<Longrightarrow> i < 7 \<Longrightarrow>
   bucket_row w r ! i = w ! i + (if 120 * 60 \<le> duration_seconds r \<and> dayIndex (getDay (created_at r)) = i then 1 else 0)"
  by (auto simp: bucket_row_def nth_bump_slot)

lemma length_bucket_row [simp]: "length (bucket_row w r) = length w"
  by (simp add: bucket_row_def)

lemma foldl_bucket_row:
  "length w = 7 \<Longrightarrow> foldl bucket_row w rows = map (\<lambda>i. w ! i + slot_count rows i) [0..<7]"
proof (induction rows arbitrary: w)
  case Nil
  have "map (\<lambda>i. w ! i) [0..<length w] = w" by (rule map_nth)
  with Nil show ?case by (simp add: slot_count_def)
next
  case (Cons r rows)
  have "foldl bucket_row w (r # rows) = map (\<lambda>i. bucket_row w r ! i + slot_count rows i) [0..<7]"
    using Cons.IH [of "bucket_row w r"] Cons.prems by simp
  also have "\<dots> = map (\<lambda>i. w ! i + slot_count (r # rows) i) [0..<7]"
    using Cons.prems by (auto simp: bucket_row_nth slot_count_def)
  finally show ?case .
qed


lemma weekly_buckets_inv: "length (weekly_buckets rows) = 7 \<and> list_all (\<lambda>x. 0 \<le> x) (weekly_buckets rows)"
  by (simp add: weekly_buckets_def foldl_bucket_row zero_week_def list_all_iff slot_count_def nth_Cons')

lemma bump_slot_inv:
  "ledger_inv l \<Longrightarrow> ledger_inv (l\<lparr>sessions := bump_slot (sessions l) i\<rparr>)"
  by (simp add: ledger_inv_def bump_slot_nonneg)

lemma ledger_inv_sessions: "ledger_inv l \<Longrightarrow> sessions l' = sessions l \<Longrightarrow> ledger_inv l'"
  by (simp add: ledger_inv_def)

lemma addSession_sessions_inv: "ledger_inv l \<Longrightarrow> ledger_inv (fst (addSession e m (l, d)))"
  using bump_slot_inv [of l] by (auto simp: addSession_sessions ledger_inv_def)

lemma fetchSessions_inv: "ledger_inv l \<Longrightarrow> ledger_inv (fst (fetchSessions e (l, d)))"
  using weekly_buckets_inv by (auto simp: fetchSessions_sessions ledger_inv_def split: option.splits)

text \<open>addSession, fetchSessions and the auth change keep the weekly array at seven non-negative slots.\<close>

theorem ledger_ops_inv:
  assumes "ledger_inv l"
  shows "ledger_inv (fst (addSession e m (l, d))) \<and> ledger_inv (fst (fetchSessions e (l, d)))
         \<and> ledger_inv (fst (auth_changed e (l, d)))"
proof -
  have te: "sessions (fst (total_effect e (l, d))) = sessions l"
    by (cases "user e") simp_all
  have "ledger_inv (fst (auth_changed e (l, d)))"
  proof (cases "user e")
    case None
    with assms show ?thesis
      by (simp add: auth_changed_def ledger_inv_def zero_week_def)
  next
    case (Some u)
    with assms fetchSessions_inv [of l e "updateProfileStudyTime e (totalMinutes l) d"] show ?thesis
      by (auto simp: auth_changed_def split_def Let_def ledger_inv_def)
  qed
  with assms show ?thesis by (simp add: addSession_sessions_inv fetchSessions_inv)
qed

text \<open>The days-active count is at most 7 and never decreases with a completed session.\<close>

theorem getCurrentStreak_bounds:
  assumes "ledger_inv l"
  shows "getCurrentStreak l \<le> 7 \<and> getCurrentStreak l \<le> getCurrentStreak (fst (addSession e m (l, d)))"
proof -
  have "getCurrentStreak l \<le> 7"
    using assms count_pos_le_length [of "sessions l"] by (simp add: getCurrentStreak_def ledger_inv_def)
  moreover have "0 \<le> sessions l ! dayIndex (getDay (now e))"
    using assms by (simp add: ledger_inv_def list_all_length)
  ultimately show ?thesis
    by (simp add: getCurrentStreak_def addSession_sessions count_pos_update_mono)
qed


text \<open>A completed session bumps today's weekly slot by one exactly when it lasted at least 120 minutes, and leaves every other slot unchanged.\<close>

theorem addSession_weekly_threshold:
  assumes "ledger_inv l" and "i < 7"
  shows "sessions (fst (addSession e m (l, d))) ! i
           = sessions l ! i + (if 120 \<le> m \<and> i = dayIndex (getDay (now e)) then 1 else 0)"
  using assms by (simp add: addSession_sessions ledger_inv_def nth_bump_slot)

text \<open>When every remote call fails, addSession leaves the store untouched but still updates the local total and slots exactly as when the calls succeed, with no rollback; no celebration is shown.\<close>

theorem addSession_offline:
  assumes "\<not> net_ok e"
  shows "snd (addSession e m (l, d)) = d
         \<and> totalMinutes (fst (addSession e m (l, d))) = totalMinutes l + m
         \<and> sessions (fst (addSession e m (l, d))) = sessions (fst (addSession (e\<lparr>net_ok := True\<rparr>) m (l, d)))
         \<and> newStreakValue (fst (addSession e m (l, d))) = newStreakValue l"
  using assms
  by (cases "user e") (simp_all add: addSession_def addSession_totalMinutes addSession_sessions
                                     Let_def split_def sessions_effect_def)


subsection \<open>The optimistic slots agree with a reload\<close>

lemma weekly_buckets_snoc: "weekly_buckets (rows @ [r]) = bucket_row (weekly_buckets rows) r"
  by (simp add: weekly_buckets_def)

lemma addSession_rows:
  "user e = Some u \<Longrightarrow> net_ok e \<Longrightarrow>
   study_sessions (snd (addSession e m (l, d))) = study_sessions d @
     [\<lparr>sr_user = u, focus_minutes = m, duration_seconds = m * 60, completed_at = now e,
       created_at = now e\<rparr>]"
  by (cases "m = 0") (simp_all add: addSession_stages Let_def insert_session_rows)

text \<open>C19: the optimistic update of the weekly slots agrees with a reload: fetching after addSession gives the same slots as addSession applied to fetched slots.\<close>

theorem addSession_refetch_agrees:
  assumes u: "user e = Some u" and ok: "net_ok e"
  shows "sessions (fst (fetchSessions e (addSession e m (fetchSessions e (l, d)))))
           = sessions (fst (addSession e m (fetchSessions e (l, d))))"
proof -
  obtain l1 d1 where f: "fetchSessions e (l, d) = (l1, d1)" by fastforce
  have s1: "sessions l1 = weekly_buckets (recent_rows u (now e) (study_sessions d))"
    using fetchSessions_sessions [of e l d] f u ok by simp
  have rows1: "study_sessions d1 = study_sessions d"
    using fetchSessions_rows [of e "(l, d)"] f by simp
  obtain l2 d2 where a: "addSession e m (l1, d1) = (l2, d2)" by fastforce
  have "sessions (fst (fetchSessions e (l2, d2)))
          = weekly_buckets (recent_rows u (now e) (study_sessions d1 @
              [\<lparr>sr_user = u, focus_minutes = m, duration_seconds = m * 60, completed_at = now e,
                created_at = now e\<rparr>]))"
    using fetchSessions_sessions [of e l2 d2] addSession_rows [OF u ok, of m l1 d1] a u ok by simp
  also have "\<dots> = (if 120 \<le> m then bump_slot (sessions l1) (dayIndex (getDay (now e))) else sessions l1)"
    using s1 rows1 by (simp add: recent_rows_def weekly_buckets_snoc bucket_row_def)
  also have "\<dots> = sessions l2"
    using addSession_sessions [of e m l1 d1] a by simp
  finally show ?thesis using f a by simp
qed


subsection \<open>Calendar facts\<close>

text \<open>The Monday-first index maps the seven getDay values onto the seven slots and is undone by (i + 1) mod 7.\<close>

theorem dayIndex_roundtrip: "d < 7 \<Longrightarrow> dayIndex d < 7 \<and> (dayIndex d + 1) mod 7 = d"
  unfolding dayIndex_def by auto

lemma day_of_week_ago [simp]: "day_of (t - 604800) = day_of t - 7"
proof -
  have "t - 604800 = t + (-7) * 86400" by simp
  then have "(t - 604800) div 86400 = -7 + t div 86400"
    by (simp only: div_mult_self1)
  then show ?thesis by (simp add: day_of_def)
qed

lemma getDay_week_ago [simp]: "getDay (t - 604800) = getDay t"
proof -
  have "(day_of t - 7 + 4) mod 7 = (day_of t + 4 - 7) mod 7" by (simp add: algebra_simps)
  also have "\<dots> = (day_of t + 4) mod 7" by (rule minus_mod_self2)
  finally show ?thesis by (simp add: getDay_def)
qed

text \<open>The fetch window is seven days back from now, so a session exactly a week old is still fetched and is counted in today's slot, as the same weekday.\<close>

theorem week_window_same_weekday:
  "recent_rows u t [\<lparr>sr_user = u, focus_minutes = 120, duration_seconds = 7200,
                     completed_at = t - 7 * 86400, created_at = t - 7 * 86400\<rparr>]
     = [\<lparr>sr_user = u, focus_minutes = 120, duration_seconds = 7200,
         completed_at = t - 7 * 86400, created_at = t - 7 * 86400\<rparr>]
   \<and> weekly_buckets (recent_rows u t [\<lparr>sr_user = u, focus_minutes = 120, duration_seconds = 7200,
                     completed_at = t - 7 * 86400, created_at = t - 7 * 86400\<rparr>])
     = bump_slot zero_week (dayIndex (getDay t))"
  by (simp add: recent_rows_def weekly_buckets_def bucket_row_def)


subsection \<open>The daily streak\<close>

text \<open>C21: checking the daily streak twice on the same calendar day changes nothing the second time and raises no second celebration.\<close>

theorem checkDailyStreak_once:
  "day_of t1 = day_of t2 \<Longrightarrow>
   checkDailyStreak ok u t2 (fst (checkDailyStreak ok u t1 d)) = (fst (checkDailyStreak ok u t1 d), None)"
  by (cases ok) (auto simp: checkDailyStreak_def update_profile_def Let_def split: option.splits)

text \<open>On a calendar day other than the stored one, the daily check raises the streak by one whatever the gap, with no reset, and records the day.\<close>

theorem checkDailyStreak_new_day:
  "profiles d u = Some p \<Longrightarrow> map_option day_of (last_active_date p) \<noteq> Some (day_of t) \<Longrightarrow>
   checkDailyStreak True u t d =
     (d\<lparr>profiles := (profiles d)(u \<mapsto> p\<lparr>streak_days := Some (or_zero (streak_days p) + 1),
                                        last_active_date := Some t\<rparr>)\<rparr>,
      Some (or_zero (streak_days p) + 1))"
  by (simp add: checkDailyStreak_def update_profile_def Let_def)

text \<open>C23: signing in a user without a profile creates it with streak 1 and today as last active day, and ensures the user has a timer-settings row; the daily check that follows on the same day does not raise the streak to 2.\<close>

theorem auth_bootstrap_new_user:
  "profiles d u = None \<Longrightarrow>
   auth_bootstrap True u t d =
     (d\<lparr>profiles := (profiles d)(u \<mapsto>
         \<lparr>total_study_minutes = None, streak_days = Some 1, last_active_date = Some t\<rparr>),
        timer_rows := (timer_rows d)(u := True)\<rparr>, [1])"
  by (simp add: auth_bootstrap_def checkAndInitializeUser_def checkDailyStreak_def map_filter_simps
      update_profile_def read_profile_def fun_upd_idem)


subsection \<open>Witnesses at concrete inputs\<close>

lemma example_simps [simp]:
  "user example_env = Some 0" "net_ok example_env" "now example_env = 1728003600"
  "profiles example_db 0 = Some example_profile" "totalMinutes example_ledger = 100"
  "getDay 1728003600 = 5"
  by (simp_all add: example_env_def example_db_def example_ledger_def initial_ledger_def getDay_def day_of_def)

theorem addSession_stored_total_witness:
  "map_option total_study_minutes (profiles (snd (addSession example_env 25 (example_ledger, example_db))) 0)
     = Some (Some 350)"
  using addSession_stored_total [of example_env 0 example_db example_profile 25 example_ledger]
  by (simp add: example_profile_def)

theorem auth_changed_doubles_total_witness:
  "totalMinutes (fst (auth_changed example_env (initial_ledger, example_db))) = 100
   \<and> map_option total_study_minutes (profiles (snd (auth_changed example_env (initial_ledger, example_db))) 0)
       = Some (Some 200)"
  using auth_changed_doubles_total [of example_env 0 example_db example_profile 100]
  by (simp add: example_profile_def)

theorem addSession_streak_witness:
  "newStreakValue (fst (addSession example_env 25 (example_ledger, example_db))) = 4"
  using addSession_streak [of example_env 0 example_db example_profile 25 example_ledger]
  by (simp add: example_profile_def)

theorem addSession_weekly_threshold_witness:
  "sessions (fst (addSession example_env 125 (example_ledger, example_db))) ! 4 = 1
   \<and> sessions (fst (addSession example_env 90 (example_ledger, example_db))) ! 4 = 0"
  using addSession_weekly_threshold [of example_ledger 4 example_env 125 example_db]
        addSession_weekly_threshold [of example_ledger 4 example_env 90 example_db]
  by (simp add: ledger_inv_def example_ledger_def initial_ledger_def zero_week_def dayIndex_def)

theorem addSession_refetch_agrees_witness:
  "sessions (fst (fetchSessions example_env (addSession example_env 130
       (fetchSessions example_env (example_ledger, example_db)))))
   = sessions (fst (addSession example_env 130 (fetchSessions example_env (example_ledger, example_db))))"
  using addSession_refetch_agrees [of example_env 0 130 example_ledger example_db] by simp

theorem checkDailyStreak_once_witness:
  "checkDailyStreak True 0 1728007200 (fst (checkDailyStreak True 0 1728003600 example_db))
     = (fst (checkDailyStreak True 0 1728003600 example_db), None)"
  using checkDailyStreak_once [of 1728003600 1728007200 True 0 example_db] by (simp add: day_of_def)

theorem checkDailyStreak_new_day_witness:
  "snd (checkDailyStreak True 0 (1728003600 + 30 * 86400) example_db) = Some 4"
  using checkDailyStreak_new_day [of example_db 0 example_profile "1728003600 + 30 * 86400"]
  by (simp add: example_profile_def day_of_def)

theorem auth_bootstrap_new_user_witness:
  "snd (auth_bootstrap True 1 1728003600 example_db) = [1]"
  using auth_bootstrap_new_user [of example_db 1 1728003600] by (simp add: example_db_def)

theorem ledger_ops_inv_witness:
  "ledger_inv (fst (addSession example_env 130 (example_ledger, example_db)))"
  using ledger_ops_inv [of example_ledger example_env 130 example_db]
  by (simp add: ledger_inv_def example_ledger_def initial_ledger_def zero_week_def)

theorem getCurrentStreak_bounds_witness:
  "getCurrentStreak example_ledger \<le> getCurrentStreak (fst (addSession example_env 130 (example_ledger, example_db)))"
  using getCurrentStreak_bounds [of example_ledger example_env 130 example_db]
  by (simp add: ledger_inv_def example_ledger_def initial_ledger_def zero_week_def)

theorem addSession_offline_witness:
  "snd (addSession (example_env\<lparr>net_ok := False\<rparr>) 25 (example_ledger, example_db)) = example_db
   \<and> totalMinutes (fst (addSession (example_env\<lparr>net_ok := False\<rparr>) 25 (example_ledger, example_db))) = 125"
  using addSession_offline [of "example_env\<lparr>net_ok := False\<rparr>" 25 example_ledger example_db] by simp

theorem dayIndex_roundtrip_witness: "dayIndex 0 = 6 \<and> (dayIndex 0 + 1) mod 7 = 0"
  using dayIndex_roundtrip [of 0] by (simp add: dayIndex_def)

end
