(* ===== verification/Tasks.thy ===== *)
theory Tasks
  imports Prelude
begin

text \<open>
  The task side of the program: the data model of \<open>src/src/types/index.ts\<close>, the
  focus-task selector \<open>getNextFocusTask\<close> (\<open>src/src/lib/task-utils.ts\<close>), the task
  store (\<open>src/src/context/TaskContext.tsx\<close>: \<open>addTask\<close>, \<open>updateTask\<close>,
  \<open>deleteTask\<close>, \<open>addSubtask\<close>, \<open>fetchTasks\<close>, the load effect with its demo data), the subtask toggle that derives a
  task's status (\<open>handleToggleSubtask\<close> of \<open>TaskCard.tsx\<close> and \<open>CurrentTask.tsx\<close>),
  the Kanban drop handler and the Eisenhower quadrant of \<open>KanbanPage.tsx\<close>.
  Dates are their \<open>getTime()\<close> values; the optional fields of a task are options.
  The collaborators and parent fields are not modelled: no operation reads them.
\<close>

datatype task_status = Todo | InProgress | Done

datatype priority = Low | Medium | High

record subtask =
  st_id :: string
  st_title :: string
  completed :: bool
  isAiSuggested :: "bool option"
  st_estimatedTime :: "int option"

record task =
  task_id :: string
  title :: string
  description :: "string option"
  status :: task_status
  priority :: "priority option"
  deadline :: "timestamp option"
  estimatedTime :: "int option"
  subtasks :: "subtask list"
  createdAt :: timestamp
  lastEditedAt :: "timestamp option"

record ai_suggestion =
  sg_id :: string
  sg_title :: string
  sg_estimatedTime :: "int option"

subsection \<open>The focus-task selector\<close>

text \<open>\<open>new Date(a.lastEditedAt || a.createdAt).getTime()\<close>.\<close>

definition edit_time :: "task \<Rightarrow> timestamp" where
  "edit_time t = (case lastEditedAt t of Some x \<Rightarrow> x | None \<Rightarrow> createdAt t)"

text \<open>\<open>Number.MAX_VALUE\<close>, exactly: \<open>(2 - 2^-52) * 2^1023\<close>.\<close>

definition js_max_value :: int where
  "js_max_value = (2 ^ 53 - 1) * 2 ^ 971"

definition deadline_ms :: "task \<Rightarrow> int" where
  "deadline_ms t = (case deadline t of Some d \<Rightarrow> d | None \<Rightarrow> js_max_value)"

text \<open>\<open>priorityMap[a.priority || 'undefined'] || 0\<close>.\<close>

definition priority_rank :: "priority option \<Rightarrow> int" where
  "priority_rank p = (case p of Some High \<Rightarrow> 3 | Some Medium \<Rightarrow> 2 | Some Low \<Rightarrow> 1 | None \<Rightarrow> 0)"

text \<open>
  The two comparators as sort keys: \<open>dateB - dateA\<close> sorts by descending edit time,
  and the todo comparator by ascending deadline, then descending priority. JavaScript's
  \<open>Array.prototype.sort\<close> is stable, as \<open>sort_key\<close> is.
\<close>

definition recency_key :: "task \<Rightarrow> int" where
  "recency_key t = - edit_time t"

definition urgency_key :: "task \<Rightarrow> int \<times> int" where
  "urgency_key t = (deadline_ms t, - priority_rank (priority t))"

definition getNextFocusTask :: "task list \<Rightarrow> task option" where
  "getNextFocusTask tasks =
     (let inProgressTasks = filter (\<lambda>t. status t = InProgress) tasks
      in if inProgressTasks \<noteq> [] then Some (hd (sort_key recency_key inProgressTasks))
         else (let todoTasks = filter (\<lambda>t. status t = Todo) tasks
               in if todoTasks \<noteq> [] then Some (hd (sort_key urgency_key todoTasks)) else None))"

subsection \<open>Subtasks and the derived status\<close>

definition toggle_subtasks :: "string \<Rightarrow> subtask list \<Rightarrow> subtask list" where
  "toggle_subtasks sid sts = map (\<lambda>s. if st_id s = sid then s\<lparr>completed := \<not> completed s\<rparr> else s) sts"

text \<open>The status a toggle derives; a task without subtasks keeps its status.\<close>

definition derived_status :: "task_status \<Rightarrow> subtask list \<Rightarrow> task_status" where
  "derived_status old sts =
     (if sts \<noteq> [] then
        (let completedCount = length (filter completed sts)
         in if completedCount = length sts then Done
            else if 0 < completedCount then InProgress else Todo)
      else old)"

definition handleToggleSubtask :: "string \<Rightarrow> task \<Rightarrow> task" where
  "handleToggleSubtask sid t =
     (let updatedSubtasks = toggle_subtasks sid (subtasks t)
      in t\<lparr>subtasks := updatedSubtasks, status := derived_status (status t) updatedSubtasks\<rparr>)"


subsection \<open>The task store\<close>

text \<open>
  The provider's state, with the signed-in user's rows of the \<open>tasks\<close> table (each read
  back as a task, newest first). Each handler updates the local list optimistically; a
  remote failure is a toast, with the reactions the code has: \<open>addTask\<close> removes the
  new task again, \<open>deleteTask\<close> refetches, \<open>updateTask\<close> keeps the local change.
\<close>

record task_ctx =
  tasks :: "task list"
  taskSuggestions :: "string \<rightharpoonup> ai_suggestion list"
  task_signed_in :: bool
  remote_tasks :: "task list"

datatype task_toast = ErrorSavingTask | UpdateFailed | DeleteFailed | ErrorLoadingTasks

text \<open>The outcome of \<open>addTask\<close>'s two inserts: the task row, then its subtask rows.\<close>

datatype insert_outcome = InsertOk | TaskInsertFailed | SubtaskInsertFailed

definition addTask ::
  "insert_outcome \<Rightarrow> string \<Rightarrow> int \<Rightarrow> task \<Rightarrow> ai_suggestion list \<Rightarrow> task_ctx \<Rightarrow> task_ctx \<times> task_toast option"
where
  "addTask r newId now taskData suggestions c =
     (let newTask = taskData\<lparr>task_id := newId, createdAt := now, lastEditedAt := Some now\<rparr>;
          c1 = c\<lparr>tasks := newTask # tasks c,
                 taskSuggestions := (if suggestions \<noteq> [] then (taskSuggestions c)(newId \<mapsto> suggestions)
                                     else taskSuggestions c)\<rparr>
      in if \<not> task_signed_in c then (c1, None)
         else (case r of
                 InsertOk \<Rightarrow> (c1\<lparr>remote_tasks := newTask # remote_tasks c\<rparr>, None)
               | TaskInsertFailed \<Rightarrow>
                   (c1\<lparr>tasks := filter (\<lambda>t. task_id t \<noteq> newId) (tasks c1)\<rparr>, Some ErrorSavingTask)
               | SubtaskInsertFailed \<Rightarrow>
                   (c1\<lparr>remote_tasks := newTask\<lparr>subtasks := []\<rparr> # remote_tasks c\<rparr>, Some ErrorSavingTask)))"

definition replace_task :: "int \<Rightarrow> task \<Rightarrow> task list \<Rightarrow> task list" where
  "replace_task now u ts = map (\<lambda>t. if task_id t = task_id u then u\<lparr>lastEditedAt := Some now\<rparr> else t) ts"

definition updateTask :: "bool \<Rightarrow> int \<Rightarrow> task \<Rightarrow> task_ctx \<Rightarrow> task_ctx \<times> task_toast option" where
  "updateTask ok now u c =
     (let c1 = c\<lparr>tasks := replace_task now u (tasks c)\<rparr>
      in if \<not> task_signed_in c then (c1, None)
         else if ok then (c1\<lparr>remote_tasks := replace_task now u (remote_tasks c)\<rparr>, None)
         else (c1, Some UpdateFailed))"

definition fetchTasks :: "bool \<Rightarrow> task_ctx \<Rightarrow> task_ctx \<times> task_toast option" where
  "fetchTasks ok c =
     (if \<not> task_signed_in c then (c, None)
      else if ok then (c\<lparr>tasks := remote_tasks c\<rparr>, None)
      else (c, Some ErrorLoadingTasks))"

definition deleteTask :: "bool \<Rightarrow> string \<Rightarrow> task_ctx \<Rightarrow> task_ctx \<times> task_toast option" where
  "deleteTask ok tid c =
     (let c1 = c\<lparr>tasks := filter (\<lambda>t. task_id t \<noteq> tid) (tasks c)\<rparr>
      in if \<not> task_signed_in c then (c1, None)
         else if ok then (c1\<lparr>remote_tasks := filter (\<lambda>t. task_id t \<noteq> tid) (remote_tasks c)\<rparr>, None)
         else (fst (fetchTasks True c1), Some DeleteFailed))"

definition addSubtask ::
  "bool \<Rightarrow> int \<Rightarrow> string \<Rightarrow> subtask \<Rightarrow> task_ctx \<Rightarrow> task_ctx \<times> task_toast option" where
  "addSubtask ok now tid st c =
     (case find (\<lambda>t. task_id t = tid) (tasks c) of
        None \<Rightarrow> (c, None)
      | Some t \<Rightarrow>
          (let (c1, toast) = updateTask ok now (t\<lparr>subtasks := subtasks t @ [st]\<rparr>) c
           in (c1\<lparr>taskSuggestions := (taskSuggestions c1)(tid \<mapsto>
                  filter (\<lambda>s. sg_title s \<noteq> st_title st)
                    (case taskSuggestions c1 tid of None \<Rightarrow> [] | Some l \<Rightarrow> l))\<rparr>, toast)))"

text \<open>The demo data, built once when the module loads (\<open>loaded_at\<close>, in milliseconds).\<close>

definition initialTasks :: "int \<Rightarrow> task list" where
  "initialTasks loaded_at =
     [\<lparr>task_id = ''1'', title = ''Write Research Paper on Climate Change'',
       description = Some ''A comprehensive analysis of climate change effects on coastal ecosystems'',
       status = InProgress, priority = Some High,
       deadline = Some (loaded_at + 7 * 24 * 60 * 60 * 1000), estimatedTime = Some 480,
       subtasks =
         [\<lparr>st_id = ''s1'', st_title = ''Choose and narrow down research topic'', completed = True,
           isAiSuggested = None, st_estimatedTime = None\<rparr>,
          \<lparr>st_id = ''s2'', st_title = ''Conduct preliminary research'', completed = True,
           isAiSuggested = Some True, st_estimatedTime = None\<rparr>,
          \<lparr>st_id = ''s3'', st_title = ''Create an outline'', completed = False,
           isAiSuggested = Some True, st_estimatedTime = None\<rparr>,
          \<lparr>st_id = ''s4'', st_title = ''Write introduction'', completed = False,
           isAiSuggested = None, st_estimatedTime = None\<rparr>],
       createdAt = loaded_at, lastEditedAt = Some (loaded_at - 1000 * 60 * 60)\<rparr>]"

definition sampleSuggestions :: "string \<rightharpoonup> ai_suggestion list" where
  "sampleSuggestions =
     [''1'' \<mapsto> [\<lparr>sg_id = ''a1'', sg_title = ''Draft body paragraphs with evidence'', sg_estimatedTime = Some 120\<rparr>]]"

text \<open>
  The provider's load effect on \<open>[user, authLoading, previousUserId]\<close>: nothing while
  the auth check runs; for a signed-in user not loaded yet, \<open>fetchTasks\<close> and the user
  remembered; signed out, the demo data. The loading flag is not modelled.
\<close>

definition task_load_effect ::
  "bool \<Rightarrow> string \<Rightarrow> int \<Rightarrow> bool \<Rightarrow> task_ctx \<times> string option
   \<Rightarrow> (task_ctx \<times> string option) \<times> task_toast option" where
  "task_load_effect authLoading uid loaded_at ok cp =
     (let (c, previousUserId) = cp
      in if authLoading then ((c, previousUserId), None)
         else if task_signed_in c then
           (if previousUserId \<noteq> Some uid
            then (let (c', toast) = fetchTasks ok c in ((c', Some uid), toast))
            else ((c, previousUserId), None))
         else ((c\<lparr>tasks := initialTasks loaded_at, taskSuggestions := sampleSuggestions\<rparr>, None), None))"

text \<open>\<open>KanbanBoard.handleDrop\<close>: a drop on another column updates the status only.\<close>

definition handleDrop :: "bool \<Rightarrow> int \<Rightarrow> string \<Rightarrow> task_status \<Rightarrow> task_ctx \<Rightarrow> task_ctx \<times> task_toast option" where
  "handleDrop ok now tid s c =
     (case find (\<lambda>t. task_id t = tid) (tasks c) of
        Some t \<Rightarrow> if status t \<noteq> s then updateTask ok now (t\<lparr>status := s\<rparr>) c else (c, None)
      | None \<Rightarrow> (c, None))"

text \<open>A subtask checkbox: the toggled task goes through \<open>updateTask\<close>.\<close>

definition toggleSubtask :: "bool \<Rightarrow> int \<Rightarrow> string \<Rightarrow> task \<Rightarrow> task_ctx \<Rightarrow> task_ctx \<times> task_toast option" where
  "toggleSubtask ok now sid t c = updateTask ok now (handleToggleSubtask sid t) c"

subsection \<open>Derived views\<close>

datatype quadrant = DoFirst | Schedule | Delegate | DontDo

text \<open>\<open>getQuadrant\<close>: urgent means a deadline less than 48 hours (in milliseconds) away.\<close>

definition getQuadrant :: "int \<Rightarrow> task \<Rightarrow> quadrant option" where
  "getQuadrant now t =
     (if status t = Done then None
      else (let isUrgent = (case deadline t of Some d \<Rightarrow> d - now < 2 * 24 * 60 * 60 * 1000 | None \<Rightarrow> False);
                isImportant = (priority t = Some High)
            in if isUrgent \<and> isImportant then Some DoFirst
               else if \<not> isUrgent \<and> isImportant then Some Schedule
               else if isUrgent \<and> \<not> isImportant then Some Delegate
               else Some DontDo))"

definition overallProgress :: "task list \<Rightarrow> real" where
  "overallProgress ts =
     (if 0 < length ts then real (length (filter (\<lambda>t. status t = Done) ts)) / real (length ts) * 100
      else 0)"

text \<open>A task used by the witnesses: in progress, high priority, created and edited at time 0.\<close>

definition example_task :: task where
  "example_task =
     \<lparr>task_id = ''1'', title = ''Write research paper'', description = None, status = InProgress,
      priority = Some High, deadline = None, estimatedTime = None, subtasks = [], createdAt = 0,
      lastEditedAt = Some 0\<rparr>"

definition example_subtask :: subtask where
  "example_subtask =
     \<lparr>st_id = ''s1'', st_title = ''Outline'', completed = True, isAiSuggested = None,
      st_estimatedTime = None\<rparr>"

text \<open>A signed-in store holding \<open>example_task\<close> and a second task, last edited at time 50.\<close>

definition example_task_ctx :: task_ctx where
  "example_task_ctx =
     \<lparr>tasks = [example_task, example_task\<lparr>task_id := ''2'', lastEditedAt := Some 50\<rparr>],
      taskSuggestions = Map.empty, task_signed_in = True,
      remote_tasks = [example_task, example_task\<lparr>task_id := ''2'', lastEditedAt := Some 50\<rparr>]\<rparr>"

text \<open>Task ids are unique locally and remotely (\<open>crypto.randomUUID\<close> ids).\<close>

definition ids_distinct :: "task_ctx \<Rightarrow> bool" where
  "ids_distinct c = (distinct (map task_id (tasks c)) \<and> distinct (map task_id (remote_tasks c)))"

definition fresh_id :: "task_ctx \<Rightarrow> string \<Rightarrow> bool" where
  "fresh_id c i = (i \<notin> task_id ` set (tasks c) \<and> i \<notin> task_id ` set (remote_tasks c))"


subsection \<open>The selector\<close>

lemma getNextFocusTask_in_progress_case:
  "filter (\<lambda>t. status t = InProgress) ts \<noteq> [] \<Longrightarrow>
   getNextFocusTask ts = first_min recency_key (filter (\<lambda>t. status t = InProgress) ts)"
  by (simp add: getNextFocusTask_def hd_sort_key_first_min)

lemma getNextFocusTask_todo_case:
  "filter (\<lambda>t. status t = InProgress) ts = [] \<Longrightarrow>
   getNextFocusTask ts = first_min urgency_key (filter (\<lambda>t. status t = Todo) ts)"
  by (cases "filter (\<lambda>t. status t = Todo) ts = []")
     (simp_all add: getNextFocusTask_def hd_sort_key_first_min)


text \<open>C30: when some task is in progress, the selector returns an in-progress task of the latest edit time, and every in-progress task listed before it was edited strictly earlier.\<close>

theorem getNextFocusTask_latest:
  assumes "\<exists>u\<in>set ts. status u = InProgress"
  shows "\<exists>t. getNextFocusTask ts = Some t \<and> t \<in> set ts \<and> status t = InProgress
           \<and> (\<forall>u\<in>set ts. status u = InProgress \<longrightarrow> edit_time u \<le> edit_time t)
           \<and> (\<forall>u\<in>set (takeWhile (\<lambda>x. x \<noteq> t) (filter (\<lambda>t. status t = InProgress) ts)).
                 edit_time u < edit_time t)"
proof -
  let ?ip = "filter (\<lambda>t. status t = InProgress) ts"
  from assms have ne: "?ip \<noteq> []" by (simp add: filter_empty_conv)
  then obtain t where t: "first_min recency_key ?ip = Some t"
    by (cases "first_min recency_key ?ip") auto
  have "t \<in> set ?ip" by (rule first_min_in [OF t])
  moreover have "\<forall>u\<in>set ts. status u = InProgress \<longrightarrow> edit_time u \<le> edit_time t"
    using first_min_least [OF t] by (auto simp: recency_key_def)
  moreover have "\<forall>u\<in>set (takeWhile (\<lambda>x. x \<noteq> t) ?ip). edit_time u < edit_time t"
    using first_min_first [OF t] by (auto simp: recency_key_def)
  ultimately show ?thesis using t ne by (auto simp: getNextFocusTask_in_progress_case)
qed


text \<open>The selector returns nothing exactly when every task is done.\<close>

theorem getNextFocusTask_None_iff: "getNextFocusTask ts = None \<longleftrightarrow> (\<forall>t\<in>set ts. status t = Done)"
proof -
  have "(\<forall>t\<in>set ts. status t = Done) \<longleftrightarrow>
          filter (\<lambda>t. status t = InProgress) ts = [] \<and> filter (\<lambda>t. status t = Todo) ts = []"
    by (auto simp: filter_empty_conv intro: task_status.exhaust)
  then show ?thesis
    by (cases "filter (\<lambda>t. status t = InProgress) ts = []")
       (simp_all add: getNextFocusTask_todo_case getNextFocusTask_in_progress_case)
qed


text \<open>A task without a deadline sorts after every task whose deadline is a valid JavaScript date (at most 8.64e15 ms from the epoch), whatever the priorities.\<close>

theorem no_deadline_sorts_last:
  assumes "deadline t = Some d" and "\<bar>d\<bar> \<le> 8640000000000000" and "deadline u = None"
  shows "urgency_key t < urgency_key u"
proof -
  have "d < js_max_value" using assms(2) by (simp add: js_max_value_def)
  with assms(1,3) show ?thesis by (simp add: urgency_key_def deadline_ms_def less_prod_def)
qed

subsection \<open>Subtasks\<close>

text \<open>Toggling the same subtask twice gives back the original subtasks.\<close>

theorem toggle_subtasks_involutive: "toggle_subtasks sid (toggle_subtasks sid sts) = sts"
  by (induction sts) (simp_all add: toggle_subtasks_def)

text \<open>The status a toggle derives for a task with subtasks is Done exactly when all are completed, Todo exactly when none is, and in progress otherwise.\<close>

theorem derived_status_spec:
  assumes "sts \<noteq> []"
  shows "(derived_status old sts = Done \<longleftrightarrow> list_all completed sts)
         \<and> (derived_status old sts = Todo \<longleftrightarrow> \<not> list_ex completed sts)
         \<and> (derived_status old sts = InProgress \<longleftrightarrow> list_ex completed sts \<and> \<not> list_all completed sts)"
proof -
  have all: "length (filter completed sts) = length sts \<longleftrightarrow> list_all completed sts"
    by (rule length_filter_eq_all)
  have ex: "0 < length (filter completed sts) \<longleftrightarrow> list_ex completed sts"
    by (rule length_filter_pos_ex)
  show ?thesis
    using assms all ex by (auto simp: derived_status_def Let_def)
qed

subsection \<open>The store\<close>

lemma map_task_id_replace [simp]: "map task_id (replace_task now u ts) = map task_id ts"
  by (induction ts) (simp_all add: replace_task_def)

lemma updateTask_ids [simp]:
  "map task_id (tasks (fst (updateTask ok now u c))) = map task_id (tasks c)"
  "map task_id (remote_tasks (fst (updateTask ok now u c))) = map task_id (remote_tasks c)"
  by (simp_all add: updateTask_def Let_def)

lemma updateTask_distinct: "ids_distinct c \<Longrightarrow> ids_distinct (fst (updateTask ok now u c))"
  by (simp add: ids_distinct_def)

lemma distinct_filter_ids: "distinct (map task_id ts) \<Longrightarrow> distinct (map task_id (filter P ts))"
  by (induction ts) auto

text \<open>C36: every handler of the store keeps task ids unique, locally and remotely, given a fresh id for a new task.\<close>

theorem task_ops_distinct:
  assumes "ids_distinct c"
  shows "(fresh_id c newId \<longrightarrow> ids_distinct (fst (addTask r newId now d sg c)))
         \<and> ids_distinct (fst (updateTask ok now u c))
         \<and> ids_distinct (fst (deleteTask ok tid c))
         \<and> ids_distinct (fst (addSubtask ok now tid st c))
         \<and> ids_distinct (fst (handleDrop ok now tid s c))"
proof (intro conjI impI)
  assume "fresh_id c newId"
  with assms show "ids_distinct (fst (addTask r newId now d sg c))"
    by (cases r) (auto simp: addTask_def Let_def ids_distinct_def fresh_id_def distinct_filter_ids)
next
  show "ids_distinct (fst (updateTask ok now u c))" using assms by (rule updateTask_distinct)
next
  show "ids_distinct (fst (deleteTask ok tid c))"
    using assms by (auto simp: deleteTask_def fetchTasks_def Let_def ids_distinct_def distinct_filter_ids)
next
  show "ids_distinct (fst (addSubtask ok now tid st c))"
    using assms by (auto simp: addSubtask_def ids_distinct_def split_def Let_def split: option.splits)
next
  show "ids_distinct (fst (handleDrop ok now tid s c))"
    using assms updateTask_distinct by (auto simp: handleDrop_def split: option.splits)
qed


lemma updateTask_tasks [simp]: "tasks (fst (updateTask ok now u c)) = replace_task now u (tasks c)"
  by (simp add: updateTask_def Let_def)

lemma set_replace_task:
  "x \<in> set (replace_task now u ts) \<Longrightarrow>
   x = u\<lparr>lastEditedAt := Some now\<rparr> \<or> (x \<in> set ts \<and> task_id x \<noteq> task_id u)"
  by (auto simp: replace_task_def)

lemma replace_task_in:
  "task_id u \<in> task_id ` set ts \<Longrightarrow> u\<lparr>lastEditedAt := Some now\<rparr> \<in> set (replace_task now u ts)"
  by (force simp: replace_task_def)

text \<open>Editing an in-progress task stamps it with the current time, which makes it the task the dashboard shows next, provided every earlier edit happened before now.\<close>

theorem updateTask_becomes_focus:
  assumes ip: "status u = InProgress" and mem: "task_id u \<in> task_id ` set (tasks c)"
    and before: "\<forall>t\<in>set (tasks c). edit_time t < now"
  shows "getNextFocusTask (tasks (fst (updateTask ok now u c))) = Some (u\<lparr>lastEditedAt := Some now\<rparr>)"
proof -
  let ?u' = "u\<lparr>lastEditedAt := Some now\<rparr>"
  let ?ip = "filter (\<lambda>t. status t = InProgress) (replace_task now u (tasks c))"
  have u': "?u' \<in> set ?ip" using replace_task_in [OF mem] ip by simp
  have "\<forall>x\<in>set ?ip. x \<noteq> ?u' \<longrightarrow> recency_key ?u' < recency_key x"
    using before set_replace_task [of _ now u "tasks c"] by (fastforce simp: recency_key_def edit_time_def)
  then have "first_min recency_key ?ip = Some ?u'" by (rule first_min_unique [OF u'])
  moreover have "?ip \<noteq> []" using u' by (metis empty_iff empty_set)
  ultimately show ?thesis by (simp add: getNextFocusTask_in_progress_case)
qed

text \<open>C38: when the insert of a new task fails, addTask removes the task from the local list again and shows the error toast, but keeps the AI suggestions stored under the removed task's id.\<close>

theorem addTask_insert_failed:
  assumes "task_signed_in c" and "newId \<notin> task_id ` set (tasks c)" and "sg \<noteq> []"
  shows "addTask TaskInsertFailed newId now d sg c =
           (c\<lparr>taskSuggestions := (taskSuggestions c)(newId \<mapsto> sg)\<rparr>, Some ErrorSavingTask)"
proof -
  have "filter (\<lambda>t. task_id t \<noteq> newId) (tasks c) = tasks c"
    using assms(2) by (auto simp: filter_id_conv)
  with assms(1,3) show ?thesis by (simp add: addTask_def Let_def)
qed

subsection \<open>Derived views\<close>

text \<open>The Eisenhower matrix shows every task that is not done in exactly one quadrant and no done task; the two important quadrants hold exactly the high-priority tasks.\<close>

theorem getQuadrant_partition:
  "(getQuadrant now t = None \<longleftrightarrow> status t = Done)
   \<and> (status t \<noteq> Done \<longrightarrow> (getQuadrant now t \<in> {Some DoFirst, Some Schedule} \<longleftrightarrow> priority t = Some High))"
  by (auto simp: getQuadrant_def Let_def)

text \<open>The overall progress of the task list lies between 0 and 100 percent.\<close>

theorem overallProgress_bounds: "0 \<le> overallProgress ts \<and> overallProgress ts \<le> 100"
proof (cases "ts = []")
  case True
  then show ?thesis by (simp add: overallProgress_def)
next
  case False
  have "real (length (filter (\<lambda>t. status t = Done) ts)) \<le> real (length ts)"
    by simp
  moreover have "0 < real (length ts)" using False by simp
  ultimately show ?thesis by (simp add: overallProgress_def divide_le_eq)
qed

subsection \<open>Loading\<close>

lemma task_load_effect_demo:
  "\<not> task_signed_in c \<Longrightarrow>
   getNextFocusTask (tasks (fst (fst (task_load_effect False uid t0 ok (c, prev))))) = Some (hd (initialTasks t0))"
  by (simp add: task_load_effect_def initialTasks_def getNextFocusTask_def)

lemma task_load_effect_settled:
  "task_load_effect authLoading uid t0 ok (c, Some uid) = ((c, Some uid), None) \<or> \<not> task_signed_in c"
  by (simp add: task_load_effect_def)

subsection \<open>Witnesses\<close>

theorem getNextFocusTask_latest_witness:
  "getNextFocusTask [example_task, example_task\<lparr>task_id := ''2'', lastEditedAt := Some 86400000\<rparr>]
     = Some (example_task\<lparr>task_id := ''2'', lastEditedAt := Some 86400000\<rparr>)"
  using getNextFocusTask_latest [of "[example_task, example_task\<lparr>task_id := ''2'', lastEditedAt := Some 86400000\<rparr>]"]
  by (auto simp: example_task_def edit_time_def)


theorem getNextFocusTask_None_iff_witness:
  "getNextFocusTask [example_task\<lparr>status := Done\<rparr>] = None"
  using getNextFocusTask_None_iff [of "[example_task\<lparr>status := Done\<rparr>]"] by simp

theorem no_deadline_sorts_last_witness:
  "urgency_key (example_task\<lparr>deadline := Some 1730000000000\<rparr>) < urgency_key example_task"
  using no_deadline_sorts_last [of "example_task\<lparr>deadline := Some 1730000000000\<rparr>" 1730000000000 example_task]
  by (simp add: example_task_def)

theorem derived_status_spec_witness:
  "derived_status Todo [example_subtask, example_subtask\<lparr>st_id := ''s2'', completed := False\<rparr>] = InProgress"
  using derived_status_spec [of "[example_subtask, example_subtask\<lparr>st_id := ''s2'', completed := False\<rparr>]" Todo]
  by (simp add: example_subtask_def)

theorem task_ops_distinct_witness:
  "ids_distinct (fst (addTask InsertOk ''3'' 100 example_task [] example_task_ctx))"
  using task_ops_distinct [of example_task_ctx]
  by (simp add: ids_distinct_def fresh_id_def example_task_ctx_def example_task_def)

theorem updateTask_becomes_focus_witness:
  "getNextFocusTask (tasks (fst (updateTask True 100 example_task example_task_ctx)))
     = Some (example_task\<lparr>lastEditedAt := Some 100\<rparr>)"
  using updateTask_becomes_focus [of example_task example_task_ctx 100 True]
  by (simp add: example_task_ctx_def example_task_def edit_time_def)

theorem addTask_insert_failed_witness:
  "addTask TaskInsertFailed ''3'' 100 example_task
     [\<lparr>sg_id = ''g1'', sg_title = ''Outline'', sg_estimatedTime = Some 15\<rparr>] example_task_ctx
   = (example_task_ctx\<lparr>taskSuggestions := [''3'' \<mapsto> [\<lparr>sg_id = ''g1'', sg_title = ''Outline'', sg_estimatedTime = Some 15\<rparr>]]\<rparr>,
      Some ErrorSavingTask)"
  using addTask_insert_failed
    [of example_task_ctx "''3''" "[\<lparr>sg_id = ''g1'', sg_title = ''Outline'', sg_estimatedTime = Some 15\<rparr>]" 100 example_task]
  by (simp add: example_task_ctx_def example_task_def)

theorem getQuadrant_partition_witness:
  "getQuadrant 0 example_task \<in> {Some DoFirst, Some Schedule}"
  using getQuadrant_partition [of 0 example_task] by (simp add: example_task_def)

end
