(* ===== verification/Suggestions.thy ===== *)
theory Suggestions
  imports Tasks
begin

text \<open>
  The subtask suggestions of \<open>src/src/lib/gemini.ts\<close>. \<open>generateTaskSuggestions\<close>
  asks an external generative model for a JSON array of subtasks and falls back, on any
  error, to \<open>getFallbackSuggestions\<close>, a keyword classifier over the lower-cased title
  and description that picks one of thirteen fixed lists. \<open>refineSubtasks\<close> sends
  the current subtasks and the user's feedback and copies the answer's fields unchecked,
  returning the current subtasks on any error. The external model is a
  parameter: whether the API key is set, the text it answered (or none, when the call
  threw), and \<open>JSON.parse\<close> as a function to an optional JSON value (none for a
  syntax error). \<open>crypto.randomUUID()\<close> is a supply \<open>uuid\<close> of ids, the \<open>k\<close>-th
  suggestion of a list taking \<open>uuid k\<close>.

  Strings are lists of 8-bit characters, the Latin-1 range of JavaScript's UTF-16
  strings; on that range \<open>toLowerCase\<close> and \<open>trim\<close> are modelled exactly. A title or
  time in the model's answer of another JSON type than the prompt asks for (a string
  title, a number of minutes) is read as missing; JSON numbers are integers.
\<close>

subsection \<open>String primitives\<close>

text \<open>\<open>String.prototype.toLowerCase\<close> on Latin-1: A--Z and the capitals 192--222 except
  the multiplication sign 215 move down by 32; on these ranges bit 5 is clear, so adding 32
  is setting it.\<close>

definition lower_char :: "char \<Rightarrow> char" where
  "lower_char c =
     (let n = of_char c :: nat
      in if (65 \<le> n \<and> n \<le> 90) \<or> (192 \<le> n \<and> n \<le> 222 \<and> n \<noteq> 215)
         then (case c of Char b0 b1 b2 b3 b4 b5 b6 b7 \<Rightarrow> Char b0 b1 b2 b3 b4 True b6 b7)
         else c)"

definition toLowerCase :: "string \<Rightarrow> string" where
  "toLowerCase s = map lower_char s"

text \<open>\<open>/a|b|c/i.test(text)\<close>: the alternatives are lower-case literals, so on a lower-cased
  text the test holds exactly when one of them occurs in it.\<close>

definition regex_test :: "string list \<Rightarrow> string \<Rightarrow> bool" where
  "regex_test alts text = list_ex (\<lambda>a. contains a text) alts"

text \<open>\<open>s.replace(/p/g, "")\<close> for a literal \<open>p\<close>: occurrences removed left to right.\<close>

function remove_all :: "string \<Rightarrow> string \<Rightarrow> string" where
  "remove_all p [] = []"
| "remove_all p (c # cs) =
     (if p \<noteq> [] \<and> starts_with p (c # cs) then remove_all p (drop (length p) (c # cs))
      else c # remove_all p cs)"
  by pat_completeness auto
termination
  by (relation "measure (\<lambda>(p, s). length s)") auto

text \<open>JavaScript's white space and line terminators within Latin-1: tab, line feed,
  vertical tab, form feed, carriage return, space and no-break space.\<close>

definition js_space :: "char \<Rightarrow> bool" where
  "js_space c = (of_char c \<in> {9, 10, 11, 12, 13, 32, 160 :: nat})"

definition trim :: "string \<Rightarrow> string" where
  "trim s = rev (dropWhile js_space (rev (dropWhile js_space s)))"

subsection \<open>The keyword classifier\<close>

definition isResearchTask :: "string \<Rightarrow> bool" where
  "isResearchTask t = regex_test [''research'', ''paper'', ''thesis'', ''dissertation'', ''literature review'', ''survey'', ''study''] t"

definition isEssayTask :: "string \<Rightarrow> bool" where
  "isEssayTask t = regex_test [''essay'', ''write'', ''composition'', ''article'', ''report'', ''analysis''] t"

definition isPresentationTask :: "string \<Rightarrow> bool" where
  "isPresentationTask t = regex_test [''presentation'', ''present'', ''slides'', ''powerpoint'', ''ppt'', ''keynote'', ''speak''] t"

definition isExamTask :: "string \<Rightarrow> bool" where
  "isExamTask t = regex_test [''exam'', ''test'', ''quiz'', ''midterm'', ''final'', ''assessment'', ''review''] t"

definition isProjectTask :: "string \<Rightarrow> bool" where
  "isProjectTask t = regex_test [''project'', ''build'', ''create'', ''develop'', ''design'', ''implement''] t"

definition isCodingTask :: "string \<Rightarrow> bool" where
  "isCodingTask t = regex_test [''code'', ''program'', ''coding'', ''software'', ''app'', ''website'', ''algorithm'', ''debug'', ''function''] t"

definition isLabTask :: "string \<Rightarrow> bool" where
  "isLabTask t = regex_test [''lab'', ''experiment'', ''laboratory'', ''practical'', ''demonstration''] t"

definition isReadingTask :: "string \<Rightarrow> bool" where
  "isReadingTask t = regex_test [''read'', ''book'', ''chapter'', ''textbook'', ''article'', ''journal'', ''literature''] t"

definition isGroupTask :: "string \<Rightarrow> bool" where
  "isGroupTask t = regex_test [''group'', ''team'', ''collaborate'', ''together'', ''partner''] t"

definition isMathTask :: "string \<Rightarrow> bool" where
  "isMathTask t = regex_test [''math'', ''calculus'', ''algebra'', ''equation'', ''problem set'', ''solve'', ''calculate'', ''proof''] t"

definition isLanguageTask :: "string \<Rightarrow> bool" where
  "isLanguageTask t = regex_test [''language'', ''translate'', ''vocabulary'', ''grammar'', ''speaking'', ''pronunciation''] t"

definition isArtTask :: "string \<Rightarrow> bool" where
  "isArtTask t = regex_test [''art'', ''draw'', ''paint'', ''sketch'', ''design'', ''creative'', ''sculpture'', ''portfolio''] t"

text \<open>The list \<open>getFallbackSuggestions\<close> returns, named by the function that builds it.\<close>

datatype task_kind =
  Research | Essay | Presentation | Exam | Project | Coding | Lab | Reading | GroupWork | Math
  | Language | Art | GenericAcademic

text \<open>The chain of early returns of \<open>getFallbackSuggestions\<close>, in the code's order.\<close>

definition fallback_kind :: "string \<Rightarrow> task_kind" where
  "fallback_kind combined =
     (if isResearchTask combined then Research
      else if isEssayTask combined then Essay
      else if isPresentationTask combined then Presentation
      else if isExamTask combined then Exam
      else if isProjectTask combined then Project
      else if isCodingTask combined then Coding
      else if isLabTask combined then Lab
      else if isReadingTask combined then Reading
      else if isGroupTask combined then GroupWork
      else if isMathTask combined then Math
      else if isLanguageTask combined then Language
      else if isArtTask combined then Art
      else GenericAcademic)"

subsection \<open>The fixed suggestion lists\<close>

definition mk_suggestions :: "(nat \<Rightarrow> string) \<Rightarrow> (string \<times> int) list \<Rightarrow> ai_suggestion list" where
  "mk_suggestions uuid items =
     map (\<lambda>(k, t, m). \<lparr>sg_id = uuid k, sg_title = t, sg_estimatedTime = Some m\<rparr>) (enumerate 0 items)"

definition getResearchSuggestions :: "(nat \<Rightarrow> string) \<Rightarrow> ai_suggestion list" where
  "getResearchSuggestions uuid = mk_suggestions uuid
     [(''Define research question and objectives'', 30),
      (''Conduct literature review and gather sources'', 90),
      (''Organize research materials and notes'', 45),
      (''Analyze findings and identify patterns'', 60),
      (''Create outline and structure'', 30),
      (''Write and cite sources properly'', 120)]"

definition getEssaySuggestions :: "(nat \<Rightarrow> string) \<Rightarrow> ai_suggestion list" where
  "getEssaySuggestions uuid = mk_suggestions uuid
     [(''Brainstorm ideas and create thesis statement'', 30),
      (''Research and gather supporting evidence'', 60),
      (''Create detailed outline with main points'', 25),
      (''Write introduction and hook'', 30),
      (''Draft body paragraphs with evidence'', 90),
      (''Write conclusion and proofread'', 45)]"

definition getPresentationSuggestions :: "(nat \<Rightarrow> string) \<Rightarrow> ai_suggestion list" where
  "getPresentationSuggestions uuid = mk_suggestions uuid
     [(''Research topic and gather key information'', 60),
      (''Create presentation outline and structure'', 30),
      (''Design slides with visuals and minimal text'', 75),
      (''Prepare speaker notes and examples'', 45),
      (''Practice delivery and timing'', 60)]"

definition getExamSuggestions :: "(nat \<Rightarrow> string) \<Rightarrow> ai_suggestion list" where
  "getExamSuggestions uuid = mk_suggestions uuid
     [(''Review syllabus and identify key topics'', 20),
      (''Organize notes and study materials'', 40),
      (''Create summary sheets or flashcards'', 60),
      (''Practice with past papers or questions'', 90),
      (''Review difficult concepts and formulas'', 60),
      (''Take practice test under timed conditions'', 75)]"

definition getProjectSuggestions :: "(nat \<Rightarrow> string) \<Rightarrow> ai_suggestion list" where
  "getProjectSuggestions uuid = mk_suggestions uuid
     [(''Understand requirements and deliverables'', 30),
      (''Break down project into milestones'', 40),
      (''Research methods and gather resources'', 60),
      (''Create initial prototype or draft'', 90),
      (''Test, refine, and improve work'', 75),
      (''Prepare documentation and presentation'', 45)]"

definition getCodingSuggestions :: "(nat \<Rightarrow> string) \<Rightarrow> ai_suggestion list" where
  "getCodingSuggestions uuid = mk_suggestions uuid
     [(''Understand problem requirements and constraints'', 25),
      (''Plan algorithm and data structures'', 35),
      (''Set up development environment'', 20),
      (''Write initial code implementation'', 90),
      (''Test with different inputs and edge cases'', 45),
      (''Debug, optimize, and document code'', 60)]"

definition getLabSuggestions :: "(nat \<Rightarrow> string) \<Rightarrow> ai_suggestion list" where
  "getLabSuggestions uuid = mk_suggestions uuid
     [(''Read lab manual and understand procedure'', 30),
      (''Review safety protocols and materials'', 20),
      (''Prepare lab notebook and data tables'', 25),
      (''Conduct experiment and collect data'', 90),
      (''Analyze results and calculations'', 60),
      (''Write lab report with conclusions'', 75)]"

definition getReadingSuggestions :: "(nat \<Rightarrow> string) \<Rightarrow> ai_suggestion list" where
  "getReadingSuggestions uuid = mk_suggestions uuid
     [(''Preview chapter and identify key sections'', 15),
      (''Read actively and take notes'', 60),
      (''Highlight main ideas and concepts'', 30),
      (''Summarize each section in own words'', 40),
      (''Review and answer study questions'', 35)]"

definition getGroupWorkSuggestions :: "(nat \<Rightarrow> string) \<Rightarrow> ai_suggestion list" where
  "getGroupWorkSuggestions uuid = mk_suggestions uuid
     [(''Schedule initial team meeting'', 30),
      (''Divide tasks and assign responsibilities'', 40),
      (''Set deadlines and communication plan'', 25),
      (''Complete individual assigned work'', 90),
      (''Review team members' contributions'', 45),
      (''Integrate work and finalize project'', 60)]"

definition getMathSuggestions :: "(nat \<Rightarrow> string) \<Rightarrow> ai_suggestion list" where
  "getMathSuggestions uuid = mk_suggestions uuid
     [(''Review relevant formulas and theorems'', 30),
      (''Work through example problems'', 60),
      (''Practice similar problems independently'', 75),
      (''Check solutions and identify mistakes'', 40),
      (''Seek help on difficult concepts'', 35)]"

definition getLanguageSuggestions :: "(nat \<Rightarrow> string) \<Rightarrow> ai_suggestion list" where
  "getLanguageSuggestions uuid = mk_suggestions uuid
     [(''Review vocabulary and key phrases'', 30),
      (''Practice grammar exercises'', 45),
      (''Listen to native speakers or audio'', 40),
      (''Practice speaking or writing'', 50),
      (''Get feedback and make corrections'', 35)]"

definition getArtSuggestions :: "(nat \<Rightarrow> string) \<Rightarrow> ai_suggestion list" where
  "getArtSuggestions uuid = mk_suggestions uuid
     [(''Gather inspiration and reference materials'', 30),
      (''Create initial sketches or concepts'', 45),
      (''Plan composition and color scheme'', 35),
      (''Work on main piece with techniques'', 120),
      (''Add final details and refinements'', 60)]"

definition getGenericAcademicSuggestions :: "(nat \<Rightarrow> string) \<Rightarrow> ai_suggestion list" where
  "getGenericAcademicSuggestions uuid = mk_suggestions uuid
     [(''Understand the assignment requirements'', 20),
      (''Research and gather necessary materials'', 60),
      (''Create an outline or plan of action'', 30),
      (''Complete the main work or draft'', 90),
      (''Review, edit, and refine your work'', 45),
      (''Prepare final submission'', 25)]"

definition kind_suggestions :: "task_kind \<Rightarrow> (nat \<Rightarrow> string) \<Rightarrow> ai_suggestion list" where
  "kind_suggestions k uuid =
     (case k of Research \<Rightarrow> getResearchSuggestions uuid | Essay \<Rightarrow> getEssaySuggestions uuid
      | Presentation \<Rightarrow> getPresentationSuggestions uuid | Exam \<Rightarrow> getExamSuggestions uuid
      | Project \<Rightarrow> getProjectSuggestions uuid | Coding \<Rightarrow> getCodingSuggestions uuid
      | Lab \<Rightarrow> getLabSuggestions uuid | Reading \<Rightarrow> getReadingSuggestions uuid
      | GroupWork \<Rightarrow> getGroupWorkSuggestions uuid | Math \<Rightarrow> getMathSuggestions uuid
      | Language \<Rightarrow> getLanguageSuggestions uuid | Art \<Rightarrow> getArtSuggestions uuid
      | GenericAcademic \<Rightarrow> getGenericAcademicSuggestions uuid)"

text \<open>\<open>getFallbackSuggestions\<close>: \<open>description?.toLowerCase() || ""\<close> and the combined text.\<close>

definition fallback_text :: "string \<Rightarrow> string option \<Rightarrow> string" where
  "fallback_text ttl descr =
     toLowerCase ttl @ '' '' @ (case descr of None \<Rightarrow> [] | Some d \<Rightarrow> toLowerCase d)"

definition getFallbackSuggestions :: "(nat \<Rightarrow> string) \<Rightarrow> string \<Rightarrow> string option \<Rightarrow> ai_suggestion list" where
  "getFallbackSuggestions uuid ttl descr =
     kind_suggestions (fallback_kind (fallback_text ttl descr)) uuid"

subsection \<open>Reading the model's answer\<close>

text \<open>A JSON value as \<open>JSON.parse\<close> returns it; an object keeps its members in order.\<close>

datatype jval = JNull | JBool bool | JNum int | JStr string | JArr "jval list"
  | JObj "(string \<times> jval) list"

text \<open>\<open>item.k\<close> on a value that is not null: the last member named \<open>k\<close> of an object
  (\<open>JSON.parse\<close> keeps the last of duplicate keys), undefined on anything else.\<close>

definition js_prop :: "jval \<Rightarrow> string \<Rightarrow> jval option" where
  "js_prop v k = (case v of JObj kvs \<Rightarrow> map_of (rev kvs) k | _ \<Rightarrow> None)"

definition str_truthy :: "jval option \<Rightarrow> string option" where
  "str_truthy v = (case v of Some (JStr s) \<Rightarrow> if s = [] then None else Some s | _ \<Rightarrow> None)"

definition num_truthy :: "jval option \<Rightarrow> int option" where
  "num_truthy v = (case v of Some (JNum n) \<Rightarrow> if n = 0 then None else Some n | _ \<Rightarrow> None)"

text \<open>\<open>item.title || item.name || "Untitled subtask"\<close> and
  \<open>item.estimatedTime || item.estimated_time || 30\<close>.\<close>

definition item_title :: "jval \<Rightarrow> string" where
  "item_title v =
     (case str_truthy (js_prop v ''title'') of Some s \<Rightarrow> s
      | None \<Rightarrow> (case str_truthy (js_prop v ''name'') of Some s \<Rightarrow> s | None \<Rightarrow> ''Untitled subtask''))"

definition item_time :: "jval \<Rightarrow> int" where
  "item_time v =
     (case num_truthy (js_prop v ''estimatedTime'') of Some n \<Rightarrow> n
      | None \<Rightarrow> (case num_truthy (js_prop v ''estimated_time'') of Some n \<Rightarrow> n | None \<Rightarrow> 30))"

text \<open>\<open>parsed.map(item => ...)\<close>; a null item makes \<open>item.title\<close> throw, so the map
  yields a list only when no item is null.\<close>

definition parsed_suggestions :: "(nat \<Rightarrow> string) \<Rightarrow> jval list \<Rightarrow> ai_suggestion list option" where
  "parsed_suggestions uuid items =
     (if JNull \<in> set items then None
      else Some (map (\<lambda>(k, v). \<lparr>sg_id = uuid k, sg_title = item_title v, sg_estimatedTime = Some (item_time v)\<rparr>)
                   (enumerate 0 items)))"

text \<open>The markdown fences removed and the text trimmed.\<close>

definition clean_response :: "string \<Rightarrow> string" where
  "clean_response text = trim (remove_all ''```'' (remove_all ''```json'' text))"

text \<open>
  \<open>generateTaskSuggestions\<close>: a missing key (\<open>getGenAI\<close> throws), a failed call, a
  text that does not parse, a value that is not an array, or a null item all end in the
  \<open>catch\<close>, which returns the fallback.
\<close>

definition generateTaskSuggestions ::
  "bool \<Rightarrow> string option \<Rightarrow> (string \<Rightarrow> jval option) \<Rightarrow> (nat \<Rightarrow> string) \<Rightarrow> string \<Rightarrow> string option
   \<Rightarrow> ai_suggestion list" where
  "generateTaskSuggestions apiKey response json_parse uuid ttl descr =
     (let fallback = getFallbackSuggestions uuid ttl descr
      in if \<not> apiKey then fallback
         else (case response of None \<Rightarrow> fallback
               | Some text \<Rightarrow>
                   (case json_parse (clean_response text) of
                      Some (JArr items) \<Rightarrow>
                        (case parsed_suggestions uuid items of Some r \<Rightarrow> r | None \<Rightarrow> fallback)
                    | _ \<Rightarrow> fallback)))"

text \<open>
  \<open>generateTaskSuggestionsStream\<close>: the stream delivers \<open>chunks\<close>, each passed to
  \<open>onChunk\<close> when one is given, and either completes or throws after them. The
  parsed value is mapped without the array check: \<open>map\<close> is missing on every other
  JSON value, so the \<open>catch\<close> returns the fallback there as well.
\<close>

definition generateTaskSuggestionsStream ::
  "bool \<Rightarrow> string list \<times> bool \<Rightarrow> bool \<Rightarrow> (string \<Rightarrow> jval option) \<Rightarrow> (nat \<Rightarrow> string) \<Rightarrow> string
   \<Rightarrow> string option \<Rightarrow> ai_suggestion list \<times> string list" where
  "generateTaskSuggestionsStream apiKey stream onChunk json_parse uuid ttl descr =
     (let fallback = getFallbackSuggestions uuid ttl descr;
          (chunks, finished) = stream;
          reported = (if onChunk then chunks else [])
      in if \<not> apiKey then (fallback, [])
         else if \<not> finished then (fallback, reported)
         else (case json_parse (clean_response (concat chunks)) of
                 Some (JArr items) \<Rightarrow>
                   (case parsed_suggestions uuid items of Some r \<Rightarrow> (r, reported)
                    | None \<Rightarrow> (fallback, reported))
               | _ \<Rightarrow> (fallback, reported)))"

subsection \<open>Refining a list of subtasks\<close>

text \<open>
  \<open>refineSubtasks\<close> (lines 165--200) sends the model a prompt holding the task, the
  current subtasks as numbered lines and the user's feedback. A whole number in a template
  literal prints in decimal; an absent estimate prints as \<open>undefined\<close>.
\<close>

definition js_opt_num_str :: "int option \<Rightarrow> string" where
  "js_opt_num_str t = (case t of None \<Rightarrow> ''undefined'' | Some n \<Rightarrow> int_to_string n)"

definition newline :: char where
  "newline = CHR 0x0A"

text \<open>\<open>Array.prototype.join('\n')\<close>.\<close>

fun join_lines :: "string list \<Rightarrow> string" where
  "join_lines [] = []"
| "join_lines [l] = l"
| "join_lines (l # ls) = l @ [newline] @ join_lines ls"

definition subtask_line :: "nat \<Rightarrow> ai_suggestion \<Rightarrow> string" where
  "subtask_line i st =
     digits (i + 1) @ ''. '' @ sg_title st @ '' ('' @ js_opt_num_str (sg_estimatedTime st) @ '' min)''"

definition refine_prompt :: "string \<Rightarrow> ai_suggestion list \<Rightarrow> string \<Rightarrow> string" where
  "refine_prompt originalTask currentSubtasks userFeedback =
     ''Original Task: \"'' @ originalTask @ ''\"'' @ [newline, newline]
     @ ''Current Subtasks:'' @ [newline]
     @ join_lines (map (\<lambda>(i, st). subtask_line i st) (enumerate 0 currentSubtasks)) @ [newline, newline]
     @ ''User Feedback: \"'' @ userFeedback @ ''\"'' @ [newline, newline]
     @ ''Based on this feedback, provide refined subtasks. Return as JSON array:'' @ [newline]
     @ ''[{\"title\": \"...\", \"estimatedTime\": 30}]''"

text \<open>
  The objects \<open>refineSubtasks\<close> returns, as JavaScript holds them: \<open>item.title\<close> and
  \<open>item.estimatedTime\<close> are copied without a check or a default, so each is any JSON
  value or undefined (\<open>None\<close>). A current subtask is one such object with a string title.
\<close>

record js_suggestion =
  js_id :: string
  js_title :: "jval option"
  js_time :: "jval option"

definition of_suggestion :: "ai_suggestion \<Rightarrow> js_suggestion" where
  "of_suggestion s =
     \<lparr>js_id = sg_id s, js_title = Some (JStr (sg_title s)), js_time = map_option JNum (sg_estimatedTime s)\<rparr>"

text \<open>The object read back at the \<open>AiSuggestion\<close> type: a string title and a number or
  no estimate; anything else does not have the type the function declares.\<close>

definition typed_suggestion :: "js_suggestion \<Rightarrow> ai_suggestion option" where
  "typed_suggestion r =
     (case (js_title r, js_time r) of
        (Some (JStr t), None) \<Rightarrow> Some \<lparr>sg_id = js_id r, sg_title = t, sg_estimatedTime = None\<rparr>
      | (Some (JStr t), Some (JNum n)) \<Rightarrow> Some \<lparr>sg_id = js_id r, sg_title = t, sg_estimatedTime = Some n\<rparr>
      | _ \<Rightarrow> None)"

definition item_typed :: "jval \<Rightarrow> bool" where
  "item_typed v =
     (case (js_prop v ''title'', js_prop v ''estimatedTime'') of
        (Some (JStr _), None) \<Rightarrow> True
      | (Some (JStr _), Some (JNum _)) \<Rightarrow> True
      | _ \<Rightarrow> False)"

text \<open>\<open>parsed.map(item => ({id: crypto.randomUUID(), title: item.title, estimatedTime:
  item.estimatedTime}))\<close>: a null item throws.\<close>

definition refined_items :: "(nat \<Rightarrow> string) \<Rightarrow> jval list \<Rightarrow> js_suggestion list option" where
  "refined_items uuid items =
     (if JNull \<in> set items then None
      else Some (map (\<lambda>(k, v). \<lparr>js_id = uuid k, js_title = js_prop v ''title'', js_time = js_prop v ''estimatedTime''\<rparr>)
                   (enumerate 0 items)))"

text \<open>
  \<open>refineSubtasks\<close>: the external model answers the prompt (\<open>None\<close> when the call
  throws). A missing key, a failed call, a text that does not parse, a value without a
  \<open>map\<close> method (anything but an array) or a null item end in the \<open>catch\<close>, which
  returns the current subtasks.
\<close>

definition refineSubtasks ::
  "bool \<Rightarrow> (string \<Rightarrow> string option) \<Rightarrow> (string \<Rightarrow> jval option) \<Rightarrow> (nat \<Rightarrow> string) \<Rightarrow> string
   \<Rightarrow> ai_suggestion list \<Rightarrow> string \<Rightarrow> js_suggestion list" where
  "refineSubtasks apiKey model json_parse uuid originalTask currentSubtasks userFeedback =
     (let fallback = map of_suggestion currentSubtasks
      in if \<not> apiKey then fallback
         else (case model (refine_prompt originalTask currentSubtasks userFeedback) of
                 None \<Rightarrow> fallback
               | Some text \<Rightarrow>
                   (case json_parse (clean_response text) of
                      Some (JArr items) \<Rightarrow>
                        (case refined_items uuid items of Some r \<Rightarrow> r | None \<Rightarrow> fallback)
                    | _ \<Rightarrow> fallback)))"

subsection \<open>Substrings, the classifier and the answer\<close>

lemma regex_test_iff: "regex_test alts t \<longleftrightarrow> (\<exists>w\<in>set alts. \<exists>a b. t = a @ w @ b)"
  by (simp add: regex_test_def list_ex_iff contains_iff)

lemma shadow_collaborate: "contains ''collaborate'' t \<Longrightarrow> isLabTask t"
  using contains_trans [of "''lab''" "''collaborate''" t] by (simp add: isLabTask_def regex_test_def)

lemma shadow_article: "contains ''article'' t \<Longrightarrow> isEssayTask t"
  by (simp add: isEssayTask_def regex_test_def)

lemma shadow_design: "contains ''design'' t \<Longrightarrow> isProjectTask t"
  by (simp add: isProjectTask_def regex_test_def)

lemma shadow_speaking: "contains ''speaking'' t \<Longrightarrow> isPresentationTask t"
  using contains_trans [of "''speak''" "''speaking''" t] by (simp add: isPresentationTask_def regex_test_def)

text \<open>C10: four keywords of the classifier can never select their list: a text with "collaborate" never gets the group-work list ("lab" matches first), nor one with "article" the reading list, "design" the art list, or "speaking" the language list.\<close>

theorem fallback_shadowed_keywords:
  "(fallback_kind t = GroupWork \<longrightarrow> \<not> contains ''collaborate'' t)
   \<and> (fallback_kind t = Reading \<longrightarrow> \<not> contains ''article'' t)
   \<and> (fallback_kind t = Art \<longrightarrow> \<not> contains ''design'' t)
   \<and> (fallback_kind t = Language \<longrightarrow> \<not> contains ''speaking'' t)"
  by (auto simp: fallback_kind_def split: if_split_asm
           dest: shadow_collaborate shadow_article shadow_design shadow_speaking)

lemma remove_all_no_occurrence: "\<not> contains p s \<Longrightarrow> remove_all p s = s"
  by (induction s) auto

lemma remove_all_append_free:
  "p \<noteq> [] \<Longrightarrow> hd p \<notin> set x \<Longrightarrow> remove_all p (x @ y) = x @ remove_all p y"
  by (induction x) (auto simp: starts_with_iff neq_Nil_conv)

lemma remove_all_self: "p \<noteq> [] \<Longrightarrow> remove_all p (p @ y) = remove_all p y"
  by (cases p) (simp_all add: starts_with_iff)

lemma trim_spaces:
  assumes "list_all js_space ws1" and "list_all js_space ws2" and "j \<noteq> []"
    and "\<not> js_space (hd j)" and "\<not> js_space (last j)"
  shows "trim (ws1 @ j @ ws2) = j"
proof -
  have "dropWhile js_space (ws1 @ j @ ws2) = j @ ws2"
    using assms(1,3,4) by (cases j) (simp_all add: dropWhile_append list_all_iff)
  moreover have "dropWhile js_space (rev ws2 @ rev j) = rev j"
    using assms(2,3,5) by (cases "rev j") (simp_all add: dropWhile_append list_all_iff last_rev [symmetric])
  ultimately show ?thesis by (simp add: trim_def)
qed

text \<open>Removing the markdown fences and trimming gives back a JSON answer that the model wrapped in a json code fence with white space around it.\<close>

theorem clean_response_fenced:
  assumes "list_all js_space ws1" and "list_all js_space ws2" and "CHR ''`'' \<notin> set j"
    and "j \<noteq> []" and "\<not> js_space (hd j)" and "\<not> js_space (last j)"
  shows "clean_response (''```json'' @ ws1 @ j @ ws2 @ ''```'') = j"
proof -
  have sp: "CHR ''`'' \<notin> set ws1" "CHR ''`'' \<notin> set ws2"
    using assms(1,2) by (auto simp: list_all_iff js_space_def)
  have "remove_all ''```json'' (''```json'' @ ws1 @ j @ ws2 @ ''```'') = (ws1 @ j @ ws2) @ ''```''"
    using remove_all_self [of "''```json''"] remove_all_append_free [of "''```json''" "ws1 @ j @ ws2" "''```''"]
      sp assms(3) by simp
  moreover have "remove_all ''```'' ((ws1 @ j @ ws2) @ ''```'') = ws1 @ j @ ws2"
    using remove_all_append_free [of "''```''" "ws1 @ j @ ws2" "''```''"] sp assms(3) by simp
  ultimately show ?thesis using trim_spaces [OF assms(1,2,4,5,6)] by (simp add: clean_response_def)
qed


text \<open>C33: the streaming variant returns what generateTaskSuggestions returns on the concatenated chunks when the stream completes, the fallback when it breaks off, and reports the chunks received when a callback is given.\<close>

theorem generateTaskSuggestionsStream_equiv:
  "generateTaskSuggestionsStream k (chunks, finished) cb jp uuid ttl descr =
     (if finished then generateTaskSuggestions k (Some (concat chunks)) jp uuid ttl descr
      else getFallbackSuggestions uuid ttl descr,
      if k \<and> cb then chunks else [])"
  by (simp add: generateTaskSuggestionsStream_def generateTaskSuggestions_def Let_def
           split: option.splits jval.splits)

lemmas suggestion_lists =
  getResearchSuggestions_def getEssaySuggestions_def getPresentationSuggestions_def
  getExamSuggestions_def getProjectSuggestions_def getCodingSuggestions_def getLabSuggestions_def
  getReadingSuggestions_def getGroupWorkSuggestions_def getMathSuggestions_def
  getLanguageSuggestions_def getArtSuggestions_def getGenericAcademicSuggestions_def

lemma kind_suggestions_bounds:
  "5 \<le> length (kind_suggestions k uuid) \<and> length (kind_suggestions k uuid) \<le> 6
   \<and> (\<forall>s\<in>set (kind_suggestions k uuid). \<exists>m. sg_estimatedTime s = Some m \<and> 15 \<le> m \<and> m \<le> 120)"
  by (cases k) (simp_all add: kind_suggestions_def suggestion_lists mk_suggestions_def)

text \<open>Every fallback answer has five or six suggestions, each with an estimate between 15 and 120 minutes, as the prompt asks of the model.\<close>

theorem getFallbackSuggestions_bounds:
  "5 \<le> length (getFallbackSuggestions uuid ttl descr) \<and> length (getFallbackSuggestions uuid ttl descr) \<le> 6
   \<and> (\<forall>s\<in>set (getFallbackSuggestions uuid ttl descr). \<exists>m. sg_estimatedTime s = Some m \<and> 15 \<le> m \<and> m \<le> 120)"
  unfolding getFallbackSuggestions_def by (rule kind_suggestions_bounds)

lemma fallback_kind_collaborate: "fallback_kind (fallback_text ''Collaborate with the team'' None) = Lab"
  by (simp add: fallback_kind_def fallback_text_def toLowerCase_def lower_char_def isResearchTask_def
      isEssayTask_def isPresentationTask_def isExamTask_def isProjectTask_def isCodingTask_def isLabTask_def
      regex_test_def)

lemma fallback_kind_study: "fallback_kind (fallback_text ''Study for the final exam'' None) = Research"
  by (simp add: fallback_kind_def fallback_text_def toLowerCase_def lower_char_def isResearchTask_def regex_test_def)

subsection \<open>Refining\<close>

lemma typed_of_suggestion [simp]: "typed_suggestion (of_suggestion s) = Some s"
  by (cases "sg_estimatedTime s") (simp_all add: typed_suggestion_def of_suggestion_def)

lemma refined_item_typed:
  "typed_suggestion \<lparr>js_id = i, js_title = js_prop v ''title'', js_time = js_prop v ''estimatedTime''\<rparr> \<noteq> None
   \<longleftrightarrow> item_typed v"
  by (cases "js_prop v ''title''"; cases "js_prop v ''estimatedTime''")
     (simp_all add: typed_suggestion_def item_typed_def split: jval.splits)

lemma refined_items_typed:
  "refined_items uuid items = Some r \<Longrightarrow>
   list_all (\<lambda>x. typed_suggestion x \<noteq> None) r \<longleftrightarrow> list_all item_typed items"
proof -
  assume "refined_items uuid items = Some r"
  then have r: "r = map (\<lambda>(k, v). \<lparr>js_id = uuid k, js_title = js_prop v ''title'',
                         js_time = js_prop v ''estimatedTime''\<rparr>) (enumerate 0 items)"
    by (simp add: refined_items_def split: if_splits)
  have "list_all (\<lambda>x. typed_suggestion x \<noteq> None) r \<longleftrightarrow> list_all (\<lambda>x. item_typed (snd x)) (enumerate 0 items)"
    by (simp only: r list.pred_map comp_def case_prod_beta refined_item_typed)
  then show ?thesis by (simp only: list_all_enumerate_snd)
qed

lemma refine_prompt_example:
  "refine_prompt ''Essay'' [\<lparr>sg_id = ''a'', sg_title = ''Outline'', sg_estimatedTime = Some 30\<rparr>] ''shorter''
   = ''Original Task: \"Essay\"'' @ [newline, newline] @ ''Current Subtasks:'' @ [newline] @ ''1. Outline (30 min)''
     @ [newline, newline] @ ''User Feedback: \"shorter\"'' @ [newline, newline]
     @ ''Based on this feedback, provide refined subtasks. Return as JSON array:'' @ [newline]
     @ ''[{\"title\": \"...\", \"estimatedTime\": 30}]''"
  by (simp add: refine_prompt_def subtask_line_def js_opt_num_str_def int_to_string_def)

text \<open>refineSubtasks returns the current subtasks unchanged on every failure; otherwise
  one object per item of a parsed array without null items, with a fresh id from the supply and
  the item's title and estimatedTime copied as they are.\<close>

theorem refineSubtasks_result:
  "refineSubtasks k model jp uuid task cur fb = map of_suggestion cur
   \<or> (\<exists>text items. k \<and> model (refine_prompt task cur fb) = Some text
        \<and> jp (clean_response text) = Some (JArr items) \<and> JNull \<notin> set items
        \<and> refineSubtasks k model jp uuid task cur fb =
            map (\<lambda>(i, v). \<lparr>js_id = uuid i, js_title = js_prop v ''title'', js_time = js_prop v ''estimatedTime''\<rparr>)
              (enumerate 0 items))"
  by (auto simp: refineSubtasks_def refined_items_def Let_def split: option.splits jval.splits if_splits)

text \<open>C26: when the model's answer parses to an array, the refined list has the
  AiSuggestion type exactly when every item has a string title and a numeric or no
  estimatedTime: unlike generateTaskSuggestions, an item with only a name, or a time as a
  string, yields an object with an undefined or mistyped field.\<close>

theorem refineSubtasks_typed_iff:
  assumes "k" and "model (refine_prompt task cur fb) = Some text"
    and "jp (clean_response text) = Some (JArr items)" and "JNull \<notin> set items"
  shows "list_all (\<lambda>r. typed_suggestion r \<noteq> None) (refineSubtasks k model jp uuid task cur fb)
         \<longleftrightarrow> list_all item_typed items"
proof -
  obtain r where r: "refined_items uuid items = Some r" using assms(4) by (simp add: refined_items_def)
  then have "refineSubtasks k model jp uuid task cur fb = r" using assms(1-3) by (simp add: refineSubtasks_def)
  then show ?thesis using refined_items_typed [OF r] by simp
qed

subsection \<open>Witnesses\<close>

theorem getFallbackSuggestions_bounds_witness:
  "5 \<le> length (getFallbackSuggestions (\<lambda>_. ''id'') ''Study for the final exam'' None)
   \<and> list_all (\<lambda>s. \<exists>m. sg_estimatedTime s = Some m \<and> 15 \<le> m \<and> m \<le> 120)
       (getFallbackSuggestions (\<lambda>_. ''id'') ''Study for the final exam'' None)"
  using getFallbackSuggestions_bounds [of "\<lambda>_. ''id''" "''Study for the final exam''" None]
  by (simp add: list_all_iff)

theorem fallback_shadowed_keywords_witness:
  "fallback_kind (fallback_text ''Collaborate with the team'' None) \<noteq> GroupWork"
  using fallback_shadowed_keywords [of "fallback_text ''Collaborate with the team'' None"]
  by (simp add: fallback_text_def toLowerCase_def lower_char_def)

theorem clean_response_fenced_witness:
  "clean_response (''```json'' @ [CHR 0x0A] @ ''[{\"title\": \"Outline\"}]'' @ [CHR 0x0A] @ ''```'')
     = ''[{\"title\": \"Outline\"}]''"
  using clean_response_fenced [of "[CHR 0x0A]" "[CHR 0x0A]" "''[{\"title\": \"Outline\"}]''"]
  by (simp add: js_space_def)


theorem refineSubtasks_typed_iff_witness:
  "\<not> list_all (\<lambda>r. typed_suggestion r \<noteq> None)
       (refineSubtasks True (\<lambda>_. Some ''[{\"name\": \"Read\"}]'') (\<lambda>_. Some (JArr [JObj [(''name'', JStr ''Read'')]]))
          (\<lambda>_. ''id'') ''Essay'' [] ''more'')"
  using refineSubtasks_typed_iff [of True "\<lambda>_. Some ''[{\"name\": \"Read\"}]''" "''Essay''" "[]" "''more''"
      "''[{\"name\": \"Read\"}]''" "\<lambda>_. Some (JArr [JObj [(''name'', JStr ''Read'')]])" "[JObj [(''name'', JStr ''Read'')]]"
      "\<lambda>_. ''id''"]
  by (simp add: item_typed_def js_prop_def)

end
