(* ===== verification/Auth.thy ===== *)
theory Auth
  imports Prelude
begin

text \<open>
  Authentication as the user sees it: the sign-in/sign-up page
  (\<open>src/src/pages/AuthPage.tsx\<close>), the route guard \<open>RequireAuth\<close> and \<open>signOut\<close> of
  \<open>src/src/hooks/useAuth.tsx\<close>. The browser is its location and the local-storage key
  \<open>redirectAfterAuth\<close>, through which the guard and the page hand over the page the user
  wanted. The supabase auth calls are parameters: their outcome is an input of the
  handler, and the requests a handler sends are its output, in order. \<open>zod\<close>'s e-mail
  check is a parameter \<open>email_ok\<close>.
\<close>

record browser =
  location :: string
  redirectAfterAuth :: "string option"

subsection \<open>The form\<close>

record form_errors =
  email_err :: "string option"
  password_err :: "string option"
  name_err :: "string option"

record auth_page =
  isLogin :: bool
  email :: string
  password :: string
  fullName :: string
  page_loading :: bool
  errors :: form_errors

definition no_errors :: form_errors where
  "no_errors = \<lparr>email_err = None, password_err = None, name_err = None\<rparr>"

text \<open>The page's initial state: \<open>isLogin\<close> unless the query says \<open>mode=signup\<close>.\<close>

definition auth_page_init :: "string option \<Rightarrow> auth_page" where
  "auth_page_init mode =
     \<lparr>isLogin = (mode \<noteq> Some ''signup''), email = [], password = [], fullName = [],
      page_loading = False, errors = no_errors\<rparr>"

text \<open>\<open>validateForm\<close>: the three schemas, the name only when signing up.\<close>

definition validateForm :: "(string \<Rightarrow> bool) \<Rightarrow> auth_page \<Rightarrow> form_errors" where
  "validateForm email_ok pg =
     \<lparr>email_err = (if email_ok (email pg) then None else Some ''Please enter a valid email address''),
      password_err = (if 6 \<le> length (password pg) then None
                      else Some ''Password must be at least 6 characters''),
      name_err = (if \<not> isLogin pg \<and> length (fullName pg) < 2
                  then Some ''Name must be at least 2 characters'' else None)\<rparr>"

definition form_valid :: "form_errors \<Rightarrow> bool" where
  "form_valid e = (email_err e = None \<and> password_err e = None \<and> name_err e = None)"

subsection \<open>Submitting\<close>

text \<open>What the two auth calls answer; \<open>Throws\<close> is a rejected promise.\<close>

datatype sign_in_result = SignInOk | SignInError string | SignInThrows

datatype sign_up_result = SignUpError string | SignedUp "nat option" | SignUpThrows

datatype auth_toast =
  LoginFailed | AuthError string | WelcomeBack | AccountExists | AccountCreated bool
  | UnexpectedError

datatype auth_request =
  SignInWithPassword string string | SignUp string string string
  | UpsertProfile nat string | UpsertTimerSettings nat

definition auth_handleSubmit ::
  "(string \<Rightarrow> bool) \<Rightarrow> sign_in_result \<Rightarrow> sign_up_result \<Rightarrow> auth_page
   \<Rightarrow> auth_page \<times> auth_toast option \<times> auth_request list" where
  "auth_handleSubmit email_ok signin signup pg =
     (let errs = validateForm email_ok pg;
          pg1 = pg\<lparr>errors := errs\<rparr>;
          done = pg1\<lparr>page_loading := False\<rparr>
      in if \<not> form_valid errs then (pg1, None, [])
         else if isLogin pg then
           (let rq = [SignInWithPassword (email pg) (password pg)]
            in case signin of
                 SignInOk \<Rightarrow> (done, Some WelcomeBack, rq)
               | SignInError msg \<Rightarrow>
                   (done, Some (if contains ''Invalid login credentials'' msg then LoginFailed
                                else AuthError msg), rq)
               | SignInThrows \<Rightarrow> (done, Some UnexpectedError, rq))
         else
           (let rq = [SignUp (email pg) (password pg) (fullName pg)]
            in case signup of
                 SignUpError msg \<Rightarrow>
                   (if contains ''User already registered'' msg
                    then (done\<lparr>isLogin := True\<rparr>, Some AccountExists, rq)
                    else (done, Some (AuthError msg), rq))
               | SignedUp None \<Rightarrow> (done, Some (AccountCreated False), rq)
               | SignedUp (Some u) \<Rightarrow>
                   (done, Some (AccountCreated True),
                    rq @ [UpsertProfile u (fullName pg), UpsertTimerSettings u])
               | SignUpThrows \<Rightarrow> (done, Some UnexpectedError, rq)))"

subsection \<open>The rendered form\<close>

text \<open>The form's controls: the name input exists only when signing up, the mode link flips
  \<open>isLogin\<close> and keeps what was typed, and the submit button (or Enter) is disabled while
  a submission runs.\<close>

datatype auth_event =
  AuthSetName string | AuthSetEmail string | AuthSetPassword string | AuthToggleMode | AuthSubmit

definition auth_form_step ::
  "(string \<Rightarrow> bool) \<Rightarrow> sign_in_result \<Rightarrow> sign_up_result \<Rightarrow> auth_event \<Rightarrow> auth_page
   \<Rightarrow> auth_page \<times> auth_toast option \<times> auth_request list" where
  "auth_form_step email_ok signin signup e pg =
     (case e of
        AuthSetName x \<Rightarrow> (if isLogin pg then (pg, None, []) else (pg\<lparr>fullName := x\<rparr>, None, []))
      | AuthSetEmail x \<Rightarrow> (pg\<lparr>email := x\<rparr>, None, [])
      | AuthSetPassword x \<Rightarrow> (pg\<lparr>password := x\<rparr>, None, [])
      | AuthToggleMode \<Rightarrow> (pg\<lparr>isLogin := \<not> isLogin pg\<rparr>, None, [])
      | AuthSubmit \<Rightarrow> (if page_loading pg then (pg, None, []) else auth_handleSubmit email_ok signin signup pg))"

text \<open>A sequence of events, each submission answered by the given results, collecting the
  toasts and the requests in order.\<close>

fun auth_form_run ::
  "(string \<Rightarrow> bool) \<Rightarrow> (sign_in_result \<times> sign_up_result) list \<Rightarrow> auth_event list \<Rightarrow> auth_page
   \<Rightarrow> auth_page \<times> auth_toast list \<times> auth_request list" where
  "auth_form_run email_ok rs [] pg = (pg, [], [])"
| "auth_form_run email_ok rs (e # es) pg =
     (let (si, su) = (case rs of [] \<Rightarrow> (SignInThrows, SignUpThrows) | r # _ \<Rightarrow> r);
          rs' = (if e = AuthSubmit then drop 1 rs else rs);
          (pg1, t, rq) = auth_form_step email_ok si su e pg;
          (pg2, ts, rqs) = auth_form_run email_ok rs' es pg1
      in (pg2, (case t of None \<Rightarrow> ts | Some x \<Rightarrow> x # ts), rq @ rqs))"

text \<open>Whether a submission leaves a session behind: a successful sign-in, or a sign-up
  that returns a user (no e-mail confirmation pending). This is the event \<open>SignedIn\<close>
  of the navigation model.\<close>

definition starts_session :: "auth_toast option \<Rightarrow> bool" where
  "starts_session t = (t = Some WelcomeBack \<or> t = Some (AccountCreated True))"

subsection \<open>Redirects\<close>

text \<open>The page's effect once a session exists: go to the stored page and forget it, or
  home. \<open>getItem\<close> returns the stored string, and an empty one is falsy.\<close>

definition auth_redirect :: "browser \<Rightarrow> browser" where
  "auth_redirect b =
     (case redirectAfterAuth b of
        Some r \<Rightarrow> if r \<noteq> [] then b\<lparr>location := r, redirectAfterAuth := None\<rparr> else b\<lparr>location := ''/''\<rparr>
      | None \<Rightarrow> b\<lparr>location := ''/''\<rparr>)"

text \<open>\<open>location.pathname\<close>: the location without its query string.\<close>

definition pathname :: "string \<Rightarrow> string" where
  "pathname loc = takeWhile (\<lambda>c. c \<noteq> CHR ''?'') loc"

text \<open>\<open>RequireAuth\<close>: what the guard renders, its effect, and the prompt's three actions.\<close>

datatype guard_view = Spinner | AuthPrompt bool | Content

definition RequireAuth :: "bool \<Rightarrow> bool \<Rightarrow> bool \<Rightarrow> guard_view" where
  "RequireAuth signed_in loading showAuthPrompt =
     (if loading then Spinner else if \<not> signed_in then AuthPrompt showAuthPrompt else Content)"

definition guard_effect :: "bool \<Rightarrow> bool \<Rightarrow> bool \<Rightarrow> bool" where
  "guard_effect signed_in loading showAuthPrompt =
     (if \<not> loading \<and> \<not> signed_in then True else showAuthPrompt)"

datatype prompt_action = PromptSignUp | PromptSignIn | PromptDismiss

definition prompt_act :: "prompt_action \<Rightarrow> browser \<Rightarrow> browser \<times> bool" where
  "prompt_act a b =
     (case a of
        PromptSignUp \<Rightarrow> (b\<lparr>redirectAfterAuth := Some (pathname (location b)), location := ''/auth?mode=signup''\<rparr>, True)
      | PromptSignIn \<Rightarrow> (b\<lparr>redirectAfterAuth := Some (pathname (location b)), location := ''/auth''\<rparr>, True)
      | PromptDismiss \<Rightarrow> (b\<lparr>location := ''/''\<rparr>, False))"

subsection \<open>The provider's session state\<close>

record auth_state =
  auth_user :: "nat option"
  has_session :: bool
  auth_loading :: bool
  showStreakModal :: bool
  newStreakValue :: int

text \<open>\<open>signOut\<close>: the session is ended remotely, then locally, and the user is sent to
  the sign-in page, replacing the history entry.\<close>

definition signOut :: "auth_state \<times> browser \<Rightarrow> auth_state \<times> browser" where
  "signOut sb =
     (let (s, b) = sb in (s\<lparr>auth_user := None, has_session := False\<rparr>, b\<lparr>location := ''/auth''\<rparr>))"

definition example_signup_page :: auth_page where
  "example_signup_page =
     (auth_page_init (Some ''signup''))\<lparr>email := ''ana@uni.edu'', password := ''secret1'', fullName := ''Ana''\<rparr>"

subsection \<open>Properties\<close>

lemma form_valid_iff:
  "form_valid (validateForm email_ok pg) \<longleftrightarrow>
     email_ok (email pg) \<and> 6 \<le> length (password pg) \<and> (isLogin pg \<or> 2 \<le> length (fullName pg))"
  by (auto simp: form_valid_def validateForm_def)

lemma handleSubmit_invalid:
  "\<not> form_valid (validateForm email_ok pg) \<Longrightarrow>
   auth_handleSubmit email_ok signin signup pg = (pg\<lparr>errors := validateForm email_ok pg\<rparr>, None, [])"
  by (simp add: auth_handleSubmit_def)

lemma handleSubmit_valid_requests:
  "form_valid (validateForm email_ok pg) \<Longrightarrow> snd (snd (auth_handleSubmit email_ok signin signup pg)) \<noteq> []"
  by (auto simp: auth_handleSubmit_def Let_def split: sign_in_result.splits sign_up_result.splits option.splits)

text \<open>C5: the page sends a request only for a valid form: an accepted e-mail, a password of at least six characters and, when signing up, a name of at least two; an invalid form shows its errors and nothing else; a sign-up answered with "User already registered" is the only outcome that switches the page to signing in.\<close>

theorem handleSubmit_requests:
  "(snd (snd (auth_handleSubmit email_ok signin signup pg)) \<noteq> [] \<longleftrightarrow>
      email_ok (email pg) \<and> 6 \<le> length (password pg) \<and> (isLogin pg \<or> 2 \<le> length (fullName pg)))
   \<and> (snd (snd (auth_handleSubmit email_ok signin signup pg)) = [] \<longrightarrow>
        fst (snd (auth_handleSubmit email_ok signin signup pg)) = None
        \<and> fst (auth_handleSubmit email_ok signin signup pg) = pg\<lparr>errors := validateForm email_ok pg\<rparr>)
   \<and> (\<not> isLogin pg \<and> snd (snd (auth_handleSubmit email_ok signin signup pg)) \<noteq> [] \<longrightarrow>
        (isLogin (fst (auth_handleSubmit email_ok signin signup pg)) \<longleftrightarrow>
           (\<exists>msg. signup = SignUpError msg \<and> contains ''User already registered'' msg)))"
proof (cases "form_valid (validateForm email_ok pg)")
  case True
  then show ?thesis
    using handleSubmit_valid_requests [OF True, of signin signup] form_valid_iff [of email_ok pg]
    by (auto simp: auth_handleSubmit_def Let_def split: sign_up_result.splits option.splits)
next
  case False
  then show ?thesis using form_valid_iff [of email_ok pg] by (simp add: handleSubmit_invalid)
qed

text \<open>The page a signed-out user wanted survives the detour through the sign-in or sign-up page: after the prompt's button and a successful sign-in the browser is back at that page with the stored key removed, and a later sign-in goes home.\<close>

theorem prompt_redirect_roundtrip:
  assumes "pathname (location b) \<noteq> []" and "a \<noteq> PromptDismiss"
  shows "auth_redirect (fst (prompt_act a b)) = b\<lparr>location := pathname (location b), redirectAfterAuth := None\<rparr>
         \<and> location (auth_redirect (auth_redirect (fst (prompt_act a b)))) = ''/''"
  using assms by (cases a) (simp_all add: prompt_act_def auth_redirect_def)

text \<open>A submission starts a session exactly when the form is valid and the answer is a
  successful sign-in, or, when signing up, a sign-up that returned a user.\<close>

lemma handleSubmit_starts_session:
  "starts_session (fst (snd (auth_handleSubmit email_ok signin signup pg))) \<longleftrightarrow>
     form_valid (validateForm email_ok pg)
     \<and> (if isLogin pg then signin = SignInOk else (\<exists>u. signup = SignedUp (Some u)))"
  by (auto simp: auth_handleSubmit_def starts_session_def Let_def
           split: sign_in_result.splits sign_up_result.splits option.splits if_splits)

text \<open>When a sign-up finds the account already registered, the page switches to signing in
  with the e-mail and password as typed, so submitting again signs in with them.\<close>

lemma registered_then_signin:
  assumes "\<not> isLogin pg" and "\<not> page_loading pg" and "form_valid (validateForm email_ok pg)"
  shows "auth_form_run email_ok [(si, SignUpError ''User already registered''), (SignInOk, su)]
           [AuthSubmit, AuthSubmit] pg
         = (pg\<lparr>isLogin := True, page_loading := False,
               errors := validateForm email_ok (pg\<lparr>isLogin := True\<rparr>)\<rparr>,
            [AccountExists, WelcomeBack],
            [SignUp (email pg) (password pg) (fullName pg), SignInWithPassword (email pg) (password pg)])"
proof -
  have c: "contains ''User already registered'' ''User already registered''"
    unfolding contains_iff by (rule exI [of _ "[]"], rule exI [of _ "[]"]) simp
  let ?pg1 = "pg\<lparr>errors := validateForm email_ok pg, page_loading := False, isLogin := True\<rparr>"
  have s1: "auth_form_step email_ok si (SignUpError ''User already registered'') AuthSubmit pg
              = (?pg1, Some AccountExists, [SignUp (email pg) (password pg) (fullName pg)])"
    using assms c by (simp add: auth_form_step_def auth_handleSubmit_def Let_def)
  have vf: "validateForm email_ok ?pg1 = validateForm email_ok (pg\<lparr>isLogin := True\<rparr>)"
    by (simp add: validateForm_def)
  have v2: "form_valid (validateForm email_ok (pg\<lparr>isLogin := True\<rparr>))"
    using assms(3) by (simp add: form_valid_iff)
  have s2: "auth_form_step email_ok SignInOk su AuthSubmit ?pg1
              = (pg\<lparr>isLogin := True, page_loading := False,
                    errors := validateForm email_ok (pg\<lparr>isLogin := True\<rparr>)\<rparr>,
                 Some WelcomeBack, [SignInWithPassword (email pg) (password pg)])"
    using v2 vf by (simp add: auth_form_step_def auth_handleSubmit_def Let_def)
  show ?thesis using s1 s2 by simp
qed

subsection \<open>Witnesses\<close>

theorem handleSubmit_requests_witness:
  "isLogin (fst (auth_handleSubmit (\<lambda>_. True) SignInOk (SignUpError ''User already registered'') example_signup_page))"
  using handleSubmit_requests [of "\<lambda>_. True" SignInOk "SignUpError ''User already registered''" example_signup_page]
  by (simp add: example_signup_page_def auth_page_init_def)

theorem prompt_redirect_roundtrip_witness:
  "auth_redirect (fst (prompt_act PromptSignIn \<lparr>location = ''/kanban'', redirectAfterAuth = None\<rparr>))
     = \<lparr>location = ''/kanban'', redirectAfterAuth = None\<rparr>"
  using prompt_redirect_roundtrip [of "\<lparr>location = ''/kanban'', redirectAfterAuth = None\<rparr>" PromptSignIn]
  by (simp add: pathname_def)

end
