(* ===== verification/TaskViews.thy ===== *)
theory TaskViews
  imports Suggestions
begin

text \<open>
  The task views and the handlers they pass to the store: \<open>TaskCard\<close>
  (\<open>src/src/components/tasks/TaskCard.tsx\<close>), the dashboard's \<open>CurrentTask\<close>
  (\<open>src/src/components/dashboard/CurrentTask.tsx\<close>) and \<open>TasksPage\<close>
  (\<open>src/src/pages/TasksPage.tsx\<close>), which filters the list and wires each card's
  callbacks to \<open>updateTask\<close>, \<open>deleteTask\<close>, \<open>addSubtask\<close> of the store and to the
  suggestions map. A handler returns the card's new UI state and the callbacks it
  invokes, in order; \<open>tasks_page_call\<close> runs a callback against the store.
\<close>

subsection \<open>The callbacks a card invokes\<close>

datatype card_call =
  CallUpdateTask task | CallDeleteTask string | CallAddSubtask string subtask
  | CallSuggestionsGenerated string "ai_suggestion list"

text \<open>\<open>TasksPage\<close>: \<open>onUpdateTask = updateTask\<close>, \<open>onDeleteTask = deleteTask\<close>,
  \<open>onAddSubtask = addSubtask\<close>, and \<open>onSuggestionsGenerated\<close> stores the list under
  the task's id.\<close>

definition tasks_page_call :: "bool \<Rightarrow> int \<Rightarrow> card_call \<Rightarrow> task_ctx \<Rightarrow> task_ctx \<times> task_toast option" where
  "tasks_page_call ok now call c =
     (case call of
        CallUpdateTask t \<Rightarrow> updateTask ok now t c
      | CallDeleteTask tid \<Rightarrow> deleteTask ok tid c
      | CallAddSubtask tid st \<Rightarrow> addSubtask ok now tid st c
      | CallSuggestionsGenerated tid sgs \<Rightarrow> (c\<lparr>taskSuggestions := (taskSuggestions c)(tid \<mapsto> sgs)\<rparr>, None))"

subsection \<open>TaskCard\<close>

record card_ui =
  expanded :: bool
  showSuggestions :: bool
  newSubtask :: string
  card_showAuthPrompt :: bool
  showDeleteConfirm :: bool
  showEditDialog :: bool
  isGeneratingSuggestions :: bool

text \<open>The share of completed subtasks in percent (also \<open>CurrentTask\<close>'s progress).\<close>

definition subtask_progress :: "task \<Rightarrow> real" where
  "subtask_progress t =
     (if 0 < length (subtasks t)
      then real (length (filter completed (subtasks t))) / real (length (subtasks t)) * 100 else 0)"

text \<open>\<open>handleAddSubtask\<close>: the test trims the input, the subtask keeps it as typed.\<close>

definition card_handleAddSubtask :: "string \<Rightarrow> task \<Rightarrow> card_ui \<Rightarrow> card_ui \<times> card_call list" where
  "card_handleAddSubtask newId t ui =
     (if trim (newSubtask ui) = [] then (ui, [])
      else (ui\<lparr>newSubtask := []\<rparr>,
            [CallAddSubtask (task_id t)
               \<lparr>st_id = newId, st_title = newSubtask ui, completed = False, isAiSuggested = None,
                st_estimatedTime = None\<rparr>]))"

definition handleAddSuggestion :: "string \<Rightarrow> task \<Rightarrow> ai_suggestion \<Rightarrow> card_call list" where
  "handleAddSuggestion newId t sg =
     [CallAddSubtask (task_id t)
        \<lparr>st_id = newId, st_title = sg_title sg, completed = False, isAiSuggested = Some True,
         st_estimatedTime = sg_estimatedTime sg\<rparr>]"

datatype card_toast = SuggestionsGenerated nat | AiError string

text \<open>
  \<open>handleGenerateSuggestions\<close>: nothing for a blank title; otherwise the suggestions
  are passed to the page and counted in a toast. \<open>generateTaskSuggestions\<close> catches
  every error itself, so the handler's own \<open>catch\<close> (the \<open>AiError\<close> toast) is never
  reached and has no branch here.
\<close>

definition handleGenerateSuggestions ::
  "bool \<Rightarrow> string option \<Rightarrow> (string \<Rightarrow> jval option) \<Rightarrow> (nat \<Rightarrow> string) \<Rightarrow> bool \<Rightarrow> task \<Rightarrow> card_ui
   \<Rightarrow> card_ui \<times> card_call list \<times> card_toast option" where
  "handleGenerateSuggestions apiKey response json_parse uuid has_callback t ui =
     (if trim (title t) = [] then (ui, [], None)
      else (let suggestions = generateTaskSuggestions apiKey response json_parse uuid (title t) (description t)
            in (ui\<lparr>showSuggestions := True, isGeneratingSuggestions := False\<rparr>,
                if has_callback then [CallSuggestionsGenerated (task_id t) suggestions] else [],
                Some (SuggestionsGenerated (length suggestions)))))"

definition handleDeleteClick :: "bool \<Rightarrow> card_ui \<Rightarrow> card_ui" where
  "handleDeleteClick signed_in ui =
     (if \<not> signed_in then ui\<lparr>card_showAuthPrompt := True\<rparr> else ui\<lparr>showDeleteConfirm := True\<rparr>)"

definition handleConfirmDelete :: "bool \<Rightarrow> task \<Rightarrow> card_ui \<Rightarrow> card_ui \<times> card_call list" where
  "handleConfirmDelete has_callback t ui =
     (ui\<lparr>showDeleteConfirm := False\<rparr>, if has_callback then [CallDeleteTask (task_id t)] else [])"

subsection \<open>CurrentTask\<close>

record current_ui =
  ct_showAuthPrompt :: bool
  newSubtaskTitle :: string

definition checkAuth :: "bool \<Rightarrow> current_ui \<Rightarrow> bool \<times> current_ui" where
  "checkAuth signed_in ui = (if \<not> signed_in then (False, ui\<lparr>ct_showAuthPrompt := True\<rparr>) else (True, ui))"

text \<open>The dashboard's toggle: the card's handler behind a guard on the callback.\<close>

definition ct_handleToggleSubtask :: "bool \<Rightarrow> string \<Rightarrow> task \<Rightarrow> card_call list" where
  "ct_handleToggleSubtask has_callback sid t =
     (if \<not> has_callback then [] else [CallUpdateTask (handleToggleSubtask sid t)])"

text \<open>The dashboard's \<open>handleAddSubtask\<close>: signed-in users only, title trimmed, and the
  task goes through \<open>updateTask\<close> with a new edit time.\<close>

definition ct_handleAddSubtask ::
  "bool \<Rightarrow> bool \<Rightarrow> string \<Rightarrow> int \<Rightarrow> task \<Rightarrow> current_ui \<Rightarrow> current_ui \<times> card_call list" where
  "ct_handleAddSubtask has_callback signed_in newId now t ui =
     (if \<not> has_callback then (ui, [])
      else (let (ok, ui1) = checkAuth signed_in ui
            in if \<not> ok then (ui1, [])
               else if trim (newSubtaskTitle ui1) = [] then (ui1, [])
               else (ui1\<lparr>newSubtaskTitle := []\<rparr>,
                     [CallUpdateTask
                        (t\<lparr>subtasks := subtasks t @
                              [\<lparr>st_id = newId, st_title = trim (newSubtaskTitle ui1), completed = False,
                                isAiSuggested = None, st_estimatedTime = None\<rparr>],
                           lastEditedAt := Some now\<rparr>)])))"

subsection \<open>TasksPage\<close>

datatype task_filter = FilterAll | FilterStatus task_status

text \<open>\<open>filteredTasks\<close>: a case-insensitive substring search on the title and the
  status filter.\<close>

definition filteredTasks :: "string \<Rightarrow> task_filter \<Rightarrow> task list \<Rightarrow> task list" where
  "filteredTasks searchQuery flt ts =
     filter (\<lambda>t. contains (toLowerCase searchQuery) (toLowerCase (title t))
                 \<and> (flt = FilterAll \<or> flt = FilterStatus (status t))) ts"

subsection \<open>Properties\<close>

lemma find_Some_in: "find P xs = Some x \<Longrightarrow> x \<in> set xs \<and> P x"
  by (induction xs) (auto split: if_splits)

text \<open>Accepting a suggestion on a card of the page appends it to the task as an
  AI-suggested subtask, stamped with the current time, and removes every suggestion of
  that title from the task's list.\<close>

lemma accept_suggestion:
  assumes "find (\<lambda>x. task_id x = task_id t) (tasks c) = Some t0"
  shows "let c' = fst (tasks_page_call ok now (hd (handleAddSuggestion newId t sg)) c);
             st = \<lparr>st_id = newId, st_title = sg_title sg, completed = False, isAiSuggested = Some True,
                   st_estimatedTime = sg_estimatedTime sg\<rparr>
         in taskSuggestions c' (task_id t)
              = Some (filter (\<lambda>s. sg_title s \<noteq> sg_title sg)
                        (case taskSuggestions c (task_id t) of None \<Rightarrow> [] | Some l \<Rightarrow> l))
            \<and> t0\<lparr>subtasks := subtasks t0 @ [st], lastEditedAt := Some now\<rparr> \<in> set (tasks c')"
proof -
  define st where "st = \<lparr>st_id = newId, st_title = sg_title sg, completed = False, isAiSuggested = Some True,
                         st_estimatedTime = sg_estimatedTime sg\<rparr>"
  define u where "u = t0\<lparr>subtasks := subtasks t0 @ [st]\<rparr>"
  have t0: "t0 \<in> set (tasks c)" "task_id t0 = task_id t" using find_Some_in [OF assms] by auto
  have "task_id u \<in> task_id ` set (tasks c)" using t0(1) image_eqI [of "task_id u" task_id t0] by (simp add: u_def)
  then have mem: "u\<lparr>lastEditedAt := Some now\<rparr> \<in> set (replace_task now u (tasks c))" by (rule replace_task_in)
  show ?thesis
    using assms t0 mem
    by (simp add: u_def st_def tasks_page_call_def handleAddSuggestion_def addSubtask_def split_def Let_def
                  updateTask_def)
qed

lemma contains_Nil [simp]: "contains [] s"
  by (cases s) simp_all

lemma filteredTasks_all: "filteredTasks [] FilterAll ts = ts"
  by (simp add: filteredTasks_def toLowerCase_def)

lemma filteredTasks_status:
  "filteredTasks q (FilterStatus s) ts = filter (\<lambda>t. status t = s) (filteredTasks q FilterAll ts)"
  by (auto simp: filteredTasks_def intro: filter_cong)

text \<open>The card keeps the spaces of a typed subtask title; the dashboard trims them.\<close>

lemma add_subtask_trimming:
  "card_handleAddSubtask ''s9'' example_task (\<lparr>expanded = True, showSuggestions = False, newSubtask = '' Outline '',
      card_showAuthPrompt = False, showDeleteConfirm = False, showEditDialog = False,
      isGeneratingSuggestions = False\<rparr>)
   = (\<lparr>expanded = True, showSuggestions = False, newSubtask = [], card_showAuthPrompt = False,
       showDeleteConfirm = False, showEditDialog = False, isGeneratingSuggestions = False\<rparr>,
      [CallAddSubtask ''1'' \<lparr>st_id = ''s9'', st_title = '' Outline '', completed = False, isAiSuggested = None,
                            st_estimatedTime = None\<rparr>])"
  "snd (ct_handleAddSubtask True True ''s9'' 0 example_task \<lparr>ct_showAuthPrompt = False, newSubtaskTitle = '' Outline ''\<rparr>)
   = [CallUpdateTask (example_task\<lparr>subtasks := [\<lparr>st_id = ''s9'', st_title = ''Outline'', completed = False,
        isAiSuggested = None, st_estimatedTime = None\<rparr>], lastEditedAt := Some 0\<rparr>)]"
  by (simp_all add: card_handleAddSubtask_def ct_handleAddSubtask_def checkAuth_def trim_def js_space_def
                    example_task_def)

text \<open>Without an API key the card announces five or six suggestions.\<close>

lemma generate_without_key_count:
  "trim (title t) \<noteq> [] \<Longrightarrow>
   \<exists>n. snd (snd (handleGenerateSuggestions False r jp uuid cb t ui)) = Some (SuggestionsGenerated n)
       \<and> 5 \<le> n \<and> n \<le> 6"
  using kind_suggestions_bounds
  by (simp add: handleGenerateSuggestions_def generateTaskSuggestions_def getFallbackSuggestions_def Let_def)

end
