(* ===== verification/TimerView.thy ===== *)
theory TimerView
  imports Timer
begin

text \<open>
  The timer card (\<open>src/src/components/timer/FocusTimer.tsx\<close>): the settings dialog's
  temporary slider values and their save, the \<open>mm:ss\<close> display, the progress ring,
  the session count, and the buttons, each of which is an input of the timer's step
  function.
\<close>

subsection \<open>The settings dialog\<close>

record focus_timer_ui =
  settingsOpen :: bool
  tempFocus :: minutes
  tempBreak :: minutes

text \<open>The initial values and the effect on \<open>timerSettings\<close>, with the component's
  default props 25 and 5.\<close>

definition temp_sync :: "timer_settings \<Rightarrow> focus_timer_ui \<Rightarrow> focus_timer_ui" where
  "temp_sync cfg ui = ui\<lparr>tempFocus := js_or (focus_duration cfg) 25, tempBreak := js_or (short_break cfg) 5\<rparr>"

definition focus_timer_init :: "timer_settings \<Rightarrow> focus_timer_ui" where
  "focus_timer_init cfg = temp_sync cfg \<lparr>settingsOpen = False, tempFocus = 0, tempBreak = 0\<rparr>"

definition focus_handleSaveSettings ::
  "bool \<Rightarrow> focus_timer_ui \<Rightarrow> settings_ctx \<Rightarrow> focus_timer_ui \<times> settings_ctx \<times> notice option" where
  "focus_handleSaveSettings upsert_ok ui c =
     (let (c', n) = updateTimerSettings upsert_ok (focus_timer_patch (tempFocus ui) (tempBreak ui)) c
      in (ui\<lparr>settingsOpen := False\<rparr>, c', n))"

subsection \<open>The display\<close>

definition padStart2 :: "string \<Rightarrow> string" where
  "padStart2 s = (if length s < 2 then replicate (2 - length s) (CHR ''0'') @ s else s)"

text \<open>JavaScript's \<open>%\<close>: the remainder takes the sign of the dividend.\<close>

definition js_rem :: "int \<Rightarrow> int \<Rightarrow> int" where
  "js_rem a b = sgn a * (\<bar>a\<bar> mod \<bar>b\<bar>)"

definition formatTime :: "seconds \<Rightarrow> string" where
  "formatTime seconds =
     (let mins = seconds div 60; secs = js_rem seconds 60
      in padStart2 (int_to_string mins) @ '':'' @ padStart2 (int_to_string secs))"

text \<open>\<open>sessions.reduce((acc, curr) => acc + curr, 0)\<close>.\<close>

definition totalSessions :: "int list \<Rightarrow> int" where
  "totalSessions sessions = foldl (+) 0 sessions"

text \<open>The progress ring: a circle of radius 42 whose dash offset hides the part not done.\<close>

definition dash_offset :: "real \<Rightarrow> real" where
  "dash_offset pct = 2 * pi * 42 * (1 - pct / 100)"

definition mode_caption :: "mode \<Rightarrow> string" where
  "mode_caption m = (if m = Focus then ''Stay focused'' else ''Take a break'')"

subsection \<open>The buttons\<close>

datatype timer_button = WorkTab | BreakTab | ResetButton | PlayPause

definition button_input :: "timer_button \<Rightarrow> timer_input" where
  "button_input b =
     (case b of WorkTab \<Rightarrow> SetModeIn Focus | BreakTab \<Rightarrow> SetModeIn Break
      | ResetButton \<Rightarrow> Reset | PlayPause \<Rightarrow> Toggle)"

subsection \<open>Properties\<close>

lemma digits_small: "n < 10 \<Longrightarrow> digits n = [''0123456789'' ! n]"
  by simp

lemma digits_two: "10 \<le> n \<Longrightarrow> n < 100 \<Longrightarrow> digits n = [''0123456789'' ! (n div 10), ''0123456789'' ! (n mod 10)]"
  by simp

lemma padStart2_digits:
  "n < 100 \<Longrightarrow> padStart2 (digits n) = [''0123456789'' ! (n div 10), ''0123456789'' ! (n mod 10)]"
  by (cases "n < 10") (simp_all add: padStart2_def)

text \<open>Reading back an \<open>mm:ss\<close> display.\<close>

definition mmss_value :: "string \<Rightarrow> int" where
  "mmss_value s =
     int (10 * digit_value (s ! 0) + digit_value (s ! 1)) * 60
     + int (10 * digit_value (s ! 3) + digit_value (s ! 4))"

lemma formatTime_digits:
  assumes "0 \<le> s" and "s < 6000"
  shows "formatTime s =
           [''0123456789'' ! (nat (s div 60) div 10), ''0123456789'' ! (nat (s div 60) mod 10), CHR '':'',
            ''0123456789'' ! (nat (s mod 60) div 10), ''0123456789'' ! (nat (s mod 60) mod 10)]"
proof -
  have m: "nat (s div 60) < 100" and sec: "nat (s mod 60) < 100" using assms by auto
  have "js_rem s 60 = s mod 60" using assms by (cases "s = 0") (simp_all add: js_rem_def)
  moreover have "int_to_string (s div 60) = digits (nat (s div 60))"
    using assms by (simp add: int_to_string_def)
  moreover have "int_to_string (s mod 60) = digits (nat (s mod 60))"
    by (simp add: int_to_string_def)
  ultimately show ?thesis
    using padStart2_digits [OF m] padStart2_digits [OF sec] by (simp add: formatTime_def Let_def)
qed

theorem formatTime_roundtrip:
  assumes "0 \<le> s" and "s < 6000"
  shows "length (formatTime s) = 5 \<and> formatTime s ! 2 = CHR '':'' \<and> mmss_value (formatTime s) = s"
proof -
  define m where "m = nat (s div 60)"
  define r where "r = nat (s mod 60)"
  have "m div 10 < 10" "m mod 10 < 10" "r div 10 < 10" "r mod 10 < 10"
    using assms by (auto simp: m_def r_def)
  then have "mmss_value (formatTime s) = int (10 * (m div 10) + m mod 10) * 60 + int (10 * (r div 10) + r mod 10)"
    using formatTime_digits [OF assms] by (simp add: mmss_value_def digit_char_value m_def r_def)
  also have "\<dots> = int m * 60 + int r" by simp
  also have "\<dots> = s"
  proof -
    have "0 \<le> s div 60" using assms by simp
    then show ?thesis by (simp add: m_def r_def)
  qed
  finally show ?thesis using formatTime_digits [OF assms] by simp
qed

lemma formatTime_example: "formatTime 1500 = ''25:00''"
  by (simp add: formatTime_def js_rem_def int_to_string_def padStart2_def)

lemma dash_offset_bounds: "0 \<le> p \<Longrightarrow> p \<le> 100 \<Longrightarrow> 0 \<le> dash_offset p \<and> dash_offset p \<le> 2 * pi * 42"
  by (simp add: dash_offset_def)

lemma foldl_plus_sum: "foldl (+) a xs = a + sum_list (xs :: int list)"
  by (induction xs arbitrary: a) (simp_all add: add.assoc)

lemma totalSessions_sum: "totalSessions xs = sum_list xs"
  by (simp add: totalSessions_def foldl_plus_sum)

end
