(* ===== verification/Countdown.thy ===== *)
theory Countdown
  imports Timer
begin

text \<open>
  The running timer as the loop the browser executes (\<open>src/src/context/TimerContext.tsx\<close>,
  the effect on \<open>[isActive, timeLeft, \<dots>]\<close>): while the timer is active, the interval
  fires once a second and each firing re-runs the effects; the loop ends when the timer
  stops. Nothing bounds the number of firings in advance, so the loop is a
  \<open>partial_function (option)\<close>: \<open>None\<close> is a timer that stays active for ever. The
  result is the final state and the sessions reported on the way.
\<close>

partial_function (option) countdown ::
  "timer_settings \<Rightarrow> timer_state \<Rightarrow> (timer_state \<times> minutes list) option" where
  "countdown cfg s =
     (if \<not> isActive s then Some (s, [])
      else (let (s', e) = interval_tick cfg s
            in Option.bind (countdown cfg s')
                 (\<lambda>(s'', es). Some (s'', case e of None \<Rightarrow> es | Some x \<Rightarrow> x # es))))"

subsection \<open>The loop returns from every running timer with time left\<close>

lemma countdown_stopped: "\<not> isActive s \<Longrightarrow> countdown cfg s = Some (s, [])"
  by (simp add: countdown.simps)

text \<open>The loop agrees with \<open>n\<close> firings of the interval, \<open>n\<close> the seconds left.\<close>

lemma countdown_run:
  assumes "isActive s" and "timeLeft s = int n" and "0 < n"
  shows "countdown cfg s = Some (snd (fst (timer_run (cfg, s) (replicate n Tick))),
                                 snd (timer_run (cfg, s) (replicate n Tick)))"
  using assms
proof (induction n arbitrary: s)
  case 0
  then show ?case by simp
next
  case (Suc m)
  show ?case
  proof (cases "m = 0")
    case True
    with Suc.prems show ?thesis
      by (simp add: countdown.simps [of cfg s] timer_run_Tick tick_last countdown_stopped)
  next
    case False
    let ?s' = "s\<lparr>timeLeft := int m\<rparr>"
    have tick: "interval_tick cfg s = (?s', None)"
      using Suc.prems False by (simp add: tick_decrements)
    have "countdown cfg ?s' = Some (snd (fst (timer_run (cfg, ?s') (replicate m Tick))),
                                    snd (timer_run (cfg, ?s') (replicate m Tick)))"
      using Suc.IH [of ?s'] Suc.prems False by simp
    with tick Suc.prems show ?thesis
      by (simp add: countdown.simps [of cfg s] timer_run_Tick split_def)
  qed
qed

subsection \<open>The loop never returns from a running timer without time left\<close>

text \<open>Such a timer schedules no interval and completes nothing, so one unfolding of the
  loop gives back the same call: the least fixpoint is \<open>None\<close>.\<close>

lemma countdown_stuck:
  assumes "isActive s" and "timeLeft s \<le> 0"
  shows "countdown cfg s = None"
proof (rule ccontr)
  assume "countdown cfg s \<noteq> None"
  then obtain y where ret: "countdown cfg s = Some y" by blast
  have "isActive s \<longrightarrow> 0 < timeLeft s"
  proof (rule countdown.raw_induct [where P = "\<lambda>cfg s y. isActive s \<longrightarrow> 0 < timeLeft s", OF _ ret])
    fix f cfg s y
    assume IH: "\<And>cfg s y. f cfg s = Some y \<Longrightarrow> isActive s \<longrightarrow> 0 < timeLeft s"
      and eq: "(if \<not> isActive s then Some (s, [])
                else let (s', e) = interval_tick cfg s
                     in Option.bind (f cfg s')
                          (\<lambda>(s'', es). Some (s'', case e of None \<Rightarrow> es | Some x \<Rightarrow> x # es))) = Some y"
    show "isActive s \<longrightarrow> 0 < timeLeft s"
    proof
      assume act: "isActive s"
      show "0 < timeLeft s"
      proof (rule ccontr)
        assume "\<not> 0 < timeLeft s"
        then have "interval_tick cfg s = (s, None)" by (simp add: interval_tick_idle)
        with act eq obtain y' where "f cfg s = Some y'" by (auto split: Option.bind_splits)
        with act IH \<open>\<not> 0 < timeLeft s\<close> show False by blast
      qed
    qed
  qed
  with assms show False by simp
qed

lemma toggle_negative_focus:
  "focus_duration cfg < 0 \<Longrightarrow>
   toggleTimer cfg (initial_timer cfg) = ((initial_timer cfg)\<lparr>isActive := True\<rparr>, None)"
  by (simp add: toggleTimer_def initial_timer_def focusDuration_def render_effects_negative)

subsection \<open>Termination\<close>

text \<open>C14: the loop of a running timer returns exactly when the timer has time left: then it stops after the interval, in break mode with one reported session after a focus interval; without time left it runs for ever, which is what a timer started with a negative focus duration (accepted by the settings page) does.\<close>

theorem countdown_terminates:
  "(isActive s \<and> 0 < timeLeft s \<longrightarrow>
      countdown cfg s =
        Some (if mode s = Focus
              then (\<lparr>mode = Break, isActive = False, timeLeft = breakDuration cfg * 60\<rparr>, [focusDuration cfg])
              else (\<lparr>mode = Focus, isActive = False, timeLeft = focusDuration cfg * 60\<rparr>, [])))
   \<and> (isActive s \<and> timeLeft s \<le> 0 \<longrightarrow> countdown cfg s = None)
   \<and> (focus_duration cfg < 0 \<longrightarrow> countdown cfg (fst (toggleTimer cfg (initial_timer cfg))) = None)"
proof (intro conjI impI)
  assume a: "isActive s \<and> 0 < timeLeft s"
  then have n: "timeLeft s = int (nat (timeLeft s))" "0 < nat (timeLeft s)" by auto
  show "countdown cfg s =
        Some (if mode s = Focus
              then (\<lparr>mode = Break, isActive = False, timeLeft = breakDuration cfg * 60\<rparr>, [focusDuration cfg])
              else (\<lparr>mode = Focus, isActive = False, timeLeft = focusDuration cfg * 60\<rparr>, []))"
    using countdown_run [of s "nat (timeLeft s)" cfg] run_ticks_finish [of s "nat (timeLeft s)" cfg] a n
    by simp
next
  assume "isActive s \<and> timeLeft s \<le> 0"
  then show "countdown cfg s = None" by (simp add: countdown_stuck)
next
  assume neg: "focus_duration cfg < 0"
  then have "timeLeft (initial_timer cfg) \<le> 0" by (simp add: initial_timer_def focusDuration_def)
  with neg show "countdown cfg (fst (toggleTimer cfg (initial_timer cfg))) = None"
    by (simp add: toggle_negative_focus countdown_stuck)
qed

subsection \<open>Witness\<close>

theorem countdown_terminates_witness:
  "countdown defaultTimerSettings \<lparr>mode = Focus, isActive = True, timeLeft = 3\<rparr>
     = Some (\<lparr>mode = Break, isActive = False, timeLeft = 300\<rparr>, [25])
   \<and> countdown (defaultTimerSettings\<lparr>focus_duration := -5\<rparr>)
       (fst (toggleTimer (defaultTimerSettings\<lparr>focus_duration := -5\<rparr>)
              (initial_timer (defaultTimerSettings\<lparr>focus_duration := -5\<rparr>)))) = None"
  using countdown_terminates [of "\<lparr>mode = Focus, isActive = True, timeLeft = 3\<rparr>" defaultTimerSettings]
        countdown_terminates [of "\<lparr>mode = Focus, isActive = True, timeLeft = 3\<rparr>" "defaultTimerSettings\<lparr>focus_duration := -5\<rparr>"]
  by simp

end
