(* ===== verification/Races.thy ===== *)
theory Races
  imports Ledger
begin

text \<open>
  Concurrent handlers on one \<open>profiles\<close> row. Each of \<open>incrementStreak\<close> and
  \<open>updateProfileStudyTime\<close> (\<open>src/src/context/SessionContext.tsx\<close>) and
  \<open>checkDailyStreak\<close> (\<open>src/src/hooks/useAuth.tsx\<close>) awaits a \<open>select\<close> of the row and
  then an \<open>update\<close> computed from what it read; between the two awaits other handlers
  run. The \<open>Ledger\<close> theory runs one handler at a time; here a handler is a thread of two
  steps, read and write, and a schedule interleaves the threads. The row exists
  throughout and the network works.
\<close>

datatype handler = IncrementStreak | CheckDailyStreak timestamp | UpdateStudyTime minutes

text \<open>Where a thread is: not started, holding the row it read, or returned.\<close>

datatype phase = Idle | Awaiting profile_row | Returned

type_synonym race_state = "profile_row \<times> (handler \<times> phase) list"

text \<open>The \<open>update\<close> each handler issues, computed from the row it read (\<open>snap\<close>) and
  applied to the row as it is now: only the columns named in the update change. The
  handlers' local effects (the celebration modal) do not touch the row.\<close>

definition write_incrementStreak :: "profile_row \<Rightarrow> profile_row \<Rightarrow> profile_row" where
  "write_incrementStreak snap row = row\<lparr>streak_days := Some (or_zero (streak_days snap) + 1)\<rparr>"

definition write_checkDailyStreak :: "timestamp \<Rightarrow> profile_row \<Rightarrow> profile_row \<Rightarrow> profile_row" where
  "write_checkDailyStreak t snap row =
     (if map_option day_of (last_active_date snap) \<noteq> Some (day_of t)
      then row\<lparr>streak_days := Some (or_zero (streak_days snap) + 1), last_active_date := Some t\<rparr>
      else row)"

definition write_updateProfileStudyTime :: "minutes \<Rightarrow> profile_row \<Rightarrow> profile_row \<Rightarrow> profile_row" where
  "write_updateProfileStudyTime m snap row =
     (if 0 < m then row\<lparr>total_study_minutes := Some (or_zero (total_study_minutes snap) + m)\<rparr> else row)"

definition handler_write :: "handler \<Rightarrow> profile_row \<Rightarrow> profile_row \<Rightarrow> profile_row" where
  "handler_write h snap row =
     (case h of
        IncrementStreak \<Rightarrow> write_incrementStreak snap row
      | CheckDailyStreak t \<Rightarrow> write_checkDailyStreak t snap row
      | UpdateStudyTime m \<Rightarrow> write_updateProfileStudyTime m snap row)"

text \<open>One step of thread \<open>i\<close>: its read, then its write; a returned thread does nothing.\<close>

definition thread_step :: "nat \<Rightarrow> race_state \<Rightarrow> race_state" where
  "thread_step i st =
     (let (row, ts) = st
      in if i < length ts then
           (case ts ! i of
              (h, Idle) \<Rightarrow> (row, ts[i := (h, Awaiting row)])
            | (h, Awaiting snap) \<Rightarrow> (handler_write h snap row, ts[i := (h, Returned)])
            | (h, Returned) \<Rightarrow> (row, ts))
         else (row, ts))"

definition run_schedule :: "nat list \<Rightarrow> race_state \<Rightarrow> race_state" where
  "run_schedule sch st = fold thread_step sch st"

definition start_threads :: "profile_row \<Rightarrow> handler list \<Rightarrow> race_state" where
  "start_threads row hs = (row, map (\<lambda>h. (h, Idle)) hs)"



inductive race_reach :: "race_state \<Rightarrow> race_state \<Rightarrow> bool" for st0 where
  race_start: "race_reach st0 st0"
| race_step: "race_reach st0 st \<Longrightarrow> race_reach st0 (thread_step i st)"

subsection \<open>Counting the streak updates\<close>

definition streak_writer :: "handler \<Rightarrow> bool" where
  "streak_writer h = (case h of UpdateStudyTime m \<Rightarrow> False | _ \<Rightarrow> True)"

definition returned_writers :: "(handler \<times> phase) list \<Rightarrow> nat" where
  "returned_writers ts = length (filter (\<lambda>(h, p). streak_writer h \<and> p = Returned) ts)"

text \<open>The streak of a row lies between the start value and the start value plus the
  number of returned streak handlers.\<close>

definition streak_within :: "int \<Rightarrow> nat \<Rightarrow> profile_row \<Rightarrow> bool" where
  "streak_within s0 n row = (s0 \<le> or_zero (streak_days row) \<and> or_zero (streak_days row) \<le> s0 + int n)"

definition streak_inv :: "int \<Rightarrow> race_state \<Rightarrow> bool" where
  "streak_inv s0 st =
     (let (row, ts) = st
      in streak_within s0 (returned_writers ts) row
         \<and> list_all (\<lambda>(h, p). case p of Awaiting snap \<Rightarrow> streak_within s0 (returned_writers ts) snap | _ \<Rightarrow> True) ts)"

lemmas handler_write_defs =
  handler_write_def write_incrementStreak_def write_checkDailyStreak_def write_updateProfileStudyTime_def

lemma returned_writers_update:
  assumes "i < length ts" and "ts ! i = (h, q)" and "q \<noteq> Returned"
  shows "returned_writers (ts[i := (h, p)]) =
           returned_writers ts + (if streak_writer h \<and> p = Returned then 1 else 0)"
  using assms length_filter_list_update [of i ts "\<lambda>(h, p). streak_writer h \<and> p = Returned" "(h, p)"]
  by (simp add: returned_writers_def)

lemma streak_within_mono: "streak_within s0 n row \<Longrightarrow> n \<le> m \<Longrightarrow> streak_within s0 m row"
  by (auto simp: streak_within_def)

lemma handler_write_within:
  assumes "streak_within s0 n snap" and "streak_within s0 n row"
  shows "streak_within s0 (n + (if streak_writer h then 1 else 0)) (handler_write h snap row)"
  using assms by (cases h) (auto simp: handler_write_defs streak_writer_def streak_within_def)

lemma streak_inv_iff:
  "streak_inv s0 (row, ts) \<longleftrightarrow>
     streak_within s0 (returned_writers ts) row
     \<and> (\<forall>x\<in>set ts. case snd x of Awaiting snap \<Rightarrow> streak_within s0 (returned_writers ts) snap | _ \<Rightarrow> True)"
  by (auto simp: streak_inv_def list_all_iff split: prod.splits)

lemma thread_step_inv:
  assumes inv: "streak_inv s0 st"
  shows "streak_inv s0 (thread_step i st)"
proof -
  obtain row ts where st: "st = (row, ts)" by (cases st)
  show ?thesis
  proof (cases "i < length ts")
    case False
    with inv st show ?thesis by (simp add: thread_step_def)
  next
    case True
    obtain h q where hq: "ts ! i = (h, q)" by (cases "ts ! i")
    have all: "\<And>x. x \<in> set ts \<Longrightarrow> (case snd x of Awaiting snap \<Rightarrow> streak_within s0 (returned_writers ts) snap | _ \<Rightarrow> True)"
      using inv st by (simp add: streak_inv_iff)
    have row: "streak_within s0 (returned_writers ts) row" using inv st by (simp add: streak_inv_iff)
    show ?thesis
    proof (cases q)
      case Idle
      have step: "thread_step i st = (row, ts[i := (h, Awaiting row)])"
        using st True hq Idle by (simp add: thread_step_def)
      have rw: "returned_writers (ts[i := (h, Awaiting row)]) = returned_writers ts"
        using returned_writers_update [OF True hq] Idle by simp
      have "\<forall>x\<in>set (ts[i := (h, Awaiting row)]).
              (case snd x of Awaiting snap \<Rightarrow> streak_within s0 (returned_writers ts) snap | _ \<Rightarrow> True)"
        using all row set_update_subset_insert [of ts i "(h, Awaiting row)"] by auto
      with row show ?thesis unfolding step streak_inv_iff rw by simp
    next
      case (Awaiting snap)
      let ?n = "returned_writers ts"
      let ?m = "?n + (if streak_writer h then 1 else 0)"
      have step: "thread_step i st = (handler_write h snap row, ts[i := (h, Returned)])"
        using st True hq Awaiting by (simp add: thread_step_def)
      have rw: "returned_writers (ts[i := (h, Returned)]) = ?m"
        using returned_writers_update [OF True hq] Awaiting by simp
      have "streak_within s0 ?n snap" using all [of "ts ! i"] nth_mem [OF True] hq Awaiting by simp
      then have new: "streak_within s0 ?m (handler_write h snap row)" using row by (rule handler_write_within)
      have "\<forall>x\<in>set (ts[i := (h, Returned)]).
              (case snd x of Awaiting snap \<Rightarrow> streak_within s0 ?m snap | _ \<Rightarrow> True)"
      proof
        fix x assume "x \<in> set (ts[i := (h, Returned)])"
        then have "x = (h, Returned) \<or> x \<in> set ts"
          using set_update_subset_insert [of ts i "(h, Returned)"] by blast
        then show "case snd x of Awaiting snap \<Rightarrow> streak_within s0 ?m snap | _ \<Rightarrow> True"
        proof
          assume "x \<in> set ts"
          from all [OF this] show ?thesis
            by (cases "snd x") (simp_all add: streak_within_mono [of s0 ?n _ ?m])
        qed simp
      qed
      with new show ?thesis unfolding step streak_inv_iff rw by simp
    next
      case Returned
      with inv st hq True show ?thesis by (simp add: thread_step_def)
    qed
  qed
qed

lemma streak_inv_start: "streak_inv (or_zero (streak_days row)) (start_threads row hs)"
  by (simp add: start_threads_def streak_inv_def streak_within_def returned_writers_def list_all_iff)

lemma race_reach_inv:
  "race_reach (start_threads row0 hs) st \<Longrightarrow> streak_inv (or_zero (streak_days row0)) st"
  by (induction rule: race_reach.induct) (simp_all add: streak_inv_start thread_step_inv)

lemma race_reach_schedule: "race_reach st0 st \<Longrightarrow> race_reach st0 (run_schedule sch st)"
  by (induction sch arbitrary: st) (simp_all add: run_schedule_def race_reach.race_step)

subsection \<open>Serial runs\<close>









text \<open>C7: Whatever the interleaving, the streak column never falls below its value
  before the handlers started, and rises by at most one per streak handler that has
  returned.\<close>

theorem race_streak_bounds:
  assumes "race_reach (start_threads row0 hs) (row, ts)"
  shows "or_zero (streak_days row0) \<le> or_zero (streak_days row) \<and>
         or_zero (streak_days row) \<le> or_zero (streak_days row0) + int (returned_writers ts)"
  using race_reach_inv [OF assms] by (simp add: streak_inv_def streak_within_def)

theorem race_streak_bounds_witness:
  "race_reach (start_threads example_profile [IncrementStreak, IncrementStreak, CheckDailyStreak 1728003600])
     (fst (run_schedule [0, 1, 1, 2, 2, 0]
             (start_threads example_profile [IncrementStreak, IncrementStreak, CheckDailyStreak 1728003600])),
      snd (run_schedule [0, 1, 1, 2, 2, 0]
             (start_threads example_profile [IncrementStreak, IncrementStreak, CheckDailyStreak 1728003600]))) \<and>
   3 \<le> or_zero (streak_days (fst (run_schedule [0, 1, 1, 2, 2, 0]
             (start_threads example_profile [IncrementStreak, IncrementStreak, CheckDailyStreak 1728003600])))) \<and>
   or_zero (streak_days (fst (run_schedule [0, 1, 1, 2, 2, 0]
             (start_threads example_profile [IncrementStreak, IncrementStreak, CheckDailyStreak 1728003600])))) \<le> 3 + 3"
proof -
  let ?init = "start_threads example_profile [IncrementStreak, IncrementStreak, CheckDailyStreak 1728003600]"
  let ?st = "run_schedule [0, 1, 1, 2, 2, 0] ?init"
  have r: "race_reach ?init (fst ?st, snd ?st)"
    using race_reach_schedule [where sch = "[0, 1, 1, 2, 2, 0]", OF race_reach.race_start [of ?init]]
    by simp
  from race_streak_bounds [OF r] r show ?thesis
    by (simp add: example_profile_def start_threads_def run_schedule_def thread_step_def
                  returned_writers_def streak_writer_def)
qed

text \<open>C25: Lost update. A session completes on the first focus of a new day:
  \<open>incrementStreak\<close> and \<open>checkDailyStreak\<close> both raise the streak. Run one after the
  other they add two; when both read the row before either writes, one increment is lost.
  With a second \<open>incrementStreak\<close> in flight the stored streak even falls: a write from
  an old read overwrites a higher value.\<close>

theorem race_lost_update:
  assumes "map_option day_of (last_active_date row0) \<noteq> Some (day_of t)"
  shows "streak_days (fst (run_schedule [0, 0, 1, 1] (start_threads row0 [IncrementStreak, CheckDailyStreak t])))
           = Some (or_zero (streak_days row0) + 2)
       \<and> streak_days (fst (run_schedule [0, 1, 0, 1] (start_threads row0 [IncrementStreak, CheckDailyStreak t])))
           = Some (or_zero (streak_days row0) + 1)
       \<and> streak_days (fst (run_schedule [0, 1, 1, 2, 2]
             (start_threads row0 [IncrementStreak, IncrementStreak, CheckDailyStreak t])))
           = Some (or_zero (streak_days row0) + 2)
       \<and> streak_days (fst (run_schedule [0, 1, 1, 2, 2, 0]
             (start_threads row0 [IncrementStreak, IncrementStreak, CheckDailyStreak t])))
           = Some (or_zero (streak_days row0) + 1)"
  using assms
  by (simp add: run_schedule_def start_threads_def thread_step_def handler_write_defs)

theorem race_lost_update_witness:
  "map_option day_of (last_active_date example_profile) \<noteq> Some (day_of 1728003600) \<and>
   streak_days (fst (run_schedule [0, 0, 1, 1]
     (start_threads example_profile [IncrementStreak, CheckDailyStreak 1728003600]))) = Some 5 \<and>
   streak_days (fst (run_schedule [0, 1, 0, 1]
     (start_threads example_profile [IncrementStreak, CheckDailyStreak 1728003600]))) = Some 4"
  using race_lost_update [of example_profile 1728003600]
  by (simp add: example_profile_def day_of_def)

end
