(* ===== verification/TaskDialog.thy ===== *)
theory TaskDialog
  imports TaskViews
begin

text \<open>
  The task form \<open>AddTaskDialog\<close> (\<open>src/src/components/tasks/AddTaskDialog.tsx\<close>), in
  its two modes: without a \<open>task\<close> prop it creates a task and passes it to
  \<open>onAddTask\<close> (the store's \<open>addTask\<close> on the dashboard, tasks and Kanban pages);
  with one, as \<open>TaskCard\<close> opens it, it edits that task and passes the result to
  \<open>onUpdateTask\<close>. The state is the component's \<open>useState\<close> hooks; each handler returns
  the new state and the callbacks it invokes, in order. The date input is the
  \<open>getTime()\<close> of the UTC midnight it denotes, or \<open>None\<close> for the empty input;
  \<open>crypto.randomUUID()\<close> is the \<open>i\<close>-th value of a supply \<open>fresh\<close>.
\<close>

datatype prio_choice = Fixed priority | Auto

datatype role = Viewer | Editor | Admin

text \<open>\<open>Friend\<close> and \<open>Collaborator\<close> of \<open>src/src/types/index.ts\<close>; the optional
  \<open>lastActive\<close> of a friend is never set or read and is left out.\<close>

record friend =
  friend_id :: string
  friend_name :: string
  friend_streak :: int
  friend_avatar :: "string option"

record collaborator =
  collab_id :: string
  collab_name :: string
  collab_streak :: int
  collab_avatar :: "string option"
  collab_role :: role

definition mockFriends :: "friend list" where
  "mockFriends =
     [\<lparr>friend_id = ''1'', friend_name = ''Sarah Wilson'', friend_streak = 45, friend_avatar = Some ''SW''\<rparr>,
      \<lparr>friend_id = ''2'', friend_name = ''Mike Chen'', friend_streak = 12, friend_avatar = Some ''MC''\<rparr>,
      \<lparr>friend_id = ''3'', friend_name = ''Emma Davis'', friend_streak = 8, friend_avatar = Some ''ED''\<rparr>,
      \<lparr>friend_id = ''4'', friend_name = ''James Rod'', friend_streak = 0, friend_avatar = Some ''JR''\<rparr>]"

text \<open>The props: the task to edit with its collaborators (\<open>task.collaborators || []\<close>),
  the controlled \<open>open\<close>, and which callbacks the parent passes.\<close>

record dialog_props =
  edit_task :: "(task \<times> collaborator list) option"
  controlledOpen :: "bool option"
  has_onUpdateTask :: bool
  has_onOpenChange :: bool

record dialog =
  dlg_open :: bool
  dlg_showAuthPrompt :: bool
  dlg_title :: string
  dlg_description :: string
  dlg_deadline :: "int option"
  dlg_priority :: prio_choice
  dlg_isGenerating :: bool
  dlg_newSubtask :: string
  dlg_manualSubtasks :: "string list"
  dlg_generatedSuggestions :: "ai_suggestion list"
  dlg_collaborators :: "collaborator list"
  dlg_selectedFriendId :: string
  dlg_selectedRole :: role

datatype dialog_call =
  OnAddTask task "collaborator list" "ai_suggestion list"
  | OnUpdateTask task "collaborator list"
  | OnOpenChange bool

definition day_ms :: int where
  "day_ms = 86400000"

text \<open>\<open>new Date(d).toISOString().split('T')[0]\<close> read back by \<open>new Date(...)\<close>:
  the UTC midnight of the day.\<close>

definition date_input :: "int \<Rightarrow> int" where
  "date_input t = t div day_ms * day_ms"

definition isEditMode :: "dialog_props \<Rightarrow> bool" where
  "isEditMode p = (edit_task p \<noteq> None)"

definition dialogOpen :: "dialog_props \<Rightarrow> dialog \<Rightarrow> bool" where
  "dialogOpen p s =
     (if isEditMode p then (case controlledOpen p of Some b \<Rightarrow> b | None \<Rightarrow> False) else dlg_open s)"

text \<open>The form as the edit mode loads it from the task (the \<open>useState\<close> initialisers and
  the first branch of the reset effect agree on it).\<close>

definition load_task :: "task \<Rightarrow> collaborator list \<Rightarrow> dialog \<Rightarrow> dialog" where
  "load_task t cs s =
     s\<lparr>dlg_title := title t,
       dlg_description := (case description t of Some d \<Rightarrow> d | None \<Rightarrow> []),
       dlg_deadline := map_option date_input (deadline t),
       dlg_priority := Fixed (case priority t of Some pr \<Rightarrow> pr | None \<Rightarrow> Medium),
       dlg_manualSubtasks := map st_title (subtasks t),
       dlg_collaborators := cs,
       dlg_generatedSuggestions := []\<rparr>"

definition dialog_init :: "dialog_props \<Rightarrow> dialog" where
  "dialog_init p =
     (let s = \<lparr>dlg_open = False, dlg_showAuthPrompt = False, dlg_title = [], dlg_description = [],
               dlg_deadline = None, dlg_priority = Fixed Medium, dlg_isGenerating = False,
               dlg_newSubtask = [], dlg_manualSubtasks = [], dlg_generatedSuggestions = [],
               dlg_collaborators = [], dlg_selectedFriendId = [], dlg_selectedRole = Viewer\<rparr>
      in case edit_task p of None \<Rightarrow> s | Some (t, cs) \<Rightarrow> load_task t cs s)"

text \<open>The reset effect on \<open>[task, dialogOpen, isEditMode]\<close>.\<close>

definition reset_effect :: "dialog_props \<Rightarrow> dialog \<Rightarrow> dialog" where
  "reset_effect p s =
     (case edit_task p of
        Some (t, cs) \<Rightarrow> (if dialogOpen p s then load_task t cs s else s)
      | None \<Rightarrow>
          (if \<not> dialogOpen p s
           then s\<lparr>dlg_title := [], dlg_description := [], dlg_deadline := None,
                  dlg_priority := Fixed Medium, dlg_manualSubtasks := [], dlg_collaborators := [],
                  dlg_generatedSuggestions := []\<rparr>
           else s))"

text \<open>The \<open>Dialog\<close>'s \<open>onOpenChange\<close>: opening without a user shows the sign-in prompt.
  It sets the component's own \<open>open\<close>, also in edit mode, where \<open>open\<close> is not shown.\<close>

definition handleOpenChange :: "bool \<Rightarrow> bool \<Rightarrow> dialog \<Rightarrow> dialog" where
  "handleOpenChange signed_in newOpen s =
     (if newOpen \<and> \<not> signed_in then s\<lparr>dlg_showAuthPrompt := True, dlg_open := False\<rparr>
      else s\<lparr>dlg_open := newOpen\<rparr>)"

definition handleAddManualSubtask :: "dialog \<Rightarrow> dialog" where
  "handleAddManualSubtask s =
     (if trim (dlg_newSubtask s) = [] then s
      else s\<lparr>dlg_manualSubtasks := dlg_manualSubtasks s @ [trim (dlg_newSubtask s)], dlg_newSubtask := []\<rparr>)"

text \<open>\<open>handleGenerateSuggestions\<close>, the await taken as one step. The \<open>catch\<close> with its
  toast is unreachable: \<open>generateTaskSuggestions\<close> returns its fallback on every error.\<close>

definition dlg_handleGenerateSuggestions ::
  "bool \<Rightarrow> string option \<Rightarrow> (string \<Rightarrow> jval option) \<Rightarrow> (nat \<Rightarrow> string) \<Rightarrow> dialog \<Rightarrow> dialog" where
  "dlg_handleGenerateSuggestions apiKey response json_parse uuid s =
     (if trim (dlg_title s) = [] then s
      else s\<lparr>dlg_generatedSuggestions :=
               generateTaskSuggestions apiKey response json_parse uuid (dlg_title s) (Some (dlg_description s)),
             dlg_isGenerating := False\<rparr>)"

definition dlg_handleAddSuggestion :: "ai_suggestion \<Rightarrow> dialog \<Rightarrow> dialog" where
  "dlg_handleAddSuggestion sg s =
     s\<lparr>dlg_manualSubtasks := dlg_manualSubtasks s @ [sg_title sg],
       dlg_generatedSuggestions := filter (\<lambda>x. sg_id x \<noteq> sg_id sg) (dlg_generatedSuggestions s)\<rparr>"

text \<open>The keyword rule of the \<open>'auto'\<close> priority, then the deadline rule: at most two
  days away is high, at most seven raises low to medium.\<close>

definition keyword_priority :: "string \<Rightarrow> priority" where
  "keyword_priority ttl =
     (let lowerTitle = toLowerCase ttl
      in if contains ''urgent'' lowerTitle \<or> contains ''exam'' lowerTitle \<or> contains ''test'' lowerTitle
            \<or> contains ''deadline'' lowerTitle then High
         else if contains ''presentation'' lowerTitle \<or> contains ''project'' lowerTitle
            \<or> contains ''meeting'' lowerTitle then Medium
         else Low)"

definition final_priority :: "int \<Rightarrow> prio_choice \<Rightarrow> string \<Rightarrow> int option \<Rightarrow> priority" where
  "final_priority now choice ttl dl =
     (case choice of
        Fixed pr \<Rightarrow> pr
      | Auto \<Rightarrow>
          (let base = keyword_priority ttl
           in case dl of
                None \<Rightarrow> base
              | Some d \<Rightarrow>
                  (if d - now \<le> 2 * day_ms then High
                   else if d - now \<le> 7 * day_ms \<and> base \<noteq> High then Medium
                   else base)))"

definition new_subtask :: "(nat \<Rightarrow> string) \<Rightarrow> nat \<Rightarrow> string \<Rightarrow> subtask" where
  "new_subtask fresh i st =
     \<lparr>st_id = fresh i, st_title = st, completed = False, isAiSuggested = None, st_estimatedTime = None\<rparr>"

text \<open>Edit mode keeps the first existing subtask of each title, with its id and state.\<close>

definition edited_subtasks :: "(nat \<Rightarrow> string) \<Rightarrow> subtask list \<Rightarrow> string list \<Rightarrow> subtask list" where
  "edited_subtasks fresh old manual =
     map (\<lambda>(i, st). case find (\<lambda>x. st_title x = st) old of Some e \<Rightarrow> e | None \<Rightarrow> new_subtask fresh i st)
       (enumerate 0 manual)"

definition added_subtasks :: "(nat \<Rightarrow> string) \<Rightarrow> string list \<Rightarrow> subtask list" where
  "added_subtasks fresh manual = map (\<lambda>(i, st). new_subtask fresh i st) (enumerate 0 manual)"

definition clear_form :: "dialog \<Rightarrow> dialog" where
  "clear_form s =
     s\<lparr>dlg_title := [], dlg_description := [], dlg_deadline := None, dlg_manualSubtasks := [],
       dlg_newSubtask := [], dlg_priority := Fixed Medium, dlg_generatedSuggestions := [],
       dlg_collaborators := [], dlg_selectedFriendId := []\<rparr>"

text \<open>The task of the add branch, an \<open>Omit<Task, 'id' | 'createdAt'>\<close>: the two
  missing fields, which \<open>addTask\<close> sets, are the empty string and 0 here.\<close>

definition draft_task :: "(nat \<Rightarrow> string) \<Rightarrow> priority \<Rightarrow> dialog \<Rightarrow> task" where
  "draft_task fresh pr s =
     \<lparr>task_id = [], title = dlg_title s, description = Some (dlg_description s),
      status = Todo, priority = Some pr, deadline = dlg_deadline s,
      estimatedTime = Some (int (length (dlg_manualSubtasks s)) * 30),
      subtasks = added_subtasks fresh (dlg_manualSubtasks s),
      createdAt = 0, lastEditedAt = None\<rparr>"

text \<open>\<open>handleSubmit\<close>. The edit branch needs both the task and \<open>onUpdateTask\<close>; without
  the callback an edit-mode dialog takes the add branch. \<open>setDialogOpen(false)\<close> is
  \<open>onOpenChange\<close> in edit mode (nothing when the parent passes none) and the own
  \<open>open\<close> otherwise; only the add mode clears the form.\<close>

definition handleSubmit ::
  "dialog_props \<Rightarrow> int \<Rightarrow> (nat \<Rightarrow> string) \<Rightarrow> dialog \<Rightarrow> dialog \<times> dialog_call list" where
  "handleSubmit p now fresh s =
     (if trim (dlg_title s) = [] then (s, [])
      else
        (let totalEstimatedTime = int (length (dlg_manualSubtasks s)) * 30;
             finalPriority = final_priority now (dlg_priority s) (dlg_title s) (dlg_deadline s);
             addCall = OnAddTask (draft_task fresh finalPriority s) (dlg_collaborators s)
                         (dlg_generatedSuggestions s);
             call = (case edit_task p of
                       Some (t, cs) \<Rightarrow>
                         (if has_onUpdateTask p then
                            OnUpdateTask
                              (t\<lparr>title := dlg_title s, description := Some (dlg_description s),
                                  priority := Some finalPriority, deadline := dlg_deadline s,
                                  estimatedTime := Some totalEstimatedTime,
                                  subtasks := edited_subtasks fresh (subtasks t) (dlg_manualSubtasks s),
                                  lastEditedAt := Some now\<rparr>)
                              (dlg_collaborators s)
                          else addCall)
                     | None \<Rightarrow> addCall);
             s1 = s\<lparr>dlg_isGenerating := False\<rparr>
         in if isEditMode p then (s1, call # (if has_onOpenChange p then [OnOpenChange False] else []))
            else (clear_form (s1\<lparr>dlg_open := False\<rparr>), [call])))"

definition handleAddCollaborator :: "dialog \<Rightarrow> dialog" where
  "handleAddCollaborator s =
     (if dlg_selectedFriendId s = [] then s
      else (case find (\<lambda>f. friend_id f = dlg_selectedFriendId s) mockFriends of
              None \<Rightarrow> s
            | Some f \<Rightarrow>
                (if find (\<lambda>c. collab_id c = friend_id f) (dlg_collaborators s) = None
                 then s\<lparr>dlg_collaborators := dlg_collaborators s @
                          [\<lparr>collab_id = friend_id f, collab_name = friend_name f,
                            collab_streak = friend_streak f, collab_avatar = friend_avatar f,
                            collab_role = dlg_selectedRole s\<rparr>],
                        dlg_selectedFriendId := []\<rparr>
                 else s)))"

definition removeCollaborator :: "string \<Rightarrow> dialog \<Rightarrow> dialog" where
  "removeCollaborator cid s = s\<lparr>dlg_collaborators := filter (\<lambda>c. collab_id c \<noteq> cid) (dlg_collaborators s)\<rparr>"

subsection \<open>The dialog as the browser drives it\<close>

text \<open>What the user does: the \<open>Dialog\<close>'s open/close request, the buttons and inputs.
  Every event but the open request needs the dialog shown. The buttons' \<open>disabled\<close>
  conditions are guards: Create/Update needs a title and no generation running
  (line 432), Generate is offered while nothing was generated (lines 254--260), a
  suggestion can only be added while it is listed.\<close>

datatype dialog_event =
  OpenChange bool | CancelClick | SubmitClick
  | SetTitle string | SetDescription string | SetDeadline "int option" | SetPriority prio_choice
  | SetNewSubtask string | AddManualSubtask | GenerateClick | AddSuggestionClick ai_suggestion
  | SelectFriend string | SelectRole role | AddCollaboratorClick | RemoveCollaboratorClick string

record dialog_env =
  de_signed_in :: bool
  de_now :: int
  de_fresh :: "nat \<Rightarrow> string"
  de_apiKey :: bool
  de_response :: "string option"
  de_parse :: "string \<Rightarrow> jval option"
  de_uuid :: "nat \<Rightarrow> string"

definition setDialogOpen :: "dialog_props \<Rightarrow> bool \<Rightarrow> dialog \<Rightarrow> dialog \<times> dialog_call list" where
  "setDialogOpen p b s =
     (if isEditMode p then (s, if has_onOpenChange p then [OnOpenChange b] else [])
      else (s\<lparr>dlg_open := b\<rparr>, []))"

definition dialog_handler ::
  "dialog_env \<Rightarrow> dialog_props \<Rightarrow> dialog_event \<Rightarrow> dialog \<Rightarrow> dialog \<times> dialog_call list" where
  "dialog_handler env p e s =
     (case e of
        OpenChange b \<Rightarrow> (handleOpenChange (de_signed_in env) b s, [])
      | _ \<Rightarrow>
        (if \<not> dialogOpen p s then (s, [])
         else (case e of
           CancelClick \<Rightarrow> setDialogOpen p False s
         | SubmitClick \<Rightarrow>
             (if trim (dlg_title s) = [] \<or> dlg_isGenerating s then (s, [])
              else handleSubmit p (de_now env) (de_fresh env) s)
         | SetTitle x \<Rightarrow> (s\<lparr>dlg_title := x\<rparr>, [])
         | SetDescription x \<Rightarrow> (s\<lparr>dlg_description := x\<rparr>, [])
         | SetDeadline x \<Rightarrow> (s\<lparr>dlg_deadline := x\<rparr>, [])
         | SetPriority x \<Rightarrow> (s\<lparr>dlg_priority := x\<rparr>, [])
         | SetNewSubtask x \<Rightarrow> (s\<lparr>dlg_newSubtask := x\<rparr>, [])
         | AddManualSubtask \<Rightarrow> (handleAddManualSubtask s, [])
         | GenerateClick \<Rightarrow>
             (if dlg_generatedSuggestions s \<noteq> [] \<or> dlg_isGenerating s \<or> trim (dlg_title s) = [] then (s, [])
              else (dlg_handleGenerateSuggestions (de_apiKey env) (de_response env) (de_parse env)
                      (de_uuid env) s, []))
         | AddSuggestionClick sg \<Rightarrow>
             (if sg \<in> set (dlg_generatedSuggestions s) then (dlg_handleAddSuggestion sg s, []) else (s, []))
         | SelectFriend x \<Rightarrow> (s\<lparr>dlg_selectedFriendId := x\<rparr>, [])
         | SelectRole x \<Rightarrow> (s\<lparr>dlg_selectedRole := x\<rparr>, [])
         | AddCollaboratorClick \<Rightarrow> (handleAddCollaborator s, [])
         | RemoveCollaboratorClick cid \<Rightarrow> (removeCollaborator cid s, [])
         | OpenChange b \<Rightarrow> (s, []))))"

text \<open>One event, then the reset effect when \<open>dialogOpen\<close> changed under the same props.\<close>

definition dialog_step ::
  "dialog_env \<Rightarrow> dialog_props \<Rightarrow> dialog_event \<Rightarrow> dialog \<Rightarrow> dialog \<times> dialog_call list" where
  "dialog_step env p e s =
     (let (s1, calls) = dialog_handler env p e s
      in (if dialogOpen p s1 \<noteq> dialogOpen p s then reset_effect p s1 else s1, calls))"

fun run_dialog ::
  "dialog_env \<Rightarrow> dialog_props \<Rightarrow> dialog_event list \<Rightarrow> dialog \<Rightarrow> dialog \<times> dialog_call list" where
  "run_dialog env p [] s = (s, [])"
| "run_dialog env p (e # es) s =
     (let (s1, c1) = dialog_step env p e s; (s2, c2) = run_dialog env p es s1 in (s2, c1 @ c2))"

text \<open>What the store may assume of a task the form creates: a title that is not blank,
  status todo, a priority that is one of the three levels, thirty minutes per subtask,
  fresh subtasks none of them done, with distinct ids, and no edit stamp yet.\<close>

definition task_draft_ok :: "task \<Rightarrow> bool" where
  "task_draft_ok t \<longleftrightarrow>
     trim (title t) \<noteq> [] \<and> status t = Todo \<and> priority t \<noteq> None
     \<and> estimatedTime t = Some (int (length (subtasks t)) * 30)
     \<and> list_all (\<lambda>x. \<not> completed x) (subtasks t) \<and> distinct (map st_id (subtasks t))
     \<and> lastEditedAt t = None"

subsection \<open>A concrete dialog for the witnesses\<close>

definition example_dialog_env :: dialog_env where
  "example_dialog_env =
     \<lparr>de_signed_in = True, de_now = 0, de_fresh = (\<lambda>i. replicate (Suc i) CHR ''u''),
      de_apiKey = False, de_response = None, de_parse = (\<lambda>x. None),
      de_uuid = (\<lambda>i. replicate (Suc i) CHR ''g'')\<rparr>"

definition add_props :: dialog_props where
  "add_props = \<lparr>edit_task = None, controlledOpen = None, has_onUpdateTask = False, has_onOpenChange = False\<rparr>"

definition example_edit_task :: task where
  "example_edit_task =
     \<lparr>task_id = ''t1'', title = ''Lab report'', description = None, status = InProgress,
      priority = Some Medium, deadline = None, estimatedTime = Some 60,
      subtasks = [\<lparr>st_id = ''a'', st_title = ''Review'', completed = True, isAiSuggested = Some True,
                   st_estimatedTime = Some 30\<rparr>,
                  \<lparr>st_id = ''b'', st_title = ''Review'', completed = False, isAiSuggested = Some True,
                   st_estimatedTime = Some 30\<rparr>],
      createdAt = 0, lastEditedAt = None\<rparr>"

subsection \<open>The submitted task\<close>

lemma added_subtasks_ids:
  "map st_id (added_subtasks fresh m) = map fresh [0..<length m]"
proof -
  have "map st_id (added_subtasks fresh m) = map (\<lambda>x. fresh (fst x)) (zip [0..<length m] m)"
    by (simp add: added_subtasks_def new_subtask_def enumerate_eq_zip comp_def case_prod_beta)
  also have "\<dots> = map fresh (map fst (zip [0..<length m] m))"
    by (simp only: map_map comp_def)
  also have "\<dots> = map fresh [0..<length m]"
    by simp
  finally show ?thesis .
qed

lemma added_subtasks_fresh:
  "length (added_subtasks fresh m) = length m"
  "list_all (\<lambda>x. \<not> completed x) (added_subtasks fresh m)"
  by (auto simp: added_subtasks_def new_subtask_def enumerate_eq_zip list_all_iff)

lemma draft_task_ok:
  assumes "trim (dlg_title s) \<noteq> []" and "distinct (map fresh [0..<length (dlg_manualSubtasks s)])"
  shows "task_draft_ok (draft_task fresh pr s)"
  using assms by (simp add: task_draft_ok_def draft_task_def added_subtasks_ids added_subtasks_fresh)

lemma handleSubmit_add_call:
  "OnAddTask t cs sg \<in> set (snd (handleSubmit p now fresh s)) \<Longrightarrow>
   trim (dlg_title s) \<noteq> [] \<and>
   t = draft_task fresh (final_priority now (dlg_priority s) (dlg_title s) (dlg_deadline s)) s"
  by (auto simp: handleSubmit_def Let_def split: option.splits if_splits)

lemma dialog_handler_add_call:
  "OnAddTask t cs sg \<in> set (snd (dialog_handler env p e s)) \<Longrightarrow>
   OnAddTask t cs sg \<in> set (snd (handleSubmit p (de_now env) (de_fresh env) s))"
  by (cases e) (auto simp: dialog_handler_def setDialogOpen_def split: if_splits)

lemma dialog_step_calls: "snd (dialog_step env p e s) = snd (dialog_handler env p e s)"
  by (simp add: dialog_step_def case_prod_beta)

lemma run_dialog_add_call:
  "OnAddTask t cs sg \<in> set (snd (run_dialog env p es s)) \<Longrightarrow>
   \<exists>s'. OnAddTask t cs sg \<in> set (snd (handleSubmit p (de_now env) (de_fresh env) s'))"
proof (induction es arbitrary: s)
  case (Cons e es)
  then show ?case
    using dialog_handler_add_call [of t cs sg env p e s] dialog_step_calls [of env p e s]
    by (auto simp: case_prod_beta)
qed simp

text \<open>C8: Every task the form hands to \<open>onAddTask\<close>, whatever the user did before, is
  well-formed: a non-blank title, status todo, one of the three priorities (also for
  \<open>'auto'\<close>), thirty minutes per subtask, and fresh subtasks with distinct ids, none
  of them done.\<close>

theorem dialog_run_wf:
  assumes "inj (de_fresh env)"
    and "OnAddTask t cs sg \<in> set (snd (run_dialog env p es s))"
  shows "task_draft_ok t"
proof -
  obtain s' where "OnAddTask t cs sg \<in> set (snd (handleSubmit p (de_now env) (de_fresh env) s'))"
    using run_dialog_add_call [OF assms(2)] by blast
  from handleSubmit_add_call [OF this]
  have title: "trim (dlg_title s') \<noteq> []"
    and t: "t = draft_task (de_fresh env) (final_priority (de_now env) (dlg_priority s') (dlg_title s') (dlg_deadline s')) s'"
    by simp_all
  have "distinct (map (de_fresh env) [0..<length (dlg_manualSubtasks s')])"
    by (simp add: distinct_map inj_on_subset [OF assms(1) subset_UNIV])
  with title show ?thesis unfolding t by (rule draft_task_ok)
qed

theorem dialog_run_wf_witness:
  "inj (de_fresh example_dialog_env) \<and>
   OnAddTask
     \<lparr>task_id = [], title = ''exam prep'', description = Some [], status = Todo, priority = Some High,
      deadline = None, estimatedTime = Some 60,
      subtasks = [\<lparr>st_id = ''u'', st_title = ''read'', completed = False, isAiSuggested = None, st_estimatedTime = None\<rparr>,
                  \<lparr>st_id = ''uu'', st_title = ''quiz'', completed = False, isAiSuggested = None, st_estimatedTime = None\<rparr>],
      createdAt = 0, lastEditedAt = None\<rparr> [] []
   \<in> set (snd (run_dialog example_dialog_env add_props
          [OpenChange True, SetTitle ''exam prep'', SetNewSubtask '' read '', AddManualSubtask,
           SetNewSubtask ''quiz'', AddManualSubtask, SetPriority Auto, SubmitClick]
          (dialog_init add_props))) \<and>
   task_draft_ok
     \<lparr>task_id = [], title = ''exam prep'', description = Some [], status = Todo, priority = Some High,
      deadline = None, estimatedTime = Some 60,
      subtasks = [\<lparr>st_id = ''u'', st_title = ''read'', completed = False, isAiSuggested = None, st_estimatedTime = None\<rparr>,
                  \<lparr>st_id = ''uu'', st_title = ''quiz'', completed = False, isAiSuggested = None, st_estimatedTime = None\<rparr>],
      createdAt = 0, lastEditedAt = None\<rparr>"
proof -
  have inj: "inj (de_fresh example_dialog_env)"
    by (simp add: example_dialog_env_def inj_def)
  have run: "OnAddTask
     \<lparr>task_id = [], title = ''exam prep'', description = Some [], status = Todo, priority = Some High,
      deadline = None, estimatedTime = Some 60,
      subtasks = [\<lparr>st_id = ''u'', st_title = ''read'', completed = False, isAiSuggested = None, st_estimatedTime = None\<rparr>,
                  \<lparr>st_id = ''uu'', st_title = ''quiz'', completed = False, isAiSuggested = None, st_estimatedTime = None\<rparr>],
      createdAt = 0, lastEditedAt = None\<rparr> [] []
   \<in> set (snd (run_dialog example_dialog_env add_props
          [OpenChange True, SetTitle ''exam prep'', SetNewSubtask '' read '', AddManualSubtask,
           SetNewSubtask ''quiz'', AddManualSubtask, SetPriority Auto, SubmitClick]
          (dialog_init add_props)))"
    by (simp add: example_dialog_env_def add_props_def dialog_init_def dialog_step_def dialog_handler_def
                  handleOpenChange_def dialogOpen_def isEditMode_def reset_effect_def
                  handleAddManualSubtask_def trim_def js_space_def handleSubmit_def final_priority_def
                  keyword_priority_def toLowerCase_def lower_char_def draft_task_def added_subtasks_def
                  new_subtask_def clear_form_def)
  show ?thesis using dialog_run_wf [OF inj run] inj run by blast
qed

subsection \<open>The edit mode\<close>

lemma handleSubmit_edit:
  assumes "edit_task p = Some (t, cs)" and "has_onUpdateTask p" and "trim (dlg_title s) \<noteq> []"
  shows "handleSubmit p now fresh s =
           (s\<lparr>dlg_isGenerating := False\<rparr>,
            OnUpdateTask
              (t\<lparr>title := dlg_title s, description := Some (dlg_description s),
                  priority := Some (final_priority now (dlg_priority s) (dlg_title s) (dlg_deadline s)),
                  deadline := dlg_deadline s,
                  estimatedTime := Some (int (length (dlg_manualSubtasks s)) * 30),
                  subtasks := edited_subtasks fresh (subtasks t) (dlg_manualSubtasks s),
                  lastEditedAt := Some now\<rparr>)
              (dlg_collaborators s)
            # (if has_onOpenChange p then [OnOpenChange False] else []))"
  using assms by (simp add: handleSubmit_def isEditMode_def Let_def)

lemma edited_subtasks_same_title:
  assumes "subtasks t = [e1, e2]" and "st_title e2 = st_title e1"
  shows "edited_subtasks fresh (subtasks t) (map st_title (subtasks t)) = [e1, e1]"
  using assms by (simp add: edited_subtasks_def)

text \<open>Saving a task whose two subtasks share a title, without touching the form,
  replaces the second subtask by the first: both get the first one's id and state,
  the second one's progress is lost, and a later toggle of either flips both.\<close>

lemma dialog_edit_merges_same_title:
  assumes "edit_task p = Some (t, cs)" and "has_onUpdateTask p" and "trim (title t) \<noteq> []"
    and "subtasks t = [e1, e2]" and "st_title e2 = st_title e1"
  shows "\<exists>u rest. snd (handleSubmit p now fresh (load_task t cs s)) = OnUpdateTask u cs # rest
           \<and> task_id u = task_id t \<and> subtasks u = [e1, e1]
           \<and> map completed (toggle_subtasks (st_id e1) (subtasks u)) = [\<not> completed e1, \<not> completed e1]"
  using assms handleSubmit_edit [of p t cs "load_task t cs s" now fresh]
    edited_subtasks_same_title [OF assms(4,5), of fresh]
  by (simp add: load_task_def toggle_subtasks_def)

text \<open>Escape, the close button and a click outside ask the \<open>Dialog\<close> to close through
  \<open>handleOpenChange\<close>, which sets the component's own \<open>open\<close>: in edit mode what is
  shown is the parent's \<open>open\<close>, so the dialog stays open and the parent is not told.
  Only Cancel and a successful submit close it.\<close>

lemma dialog_edit_close_ignored:
  assumes "isEditMode p"
  shows "dialogOpen p (fst (dialog_step env p (OpenChange False) s)) = dialogOpen p s
         \<and> snd (dialog_step env p (OpenChange False) s) = []"
  using assms by (simp add: dialog_step_def dialog_handler_def handleOpenChange_def dialogOpen_def)

lemma dialog_edit_cancel_closes:
  assumes "isEditMode p" and "has_onOpenChange p" and "dialogOpen p s"
  shows "snd (dialog_step env p CancelClick s) = [OnOpenChange False]"
  using assms by (simp add: dialog_step_def dialog_handler_def setDialogOpen_def)

lemma final_priority_deadline_near:
  "d - now \<le> 2 * day_ms \<Longrightarrow> final_priority now Auto ttl (Some d) = High"
  "2 * day_ms < d - now \<Longrightarrow> d - now \<le> 7 * day_ms \<Longrightarrow> final_priority now Auto ttl (Some d) \<noteq> Low"
  by (auto simp: final_priority_def Let_def)

end
