(* ===== verification/SettingsPage.thy ===== *)
theory SettingsPage
  imports TimerView
begin

text \<open>
  The settings page (\<open>src/src/pages/SettingsPage.tsx\<close>): local copies of the timer and
  profile settings that the inputs edit, the two effects that copy the store's values
  into them whenever the store sets new ones, the save button, the avatar presets, the
  avatar upload with its checks and the removal of a custom avatar. The store is the
  \<open>Settings\<close> model: every call of \<open>updateTimerSettings\<close> or \<open>updateProfileSettings\<close>
  sets a new object, so the effect on it fires after each call. The outcome of every
  remote call is a parameter; the update functions catch their own errors, so the
  \<open>catch\<close> blocks of \<open>handleSave\<close> and \<open>handleAvatarSelect\<close> are unreachable.
\<close>

record avatar_preset =
  preset_id :: string
  preset_name :: string
  preset_path :: string

definition AVATAR_PRESETS :: "avatar_preset list" where
  "AVATAR_PRESETS =
     [\<lparr>preset_id = ''pastel-bear'', preset_name = ''Bear'', preset_path = ''/pastel-bear.png''\<rparr>,
      \<lparr>preset_id = ''pastel-rabbit'', preset_name = ''Rabbit'', preset_path = ''/pastel-rabbit.png''\<rparr>,
      \<lparr>preset_id = ''pastel-panda'', preset_name = ''Panda'', preset_path = ''/pastel-panda.png''\<rparr>,
      \<lparr>preset_id = ''pastel-chick'', preset_name = ''Chick'', preset_path = ''/pastel-chick.png''\<rparr>,
      \<lparr>preset_id = ''pastel-cat'', preset_name = ''Cat'', preset_path = ''/pastel-cat.png''\<rparr>,
      \<lparr>preset_id = ''pastel-dog'', preset_name = ''Dog'', preset_path = ''/pastel-dog.png''\<rparr>,
      \<lparr>preset_id = ''pastel-koala'', preset_name = ''Koala'', preset_path = ''/pastel-koala.png''\<rparr>,
      \<lparr>preset_id = ''pastel-hamster'', preset_name = ''Hamster'', preset_path = ''/pastel-hamster.png''\<rparr>]"

record settings_page =
  saving :: bool
  localTimerSettings :: timer_settings
  localProfile :: profile_settings
  uploadingAvatar :: bool

datatype page_toast =
  StoreNotice notice | SettingsSaved | InvalidFile | FileTooLarge | AvatarUpdated | UploadFailed

text \<open>A selected file: its MIME type, size in bytes and name.\<close>

record upload_file =
  file_type :: string
  file_size :: int
  file_name :: string

definition settings_page_init :: "settings_ctx \<Rightarrow> settings_page" where
  "settings_page_init c =
     \<lparr>saving = False, localTimerSettings = timerSettings c, localProfile = profileSettings c,
      uploadingAvatar = False\<rparr>"

text \<open>The effects on \<open>[timerSettings]\<close> and \<open>[profileSettings]\<close>.\<close>

definition sync_timer :: "settings_ctx \<Rightarrow> settings_page \<Rightarrow> settings_page" where
  "sync_timer c pg = pg\<lparr>localTimerSettings := timerSettings c\<rparr>"

definition sync_profile :: "settings_ctx \<Rightarrow> settings_page \<Rightarrow> settings_page" where
  "sync_profile c pg = pg\<lparr>localProfile := profileSettings c\<rparr>"

definition notices :: "notice option list \<Rightarrow> page_toast list" where
  "notices ns = map StoreNotice (List.map_filter id ns)"

text \<open>A profile patch setting the avatar columns only.\<close>

definition avatar_patch :: "string \<Rightarrow> avatar_type \<Rightarrow> profile_patch" where
  "avatar_patch url ty =
     \<lparr>pp_full_name = None, pp_avatar_url = Some (Some url), pp_avatar_type = Some (Some ty),
      pp_total_study_minutes = None, pp_streak_days = None\<rparr>"

text \<open>\<open>handleSave\<close>: both updates through \<open>Promise.all\<close>; they change disjoint parts of
  the store, so running them one after the other is running them together.\<close>

definition sp_handleSave ::
  "bool \<Rightarrow> bool \<Rightarrow> settings_page \<Rightarrow> settings_ctx \<Rightarrow> settings_page \<times> settings_ctx \<times> page_toast list" where
  "sp_handleSave timer_ok profile_ok pg c =
     (if \<not> signed_in c then (pg, c, [])
      else
        (let (c1, n1) = updateTimerSettings timer_ok (patch_of (localTimerSettings pg)) c;
             (c2, n2) = updateProfileSettings profile_ok
                          \<lparr>pp_full_name = Some (full_name (localProfile pg)),
                           pp_avatar_url = Some (avatar_url (localProfile pg)),
                           pp_avatar_type = Some (avatar_type (localProfile pg)),
                           pp_total_study_minutes = None, pp_streak_days = None\<rparr> c1
         in (sync_profile c2 (sync_timer c2 (pg\<lparr>saving := False\<rparr>)), c2, notices [n1, n2] @ [SettingsSaved])))"

text \<open>\<open>handleAvatarSelect\<close>: the optimistic local change, then the update, after whose
  \<open>setProfileSettings\<close> the profile effect copies the store's profile over the local one.\<close>

definition handleAvatarSelect ::
  "bool \<Rightarrow> string \<Rightarrow> settings_page \<Rightarrow> settings_ctx \<Rightarrow> settings_page \<times> settings_ctx \<times> page_toast list" where
  "handleAvatarSelect ok avatarId pg c =
     (case find (\<lambda>p. preset_id p = avatarId) AVATAR_PRESETS of
        None \<Rightarrow> (pg, c, [])
      | Some a \<Rightarrow>
          (let pg1 = pg\<lparr>localProfile := (localProfile pg)\<lparr>avatar_url := Some (preset_path a),
                                                            avatar_type := Some Panda\<rparr>\<rparr>;
               (c1, n) = updateProfileSettings ok (avatar_patch (preset_path a) Panda) c
           in (sync_profile c1 pg1, c1, notices [n])))"

text \<open>\<open>file.name.split('.').pop()\<close>: the text after the last dot, or the whole name.\<close>

definition file_ext :: "string \<Rightarrow> string" where
  "file_ext name = rev (takeWhile (\<lambda>c. c \<noteq> CHR ''.'') (rev name))"

definition avatar_path :: "string \<Rightarrow> int \<Rightarrow> string \<Rightarrow> string" where
  "avatar_path uid now name = ''avatars/'' @ uid @ ''-'' @ int_to_string now @ ''.'' @ file_ext name"

text \<open>\<open>handleAvatarUpload\<close>: \<open>uid\<close> the user's id, \<open>now\<close> is \<open>Date.now()\<close>, \<open>upload_ok\<close> the
  storage upload's outcome and \<open>publicUrl\<close> the storage's URL of a path. The input's
  value is cleared in any case.\<close>

definition handleAvatarUpload ::
  "string \<Rightarrow> int \<Rightarrow> bool \<Rightarrow> (string \<Rightarrow> string) \<Rightarrow> bool \<Rightarrow> upload_file option \<Rightarrow> settings_page
   \<Rightarrow> settings_ctx \<Rightarrow> settings_page \<times> settings_ctx \<times> page_toast list" where
  "handleAvatarUpload uid now upload_ok publicUrl profile_ok file pg c =
     (case file of
        None \<Rightarrow> (pg, c, [])
      | Some f \<Rightarrow>
          (if \<not> signed_in c then (pg, c, [])
           else if \<not> starts_with ''image/'' (file_type f) then (pg, c, [InvalidFile])
           else if 2 * 1024 * 1024 < file_size f then (pg, c, [FileTooLarge])
           else if \<not> upload_ok then (pg\<lparr>uploadingAvatar := False\<rparr>, c, [UploadFailed])
           else
             (let url = publicUrl (avatar_path uid now (file_name f));
                  (c1, n) = updateProfileSettings profile_ok (avatar_patch url Custom) c;
                  pg1 = sync_profile c1 pg
              in (pg1\<lparr>localProfile := (localProfile pg1)\<lparr>avatar_url := Some url, avatar_type := Some Custom\<rparr>,
                      uploadingAvatar := False\<rparr>,
                  c1, notices [n] @ [AvatarUpdated]))))"

text \<open>The button removing a custom avatar (lines 243--261): back to the first preset.\<close>

definition removeCustomAvatar ::
  "bool \<Rightarrow> settings_page \<Rightarrow> settings_ctx \<Rightarrow> settings_page \<times> settings_ctx \<times> page_toast list" where
  "removeCustomAvatar ok pg c =
     (let path = preset_path (hd AVATAR_PRESETS);
          (c1, n) = updateProfileSettings ok (avatar_patch path Panda) c;
          pg1 = sync_profile c1 pg
      in (pg1\<lparr>localProfile := (localProfile pg1)\<lparr>avatar_url := Some path, avatar_type := Some Panda\<rparr>\<rparr>,
          c1, notices [n]))"

text \<open>The removal button is shown for a custom avatar with a non-empty URL.\<close>

definition show_remove :: "settings_page \<Rightarrow> bool" where
  "show_remove pg =
     (avatar_type (localProfile pg) = Some Custom \<and> str_or_null (avatar_url (localProfile pg)) \<noteq> None)"

subsection \<open>The page as the user drives it\<close>

text \<open>The inputs (lines 298--418): the name, the four durations through
  \<open>parseInt(value) || default\<close>, the two switches; and the buttons. While the store
  loads, the page shows a spinner and takes no input.\<close>

datatype sp_event =
  SetFullName string | SetFocus "int option" | SetShortBreak "int option" | SetLongBreak "int option"
  | SetSessions "int option" | SetAutoBreaks bool | SetAutoPomodoros bool
  | SaveClick | SelectAvatar string | UploadAvatar "upload_file option" | RemoveAvatarClick

record sp_env =
  sp_timer_ok :: bool
  sp_profile_ok :: bool
  sp_upload_ok :: bool
  sp_uid :: string
  sp_now :: int
  sp_publicUrl :: "string \<Rightarrow> string"

definition set_local_timer :: "(timer_settings \<Rightarrow> timer_settings) \<Rightarrow> settings_page \<Rightarrow> settings_page" where
  "set_local_timer f pg = pg\<lparr>localTimerSettings := f (localTimerSettings pg)\<rparr>"

definition sp_step ::
  "sp_env \<Rightarrow> sp_event \<Rightarrow> settings_page \<times> settings_ctx \<Rightarrow> settings_page \<times> settings_ctx \<times> page_toast list" where
  "sp_step env e st =
     (let (pg, c) = st
      in if settings_loading c then (pg, c, [])
         else (case e of
           SetFullName x \<Rightarrow> (pg\<lparr>localProfile := (localProfile pg)\<lparr>full_name := Some x\<rparr>\<rparr>, c, [])
         | SetFocus v \<Rightarrow> (set_local_timer (\<lambda>t. t\<lparr>focus_duration := parse_duration_input v 25\<rparr>) pg, c, [])
         | SetShortBreak v \<Rightarrow> (set_local_timer (\<lambda>t. t\<lparr>short_break := parse_duration_input v 5\<rparr>) pg, c, [])
         | SetLongBreak v \<Rightarrow> (set_local_timer (\<lambda>t. t\<lparr>long_break := parse_duration_input v 15\<rparr>) pg, c, [])
         | SetSessions v \<Rightarrow>
             (set_local_timer (\<lambda>t. t\<lparr>sessions_before_long_break := parse_duration_input v 4\<rparr>) pg, c, [])
         | SetAutoBreaks b \<Rightarrow> (set_local_timer (\<lambda>t. t\<lparr>auto_start_breaks := b\<rparr>) pg, c, [])
         | SetAutoPomodoros b \<Rightarrow> (set_local_timer (\<lambda>t. t\<lparr>auto_start_pomodoros := b\<rparr>) pg, c, [])
         | SaveClick \<Rightarrow> (if saving pg then (pg, c, []) else sp_handleSave (sp_timer_ok env) (sp_profile_ok env) pg c)
         | SelectAvatar i \<Rightarrow> handleAvatarSelect (sp_profile_ok env) i pg c
         | UploadAvatar f \<Rightarrow>
             (if uploadingAvatar pg then (pg, c, [])
              else handleAvatarUpload (sp_uid env) (sp_now env) (sp_upload_ok env) (sp_publicUrl env)
                     (sp_profile_ok env) f pg c)
         | RemoveAvatarClick \<Rightarrow> (if show_remove pg then removeCustomAvatar (sp_profile_ok env) pg c else (pg, c, []))))"

fun sp_run ::
  "sp_env \<Rightarrow> sp_event list \<Rightarrow> settings_page \<times> settings_ctx \<Rightarrow> settings_page \<times> settings_ctx \<times> page_toast list" where
  "sp_run env [] st = (fst st, snd st, [])"
| "sp_run env (e # es) st =
     (let (pg1, c1, t1) = sp_step env e st; (pg2, c2, t2) = sp_run env es (pg1, c1) in (pg2, c2, t1 @ t2))"

definition example_sp_env :: sp_env where
  "example_sp_env =
     \<lparr>sp_timer_ok = False, sp_profile_ok = False, sp_upload_ok = True, sp_uid = ''u1'', sp_now = 1700000000000,
      sp_publicUrl = (\<lambda>p. ''https://cdn/'' @ p)\<rparr>"

subsection \<open>The store calls the page makes\<close>

lemma updateTimerSettings_keeps [simp]:
  "signed_in (fst (updateTimerSettings ok p c)) = signed_in c"
  "settings_loading (fst (updateTimerSettings ok p c)) = settings_loading c"
  "profileSettings (fst (updateTimerSettings ok p c)) = profileSettings c"
  "snd (updateTimerSettings ok p c) = (if signed_in c \<and> \<not> ok then Some SyncFailed else None)"
  by (simp_all add: updateTimerSettings_def Let_def)

lemma updateProfileSettings_keeps [simp]:
  "signed_in (fst (updateProfileSettings ok p c)) = signed_in c"
  "settings_loading (fst (updateProfileSettings ok p c)) = settings_loading c"
  "timerSettings (fst (updateProfileSettings ok p c)) = timerSettings c"
  "snd (updateProfileSettings ok p c) = (if signed_in c \<and> \<not> ok then Some SyncFailed else None)"
  by (simp_all add: updateProfileSettings_def Let_def)

lemma notices_simps [simp]:
  "notices [] = []" "notices (None # ns) = notices ns" "notices (Some n # ns) = StoreNotice n # notices ns"
  by (simp_all add: notices_def)

lemma merge_profile_avatar [simp]:
  "full_name (merge_profile s (avatar_patch url ty)) = full_name s"
  "avatar_url (merge_profile s (avatar_patch url ty)) = Some url"
  "avatar_type (merge_profile s (avatar_patch url ty)) = Some ty"
  by (simp_all add: merge_profile_def avatar_patch_def)

lemma handleAvatarSelect_preset:
  assumes "find (\<lambda>p. preset_id p = i) AVATAR_PRESETS = Some a"
  shows "handleAvatarSelect ok i pg c =
           (sync_profile (fst (updateProfileSettings ok (avatar_patch (preset_path a) Panda) c)) pg,
            fst (updateProfileSettings ok (avatar_patch (preset_path a) Panda) c),
            notices [snd (updateProfileSettings ok (avatar_patch (preset_path a) Panda) c)])"
  using assms by (simp add: handleAvatarSelect_def sync_profile_def case_prod_beta)

lemma sp_run_Cons:
  "sp_run env (e # es) st =
     (fst (sp_run env es (fst (sp_step env e st), fst (snd (sp_step env e st)))),
      fst (snd (sp_run env es (fst (sp_step env e st), fst (snd (sp_step env e st))))),
      snd (snd (sp_step env e st)) @ snd (snd (sp_run env es (fst (sp_step env e st), fst (snd (sp_step env e st))))))"
  by (simp add: case_prod_beta)

lemma sp_handleSave_store:
  assumes "signed_in c"
  shows "timerSettings (fst (snd (sp_handleSave tok pok pg c))) = localTimerSettings pg"
    "full_name (profileSettings (fst (snd (sp_handleSave tok pok pg c)))) = full_name (localProfile pg)"
    "snd (snd (sp_handleSave tok pok pg c)) =
       (if tok then [] else [StoreNotice SyncFailed]) @ (if pok then [] else [StoreNotice SyncFailed])
       @ [SettingsSaved]"
  using assms by (simp_all add: sp_handleSave_def case_prod_beta merge_profile_def)

text \<open>The upload's checks and failures leave the store as it was; a successful upload
  reports success also when the profile's upsert failed.\<close>

lemma handleAvatarUpload_errors:
  assumes "signed_in c"
  shows "\<not> starts_with ''image/'' (file_type f) \<Longrightarrow>
           handleAvatarUpload uid now uok pu pok (Some f) pg c = (pg, c, [InvalidFile])"
    "starts_with ''image/'' (file_type f) \<Longrightarrow> 2 * 1024 * 1024 < file_size f \<Longrightarrow>
           handleAvatarUpload uid now uok pu pok (Some f) pg c = (pg, c, [FileTooLarge])"
    "starts_with ''image/'' (file_type f) \<Longrightarrow> file_size f \<le> 2 * 1024 * 1024 \<Longrightarrow> \<not> uok \<Longrightarrow>
           handleAvatarUpload uid now uok pu pok (Some f) pg c = (pg\<lparr>uploadingAvatar := False\<rparr>, c, [UploadFailed])"
  using assms by (simp_all add: handleAvatarUpload_def)

lemma handleAvatarUpload_ok:
  assumes "signed_in c" and "starts_with ''image/'' (file_type f)" and "file_size f \<le> 2 * 1024 * 1024"
  shows "snd (snd (handleAvatarUpload uid now True pu pok (Some f) pg c)) =
           (if pok then [] else [StoreNotice SyncFailed]) @ [AvatarUpdated]
         \<and> avatar_type (localProfile (fst (handleAvatarUpload uid now True pu pok (Some f) pg c))) = Some Custom
         \<and> avatar_url (profileSettings (fst (snd (handleAvatarUpload uid now True pu pok (Some f) pg c))))
             = Some (pu (avatar_path uid now (file_name f)))"
  using assms by (simp add: handleAvatarUpload_def case_prod_beta Let_def)

text \<open>C2: Saving always ends with the success toast: the store's update functions catch
  their own errors, so a save whose two upserts fail shows two sync failures and then
  'Settings Saved'. The typed values are applied to the store in every case.\<close>

theorem sp_handleSave_reports_saved:
  assumes "signed_in c"
  shows "snd (snd (sp_handleSave tok pok pg c)) =
           (if tok then [] else [StoreNotice SyncFailed]) @ (if pok then [] else [StoreNotice SyncFailed])
           @ [SettingsSaved]
         \<and> timerSettings (fst (snd (sp_handleSave tok pok pg c))) = localTimerSettings pg
         \<and> full_name (profileSettings (fst (snd (sp_handleSave tok pok pg c)))) = full_name (localProfile pg)"
  using sp_handleSave_store [OF assms] by simp

theorem sp_handleSave_reports_saved_witness:
  "signed_in example_settings_ctx \<and>
   snd (snd (sp_handleSave False False (settings_page_init example_settings_ctx) example_settings_ctx)) =
     [StoreNotice SyncFailed, StoreNotice SyncFailed, SettingsSaved]"
proof -
  have "signed_in example_settings_ctx" by (simp add: example_settings_ctx_def)
  from sp_handleSave_reports_saved [OF this, of False False "settings_page_init example_settings_ctx"] this
  show ?thesis by simp
qed

text \<open>C37: A name typed into the form but not yet saved is silently reverted when an avatar
  preset is chosen: the update of the avatar sets a new profile object in the store, and
  the page's effect copies it over the local one. The next save writes the old name.\<close>

theorem sp_avatar_reverts_name:
  assumes "signed_in c" and "\<not> settings_loading c" and "\<not> saving pg"
    and "i \<in> set (map preset_id AVATAR_PRESETS)"
  shows "full_name (localProfile (fst (sp_run env [SetFullName n, SelectAvatar i] (pg, c))))
           = full_name (profileSettings c)
         \<and> full_name (profileSettings (fst (snd (sp_run env [SetFullName n, SelectAvatar i, SaveClick] (pg, c)))))
           = full_name (profileSettings c)"
proof -
  obtain a where a: "find (\<lambda>p. preset_id p = i) AVATAR_PRESETS = Some a"
    using assms(4) by (cases "find (\<lambda>p. preset_id p = i) AVATAR_PRESETS") (auto simp: find_None_iff)
  let ?pg1 = "pg\<lparr>localProfile := (localProfile pg)\<lparr>full_name := Some n\<rparr>\<rparr>"
  let ?c2 = "fst (updateProfileSettings (sp_profile_ok env) (avatar_patch (preset_path a) Panda) c)"
  let ?pg2 = "sync_profile ?c2 ?pg1"
  have s1: "sp_step env (SetFullName n) (pg, c) = (?pg1, c, [])"
    using assms(2) by (simp add: sp_step_def)
  have s2: "fst (sp_step env (SelectAvatar i) (?pg1, c)) = ?pg2"
           "fst (snd (sp_step env (SelectAvatar i) (?pg1, c))) = ?c2"
    using assms(2) by (simp_all add: sp_step_def handleAvatarSelect_preset [OF a])
  have s3: "fst (snd (sp_step env SaveClick (?pg2, ?c2))) =
              fst (snd (sp_handleSave (sp_timer_ok env) (sp_profile_ok env) ?pg2 ?c2))"
    using assms(2,3) by (simp add: sp_step_def sync_profile_def)
  have "full_name (localProfile ?pg2) = full_name (profileSettings c)"
    by (simp add: sync_profile_def)
  moreover have "full_name (profileSettings (fst (snd (sp_step env SaveClick (?pg2, ?c2))))) =
                   full_name (profileSettings c)"
    using assms(1) s3 sp_handleSave_store(2) [of ?c2 "sp_timer_ok env" "sp_profile_ok env" ?pg2]
    by (simp add: sync_profile_def)
  ultimately show ?thesis
    by (simp only: sp_run_Cons sp_run.simps(1) s1 s2 fst_conv snd_conv)
qed

theorem sp_avatar_reverts_name_witness:
  "signed_in example_settings_ctx \<and> \<not> settings_loading example_settings_ctx
   \<and> \<not> saving (settings_page_init example_settings_ctx)
   \<and> ''pastel-cat'' \<in> set (map preset_id AVATAR_PRESETS)
   \<and> full_name (profileSettings (fst (snd (sp_run example_sp_env [SetFullName ''Ana'', SelectAvatar ''pastel-cat'', SaveClick]
        (settings_page_init example_settings_ctx, example_settings_ctx))))) = None"
proof -
  have h: "signed_in example_settings_ctx" "\<not> settings_loading example_settings_ctx"
    "\<not> saving (settings_page_init example_settings_ctx)" "''pastel-cat'' \<in> set (map preset_id AVATAR_PRESETS)"
    by (simp_all add: example_settings_ctx_def settings_page_init_def AVATAR_PRESETS_def)
  from sp_avatar_reverts_name [OF h, of example_sp_env "''Ana''"] h show ?thesis
    by (simp add: example_settings_ctx_def defaultProfileSettings_def)
qed

end
