(* ===== verification/Pages.thy ===== *)
theory Pages
  imports TaskDialog Ledger Settings
begin

text \<open>
  The pages and the layout around them, as far as they compute something: the header of
  \<open>WebLayout\<close> (\<open>src/src/components/layout/WebLayout.tsx\<close>) with its streak count and
  the tasks due today, the dashboard's greeting and task lists
  (\<open>src/src/pages/Dashboard.tsx\<close>), the study room (\<open>src/src/pages/StudyRoomPage.tsx\<close>)
  with its room codes, the friend search of \<open>src/src/pages/StreaksPage.tsx\<close>, and the
  celebration modal (\<open>src/src/components/ui/StreakCelebrationModal.tsx\<close>) the session
  and auth providers render.
\<close>

subsection \<open>The layout header\<close>

text \<open>\<open>sessions.filter(s => s > 0).length\<close>, shown as "N Day Streak".\<close>

definition header_streak :: "int list \<Rightarrow> nat" where
  "header_streak ss = count_pos ss"

text \<open>The local calendar day of a \<open>getTime()\<close> value, for a time zone \<open>tz\<close>
  milliseconds ahead of UTC (no change of offset within the day).\<close>

definition local_day :: "int \<Rightarrow> int \<Rightarrow> int" where
  "local_day tz t = (t + tz) div day_ms"

text \<open>\<open>tasksDueToday\<close>: the deadline, truncated to its local midnight, lies in
  \<open>[today, tomorrow)\<close>, and the task is not done.\<close>

definition tasksDueToday :: "int \<Rightarrow> int \<Rightarrow> task list \<Rightarrow> task list" where
  "tasksDueToday tz nowMs ts =
     filter (\<lambda>t. case deadline t of
                    None \<Rightarrow> False
                  | Some d \<Rightarrow> local_day tz d = local_day tz nowMs \<and> status t \<noteq> Done) ts"

definition hasNotifications :: "int \<Rightarrow> int \<Rightarrow> task list \<Rightarrow> bool" where
  "hasNotifications tz nowMs ts = (tasksDueToday tz nowMs ts \<noteq> [] \<or> True)"

subsection \<open>The dashboard\<close>

text \<open>\<open>profileSettings.full_name || user?.email?.split('@')[0] || 'User'\<close>.\<close>

definition dashboard_userName :: "string option \<Rightarrow> string option \<Rightarrow> string" where
  "dashboard_userName name email = (case str_or_null name of Some n \<Rightarrow> n | None \<Rightarrow> email_name email)"

definition recentTasks :: "task list \<Rightarrow> task list" where
  "recentTasks ts = filter (\<lambda>t. status t = InProgress) ts"

text \<open>A subtask checkbox of the dashboard's current task (\<open>CurrentTask\<close>, lines 138--147,
  with \<open>onUpdateTask = updateTask\<close> from \<open>Dashboard.tsx\<close>): the task shown is the
  selector's choice, and the toggled task goes to the store.\<close>

definition dashboard_toggle :: "bool \<Rightarrow> int \<Rightarrow> string \<Rightarrow> task_ctx \<Rightarrow> task_ctx" where
  "dashboard_toggle ok nowMs sid c =
     (case getNextFocusTask (tasks c) of
        None \<Rightarrow> c
      | Some t \<Rightarrow>
          (if sid \<in> set (map st_id (subtasks t))
           then foldl (\<lambda>c1 call. fst (tasks_page_call ok nowMs call c1)) c (ct_handleToggleSubtask True sid t)
           else c))"

subsection \<open>The study room\<close>

text \<open>\<open>String.prototype.toUpperCase\<close> on Latin-1: a--z and 224--254 except the division
  sign 247 move up by 32 (bit 5 cleared), and the sharp s (223) becomes \<open>SS\<close>. Two
  letters, the micro sign (181) and y with diaeresis (255), have capitals outside Latin-1;
  the model keeps them.\<close>

definition upper_char :: "char \<Rightarrow> string" where
  "upper_char c =
     (let n = of_char c :: nat
      in if (97 \<le> n \<and> n \<le> 122) \<or> (224 \<le> n \<and> n \<le> 254 \<and> n \<noteq> 247)
         then [case c of Char b0 b1 b2 b3 b4 b5 b6 b7 \<Rightarrow> Char b0 b1 b2 b3 b4 False b6 b7]
         else if n = 223 then ''SS'' else [c])"

definition toUpperCase :: "string \<Rightarrow> string" where
  "toUpperCase s = concat (map upper_char s)"

record room_state =
  roomCode :: string
  newRoomName :: string
  generatedCode :: string
  copied :: bool

datatype room_toast = RoomCreated string | InvalidCode | JoiningRoom string

definition room_init :: room_state where
  "room_init = \<lparr>roomCode = [], newRoomName = [], generatedCode = [], copied = False\<rparr>"

text \<open>\<open>handleCreateRoom\<close>: \<open>r\<close> is what \<open>Math.random().toString(36)\<close> prints after
  \<open>0.\<close>; \<open>substring(2, 8)\<close> keeps at most six of those digits.\<close>

definition handleCreateRoom :: "string \<Rightarrow> room_state \<Rightarrow> room_state \<times> room_toast list" where
  "handleCreateRoom r s = (let code = toUpperCase (take 6 r) in (s\<lparr>generatedCode := code\<rparr>, [RoomCreated code]))"

text \<open>\<open>handleCopyCode\<close>, with the clipboard write's outcome: a rejected write ends the
  handler before \<open>setCopied\<close>. The timeout two seconds later is its own step.\<close>

definition handleCopyCode :: "bool \<Rightarrow> room_state \<Rightarrow> room_state" where
  "handleCopyCode ok s = (if ok then s\<lparr>copied := True\<rparr> else s)"

definition copy_timeout :: "room_state \<Rightarrow> room_state" where
  "copy_timeout s = s\<lparr>copied := False\<rparr>"

text \<open>The join field: the input's \<open>maxLength={6}\<close> keeps six characters of what is typed
  or pasted, and \<open>onChange\<close> upper-cases them.\<close>

definition setRoomCode :: "string \<Rightarrow> room_state \<Rightarrow> room_state" where
  "setRoomCode v s = s\<lparr>roomCode := toUpperCase (take 6 v)\<rparr>"

definition handleJoinRoom :: "room_state \<Rightarrow> room_toast list" where
  "handleJoinRoom s =
     (if length (roomCode s) < 4 then [InvalidCode] else [JoiningRoom (toUpperCase (roomCode s))])"

text \<open>The page's controls: the room-name input and the generate button of the create
  dialog, the copy button shown once a code exists, the join field and button. The room
  name is kept in state but no handler reads it; "Start Instant Room" has no handler.\<close>

datatype room_event =
  SetRoomName string | GenerateCode string | CopyClick bool | CopyTimeout | TypeJoinCode string | JoinClick

definition room_step :: "room_event \<Rightarrow> room_state \<Rightarrow> (room_state \<times> room_toast list) option" where
  "room_step e s =
     (case e of
        SetRoomName x \<Rightarrow> Some (s\<lparr>newRoomName := x\<rparr>, [])
      | GenerateCode r \<Rightarrow> Some (handleCreateRoom r s)
      | CopyClick ok \<Rightarrow> (if generatedCode s \<noteq> [] then Some (handleCopyCode ok s, []) else None)
      | CopyTimeout \<Rightarrow> Some (copy_timeout s, [])
      | TypeJoinCode v \<Rightarrow> Some (setRoomCode v s, [])
      | JoinClick \<Rightarrow> Some (s, handleJoinRoom s))"

fun room_run :: "room_event list \<Rightarrow> room_state \<Rightarrow> (room_state \<times> room_toast list) option" where
  "room_run [] s = Some (s, [])"
| "room_run (e # es) s =
     (case room_step e s of
        None \<Rightarrow> None
      | Some (s1, t1) \<Rightarrow> (case room_run es s1 of None \<Rightarrow> None | Some (s2, t2) \<Rightarrow> Some (s2, t1 @ t2)))"

subsection \<open>The friend search\<close>

definition streaks_mockFriends :: "friend list" where
  "streaks_mockFriends =
     [\<lparr>friend_id = ''1'', friend_name = ''Sarah Wilson'', friend_streak = 45, friend_avatar = Some ''SW''\<rparr>,
      \<lparr>friend_id = ''2'', friend_name = ''Mike Chen'', friend_streak = 12, friend_avatar = Some ''MC''\<rparr>,
      \<lparr>friend_id = ''3'', friend_name = ''Emma Davis'', friend_streak = 8, friend_avatar = Some ''ED''\<rparr>,
      \<lparr>friend_id = ''4'', friend_name = ''James Rod'', friend_streak = 0, friend_avatar = Some ''JR''\<rparr>]"

definition filteredFriends :: "string \<Rightarrow> friend list \<Rightarrow> friend list" where
  "filteredFriends q fs = filter (\<lambda>f. contains (toLowerCase q) (toLowerCase (friend_name f))) fs"

subsection \<open>The celebration modal\<close>

text \<open>The confetti (the effect on \<open>[open]\<close> and its timeout) is animation only. The
  "Awesome!" button calls \<open>onConfirm()\<close>, which both providers pass as a no-op, then
  \<open>onOpenChange(false)\<close>, the provider's \<open>setShowStreakModal\<close>.\<close>

definition awesome_click :: "ledger \<Rightarrow> ledger" where
  "awesome_click l = l\<lparr>showStreakModal := False\<rparr>"

text \<open>The characters \<open>Number.prototype.toString(36)\<close> prints.\<close>

definition base36 :: "char \<Rightarrow> bool" where
  "base36 c = (c \<in> set ''0123456789abcdefghijklmnopqrstuvwxyz'')"

definition example_dash_ctx :: task_ctx where
  "example_dash_ctx =
     \<lparr>tasks = [example_edit_task,
               example_edit_task\<lparr>task_id := ''t2'', title := ''Essay'', status := Todo, subtasks := []\<rparr>],
      taskSuggestions = Map.empty, task_signed_in = False, remote_tasks = []\<rparr>"

subsection \<open>What the pages show\<close>

text \<open>The dashboard's current task is one of its recent tasks whenever there are any.\<close>

lemma dashboard_current_recent:
  assumes "recentTasks ts \<noteq> []"
  shows "\<exists>t. getNextFocusTask ts = Some t \<and> t \<in> set (recentTasks ts)"
proof -
  have eq: "getNextFocusTask ts = first_min recency_key (recentTasks ts)"
    using assms getNextFocusTask_in_progress_case [of ts] by (simp add: recentTasks_def)
  then obtain t where "first_min recency_key (recentTasks ts) = Some t"
    using assms by (cases "first_min recency_key (recentTasks ts)") simp_all
  with eq show ?thesis using first_min_in by fastforce
qed

text \<open>The header's "Day Streak" counts the weekly slots, which only sessions of two hours
  or more raise: any number of shorter sessions leaves it where it was, while each of
  them raises the stored streak.\<close>

lemma header_streak_short_sessions:
  "list_all (\<lambda>m. m < 120) ms \<Longrightarrow>
   header_streak (sessions (fst (foldl (\<lambda>ld m. addSession e m ld) (l, d) ms))) = header_streak (sessions l)"
proof (induction ms arbitrary: l d)
  case (Cons m ms)
  obtain l' d' where step: "addSession e m (l, d) = (l', d')" by (cases "addSession e m (l, d)")
  have "sessions l' = sessions l"
    using Cons.prems addSession_sessions [of e m l d] step by simp
  with Cons step show ?case by simp
qed simp

lemma getNextFocusTask_some:
  "getNextFocusTask ts = Some x \<Longrightarrow> x \<in> set ts \<and> status x \<noteq> Done"
proof (cases "filter (\<lambda>t. status t = InProgress) ts = []")
  case True
  assume "getNextFocusTask ts = Some x"
  with True have "first_min urgency_key (filter (\<lambda>t. status t = Todo) ts) = Some x"
    by (simp add: getNextFocusTask_todo_case)
  from first_min_in [OF this] show ?thesis by simp
next
  case False
  assume "getNextFocusTask ts = Some x"
  with False have "first_min recency_key (filter (\<lambda>t. status t = InProgress) ts) = Some x"
    by (simp add: getNextFocusTask_in_progress_case)
  from first_min_in [OF this] show ?thesis by simp
qed

lemma dashboard_toggle_update:
  assumes "getNextFocusTask (tasks c) = Some t" and "sid \<in> set (map st_id (subtasks t))"
  shows "dashboard_toggle ok tnow sid c = fst (updateTask ok tnow (handleToggleSubtask sid t) c)"
  using assms by (simp add: dashboard_toggle_def ct_handleToggleSubtask_def tasks_page_call_def)

lemma upper_char_base36:
  "base36 c \<Longrightarrow> \<exists>u. upper_char c = [u] \<and> upper_char u = [u]"
  by (auto simp: base36_def upper_char_def)

lemma toUpperCase_base36:
  "list_all base36 r \<Longrightarrow> length (toUpperCase r) = length r \<and> toUpperCase (toUpperCase r) = toUpperCase r"
proof (induction r)
  case (Cons c r)
  then obtain u where "upper_char c = [u]" "upper_char u = [u]"
    using upper_char_base36 by fastforce
  with Cons show ?case by (simp add: toUpperCase_def)
qed (simp add: toUpperCase_def)

text \<open>A created room code, typed into the join field, is joined as itself exactly when
  the random number printed at least four base-36 digits; otherwise the page's own
  check rejects it.\<close>

lemma room_code_roundtrip:
  assumes "list_all base36 r"
  shows "handleJoinRoom (setRoomCode (generatedCode (fst (handleCreateRoom r s))) s') =
           (if 4 \<le> length r then [JoiningRoom (toUpperCase (take 6 r))] else [InvalidCode])"
proof -
  have "list_all base36 (take 6 r)" using assms by (auto simp: list_all_iff dest: in_set_takeD)
  from toUpperCase_base36 [OF this] show ?thesis
    by (simp add: handleJoinRoom_def setRoomCode_def handleCreateRoom_def Let_def min_def)
qed

text \<open>The room name the user types changes nothing the study room does: any run of its
  events gives the same messages and the same codes, whatever name is in the field.\<close>

lemma room_step_name:
  "\<not> (\<exists>z. e = SetRoomName z) \<Longrightarrow>
   room_step e (s\<lparr>newRoomName := y\<rparr>) = map_option (\<lambda>(s', t). (s'\<lparr>newRoomName := y\<rparr>, t)) (room_step e s)"
  by (cases e) (simp_all add: room_step_def handleCreateRoom_def handleCopyCode_def copy_timeout_def
                               setRoomCode_def handleJoinRoom_def Let_def)

lemma room_name_unused:
  "map_option (\<lambda>(s', t). (s'\<lparr>newRoomName := x\<rparr>, t)) (room_run es s)
     = map_option (\<lambda>(s', t). (s'\<lparr>newRoomName := x\<rparr>, t)) (room_run es (s\<lparr>newRoomName := y\<rparr>))"
proof (induction es arbitrary: s y)
  case (Cons e es)
  show ?case
  proof (cases "\<exists>z. e = SetRoomName z")
    case True
    then obtain z where "e = SetRoomName z" by blast
    then show ?thesis using Cons.IH [of "s\<lparr>newRoomName := z\<rparr>" z] by (simp add: room_step_def)
  next
    case False
    then have st: "room_step e (s\<lparr>newRoomName := y\<rparr>) = map_option (\<lambda>(s', t). (s'\<lparr>newRoomName := y\<rparr>, t)) (room_step e s)"
      by (rule room_step_name)
    show ?thesis
    proof (cases "room_step e s")
      case (Some r)
      obtain s1 t1 where r: "r = (s1, t1)" by (cases r)
      show ?thesis using Cons.IH [of s1 y] Some r st
        by (cases "room_run es s1"; cases "room_run es (s1\<lparr>newRoomName := y\<rparr>)") auto
    qed (simp add: st)
  qed
qed simp
text \<open>C35: Checking off a subtask of the task the dashboard shows keeps that task shown
  as long as it stays in progress (its edit time becomes the latest), and a check that
  completes it moves the dashboard to another task.\<close>

theorem dashboard_toggle_keeps_focus:
  assumes cur: "getNextFocusTask (tasks c) = Some t" and sid: "sid \<in> set (map st_id (subtasks t))"
    and before: "list_all (\<lambda>x. edit_time x < tnow) (tasks c)"
  shows "(status (handleToggleSubtask sid t) = InProgress \<longrightarrow>
            getNextFocusTask (tasks (dashboard_toggle ok tnow sid c))
              = Some ((handleToggleSubtask sid t)\<lparr>lastEditedAt := Some tnow\<rparr>))
         \<and> (status (handleToggleSubtask sid t) = Done \<longrightarrow>
            (case getNextFocusTask (tasks (dashboard_toggle ok tnow sid c)) of
               None \<Rightarrow> True | Some x \<Rightarrow> task_id x \<noteq> task_id t))"
proof -
  let ?u = "handleToggleSubtask sid t"
  have eq: "dashboard_toggle ok tnow sid c = fst (updateTask ok tnow ?u c)"
    by (rule dashboard_toggle_update [OF cur sid])
  have mem: "task_id ?u \<in> task_id ` set (tasks c)"
    using getNextFocusTask_some [OF cur] by (simp add: handleToggleSubtask_def Let_def)
  have bef: "\<forall>x\<in>set (tasks c). edit_time x < tnow" using before by (simp add: list_all_iff)
  have ip: "status ?u = InProgress \<longrightarrow>
              getNextFocusTask (tasks (dashboard_toggle ok tnow sid c)) = Some (?u\<lparr>lastEditedAt := Some tnow\<rparr>)"
    using updateTask_becomes_focus [OF _ mem bef, of ok] eq by simp
  have dn: "status ?u = Done \<longrightarrow>
                (case getNextFocusTask (tasks (dashboard_toggle ok tnow sid c)) of
                   None \<Rightarrow> True | Some x \<Rightarrow> task_id x \<noteq> task_id t)"
  proof
    assume d: "status ?u = Done"
    show "case getNextFocusTask (tasks (dashboard_toggle ok tnow sid c)) of
            None \<Rightarrow> True | Some x \<Rightarrow> task_id x \<noteq> task_id t"
    proof (cases "getNextFocusTask (tasks (dashboard_toggle ok tnow sid c))")
      case (Some x)
      from getNextFocusTask_some [OF Some] eq
      have "x \<in> set (replace_task tnow ?u (tasks c))" and "status x \<noteq> Done" by simp_all
      with d have "task_id x \<noteq> task_id ?u" using set_replace_task by fastforce
      with Some show ?thesis by (simp add: handleToggleSubtask_def Let_def)
    qed simp
  qed
  from ip dn show ?thesis by blast
qed

theorem dashboard_toggle_keeps_focus_witness:
  "getNextFocusTask (tasks example_dash_ctx) = Some example_edit_task
   \<and> ''b'' \<in> set (map st_id (subtasks example_edit_task))
   \<and> list_all (\<lambda>x. edit_time x < 10) (tasks example_dash_ctx)
   \<and> status (handleToggleSubtask ''b'' example_edit_task) = Done
   \<and> (case getNextFocusTask (tasks (dashboard_toggle True 10 ''b'' example_dash_ctx)) of
        None \<Rightarrow> True | Some x \<Rightarrow> task_id x \<noteq> task_id example_edit_task)
   \<and> map_option task_id (getNextFocusTask (tasks (dashboard_toggle True 10 ''b'' example_dash_ctx))) = Some ''t2''"
proof -
  have h: "getNextFocusTask (tasks example_dash_ctx) = Some example_edit_task"
    "''b'' \<in> set (map st_id (subtasks example_edit_task))"
    "list_all (\<lambda>x. edit_time x < 10) (tasks example_dash_ctx)"
    by (simp_all add: example_dash_ctx_def example_edit_task_def getNextFocusTask_def edit_time_def)
  have d: "status (handleToggleSubtask ''b'' example_edit_task) = Done"
    by (simp add: handleToggleSubtask_def toggle_subtasks_def derived_status_def example_edit_task_def)
  from dashboard_toggle_keeps_focus [OF h, of True] d
  have moved: "case getNextFocusTask (tasks (dashboard_toggle True 10 ''b'' example_dash_ctx)) of
                 None \<Rightarrow> True | Some x \<Rightarrow> task_id x \<noteq> task_id example_edit_task"
    by simp
  have "map_option task_id (getNextFocusTask (tasks (dashboard_toggle True 10 ''b'' example_dash_ctx))) = Some ''t2''"
    unfolding dashboard_toggle_update [OF h(1,2)] updateTask_tasks
    by (simp add: example_dash_ctx_def example_edit_task_def handleToggleSubtask_def toggle_subtasks_def
                  derived_status_def replace_task_def getNextFocusTask_def urgency_key_def)
  with h d moved show ?thesis by blast
qed

end
