(* ===== verification/CardFlow.thy ===== *)
theory CardFlow
  imports TaskDialog
begin

text \<open>
  A task card as the user drives it (\<open>src/src/components/tasks/TaskCard.tsx\<close>, its
  rendered part from line 150): the buttons and inputs with the conditions under which
  they are shown or enabled, the edit dialog the card renders (an \<open>AddTaskDialog\<close> in
  edit mode, the \<open>TaskDialog\<close> model) and the callbacks that reach the task store
  through \<open>TasksPage\<close> (\<open>tasks_page_call\<close>). The card shows the store's current copy of
  its task and the suggestions stored under its id. The task record carries no
  collaborators (\<open>Tasks\<close> leaves them out), so the edit dialog starts with none.
\<close>

datatype card_event =
  CardExpand | CardToggle string | CardSetNewSubtask string | CardEnterSubtask string
  | CardShowSuggestions | CardGenerate | CardAddSuggestion string ai_suggestion
  | CardEdit | CardDelete | CardConfirmDelete | CardCancelDelete | CardCloseAuthPrompt
  | CardDialog dialog_event

record card_env =
  ce_signed_in :: bool
  ce_has_delete :: bool
  ce_has_suggestions_cb :: bool
  ce_apiKey :: bool
  ce_response :: "string option"
  ce_parse :: "string \<Rightarrow> jval option"
  ce_uuid :: "nat \<Rightarrow> string"
  ce_dialog :: dialog_env

record card_state =
  card :: card_ui
  edit_dlg :: dialog

text \<open>The props of the edit dialog (lines 459--470): the task only while the dialog is
  shown, \<open>open = showEditDialog\<close>, \<open>onOpenChange = setShowEditDialog\<close>, and an
  \<open>onUpdateTask\<close> that passes the task on and closes the dialog.\<close>

definition card_dialog_props :: "card_ui \<Rightarrow> task \<Rightarrow> dialog_props" where
  "card_dialog_props ui t =
     \<lparr>edit_task = (if showEditDialog ui then Some (t, []) else None), controlledOpen = Some (showEditDialog ui),
      has_onUpdateTask = True, has_onOpenChange = True\<rparr>"

text \<open>What the card does with a callback of the dialog.\<close>

fun card_dialog_call :: "dialog_call \<Rightarrow> card_ui \<times> card_call list \<Rightarrow> card_ui \<times> card_call list" where
  "card_dialog_call (OnUpdateTask u cs) (ui, calls) = (ui\<lparr>showEditDialog := False\<rparr>, calls @ [CallUpdateTask u])"
| "card_dialog_call (OnOpenChange b) (ui, calls) = (ui\<lparr>showEditDialog := b\<rparr>, calls)"
| "card_dialog_call (OnAddTask u cs sgs) (ui, calls) = (ui, calls)"

text \<open>One event on a card showing task \<open>t\<close> with suggestions \<open>sgs\<close>. The subtask list,
  its input and the suggestions are shown only on an expanded card; the edit dialog's
  events need the dialog shown. After the event, a change of \<open>showEditDialog\<close> changes
  the dialog's props, and the dialog's reset effect runs.\<close>

definition card_handler ::
  "card_env \<Rightarrow> task \<Rightarrow> ai_suggestion list \<Rightarrow> card_event \<Rightarrow> card_state \<Rightarrow> card_ui \<times> dialog \<times> card_call list" where
  "card_handler env t sgs e st =
     (let ui = card st; dlg = edit_dlg st
      in case e of
        CardExpand \<Rightarrow> (ui\<lparr>expanded := \<not> expanded ui\<rparr>, dlg, [])
      | CardToggle sid \<Rightarrow>
          (if expanded ui \<and> sid \<in> set (map st_id (subtasks t))
           then (ui, dlg, [CallUpdateTask (handleToggleSubtask sid t)]) else (ui, dlg, []))
      | CardSetNewSubtask v \<Rightarrow> (if expanded ui then (ui\<lparr>newSubtask := v\<rparr>, dlg, []) else (ui, dlg, []))
      | CardEnterSubtask newId \<Rightarrow>
          (if expanded ui then (let (ui1, cs) = card_handleAddSubtask newId t ui in (ui1, dlg, cs))
           else (ui, dlg, []))
      | CardShowSuggestions \<Rightarrow>
          (if expanded ui \<and> sgs \<noteq> [] then (ui\<lparr>showSuggestions := \<not> showSuggestions ui\<rparr>, dlg, [])
           else (ui, dlg, []))
      | CardGenerate \<Rightarrow>
          (if expanded ui \<and> \<not> isGeneratingSuggestions ui
           then (let (ui1, cs, toast) = handleGenerateSuggestions (ce_apiKey env) (ce_response env) (ce_parse env)
                                          (ce_uuid env) (ce_has_suggestions_cb env) t ui
                 in (ui1, dlg, cs))
           else (ui, dlg, []))
      | CardAddSuggestion newId sg \<Rightarrow>
          (if expanded ui \<and> showSuggestions ui \<and> sg \<in> set sgs
           then (ui, dlg, handleAddSuggestion newId t sg) else (ui, dlg, []))
      | CardEdit \<Rightarrow>
          (if \<not> ce_signed_in env then (ui\<lparr>card_showAuthPrompt := True\<rparr>, dlg, [])
           else (ui\<lparr>showEditDialog := True\<rparr>, dlg, []))
      | CardDelete \<Rightarrow> (handleDeleteClick (ce_signed_in env) ui, dlg, [])
      | CardConfirmDelete \<Rightarrow>
          (if showDeleteConfirm ui then (let (ui1, cs) = handleConfirmDelete (ce_has_delete env) t ui in (ui1, dlg, cs))
           else (ui, dlg, []))
      | CardCancelDelete \<Rightarrow> (ui\<lparr>showDeleteConfirm := False\<rparr>, dlg, [])
      | CardCloseAuthPrompt \<Rightarrow> (ui\<lparr>card_showAuthPrompt := False\<rparr>, dlg, [])
      | CardDialog de \<Rightarrow>
          (if showEditDialog ui
           then (let (dlg1, dcalls) = dialog_step (ce_dialog env) (card_dialog_props ui t) de dlg;
                     (ui1, cs) = foldl (\<lambda>acc c. card_dialog_call c acc) (ui, []) dcalls
                 in (ui1, dlg1, cs))
           else (ui, dlg, [])))"

definition card_step ::
  "card_env \<Rightarrow> task \<Rightarrow> ai_suggestion list \<Rightarrow> card_event \<Rightarrow> card_state \<Rightarrow> card_state \<times> card_call list" where
  "card_step env t sgs e st =
     (let (ui1, dlg1, cs) = card_handler env t sgs e st;
          dlg2 = (if showEditDialog ui1 \<noteq> showEditDialog (card st)
                  then reset_effect (card_dialog_props ui1 t) dlg1 else dlg1)
      in (\<lparr>card = ui1, edit_dlg = dlg2\<rparr>, cs))"

text \<open>The card of task \<open>tid\<close> on the tasks page: each event is handled on the store's
  current copy of the task and its suggestions, and the callbacks it invokes run
  against the store in order. A card whose task is gone does nothing.\<close>

definition page_card_step ::
  "card_env \<Rightarrow> bool \<Rightarrow> int \<Rightarrow> string \<Rightarrow> card_event \<Rightarrow> card_state \<times> task_ctx \<Rightarrow> card_state \<times> task_ctx" where
  "page_card_step env ok now tid e sc =
     (let (st, c) = sc
      in case find (\<lambda>x. task_id x = tid) (tasks c) of
           None \<Rightarrow> (st, c)
         | Some t \<Rightarrow>
             (let (st1, calls) = card_step env t (case taskSuggestions c tid of None \<Rightarrow> [] | Some l \<Rightarrow> l) e st
              in (st1, foldl (\<lambda>c1 call. fst (tasks_page_call ok now call c1)) c calls)))"

definition card_init :: card_state where
  "card_init =
     \<lparr>card = \<lparr>expanded = False, showSuggestions = False, newSubtask = [], card_showAuthPrompt = False,
              showDeleteConfirm = False, showEditDialog = False, isGeneratingSuggestions = False\<rparr>,
      edit_dlg = dialog_init \<lparr>edit_task = None, controlledOpen = Some False, has_onUpdateTask = True,
                               has_onOpenChange = True\<rparr>\<rparr>"

definition example_card_env :: card_env where
  "example_card_env =
     \<lparr>ce_signed_in = True, ce_has_delete = True, ce_has_suggestions_cb = True, ce_apiKey = False,
      ce_response = None, ce_parse = (\<lambda>x. None), ce_uuid = (\<lambda>i. replicate (Suc i) CHR ''g''),
      ce_dialog = example_dialog_env\<rparr>"

definition example_card_ctx :: task_ctx where
  "example_card_ctx =
     \<lparr>tasks = [example_edit_task], taskSuggestions = Map.empty, task_signed_in = True,
      remote_tasks = [example_edit_task]\<rparr>"

subsection \<open>Editing through the card\<close>

definition card_editing :: "task \<Rightarrow> card_state" where
  "card_editing t = \<lparr>card = (card card_init)\<lparr>showEditDialog := True\<rparr>, edit_dlg = load_task t [] (edit_dlg card_init)\<rparr>"

lemma card_edit_opens:
  assumes "ce_signed_in env"
  shows "card_step env t sgs CardEdit card_init = (card_editing t, [])"
  using assms
  by (simp add: card_step_def card_handler_def card_init_def card_editing_def reset_effect_def
                card_dialog_props_def dialogOpen_def isEditMode_def)

lemma card_submit_unchanged:
  assumes "trim (title t) \<noteq> []"
  shows "\<exists>u. snd (card_step env t sgs (CardDialog SubmitClick) (card_editing t)) = [CallUpdateTask u]
           \<and> task_id u = task_id t
           \<and> subtasks u = edited_subtasks (de_fresh (ce_dialog env)) (subtasks t) (map st_title (subtasks t))"
proof -
  let ?p = "card_dialog_props ((card card_init)\<lparr>showEditDialog := True\<rparr>) t"
  let ?s = "load_task t [] (edit_dlg card_init)"
  have p: "edit_task ?p = Some (t, [])" "has_onUpdateTask ?p" "has_onOpenChange ?p" "dialogOpen ?p ?s"
    by (simp_all add: card_dialog_props_def card_init_def dialogOpen_def isEditMode_def)
  have gen: "\<not> dlg_isGenerating ?s" and ttl: "trim (dlg_title ?s) \<noteq> []"
    using assms by (simp_all add: load_task_def card_init_def dialog_init_def)
  have sub: "dialog_handler (ce_dialog env) ?p SubmitClick ?s = handleSubmit ?p (de_now (ce_dialog env)) (de_fresh (ce_dialog env)) ?s"
    using p(4) gen ttl by (simp add: dialog_handler_def)
  define U where "U = t\<lparr>title := dlg_title ?s, description := Some (dlg_description ?s),
      priority := Some (final_priority (de_now (ce_dialog env)) (dlg_priority ?s) (dlg_title ?s) (dlg_deadline ?s)),
      deadline := dlg_deadline ?s, estimatedTime := Some (int (length (dlg_manualSubtasks ?s)) * 30),
      subtasks := edited_subtasks (de_fresh (ce_dialog env)) (subtasks t) (dlg_manualSubtasks ?s),
      lastEditedAt := Some (de_now (ce_dialog env))\<rparr>"
  have hs: "handleSubmit ?p (de_now (ce_dialog env)) (de_fresh (ce_dialog env)) ?s =
              (?s\<lparr>dlg_isGenerating := False\<rparr>, [OnUpdateTask U [], OnOpenChange False])"
    using handleSubmit_edit [OF p(1,2) ttl, of "de_now (ce_dialog env)" "de_fresh (ce_dialog env)"] p(3)
    by (simp add: U_def load_task_def)
  have ds: "dialog_step (ce_dialog env) ?p SubmitClick ?s = (?s\<lparr>dlg_isGenerating := False\<rparr>, [OnUpdateTask U [], OnOpenChange False])"
    using sub hs by (simp add: dialog_step_def card_dialog_props_def dialogOpen_def isEditMode_def)
  have "snd (card_step env t sgs (CardDialog SubmitClick) (card_editing t)) = [CallUpdateTask U]"
    using ds by (simp add: card_step_def card_handler_def card_editing_def)
  moreover have "task_id U = task_id t"
    "subtasks U = edited_subtasks (de_fresh (ce_dialog env)) (subtasks t) (map st_title (subtasks t))"
    by (simp_all add: U_def load_task_def)
  ultimately show ?thesis by blast
qed

lemma find_replace_task:
  "find (\<lambda>x. task_id x = task_id u) ts \<noteq> None \<Longrightarrow>
   find (\<lambda>x. task_id x = task_id u) (replace_task now u ts) = Some (u\<lparr>lastEditedAt := Some now\<rparr>)"
  by (induction ts) (auto simp: replace_task_def)

text \<open>C32: Opening a task's edit dialog from its card and saving without a change, on a
  task whose two subtasks share a title, leaves the store with the first subtask twice:
  the second subtask, its id and its state are gone.\<close>

theorem card_edit_merges_subtasks:
  assumes "ce_signed_in env" and "find (\<lambda>x. task_id x = tid) (tasks c) = Some t"
    and "trim (title t) \<noteq> []" and "subtasks t = [e1, e2]" and "st_title e2 = st_title e1"
  shows "\<exists>u. find (\<lambda>x. task_id x = tid)
               (tasks (snd (fold (page_card_step env ok now tid) [CardEdit, CardDialog SubmitClick] (card_init, c))))
             = Some u
           \<and> subtasks u = [e1, e1]"
proof -
  have tid: "task_id t = tid" using find_Some_in [OF assms(2)] by simp
  have s1: "page_card_step env ok now tid CardEdit (card_init, c) = (card_editing t, c)"
    using assms(2) card_edit_opens [OF assms(1)] by (simp add: page_card_step_def)
  obtain U where U: "snd (card_step env t (case taskSuggestions c tid of None \<Rightarrow> [] | Some l \<Rightarrow> l)
                           (CardDialog SubmitClick) (card_editing t)) = [CallUpdateTask U]"
    and Uid: "task_id U = task_id t"
    and Usub: "subtasks U = edited_subtasks (de_fresh (ce_dialog env)) (subtasks t) (map st_title (subtasks t))"
    using card_submit_unchanged [OF assms(3)] by blast
  have s2: "tasks (snd (page_card_step env ok now tid (CardDialog SubmitClick) (card_editing t, c)))
              = replace_task now U (tasks c)"
    using assms(2) U by (simp add: page_card_step_def case_prod_beta tasks_page_call_def)
  have "find (\<lambda>x. task_id x = task_id U) (tasks c) \<noteq> None" using assms(2) Uid tid by simp
  from find_replace_task [OF this, of now]
  have "find (\<lambda>x. task_id x = tid) (replace_task now U (tasks c)) = Some (U\<lparr>lastEditedAt := Some now\<rparr>)"
    using Uid tid by simp
  then show ?thesis
    using s1 s2 Usub edited_subtasks_same_title [OF assms(4,5)] by simp
qed

theorem card_edit_merges_subtasks_witness:
  "ce_signed_in example_card_env
   \<and> find (\<lambda>x. task_id x = ''t1'') (tasks example_card_ctx) = Some example_edit_task
   \<and> trim (title example_edit_task) \<noteq> []
   \<and> subtasks example_edit_task = [hd (subtasks example_edit_task), last (subtasks example_edit_task)]
   \<and> st_title (last (subtasks example_edit_task)) = st_title (hd (subtasks example_edit_task))
   \<and> (\<exists>u. find (\<lambda>x. task_id x = ''t1'')
            (tasks (snd (fold (page_card_step example_card_env True 7 ''t1'') [CardEdit, CardDialog SubmitClick]
                           (card_init, example_card_ctx)))) = Some u
        \<and> subtasks u = [hd (subtasks example_edit_task), hd (subtasks example_edit_task)])"
proof -
  have h: "ce_signed_in example_card_env"
    "find (\<lambda>x. task_id x = ''t1'') (tasks example_card_ctx) = Some example_edit_task"
    "trim (title example_edit_task) \<noteq> []"
    "subtasks example_edit_task = [hd (subtasks example_edit_task), last (subtasks example_edit_task)]"
    "st_title (last (subtasks example_edit_task)) = st_title (hd (subtasks example_edit_task))"
    by (simp_all add: example_card_env_def example_card_ctx_def example_edit_task_def trim_def js_space_def)
  from card_edit_merges_subtasks [OF h, of True 7] h show ?thesis by blast
qed

end
