(* ===== verification/Navigation.thy ===== *)
theory Navigation
  imports Auth
begin

text \<open>
  How the user moves through the app: the route table of \<open>src/src/App.tsx\<close> with the
  \<open>RequireAuth\<close> guard around the protected pages, the sidebar of
  \<open>src/src/components/layout/Sidebar.tsx\<close> with its collapse button, its five
  \<open>NavLink\<close>s (\<open>src/src/components/NavLink.tsx\<close>) and their sign-in prompts, the sign-out
  confirmation, the \<open>AuthRequiredDialog\<close> pages open for signed-out users, the auth
  page's redirect effect and back link, and the start-up \<open>LoadingScreen\<close>. The app state
  is the browser (location and the \<open>redirectAfterAuth\<close> key), the provider's user and
  loading flag, the state of the mounted sidebar and guard, and the clock of the loading
  screen; \<open>app_step\<close> is one user or provider event, \<open>None\<close> when the event is not
  possible in that state, and \<open>app_reach\<close> the states reachable from a page load.
\<close>

subsection \<open>Routes\<close>

text \<open>The pages of \<open>src/src/pages\<close>. \<open>Landing_page\<close> and \<open>StudyRoom_page\<close> exist as
  components but no route renders them.\<close>

datatype page =
  Landing_page | Dashboard_page | Auth_page | Tasks_page | Kanban_page | Timer_page
  | Streaks_page | Settings_page | StudyRoom_page | NotFound_page

datatype route_el = Public page | Protected page

definition app_routes :: "(string \<times> route_el) list" where
  "app_routes =
     [(''/'', Public Dashboard_page), (''/auth'', Public Auth_page),
      (''/dashboard'', Protected Dashboard_page), (''/tasks'', Protected Tasks_page),
      (''/kanban'', Protected Kanban_page), (''/timer'', Protected Timer_page),
      (''/streaks'', Protected Streaks_page), (''/settings'', Protected Settings_page)]"

text \<open>\<open><Routes>\<close>: the element of the first route whose path is the location's path, else
  the catch-all \<open>NotFound\<close>. Locations are compared as the app writes them (lower case,
  no trailing slash).\<close>

definition route :: "string \<Rightarrow> route_el" where
  "route loc = (case map_of app_routes (pathname loc) of Some e \<Rightarrow> e | None \<Rightarrow> Public NotFound_page)"

definition is_protected :: "string \<Rightarrow> bool" where
  "is_protected loc = (case route loc of Protected _ \<Rightarrow> True | Public _ \<Rightarrow> False)"

text \<open>The pages that render inside \<open>WebLayout\<close>, hence with the sidebar.\<close>

definition has_sidebar :: "page \<Rightarrow> bool" where
  "has_sidebar p = (p \<notin> {Landing_page, Auth_page, NotFound_page})"

text \<open>The targets of the \<open>Link\<close>s of \<open>LandingPage\<close>, in page order: log in, get started
  (navigation bar), start for free, view demo (hero), and the final call to action.\<close>

definition landing_links :: "string list" where
  "landing_links = [''/auth'', ''/auth?mode=signup'', ''/auth?mode=signup'', ''/auth'', ''/auth?mode=signup'']"

subsection \<open>The sidebar and its links\<close>

record nav_item =
  nav_label :: string
  nav_path :: string
  nav_requiresAuth :: bool

definition navItems :: "nav_item list" where
  "navItems =
     [\<lparr>nav_label = ''Dashboard'', nav_path = ''/dashboard'', nav_requiresAuth = False\<rparr>,
      \<lparr>nav_label = ''Tasks'', nav_path = ''/tasks'', nav_requiresAuth = True\<rparr>,
      \<lparr>nav_label = ''Task Overview'', nav_path = ''/kanban'', nav_requiresAuth = True\<rparr>,
      \<lparr>nav_label = ''Focus Timer'', nav_path = ''/timer'', nav_requiresAuth = True\<rparr>]"

text \<open>The four items and the settings link below them, in the order they render.\<close>

definition sidebar_links :: "nav_item list" where
  "sidebar_links = navItems @ [\<lparr>nav_label = ''Settings'', nav_path = ''/settings'', nav_requiresAuth = True\<rparr>]"

text \<open>The state of one \<open>NavLink\<close>: its prompt and the destination it remembers.\<close>

record link_state =
  link_prompt :: bool
  intendedDestination :: string

definition link_init :: link_state where
  "link_init = \<lparr>link_prompt = False, intendedDestination = []\<rparr>"

text \<open>\<open>handleClick\<close>: a protected link clicked by a signed-out user prevents the navigation
  and opens the prompt; otherwise the router follows the link.\<close>

definition navlink_click :: "bool \<Rightarrow> nav_item \<Rightarrow> link_state \<Rightarrow> link_state \<times> string option" where
  "navlink_click signed it ls =
     (if nav_requiresAuth it \<and> \<not> signed
      then (ls\<lparr>intendedDestination := nav_path it, link_prompt := True\<rparr>, None)
      else (ls, Some (nav_path it)))"

text \<open>The link prompt's buttons store the destination and go to the auth page; closing it
  only closes it.\<close>

definition navlink_prompt :: "prompt_action \<Rightarrow> link_state \<Rightarrow> browser \<Rightarrow> link_state \<times> browser" where
  "navlink_prompt a ls b =
     (case a of
        PromptSignUp \<Rightarrow> (ls\<lparr>link_prompt := False\<rparr>,
                         b\<lparr>redirectAfterAuth := Some (intendedDestination ls), location := ''/auth?mode=signup''\<rparr>)
      | PromptSignIn \<Rightarrow> (ls\<lparr>link_prompt := False\<rparr>,
                         b\<lparr>redirectAfterAuth := Some (intendedDestination ls), location := ''/auth''\<rparr>)
      | PromptDismiss \<Rightarrow> (ls\<lparr>link_prompt := False\<rparr>, b))"

text \<open>\<open>AuthRequiredDialog\<close>: the same two buttons, without storing a destination.\<close>

definition auth_required_act :: "prompt_action \<Rightarrow> browser \<Rightarrow> browser" where
  "auth_required_act a b =
     (case a of
        PromptSignUp \<Rightarrow> b\<lparr>location := ''/auth?mode=signup''\<rparr>
      | PromptSignIn \<Rightarrow> b\<lparr>location := ''/auth''\<rparr>
      | PromptDismiss \<Rightarrow> b)"

record sidebar =
  collapsed :: bool
  links :: "link_state list"

definition sidebar_init :: sidebar where
  "sidebar_init = \<lparr>collapsed = False, links = replicate (length sidebar_links) link_init\<rparr>"

subsection \<open>The loading screen\<close>

text \<open>\<open>LoadingScreen\<close> covers the app for 3000 ms, fades out (no longer catching clicks)
  and calls \<open>onFinished\<close> 500 ms later, which unmounts it.\<close>

definition loading_visible :: "nat \<Rightarrow> bool" where
  "loading_visible ms = (ms < 3000)"

definition app_isLoading :: "nat \<Rightarrow> bool" where
  "app_isLoading ms = (ms < 3500)"

subsection \<open>The app state and what it shows\<close>

record app_state =
  nav_browser :: browser
  signed_in :: bool
  nav_loading :: bool
  nav_sidebar :: sidebar
  guard_prompt :: bool
  clock_ms :: nat

datatype screen = Page page | Guard guard_view

definition screen :: "app_state \<Rightarrow> screen" where
  "screen s =
     (case route (location (nav_browser s)) of
        Public p \<Rightarrow> Page p
      | Protected p \<Rightarrow>
          (case RequireAuth (signed_in s) (nav_loading s) (guard_prompt s) of
             Content \<Rightarrow> Page p
           | v \<Rightarrow> Guard v))"

definition sidebar_shown :: "app_state \<Rightarrow> bool" where
  "sidebar_shown s = (case screen s of Page p \<Rightarrow> has_sidebar p | Guard _ \<Rightarrow> False)"

definition link_prompt_open :: "app_state \<Rightarrow> bool" where
  "link_prompt_open s = list_ex link_prompt (links (nav_sidebar s))"

text \<open>A page is mounted afresh when the route element changes: the sidebar inside it and
  the guard start from their initial state. Moving to another location of the same
  element keeps them.\<close>

definition go :: "browser \<Rightarrow> app_state \<Rightarrow> app_state" where
  "go b s =
     (if route (location b) = route (location (nav_browser s)) then s\<lparr>nav_browser := b\<rparr>
      else s\<lparr>nav_browser := b, nav_sidebar := sidebar_init, guard_prompt := False\<rparr>)"

definition navigate :: "string \<Rightarrow> app_state \<Rightarrow> app_state" where
  "navigate loc s = go ((nav_browser s)\<lparr>location := loc\<rparr>) s"

text \<open>The effects after a render: the auth page sends a signed-in user on (\<open>auth_redirect\<close>),
  then the guard of a protected page opens its prompt for a signed-out user. The code runs
  them when the page mounts and when their dependencies change; they are run here after
  every event, which changes nothing more: from every reachable state they have nothing
  left to do (\<open>settled\<close>, \<open>settled_effects_id\<close>).\<close>

definition auth_page_effect :: "app_state \<Rightarrow> app_state" where
  "auth_page_effect s =
     (if route (location (nav_browser s)) = Public Auth_page \<and> signed_in s
      then go (auth_redirect (nav_browser s)) s else s)"

definition guard_page_effect :: "app_state \<Rightarrow> app_state" where
  "guard_page_effect s =
     (if is_protected (location (nav_browser s))
      then s\<lparr>guard_prompt := guard_effect (signed_in s) (nav_loading s) (guard_prompt s)\<rparr> else s)"

definition app_effects :: "app_state \<Rightarrow> app_state" where
  "app_effects s = guard_page_effect (auth_page_effect s)"

text \<open>A page load at a location, with the key left in local storage.\<close>

definition app_load :: "string \<Rightarrow> string option \<Rightarrow> app_state" where
  "app_load loc key =
     app_effects \<lparr>nav_browser = \<lparr>location = loc, redirectAfterAuth = key\<rparr>, signed_in = False,
                  nav_loading = True, nav_sidebar = sidebar_init, guard_prompt = False, clock_ms = 0\<rparr>"

subsection \<open>Events\<close>

datatype app_event =
  Elapse nat
  | AuthResolved bool
  | ToggleCollapse
  | ClickLink nat
  | LinkPrompt nat prompt_action
  | GuardPrompt prompt_action
  | RequiredPrompt prompt_action
  | ConfirmSignOut
  | SignedIn
  | BackToDashboard

definition set_link :: "nat \<Rightarrow> link_state \<Rightarrow> app_state \<Rightarrow> app_state" where
  "set_link i ls s = s\<lparr>nav_sidebar := (nav_sidebar s)\<lparr>links := (links (nav_sidebar s))[i := ls]\<rparr>\<rparr>"

text \<open>The sidebar's link \<open>i\<close> is clicked: \<open>handleClick\<close>, then the router.\<close>

definition click_link :: "nat \<Rightarrow> app_state \<Rightarrow> app_state" where
  "click_link i s =
     (let (ls, target) = navlink_click (signed_in s) (sidebar_links ! i) (links (nav_sidebar s) ! i);
          s1 = set_link i ls s
      in case target of None \<Rightarrow> s1 | Some p \<Rightarrow> navigate p s1)"

definition link_prompt_step :: "nat \<Rightarrow> prompt_action \<Rightarrow> app_state \<Rightarrow> app_state" where
  "link_prompt_step i a s =
     (let (ls, b) = navlink_prompt a (links (nav_sidebar s) ! i) (nav_browser s)
      in go b (set_link i ls s))"

definition guard_prompt_step :: "prompt_action \<Rightarrow> app_state \<Rightarrow> app_state" where
  "guard_prompt_step a s =
     (let (b, op) = prompt_act a (nav_browser s) in go b (s\<lparr>guard_prompt := op\<rparr>))"

text \<open>\<open>handleSignOut\<close> from the confirmation dialog: \<open>signOut\<close> of the provider.\<close>

definition app_signOut :: "app_state \<Rightarrow> app_state" where
  "app_signOut s = navigate ''/auth'' (s\<lparr>signed_in := False\<rparr>)"

text \<open>Whether an event is possible: nothing but time passes while the loading screen
  catches clicks; the sidebar's controls need the sidebar on screen and no link prompt
  open (the prompt is modal); a prompt's buttons need that prompt open; the auth page's
  form and back link need the auth page.\<close>

fun app_enabled :: "app_event \<Rightarrow> app_state \<Rightarrow> bool" where
  "app_enabled (Elapse d) s = True"
| "app_enabled (AuthResolved u) s = nav_loading s"
| "app_enabled e s = (\<not> loading_visible (clock_ms s) \<and>
     (case e of
        ToggleCollapse \<Rightarrow> sidebar_shown s \<and> \<not> link_prompt_open s
      | ClickLink i \<Rightarrow> sidebar_shown s \<and> \<not> link_prompt_open s \<and> i < length sidebar_links
      | LinkPrompt i a \<Rightarrow> sidebar_shown s \<and> i < length sidebar_links \<and> link_prompt (links (nav_sidebar s) ! i)
      | GuardPrompt a \<Rightarrow> screen s = Guard (AuthPrompt True)
      | RequiredPrompt a \<Rightarrow> sidebar_shown s \<and> \<not> link_prompt_open s \<and> \<not> signed_in s
      | ConfirmSignOut \<Rightarrow> sidebar_shown s \<and> \<not> link_prompt_open s
      | SignedIn \<Rightarrow> screen s = Page Auth_page \<and> \<not> signed_in s
      | BackToDashboard \<Rightarrow> screen s = Page Auth_page
      | _ \<Rightarrow> False))"

fun app_handler :: "app_event \<Rightarrow> app_state \<Rightarrow> app_state" where
  "app_handler (Elapse d) s = s\<lparr>clock_ms := clock_ms s + d\<rparr>"
| "app_handler (AuthResolved u) s = s\<lparr>signed_in := u, nav_loading := False\<rparr>"
| "app_handler ToggleCollapse s =
     s\<lparr>nav_sidebar := (nav_sidebar s)\<lparr>collapsed := \<not> collapsed (nav_sidebar s)\<rparr>\<rparr>"
| "app_handler (ClickLink i) s = click_link i s"
| "app_handler (LinkPrompt i a) s = link_prompt_step i a s"
| "app_handler (GuardPrompt a) s = guard_prompt_step a s"
| "app_handler (RequiredPrompt a) s = go (auth_required_act a (nav_browser s)) s"
| "app_handler ConfirmSignOut s = app_signOut s"
| "app_handler SignedIn s = s\<lparr>signed_in := True, nav_loading := False\<rparr>"
| "app_handler BackToDashboard s = navigate ''/'' s"

definition app_step :: "app_event \<Rightarrow> app_state \<Rightarrow> app_state option" where
  "app_step e s = (if app_enabled e s then Some (app_effects (app_handler e s)) else None)"

fun app_run :: "app_event list \<Rightarrow> app_state \<Rightarrow> app_state option" where
  "app_run [] s = Some s"
| "app_run (e # es) s = (case app_step e s of None \<Rightarrow> None | Some s' \<Rightarrow> app_run es s')"

text \<open>The states reachable from a page load at any location, with a key in local storage
  that the app itself wrote: a protected path or nothing.\<close>

definition key_ok :: "string option \<Rightarrow> bool" where
  "key_ok k = (case k of None \<Rightarrow> True | Some r \<Rightarrow> is_protected r)"

inductive app_reach :: "app_state \<Rightarrow> bool" where
  load: "key_ok k \<Longrightarrow> app_reach (app_load loc k)"
| step: "app_reach s \<Longrightarrow> app_step e s = Some s' \<Longrightarrow> app_reach s'"

text \<open>What every reachable state keeps: the stored key is a protected path or nothing,
  and the sidebar has one state per link, whose open prompt remembers a protected path.\<close>

definition links_ok :: "sidebar \<Rightarrow> bool" where
  "links_ok sb =
     (length (links sb) = length sidebar_links
      \<and> list_all (\<lambda>ls. link_prompt ls \<longrightarrow> is_protected (intendedDestination ls)) (links sb))"

definition nav_inv :: "app_state \<Rightarrow> bool" where
  "nav_inv s = (key_ok (redirectAfterAuth (nav_browser s)) \<and> links_ok (nav_sidebar s))"

text \<open>States the effects have nothing left to do in: the guard of a protected page shows
  its prompt to a signed-out user once loading is over, and a signed-in user is not left
  on the auth page. At most one link prompt is open, since they are modal.\<close>

definition settled :: "app_state \<Rightarrow> bool" where
  "settled s =
     ((is_protected (location (nav_browser s)) \<and> \<not> nav_loading s \<and> \<not> signed_in s \<longrightarrow> guard_prompt s)
      \<and> \<not> (route (location (nav_browser s)) = Public Auth_page \<and> signed_in s))"

definition one_prompt :: "app_state \<Rightarrow> bool" where
  "one_prompt s = (length (filter link_prompt (links (nav_sidebar s))) \<le> 1)"

text \<open>The events the user causes (time passing included), as opposed to the provider's
  answer about the session and the server's answer to a sign-in.\<close>

definition user_event :: "app_event \<Rightarrow> bool" where
  "user_event e = (case e of AuthResolved _ \<Rightarrow> False | SignedIn \<Rightarrow> False | _ \<Rightarrow> True)"

subsection \<open>Routes and links\<close>

lemma pathname_idem [simp]: "pathname (pathname loc) = pathname loc"
  unfolding pathname_def by (induction loc) (auto dest: set_takeWhileD)

lemma route_pathname [simp]: "route (pathname loc) = route loc"
  by (simp add: route_def)

lemma is_protected_pathname [simp]: "is_protected (pathname loc) = is_protected loc"
  by (simp add: is_protected_def)

lemma is_protected_nonempty: "is_protected r \<Longrightarrow> r \<noteq> []"
  by (auto simp: is_protected_def route_def pathname_def app_routes_def)

lemma route_Protected:
  "route loc = Protected p \<Longrightarrow> has_sidebar p"
  by (auto simp: route_def app_routes_def has_sidebar_def split: option.splits if_splits)

lemma route_Public_Auth: "route loc \<noteq> Protected Auth_page"
  using route_Protected [of loc Auth_page] by (auto simp: has_sidebar_def)

lemma length_sidebar_links [simp]: "length sidebar_links = 5"
  by (simp add: sidebar_links_def navItems_def)

lemma sidebar_links_protected:
  "list_all (\<lambda>it. nav_requiresAuth it \<longrightarrow> is_protected (nav_path it)) sidebar_links"
  by (simp add: sidebar_links_def navItems_def is_protected_def route_def app_routes_def pathname_def)

lemma sidebar_link_protected:
  "i < length sidebar_links \<Longrightarrow> nav_requiresAuth (sidebar_links ! i) \<Longrightarrow> is_protected (nav_path (sidebar_links ! i))"
  using sidebar_links_protected by (simp add: list_all_length del: length_sidebar_links)

subsection \<open>The invariant\<close>

lemma links_ok_init [simp]: "links_ok sidebar_init"
  by (simp add: links_ok_def sidebar_init_def link_init_def list_all_iff)

lemma go_inv:
  "nav_inv s \<Longrightarrow> key_ok (redirectAfterAuth b) \<Longrightarrow> nav_inv (go b s)"
  by (simp add: go_def nav_inv_def)

lemma navigate_inv: "nav_inv s \<Longrightarrow> nav_inv (navigate loc s)"
  unfolding navigate_def by (rule go_inv) (simp_all add: nav_inv_def)

lemma key_ok_auth_redirect: "key_ok (redirectAfterAuth b) \<Longrightarrow> key_ok (redirectAfterAuth (auth_redirect b))"
  by (auto simp: auth_redirect_def key_ok_def split: option.splits)

lemma effects_inv: "nav_inv s \<Longrightarrow> nav_inv (app_effects s)"
proof -
  assume inv: "nav_inv s"
  have "nav_inv (auth_page_effect s)"
    using inv go_inv [OF inv key_ok_auth_redirect] by (simp add: auth_page_effect_def nav_inv_def)
  then show ?thesis by (simp add: app_effects_def guard_page_effect_def nav_inv_def)
qed

lemma set_link_inv:
  assumes "nav_inv s" and "i < length sidebar_links"
    and "link_prompt ls \<longrightarrow> is_protected (intendedDestination ls)"
  shows "nav_inv (set_link i ls s)"
  using assms by (auto simp: nav_inv_def set_link_def links_ok_def list_all_length nth_list_update
                       simp del: length_sidebar_links)

lemma link_ok_nth:
  "nav_inv s \<Longrightarrow> i < length sidebar_links \<Longrightarrow> link_prompt (links (nav_sidebar s) ! i)
   \<Longrightarrow> is_protected (intendedDestination (links (nav_sidebar s) ! i))"
  by (auto simp: nav_inv_def links_ok_def list_all_length simp del: length_sidebar_links)

lemma screen_guard_protected: "screen s = Guard v \<Longrightarrow> is_protected (location (nav_browser s))"
  by (auto simp: screen_def is_protected_def split: route_el.splits guard_view.splits)

lemma click_link_inv: "nav_inv s \<Longrightarrow> i < length sidebar_links \<Longrightarrow> nav_inv (click_link i s)"
  unfolding click_link_def navlink_click_def
  by (auto simp: Let_def sidebar_link_protected link_ok_nth intro!: set_link_inv navigate_inv)

lemma link_prompt_step_inv:
  "nav_inv s \<Longrightarrow> i < length sidebar_links \<Longrightarrow> link_prompt (links (nav_sidebar s) ! i)
   \<Longrightarrow> nav_inv (link_prompt_step i a s)"
  unfolding link_prompt_step_def navlink_prompt_def
  by (auto simp: key_ok_def link_ok_nth intro!: go_inv set_link_inv split: prompt_action.splits)
     (auto simp: nav_inv_def set_link_def key_ok_def)

lemma guard_prompt_step_inv:
  "nav_inv s \<Longrightarrow> screen s = Guard v \<Longrightarrow> nav_inv (guard_prompt_step a s)"
  unfolding guard_prompt_step_def prompt_act_def
  by (auto simp: key_ok_def screen_guard_protected intro!: go_inv split: prompt_action.splits)
     (auto simp: nav_inv_def key_ok_def)

lemma app_handler_inv: "nav_inv s \<Longrightarrow> app_enabled e s \<Longrightarrow> nav_inv (app_handler e s)"
proof (cases e)
  case (ClickLink i)
  then show "nav_inv s \<Longrightarrow> app_enabled e s \<Longrightarrow> ?thesis" by (simp add: click_link_inv)
next
  case (LinkPrompt i a)
  then show "nav_inv s \<Longrightarrow> app_enabled e s \<Longrightarrow> ?thesis" by (simp add: link_prompt_step_inv)
next
  case (GuardPrompt a)
  then show "nav_inv s \<Longrightarrow> app_enabled e s \<Longrightarrow> ?thesis" by (auto intro: guard_prompt_step_inv)
next
  case (RequiredPrompt a)
  then show "nav_inv s \<Longrightarrow> app_enabled e s \<Longrightarrow> ?thesis"
    by (cases a) (auto simp: auth_required_act_def intro!: go_inv, auto simp: nav_inv_def)
qed (simp_all add: nav_inv_def links_ok_def app_signOut_def navigate_inv [unfolded nav_inv_def links_ok_def])

lemma app_step_inv: "nav_inv s \<Longrightarrow> app_step e s = Some s' \<Longrightarrow> nav_inv s'"
  by (auto simp: app_step_def split: if_splits intro!: effects_inv app_handler_inv)

lemma app_load_inv: "key_ok k \<Longrightarrow> nav_inv (app_load loc k)"
  unfolding app_load_def by (rule effects_inv) (simp add: nav_inv_def)

lemma app_reach_inv: "app_reach s \<Longrightarrow> nav_inv s"
  by (induction rule: app_reach.induct) (auto intro: app_load_inv app_step_inv)

text \<open>The equations that evaluate a run of the app on concrete events.\<close>

lemmas nav_eval =
  app_step_def app_load_def app_effects_def auth_page_effect_def guard_page_effect_def go_def
  navigate_def route_def app_routes_def pathname_def is_protected_def screen_def RequireAuth_def
  guard_effect_def auth_redirect_def sidebar_shown_def link_prompt_open_def loading_visible_def
  has_sidebar_def sidebar_init_def link_init_def click_link_def navlink_click_def
  link_prompt_step_def navlink_prompt_def set_link_def sidebar_links_def navItems_def
  guard_prompt_step_def prompt_act_def auth_required_act_def app_signOut_def

lemma route_unrouted_pages:
  "route loc \<notin> {Public Landing_page, Protected Landing_page, Public StudyRoom_page, Protected StudyRoom_page}"
  by (auto simp: route_def app_routes_def split: option.splits if_splits)

lemma landing_links_auth: "list_all (\<lambda>l. route l = Public Auth_page) landing_links"
  by (simp add: landing_links_def route_def app_routes_def pathname_def)

subsection \<open>Screens\<close>

lemma screen_Page_Auth: "screen s = Page Auth_page \<Longrightarrow> route (location (nav_browser s)) = Public Auth_page"
  using route_Public_Auth [of "location (nav_browser s)"]
  by (auto simp: screen_def split: route_el.splits guard_view.splits if_splits simp: RequireAuth_def)

lemma screen_signed_in:
  "signed_in s \<Longrightarrow> \<not> nav_loading s \<Longrightarrow> route (location (nav_browser s)) = Protected p \<Longrightarrow> screen s = Page p"
  by (simp add: screen_def RequireAuth_def)

lemma screen_Public: "route (location (nav_browser s)) = Public p \<Longrightarrow> screen s = Page p"
  by (simp add: screen_def)

lemma is_protected_route: "is_protected r \<Longrightarrow> \<exists>p. route r = Protected p"
  by (auto simp: is_protected_def split: route_el.splits)

lemma route_auth [simp]:
  "route ''/auth'' = Public Auth_page" "route ''/auth?mode=signup'' = Public Auth_page"
  "route ''/'' = Public Dashboard_page" "route ''/dashboard'' = Protected Dashboard_page"
  by (simp_all add: route_def app_routes_def pathname_def)

lemma set_link_fields [simp]:
  "nav_browser (set_link i ls s) = nav_browser s" "signed_in (set_link i ls s) = signed_in s"
  "nav_loading (set_link i ls s) = nav_loading s" "guard_prompt (set_link i ls s) = guard_prompt s"
  "clock_ms (set_link i ls s) = clock_ms s"
  by (simp_all add: set_link_def)

lemma screen_set_link [simp]: "screen (set_link i ls s) = screen s"
  by (cases "route (location (nav_browser s))") (simp_all add: screen_def set_link_def)

lemma app_effects_fields [simp]:
  "signed_in (app_effects s) = signed_in s" "nav_loading (app_effects s) = nav_loading s"
  "clock_ms (app_effects s) = clock_ms s"
  by (simp_all add: app_effects_def auth_page_effect_def guard_page_effect_def go_def)

lemma app_effects_public:
  "route (location (nav_browser s)) = Public q \<Longrightarrow> (q = Auth_page \<longrightarrow> \<not> signed_in s) \<Longrightarrow> app_effects s = s"
  by (auto simp: app_effects_def auth_page_effect_def guard_page_effect_def is_protected_def)

text \<open>A signed-out user who sees the sidebar is on a public page.\<close>

lemma sidebar_shown_signed_out:
  assumes "sidebar_shown s" and "\<not> signed_in s"
  obtains q where "route (location (nav_browser s)) = Public q" and "has_sidebar q"
  using assms by (auto simp: sidebar_shown_def screen_def RequireAuth_def split: route_el.splits if_splits)

text \<open>What the auth page's effect does once the user is signed in.\<close>

lemma signed_in_effects:
  assumes "route (location (nav_browser s)) = Public Auth_page" and "signed_in s" and "\<not> nav_loading s"
    and "key_ok (redirectAfterAuth (nav_browser s))"
  shows "(\<exists>p. screen (app_effects s) = Page p \<and> has_sidebar p)
         \<and> redirectAfterAuth (nav_browser (app_effects s)) = None
         \<and> location (nav_browser (app_effects s)) =
              (case redirectAfterAuth (nav_browser s) of None \<Rightarrow> ''/'' | Some r \<Rightarrow> r)"
proof (cases "redirectAfterAuth (nav_browser s)")
  case None
  have "route ''/'' = Public Dashboard_page"
    by (simp add: route_def app_routes_def pathname_def)
  then show ?thesis
    using assms None
    by (simp add: app_effects_def auth_page_effect_def guard_page_effect_def auth_redirect_def go_def
                  is_protected_def screen_Public has_sidebar_def)
next
  case (Some r)
  with assms have "is_protected r" by (simp add: key_ok_def)
  then obtain p where p: "route r = Protected p" and "r \<noteq> []"
    using is_protected_route is_protected_nonempty by blast
  then show ?thesis
    using assms Some route_Protected [OF p]
    by (simp add: app_effects_def auth_page_effect_def guard_page_effect_def auth_redirect_def go_def
                  is_protected_def guard_effect_def screen_signed_in)
qed

text \<open>C18: the key the app keeps in local storage for after sign-in is always the path of a
  protected page or nothing, in every state reachable from a page load; so every sign-in
  on the auth page lands on a page that renders with its sidebar (the stored page or the
  home dashboard), and leaves no key behind.\<close>

theorem signin_lands_on_page:
  assumes "app_reach s" and "app_step SignedIn s = Some s'"
  shows "key_ok (redirectAfterAuth (nav_browser s))
         \<and> (\<exists>p. screen s' = Page p \<and> has_sidebar p)
         \<and> redirectAfterAuth (nav_browser s') = None"
proof -
  have inv: "nav_inv s" using app_reach_inv [OF assms(1)] .
  from assms(2) have en: "screen s = Page Auth_page" and s': "s' = app_effects (s\<lparr>signed_in := True, nav_loading := False\<rparr>)"
    by (simp_all add: app_step_def split: if_splits)
  have "route (location (nav_browser s)) = Public Auth_page" using screen_Page_Auth [OF en] .
  then show ?thesis
    using signed_in_effects [of "s\<lparr>signed_in := True, nav_loading := False\<rparr>"] inv s'
    by (simp add: nav_inv_def)
qed

text \<open>The loading screen catches every click for its first three seconds: only time and the
  provider's answer can happen then.\<close>

lemma loading_blocks_events:
  "loading_visible (clock_ms s) \<Longrightarrow> app_step e s \<noteq> None \<Longrightarrow> (\<exists>d. e = Elapse d) \<or> (\<exists>u. e = AuthResolved u)"
  by (cases e) (simp_all add: app_step_def)

lemma collapsed_effects:
  "\<not> collapsed (nav_sidebar s) \<Longrightarrow> \<not> collapsed (nav_sidebar (app_effects s))"
  by (simp add: app_effects_def auth_page_effect_def guard_page_effect_def go_def sidebar_init_def)

text \<open>The sidebar is part of each page, so following a link to another page mounts a new
  sidebar: a collapsed sidebar opens again on every page change.\<close>

lemma collapse_lost_on_navigation:
  assumes "app_step (ClickLink i) s = Some s'" and "signed_in s"
    and "route (nav_path (sidebar_links ! i)) \<noteq> route (location (nav_browser s))"
  shows "\<not> collapsed (nav_sidebar s')"
proof -
  have "\<not> collapsed (nav_sidebar (click_link i s))"
    using assms(2,3) by (simp add: click_link_def navlink_click_def navigate_def go_def sidebar_init_def)
  then show ?thesis using assms(1) collapsed_effects by (auto simp: app_step_def split: if_splits)
qed

text \<open>C39: a signed-out user who clicks a protected sidebar link gets the link's sign-in
  prompt instead of the page; choosing sign-in or sign-up there and signing in brings the
  user to exactly that link's page, rendered, with the stored key consumed.\<close>

theorem navlink_signin_roundtrip:
  assumes "app_reach s" and "sidebar_shown s" and "\<not> link_prompt_open s" and "\<not> signed_in s"
    and "\<not> loading_visible (clock_ms s)" and "i < length sidebar_links"
    and "nav_requiresAuth (sidebar_links ! i)" and "a \<noteq> PromptDismiss"
  shows "\<exists>s' p. app_run [ClickLink i, LinkPrompt i a, SignedIn] s = Some s'
           \<and> route (nav_path (sidebar_links ! i)) = Protected p
           \<and> location (nav_browser s') = nav_path (sidebar_links ! i)
           \<and> screen s' = Page p \<and> redirectAfterAuth (nav_browser s') = None"
proof -
  let ?it = "sidebar_links ! i" and ?b = "nav_browser s"
  have inv: "nav_inv s" using app_reach_inv [OF assms(1)] .
  then have len: "length (links (nav_sidebar s)) = 5" by (simp add: nav_inv_def links_ok_def)
  obtain q where q: "route (location ?b) = Public q" "has_sidebar q"
    using sidebar_shown_signed_out assms(2,4) by blast
  obtain p where p: "route (nav_path ?it) = Protected p"
    using is_protected_route sidebar_link_protected assms(6,7) by blast
  define ls where "ls = (links (nav_sidebar s) ! i)\<lparr>intendedDestination := nav_path ?it, link_prompt := True\<rparr>"
  define s1 where "s1 = set_link i ls s"
  have e1: "app_step (ClickLink i) s = Some s1"
    using assms(2-7) q app_effects_public [of s1 q]
    by (simp add: app_step_def click_link_def navlink_click_def ls_def s1_def has_sidebar_def)
  define loc where "loc = (if a = PromptSignUp then ''/auth?mode=signup'' else ''/auth'')"
  have rloc: "route loc = Public Auth_page" by (simp add: loc_def)
  define s2 where "s2 = go (?b\<lparr>redirectAfterAuth := Some (nav_path ?it), location := loc\<rparr>)
                          (set_link i (ls\<lparr>link_prompt := False\<rparr>) s1)"
  have nth1: "links (nav_sidebar s1) ! i = ls" using assms(6) len by (simp add: s1_def set_link_def)
  have rs2: "route (location (nav_browser s2)) = Public Auth_page" and ks2: "redirectAfterAuth (nav_browser s2) = Some (nav_path ?it)"
    and ss2: "\<not> signed_in s2" and cs2: "clock_ms s2 = clock_ms s"
    using rloc assms(4) by (simp_all add: s2_def go_def s1_def set_link_def)
  have e2: "app_step (LinkPrompt i a) s1 = Some s2"
  proof -
    have "app_handler (LinkPrompt i a) s1 = s2"
      using assms(8) by (cases a) (simp_all add: link_prompt_step_def navlink_prompt_def nth1 ls_def s2_def loc_def,
                                   simp_all add: s1_def set_link_def)
    moreover have "app_effects s2 = s2"
      using app_effects_public [OF rs2] ss2 by simp
    moreover have "app_enabled (LinkPrompt i a) s1"
      using assms(2,5,6) nth1 by (simp add: s1_def ls_def sidebar_shown_def)
    ultimately show ?thesis by (simp add: app_step_def)
  qed
  define s3 where "s3 = s2\<lparr>signed_in := True, nav_loading := False\<rparr>"
  have e3: "app_step SignedIn s2 = Some (app_effects s3)"
    using rs2 ss2 cs2 assms(5) by (simp add: app_step_def screen_Public s3_def)
  have "key_ok (redirectAfterAuth (nav_browser s3))"
    using ks2 sidebar_link_protected assms(6,7) by (simp add: s3_def key_ok_def)
  then have fin: "redirectAfterAuth (nav_browser (app_effects s3)) = None
      \<and> location (nav_browser (app_effects s3)) = nav_path ?it"
    using signed_in_effects [of s3] rs2 ks2 by (simp add: s3_def)
  then have "screen (app_effects s3) = Page p"
    using p by (intro screen_signed_in) (simp_all add: s3_def)
  then show ?thesis using e1 e2 e3 fin p by auto
qed

text \<open>C22: the sidebar's Dashboard link is marked public (\<open>requiresAuth: false\<close>, "Public
  demo"), but it leads to \<open>/dashboard\<close>, which the routes guard: a signed-out user who
  clicks it is shown the guard's sign-in prompt, not the demo, and dismissing that prompt
  is what brings the demo dashboard at \<open>/\<close>.\<close>

theorem dashboard_link_prompts:
  assumes "sidebar_shown s" and "\<not> link_prompt_open s" and "\<not> signed_in s" and "\<not> nav_loading s"
    and "\<not> loading_visible (clock_ms s)"
  shows "\<not> nav_requiresAuth (sidebar_links ! 0)
         \<and> (\<exists>s' s''. app_step (ClickLink 0) s = Some s'
              \<and> location (nav_browser s') = ''/dashboard'' \<and> screen s' = Guard (AuthPrompt True)
              \<and> app_step (GuardPrompt PromptDismiss) s' = Some s''
              \<and> location (nav_browser s'') = ''/'' \<and> screen s'' = Page Dashboard_page)"
proof -
  obtain q where q: "route (location (nav_browser s)) = Public q" "has_sidebar q"
    using sidebar_shown_signed_out assms(1,3) by blast
  define s1 where "s1 = app_effects (click_link 0 s)"
  have e1: "app_step (ClickLink 0) s = Some s1"
    using assms by (simp add: app_step_def s1_def)
  have s1: "location (nav_browser s1) = ''/dashboard''" "guard_prompt s1"
           "signed_in s1 = signed_in s" "nav_loading s1 = nav_loading s" "clock_ms s1 = clock_ms s"
    using q assms(3,4)
    by (simp_all add: s1_def click_link_def navlink_click_def sidebar_links_def navItems_def navigate_def
                      go_def app_effects_def auth_page_effect_def guard_page_effect_def is_protected_def
                      guard_effect_def)
  have g1: "screen s1 = Guard (AuthPrompt True)"
    using s1 assms(3,4) by (simp add: screen_def RequireAuth_def)
  define s2 where "s2 = app_effects (guard_prompt_step PromptDismiss s1)"
  have e2: "app_step (GuardPrompt PromptDismiss) s1 = Some s2"
    using g1 s1 assms(5) by (simp add: app_step_def s2_def)
  have "location (nav_browser s2) = ''/''"
    using s1 by (simp add: s2_def guard_prompt_step_def prompt_act_def go_def app_effects_def
                          auth_page_effect_def guard_page_effect_def is_protected_def)
  moreover then have "screen s2 = Page Dashboard_page" by (simp add: screen_Public)
  ultimately show ?thesis using e1 e2 s1 g1 by (auto simp: sidebar_links_def navItems_def)
qed


subsection \<open>Getting back to the dashboard\<close>

lemma route_Public_cases: "route loc = Public p \<Longrightarrow> p \<in> {Dashboard_page, Auth_page, NotFound_page}"
  by (auto simp: route_def app_routes_def split: option.splits if_splits)

lemma auth_page_effect_not_auth:
  assumes "key_ok (redirectAfterAuth (nav_browser s))"
  shows "\<not> (route (location (nav_browser (auth_page_effect s))) = Public Auth_page \<and> signed_in (auth_page_effect s))"
proof (cases "route (location (nav_browser s)) = Public Auth_page \<and> signed_in s")
  case True
  have "route (location (auth_redirect (nav_browser s))) \<noteq> Public Auth_page"
    using assms is_protected_route [of "the (redirectAfterAuth (nav_browser s))"]
    by (auto simp: auth_redirect_def key_ok_def split: option.splits)
  then show ?thesis using True by (simp add: auth_page_effect_def go_def)
qed (auto simp: auth_page_effect_def)

lemma effects_settled: "nav_inv s \<Longrightarrow> settled (app_effects s)"
  using auth_page_effect_not_auth [of s]
  by (auto simp: nav_inv_def settled_def app_effects_def guard_page_effect_def guard_effect_def)

lemma settled_effects_id: "settled s \<Longrightarrow> app_effects s = s"
  by (auto simp: settled_def app_effects_def auth_page_effect_def guard_page_effect_def guard_effect_def)

lemma app_reach_settled: "app_reach s \<Longrightarrow> settled s"
proof (induction rule: app_reach.induct)
  case (load k loc)
  then show ?case unfolding app_load_def by (intro effects_settled) (simp add: nav_inv_def key_ok_def)
next
  case (step s e s')
  then have "nav_inv (app_handler e s)" and "s' = app_effects (app_handler e s)"
    using app_handler_inv app_reach_inv by (auto simp: app_step_def split: if_splits)
  then show ?case by (simp add: effects_settled)
qed

lemma one_prompt_go: "one_prompt s \<Longrightarrow> one_prompt (go b s)"
  by (simp add: one_prompt_def go_def sidebar_init_def link_init_def)

lemma one_prompt_effects: "one_prompt s \<Longrightarrow> one_prompt (app_effects s)"
proof -
  assume a: "one_prompt s"
  then have "one_prompt (auth_page_effect s)" using one_prompt_go by (simp add: auth_page_effect_def)
  then show ?thesis by (simp add: app_effects_def guard_page_effect_def one_prompt_def)
qed

lemma set_link_count:
  assumes "i < length (links (nav_sidebar s))"
  shows "length (filter link_prompt (links (nav_sidebar (set_link i ls s))))
           + (if link_prompt (links (nav_sidebar s) ! i) then 1 else 0)
         = length (filter link_prompt (links (nav_sidebar s))) + (if link_prompt ls then 1 else 0)"
  using length_filter_list_update [OF assms, of link_prompt ls] by (simp add: set_link_def)

lemma app_handler_one_prompt:
  assumes "nav_inv s" and "one_prompt s" and "app_enabled e s"
  shows "one_prompt (app_handler e s)"
proof (cases e)
  case (ClickLink i)
  with assms have i: "i < length (links (nav_sidebar s))" and none: "\<not> link_prompt_open s"
    by (auto simp: nav_inv_def links_ok_def)
  from none have "length (filter link_prompt (links (nav_sidebar s))) = 0"
    by (simp add: link_prompt_open_def list_ex_iff filter_empty_conv)
  then have "one_prompt (set_link i ls s)" for ls
    using set_link_count [OF i, of ls] by (simp add: one_prompt_def split: if_splits)
  then show ?thesis using ClickLink
    by (auto simp: click_link_def Let_def navigate_def intro!: one_prompt_go split: prod.split option.split)
next
  case (LinkPrompt i a)
  with assms have i: "i < length (links (nav_sidebar s))" by (auto simp: nav_inv_def links_ok_def)
  have "one_prompt (set_link i ((links (nav_sidebar s) ! i)\<lparr>link_prompt := False\<rparr>) s)"
    using set_link_count [OF i, of "(links (nav_sidebar s) ! i)\<lparr>link_prompt := False\<rparr>"] assms(2)
    by (simp add: one_prompt_def split: if_splits)
  then show ?thesis using LinkPrompt
    by (cases a) (simp_all add: link_prompt_step_def navlink_prompt_def one_prompt_go)
next
  case (GuardPrompt a)
  then show ?thesis using assms(2)
    by (simp add: guard_prompt_step_def case_prod_beta one_prompt_go) (simp add: one_prompt_def go_def sidebar_init_def link_init_def)
qed (use assms(2) in \<open>simp_all add: one_prompt_def navigate_def go_def app_signOut_def sidebar_init_def link_init_def\<close>)

lemma app_reach_one_prompt: "app_reach s \<Longrightarrow> one_prompt s"
proof (induction rule: app_reach.induct)
  case (load k loc)
  then show ?case unfolding app_load_def
    by (intro one_prompt_effects) (simp add: one_prompt_def sidebar_init_def link_init_def)
next
  case (step s e s')
  then show ?case using app_handler_one_prompt [OF app_reach_inv [OF step.hyps(1)] step.IH]
    by (auto simp: app_step_def split: if_splits intro: one_prompt_effects)
qed

text \<open>The steps the way back is made of, each from a settled state.\<close>

lemma screen_clock [simp]: "screen (s\<lparr>clock_ms := c\<rparr>) = screen s"
  by (cases "route (location (nav_browser s))") (simp_all add: screen_def)

lemma elapse_step:
  "settled s \<Longrightarrow> app_step (Elapse d) s = Some (s\<lparr>clock_ms := clock_ms s + d\<rparr>)"
  using settled_effects_id [of "s\<lparr>clock_ms := clock_ms s + d\<rparr>"]
  by (simp add: app_step_def settled_def is_protected_def)

lemma effects_location:
  "route (location (nav_browser s)) \<noteq> Public Auth_page \<Longrightarrow>
   location (nav_browser (app_effects s)) = location (nav_browser s)"
  by (simp add: app_effects_def auth_page_effect_def guard_page_effect_def)

lemma back_to_dashboard:
  assumes "screen s = Page Auth_page" and "\<not> loading_visible (clock_ms s)"
  shows "\<exists>s'. app_step BackToDashboard s = Some s' \<and> screen s' = Page Dashboard_page"
proof -
  have "location (nav_browser (app_effects (navigate ''/'' s))) = ''/''"
    by (subst effects_location) (auto simp: navigate_def go_def)
  then show ?thesis using assms by (simp add: app_step_def screen_Public)
qed

lemma guard_dismiss_dashboard:
  assumes "screen s = Guard (AuthPrompt True)" and "\<not> loading_visible (clock_ms s)"
  shows "\<exists>s'. app_step (GuardPrompt PromptDismiss) s = Some s' \<and> screen s' = Page Dashboard_page"
proof -
  have "location (nav_browser (app_effects (guard_prompt_step PromptDismiss s))) = ''/''"
    by (subst effects_location) (auto simp: guard_prompt_step_def prompt_act_def go_def)
  then show ?thesis using assms by (simp add: app_step_def screen_Public)
qed

lemma click_dashboard_signed_in:
  assumes "sidebar_shown s" and "\<not> link_prompt_open s" and "signed_in s" and "\<not> nav_loading s"
    and "\<not> loading_visible (clock_ms s)"
  shows "\<exists>s'. app_step (ClickLink 0) s = Some s' \<and> screen s' = Page Dashboard_page"
proof -
  let ?x = "click_link 0 s"
  have loc: "location (nav_browser ?x) = ''/dashboard''" and si: "signed_in ?x" and nl: "\<not> nav_loading ?x"
    using assms(3,4) by (simp_all add: click_link_def navlink_click_def sidebar_links_def navItems_def
                                         navigate_def go_def Let_def)
  then have "location (nav_browser (app_effects ?x)) = ''/dashboard''" by (simp add: effects_location)
  then have "screen (app_effects ?x) = Page Dashboard_page"
    using si nl by (intro screen_signed_in) simp_all
  then show ?thesis using assms by (simp add: app_step_def)
qed

lemma dismiss_link_prompt:
  assumes "settled s" and "sidebar_shown s" and "i < length sidebar_links" and "link_prompt (links (nav_sidebar s) ! i)"
    and "\<not> loading_visible (clock_ms s)"
  shows "app_step (LinkPrompt i PromptDismiss) s
           = Some (set_link i ((links (nav_sidebar s) ! i)\<lparr>link_prompt := False\<rparr>) s)"
proof -
  let ?s1 = "set_link i ((links (nav_sidebar s) ! i)\<lparr>link_prompt := False\<rparr>) s"
  have "settled ?s1" using assms(1) by (simp add: settled_def)
  then have "app_effects ?s1 = ?s1" by (rule settled_effects_id)
  moreover have "go (nav_browser s) ?s1 = ?s1" by (simp add: go_def set_link_def)
  ultimately show ?thesis using assms(2-5)
    by (simp add: app_step_def link_prompt_step_def navlink_prompt_def)
qed

text \<open>C24: the app has no dead end short of the 404 page: from every state reachable from
  a page load, once the provider has answered whether a session exists, the user can
  bring the dashboard on screen with their own clicks (after the loading screen's three
  seconds): the guard prompt's close, the auth page's back link, or the sidebar's
  Dashboard link after closing an open link prompt.\<close>

theorem dashboard_always_reachable:
  assumes "app_reach s" and "\<not> nav_loading s" and "route (location (nav_browser s)) \<noteq> Public NotFound_page"
  shows "\<exists>es s'. list_all user_event es \<and> app_run es s = Some s' \<and> screen s' = Page Dashboard_page"
proof -
  have st: "settled s" and op: "one_prompt s" and inv: "nav_inv s"
    using assms(1) app_reach_settled app_reach_one_prompt app_reach_inv by blast+
  define s1 where "s1 = s\<lparr>clock_ms := clock_ms s + 3000\<rparr>"
  have e1: "app_step (Elapse 3000) s = Some s1" using elapse_step [OF st] by (simp add: s1_def)
  have s1: "settled s1" "\<not> loading_visible (clock_ms s1)" "\<not> nav_loading s1" "screen s1 = screen s"
           "signed_in s1 = signed_in s" "nav_sidebar s1 = nav_sidebar s"
    using st assms(2) by (simp_all add: s1_def settled_def loading_visible_def is_protected_def)
  have u: "user_event (Elapse 3000)" "user_event BackToDashboard" "user_event (GuardPrompt PromptDismiss)"
          "user_event (ClickLink 0)" "user_event (LinkPrompt i PromptDismiss)" for i
    by (simp_all add: user_event_def)
  show ?thesis
  proof (cases "route (location (nav_browser s))")
    case (Public p)
    with assms(3) route_Public_cases have "p = Dashboard_page \<or> p = Auth_page" by blast
    then show ?thesis
    proof
      assume "p = Dashboard_page"
      then have "app_run [] s = Some s \<and> screen s = Page Dashboard_page" using Public by (simp add: screen_Public)
      then show ?thesis by (intro exI [of _ "[]"]) auto
    next
      assume "p = Auth_page"
      then obtain s2 where "app_step BackToDashboard s1 = Some s2" "screen s2 = Page Dashboard_page"
        using back_to_dashboard [of s1] s1 Public by (auto simp: screen_Public)
      then show ?thesis using e1 u by (intro exI [of _ "[Elapse 3000, BackToDashboard]"]) auto
    qed
  next
    case (Protected p)
    show ?thesis
    proof (cases "signed_in s")
      case False
      then have "screen s1 = Guard (AuthPrompt True)"
        using st s1 Protected assms(2) by (simp add: settled_def is_protected_def screen_def RequireAuth_def)
      then obtain s2 where "app_step (GuardPrompt PromptDismiss) s1 = Some s2" "screen s2 = Page Dashboard_page"
        using guard_dismiss_dashboard [of s1] s1 by auto
      then show ?thesis using e1 u by (intro exI [of _ "[Elapse 3000, GuardPrompt PromptDismiss]"]) auto
    next
      case True
      have shown: "sidebar_shown s1"
        using s1 True assms(2) Protected route_Protected [OF Protected]
        by (simp add: sidebar_shown_def screen_signed_in)
      show ?thesis
      proof (cases "link_prompt_open s1")
        case False
        then obtain s2 where "app_step (ClickLink 0) s1 = Some s2" "screen s2 = Page Dashboard_page"
          using click_dashboard_signed_in [OF shown] s1 True by auto
        then show ?thesis using e1 u by (intro exI [of _ "[Elapse 3000, ClickLink 0]"]) auto
      next
        case open1: True
        have len: "length (links (nav_sidebar s1)) = length sidebar_links"
          using inv s1 by (simp add: nav_inv_def links_ok_def)
        obtain i where i: "i < length sidebar_links" and pi: "link_prompt (links (nav_sidebar s1) ! i)"
          using open1 len by (auto simp: link_prompt_open_def list_ex_length)
        define s2 where "s2 = set_link i ((links (nav_sidebar s1) ! i)\<lparr>link_prompt := False\<rparr>) s1"
        have e2: "app_step (LinkPrompt i PromptDismiss) s1 = Some s2"
          using dismiss_link_prompt [OF s1(1) shown i pi s1(2)] by (simp add: s2_def)
        have "length (filter link_prompt (links (nav_sidebar s2))) + 1
                = length (filter link_prompt (links (nav_sidebar s1)))"
          using set_link_count [of i s1 "(links (nav_sidebar s1) ! i)\<lparr>link_prompt := False\<rparr>"] i len pi
          by (simp add: s2_def)
        moreover have "length (filter link_prompt (links (nav_sidebar s1))) \<le> 1"
          using op s1 by (simp add: one_prompt_def)
        ultimately have "length (filter link_prompt (links (nav_sidebar s2))) = 0" by arith
        then have "\<not> link_prompt_open s2"
          by (simp add: link_prompt_open_def list_ex_iff filter_empty_conv)
        moreover have "sidebar_shown s2" "signed_in s2" "\<not> nav_loading s2" "\<not> loading_visible (clock_ms s2)"
          using shown True s1 by (simp_all add: s2_def sidebar_shown_def)
        ultimately obtain s3 where "app_step (ClickLink 0) s2 = Some s3" "screen s3 = Page Dashboard_page"
          using click_dashboard_signed_in [of s2] by auto
        then show ?thesis using e1 e2 u
          by (intro exI [of _ "[Elapse 3000, LinkPrompt i PromptDismiss, ClickLink 0]"]) auto
      qed
    qed
  qed
qed

subsection \<open>Witnesses\<close>

theorem signin_lands_on_page_witness:
  "\<exists>s0 s'. app_step (Elapse 3000) (app_load ''/auth'' (Some ''/tasks'')) = Some s0
     \<and> app_step SignedIn s0 = Some s'
     \<and> key_ok (redirectAfterAuth (nav_browser s0)) \<and> (\<exists>p. screen s' = Page p \<and> has_sidebar p)
     \<and> redirectAfterAuth (nav_browser s') = None \<and> screen s' = Page Tasks_page"
proof -
  have k: "key_ok (Some ''/tasks'')" by (simp add: key_ok_def is_protected_def route_def app_routes_def pathname_def)
  define s0 where "s0 = app_effects (app_handler (Elapse 3000) (app_load ''/auth'' (Some ''/tasks'')))"
  define s' where "s' = app_effects (app_handler SignedIn s0)"
  have t: "app_step (Elapse 3000) (app_load ''/auth'' (Some ''/tasks'')) = Some s0"
    by (simp add: s0_def app_step_def)
  have r: "app_reach s0" by (rule app_reach.step [OF app_reach.load [OF k] t])
  have si: "app_step SignedIn s0 = Some s'"
    by (simp add: s'_def s0_def nav_eval)
  have "screen s' = Page Tasks_page" by (simp add: s'_def s0_def nav_eval)
  then show ?thesis using t si signin_lands_on_page [OF r si] by blast
qed

theorem navlink_signin_roundtrip_witness:
  "\<exists>s0 s' p. app_run [Elapse 3000, AuthResolved False] (app_load ''/'' None) = Some s0
     \<and> app_run [ClickLink 1, LinkPrompt 1 PromptSignIn, SignedIn] s0 = Some s'
     \<and> route (nav_path (sidebar_links ! 1)) = Protected p
     \<and> location (nav_browser s') = ''/tasks'' \<and> screen s' = Page p"
proof -
  have k: "key_ok None" by (simp add: key_ok_def)
  define s00 where "s00 = app_effects (app_handler (Elapse 3000) (app_load ''/'' None))"
  define s0 where "s0 = app_effects (app_handler (AuthResolved False) s00)"
  have t0: "app_step (Elapse 3000) (app_load ''/'' None) = Some s00" by (simp add: s00_def app_step_def)
  have t1: "app_step (AuthResolved False) s00 = Some s0" by (simp add: s0_def s00_def nav_eval)
  have r: "app_reach s0" by (rule app_reach.step [OF app_reach.step [OF app_reach.load [OF k] t0] t1])
  have h: "sidebar_shown s0" "\<not> link_prompt_open s0" "\<not> signed_in s0" "\<not> loading_visible (clock_ms s0)"
    by (simp_all add: s0_def s00_def nav_eval)
  have "nav_requiresAuth (sidebar_links ! 1)" "nav_path (sidebar_links ! 1) = ''/tasks''"
    by (simp_all add: sidebar_links_def navItems_def)
  moreover have "app_run [Elapse 3000, AuthResolved False] (app_load ''/'' None) = Some s0"
    by (simp add: t0 t1)
  ultimately show ?thesis using navlink_signin_roundtrip [OF r h(1,2,3,4), of 1 PromptSignIn] by auto
qed

theorem dashboard_link_prompts_witness:
  "\<exists>s0 s'. app_run [Elapse 3000, AuthResolved False] (app_load ''/'' None) = Some s0
     \<and> app_step (ClickLink 0) s0 = Some s' \<and> screen s' = Guard (AuthPrompt True)"
proof -
  define s0 where "s0 = app_effects (app_handler (AuthResolved False) (app_effects (app_handler (Elapse 3000) (app_load ''/'' None))))"
  have t: "app_run [Elapse 3000, AuthResolved False] (app_load ''/'' None) = Some s0"
    by (simp add: s0_def nav_eval)
  have h: "sidebar_shown s0" "\<not> link_prompt_open s0" "\<not> signed_in s0" "\<not> nav_loading s0"
          "\<not> loading_visible (clock_ms s0)"
    by (simp_all add: s0_def nav_eval)
  from dashboard_link_prompts [OF h] t show ?thesis by blast
qed


theorem dashboard_always_reachable_witness:
  "\<exists>s0 es s'. app_step (AuthResolved False) (app_load ''/tasks'' None) = Some s0
     \<and> list_all user_event es \<and> app_run es s0 = Some s' \<and> screen s' = Page Dashboard_page"
proof -
  have k: "key_ok None" by (simp add: key_ok_def)
  define s0 where "s0 = app_effects (app_handler (AuthResolved False) (app_load ''/tasks'' None))"
  have t: "app_step (AuthResolved False) (app_load ''/tasks'' None) = Some s0"
    by (simp add: s0_def nav_eval)
  have r: "app_reach s0" by (rule app_reach.step [OF app_reach.load [OF k] t])
  have h: "\<not> nav_loading s0" "route (location (nav_browser s0)) \<noteq> Public NotFound_page"
    by (simp_all add: s0_def nav_eval)
  from dashboard_always_reachable [OF r h] t show ?thesis by blast
qed

end
