(* ===== verification/Board.thy ===== *)
theory Board
  imports TaskViews "HOL-Library.Multiset"
begin

text \<open>
  The task overview page \<open>src/src/pages/KanbanPage.tsx\<close> with its two views: the board
  of \<open>src/src/components/kanban\<close> (\<open>KanbanBoard\<close>, \<open>KanbanColumn\<close>, \<open>KanbanCard\<close>), whose
  cards are dragged between the three status columns, and the Eisenhower matrix, whose
  task cards call the store like the tasks page does. The page state is the view mode
  and the drag's \<open>dataTransfer\<close> entry \<open>taskId\<close>; \<open>kanban_step\<close> runs one event against
  the page and the task store of \<open>Tasks\<close>, \<open>None\<close> when the event is not possible in
  the current view.
\<close>

subsection \<open>The board\<close>

text \<open>\<open>columns\<close> of \<open>KanbanBoard\<close>, in order, and the tasks each column receives.\<close>

definition kanban_columns :: "(task_status \<times> string) list" where
  "kanban_columns = [(Todo, ''To Do''), (InProgress, ''In Progress''), (Done, ''Done'')]"

definition column_tasks :: "task_status \<Rightarrow> task list \<Rightarrow> task list" where
  "column_tasks s ts = filter (\<lambda>t. status t = s) ts"

definition board :: "task list \<Rightarrow> task list list" where
  "board ts = map (\<lambda>(s, _). column_tasks s ts) kanban_columns"

text \<open>\<open>KanbanColumn\<close>'s counter and its empty-column hint.\<close>

definition column_badge :: "task list \<Rightarrow> nat \<times> bool" where
  "column_badge ts = (length ts, ts = [])"

text \<open>\<open>KanbanCard\<close>: the subtask counter and the estimated hours, \<open>Math.round(t / 60)\<close>
  (halves round up).\<close>

definition kanban_card_counts :: "task \<Rightarrow> nat \<times> nat" where
  "kanban_card_counts t = (length (filter completed (subtasks t)), length (subtasks t))"

definition js_round_div :: "int \<Rightarrow> int \<Rightarrow> int" where
  "js_round_div a b = (2 * a + b) div (2 * b)"

definition kanban_card_hours :: "task \<Rightarrow> int option" where
  "kanban_card_hours t =
     (case estimatedTime t of Some m \<Rightarrow> if m = 0 then None else Some (js_round_div m 60) | None \<Rightarrow> None)"

subsection \<open>The page\<close>

datatype view_mode = BoardView | MatrixView

record kanban_page =
  viewMode :: view_mode
  drag_data :: "string option"

definition kanban_page_init :: kanban_page where
  "kanban_page_init = \<lparr>viewMode = BoardView, drag_data = None\<rparr>"

text \<open>The header's counts and progress bar.\<close>

definition page_progress :: "task list \<Rightarrow> nat \<times> nat \<times> real" where
  "page_progress ts =
     (let completedTasks = length (filter (\<lambda>t. status t = Done) ts);
          totalTasks = length ts
      in (completedTasks, totalTasks,
          if 0 < totalTasks then real completedTasks / real totalTasks * 100 else 0))"

text \<open>\<open>EisenhowerMatrix\<close>: the four quadrants in order, each with the tasks
  \<open>getQuadrant\<close> puts there at the time of rendering.\<close>

definition matrix_quadrants :: "int \<Rightarrow> task list \<Rightarrow> (quadrant \<times> task list) list" where
  "matrix_quadrants now ts =
     map (\<lambda>q. (q, filter (\<lambda>t. getQuadrant now t = Some q) ts)) [DoFirst, Schedule, Delegate, DontDo]"

text \<open>\<open>dataTransfer.getData('taskId')\<close>: the empty string when nothing was set.\<close>

definition getData :: "kanban_page \<Rightarrow> string" where
  "getData pg = (case drag_data pg of Some tid \<Rightarrow> tid | None \<Rightarrow> [])"

datatype kanban_event =
  SetView view_mode
  | DragStart string
  | DropOn task_status
  | DragCancel
  | MatrixCard card_call

text \<open>One event. A drag starts on a card of the board, so on the id of a task the board
  shows; a drop lands on a column and runs \<open>handleDrop\<close> with the dragged id, and the
  drag ends there or elsewhere. The matrix's cards pass \<open>updateTask\<close>, \<open>deleteTask\<close>,
  \<open>addSubtask\<close> and the suggestions setter, as \<open>tasks_page_call\<close> runs them.\<close>

fun kanban_step ::
  "bool \<Rightarrow> int \<Rightarrow> kanban_event \<Rightarrow> kanban_page \<times> task_ctx
   \<Rightarrow> ((kanban_page \<times> task_ctx) \<times> task_toast option) option" where
  "kanban_step ok now (SetView v) (pg, c) = Some ((pg\<lparr>viewMode := v\<rparr>, c), None)"
| "kanban_step ok now (DragStart tid) (pg, c) =
     (if viewMode pg = BoardView \<and> tid \<in> set (map task_id (tasks c))
      then Some ((pg\<lparr>drag_data := Some tid\<rparr>, c), None) else None)"
| "kanban_step ok now (DropOn s) (pg, c) =
     (if viewMode pg = BoardView
      then (let (c', e) = handleDrop ok now (getData pg) s c in Some ((pg\<lparr>drag_data := None\<rparr>, c'), e))
      else None)"
| "kanban_step ok now DragCancel (pg, c) = Some ((pg\<lparr>drag_data := None\<rparr>, c), None)"
| "kanban_step ok now (MatrixCard call) (pg, c) =
     (if viewMode pg = MatrixView
      then (let (c', e) = tasks_page_call ok now call c in Some ((pg, c'), e)) else None)"

fun kanban_run ::
  "bool \<Rightarrow> int \<Rightarrow> kanban_event list \<Rightarrow> kanban_page \<times> task_ctx
   \<Rightarrow> ((kanban_page \<times> task_ctx) \<times> task_toast list) option" where
  "kanban_run ok now [] st = Some (st, [])"
| "kanban_run ok now (e # es) st =
     (case kanban_step ok now e st of
        None \<Rightarrow> None
      | Some (st', t) \<Rightarrow>
          (case kanban_run ok now es st' of
             None \<Rightarrow> None
           | Some (st'', ts) \<Rightarrow> Some (st'', (case t of None \<Rightarrow> ts | Some x \<Rightarrow> x # ts))))"

subsection \<open>Views of the task list\<close>

lemma board_eq:
  "board ts = [column_tasks Todo ts, column_tasks InProgress ts, column_tasks Done ts]"
  by (simp add: board_def kanban_columns_def)

text \<open>The three columns of the board hold every task exactly once.\<close>

lemma board_partition: "mset (concat (board ts)) = mset ts"
proof (induction ts)
  case (Cons t ts)
  then show ?case by (cases "status t") (simp_all add: board_eq column_tasks_def mset_append)
qed (simp add: board_eq column_tasks_def)

lemma matrix_eq:
  "map snd (matrix_quadrants now ts) =
     [filter (\<lambda>t. getQuadrant now t = Some DoFirst) ts, filter (\<lambda>t. getQuadrant now t = Some Schedule) ts,
      filter (\<lambda>t. getQuadrant now t = Some Delegate) ts, filter (\<lambda>t. getQuadrant now t = Some DontDo) ts]"
  by (simp add: matrix_quadrants_def)

text \<open>The four quadrants of the matrix hold every task that is not done exactly once.\<close>

lemma matrix_partition:
  "mset (concat (map snd (matrix_quadrants now ts))) = mset (filter (\<lambda>t. status t \<noteq> Done) ts)"
proof (induction ts)
  case (Cons t ts)
  show ?case
  proof (cases "getQuadrant now t")
    case None
    then show ?thesis using Cons getQuadrant_partition [of now t] by (simp add: matrix_eq mset_append)
  next
    case (Some q)
    then show ?thesis using Cons getQuadrant_partition [of now t]
      by (cases q) (auto simp: matrix_eq mset_append)
  qed
qed (simp add: matrix_quadrants_def)

lemma page_progress_overall: "snd (snd (page_progress ts)) = overallProgress ts"
  by (simp add: page_progress_def overallProgress_def Let_def)

text \<open>The hours a card shows are the estimated minutes rounded to the nearest hour.\<close>

lemma js_round_div_bounds:
  assumes "0 < b"
  shows "b * js_round_div a b * 2 - b \<le> 2 * a \<and> 2 * a < b * js_round_div a b * 2 + b"
proof -
  have "(2 * a + b) div (2 * b) * (2 * b) + (2 * a + b) mod (2 * b) = 2 * a + b"
    by (rule div_mult_mod_eq)
  moreover have "0 \<le> (2 * a + b) mod (2 * b)" "(2 * a + b) mod (2 * b) < 2 * b"
    using assms by simp_all
  ultimately show ?thesis unfolding js_round_div_def by (simp add: algebra_simps)
qed


subsection \<open>Dragging a card\<close>

lemma handleDrop_found:
  assumes "distinct (map task_id (tasks c))" and "t \<in> set (tasks c)" and "status t \<noteq> s"
  shows "handleDrop ok now (task_id t) s c = updateTask ok now (t\<lparr>status := s\<rparr>) c"
  using find_distinct_key [OF assms(1,2)] assms(3) by (simp add: handleDrop_def)

lemma replace_task_key:
  assumes "distinct (map task_id ts)" and "t \<in> set ts" and "task_id u = task_id t"
  shows "filter (\<lambda>x. task_id x = task_id t) (replace_task now u ts) = [u\<lparr>lastEditedAt := Some now\<rparr>]"
    and "filter (\<lambda>x. task_id x \<noteq> task_id t) (replace_task now u ts) = filter (\<lambda>x. task_id x \<noteq> task_id t) ts"
proof -
  have "filter (\<lambda>x. task_id x = task_id t) (replace_task now u ts)
          = map (\<lambda>x. u\<lparr>lastEditedAt := Some now\<rparr>) (filter (\<lambda>x. task_id x = task_id t) ts)"
    using assms(3) by (induction ts) (auto simp: replace_task_def)
  then show "filter (\<lambda>x. task_id x = task_id t) (replace_task now u ts) = [u\<lparr>lastEditedAt := Some now\<rparr>]"
    using filter_distinct_key [OF assms(1,2)] by simp
  show "filter (\<lambda>x. task_id x \<noteq> task_id t) (replace_task now u ts) = filter (\<lambda>x. task_id x \<noteq> task_id t) ts"
    using assms(3) by (induction ts) (auto simp: replace_task_def)
qed

text \<open>C9: dragging a card of the board onto another column and dropping it there, with the
  task ids unique, leaves exactly one task of that id, now in the target column and
  stamped with the time of the drop, and every other task as it was; the drag data is
  cleared, and the only message is the store's update-failed toast when a signed-in
  user's update does not reach the server.\<close>

theorem kanban_drag_drop_moves:
  assumes "distinct (map task_id (tasks c))" and "t \<in> set (tasks c)" and "status t \<noteq> s"
    and "viewMode pg = BoardView"
  shows "\<exists>pg' c'. kanban_run ok now [DragStart (task_id t), DropOn s] (pg, c)
                  = Some ((pg', c'), if task_signed_in c \<and> \<not> ok then [UpdateFailed] else [])
           \<and> column_tasks s (filter (\<lambda>u. task_id u = task_id t) (tasks c'))
               = [t\<lparr>status := s, lastEditedAt := Some now\<rparr>]
           \<and> filter (\<lambda>u. task_id u = task_id t) (tasks c') = [t\<lparr>status := s, lastEditedAt := Some now\<rparr>]
           \<and> filter (\<lambda>u. task_id u \<noteq> task_id t) (tasks c') = filter (\<lambda>u. task_id u \<noteq> task_id t) (tasks c)
           \<and> drag_data pg' = None"
proof -
  let ?u = "t\<lparr>status := s\<rparr>"
  have drop: "handleDrop ok now (task_id t) s c = updateTask ok now ?u c"
    using handleDrop_found [OF assms(1-3)] .
  have k: "filter (\<lambda>x. task_id x = task_id t) (replace_task now ?u (tasks c)) = [?u\<lparr>lastEditedAt := Some now\<rparr>]"
       "filter (\<lambda>x. task_id x \<noteq> task_id t) (replace_task now ?u (tasks c))
          = filter (\<lambda>x. task_id x \<noteq> task_id t) (tasks c)"
    using replace_task_key [OF assms(1,2), of ?u now] by simp_all
  have run: "kanban_run ok now [DragStart (task_id t), DropOn s] (pg, c)
      = Some ((pg\<lparr>drag_data := None\<rparr>, fst (updateTask ok now ?u c)),
              if task_signed_in c \<and> \<not> ok then [UpdateFailed] else [])"
    using assms(2,4) drop by (auto simp: getData_def updateTask_def Let_def)
  have col: "column_tasks s [?u\<lparr>lastEditedAt := Some now\<rparr>] = [?u\<lparr>lastEditedAt := Some now\<rparr>]"
    by (simp add: column_tasks_def)
  show ?thesis
    using run k col by simp
qed


text \<open>A drop with no drag data reads the empty id, which no task of the store has: nothing
  changes.\<close>

lemma drop_without_drag:
  assumes "viewMode pg = BoardView" and "drag_data pg = None" and "[] \<notin> set (map task_id (tasks c))"
  shows "kanban_step ok now (DropOn s) (pg, c) = Some ((pg, c), None)"
proof -
  have "find (\<lambda>t. task_id t = []) (tasks c) = None"
    using assms(3) by (auto simp: find_None_iff image_iff)
  then show ?thesis using assms(1,2) by (simp add: getData_def handleDrop_def)
qed

subsection \<open>Witnesses\<close>

theorem kanban_drag_drop_moves_witness:
  "\<exists>pg' c'. kanban_run False 100 [DragStart ''1'', DropOn Done] (kanban_page_init, example_task_ctx)
              = Some ((pg', c'), [UpdateFailed])
     \<and> filter (\<lambda>u. task_id u = ''1'') (tasks c') = [example_task\<lparr>status := Done, lastEditedAt := Some 100\<rparr>]"
proof -
  have "distinct (map task_id (tasks example_task_ctx))" "example_task \<in> set (tasks example_task_ctx)"
       "status example_task \<noteq> Done" "viewMode kanban_page_init = BoardView"
    by (simp_all add: example_task_ctx_def example_task_def kanban_page_init_def)
  from kanban_drag_drop_moves [OF this, of False 100]
  obtain pg' c' where
    "kanban_run False 100 [DragStart (task_id example_task), DropOn Done] (kanban_page_init, example_task_ctx)
       = Some ((pg', c'), if task_signed_in example_task_ctx \<and> \<not> False then [UpdateFailed] else [])"
    and "filter (\<lambda>u. task_id u = task_id example_task) (tasks c')
           = [example_task\<lparr>status := Done, lastEditedAt := Some 100\<rparr>]"
    by blast
  moreover have "task_id example_task = ''1''" "task_signed_in example_task_ctx"
    by (simp_all add: example_task_def example_task_ctx_def)
  ultimately show ?thesis by auto
qed

end
