(* ===== verification/Dashboard.thy ===== *)
theory Dashboard
  imports Pages Board
begin

text \<open>
  The dashboard page \<open>src/src/pages/Dashboard.tsx\<close> as the user drives its current-task
  card \<open>src/src/components/dashboard/CurrentTask.tsx\<close>: the card shows the selector's
  task (\<open>getNextFocusTask\<close>) or, without one, a quote and a link to the task list; its
  subtask checkboxes and its add-subtask input call \<open>onUpdateTask = updateTask\<close> of the
  store; a signed-out user's add opens the card's \<open>AuthRequiredDialog\<close>. \<open>dash_step\<close>
  runs one event against the card's state and the store and returns the location the
  event navigates to, if any; \<open>None\<close> when the event's control is not on screen.
  The weekly card, the progress card and the page as a whole are functions of the
  settings, the session ledger and the task store.
\<close>

subsection \<open>What the card shows\<close>


text \<open>The add-subtask input sits inside the block rendered only for a task with subtasks,
  and only when the card has \<open>onUpdateTask\<close>.\<close>

definition ct_add_shown :: "bool \<Rightarrow> task \<Rightarrow> bool" where
  "ct_add_shown has_callback t = (subtasks t \<noteq> [] \<and> has_callback)"



subsection \<open>The weekly and progress cards\<close>










subsection \<open>Events\<close>

datatype dash_event =
  DashType string           \<comment> \<open>typing in the add-subtask input\<close>
  | DashAdd                 \<comment> \<open>the plus button or Enter in the input\<close>
  | DashToggle string       \<comment> \<open>a subtask checkbox\<close>
  | DashPickTask            \<comment> \<open>"Pick a task to start", shown without a task\<close>
  | DashViewAll             \<comment> \<open>"View all" above the recent tasks\<close>
  | DashAuthClose           \<comment> \<open>closing the card's sign-in dialog\<close>

definition run_calls :: "bool \<Rightarrow> int \<Rightarrow> card_call list \<Rightarrow> task_ctx \<Rightarrow> task_ctx" where
  "run_calls ok nowMs calls c = foldl (\<lambda>c1 call. fst (tasks_page_call ok nowMs call c1)) c calls"

fun dash_step ::
  "bool \<Rightarrow> bool \<Rightarrow> int \<Rightarrow> string \<Rightarrow> dash_event \<Rightarrow> current_ui \<times> task_ctx
   \<Rightarrow> ((current_ui \<times> task_ctx) \<times> string option) option" where
  "dash_step signed ok nowMs newId (DashType s) (ui, c) =
     (case getNextFocusTask (tasks c) of
        Some t \<Rightarrow> if ct_add_shown True t then Some ((ui\<lparr>newSubtaskTitle := s\<rparr>, c), None) else None
      | None \<Rightarrow> None)"
| "dash_step signed ok nowMs newId DashAdd (ui, c) =
     (case getNextFocusTask (tasks c) of
        Some t \<Rightarrow>
          if ct_add_shown True t
          then (let (ui', calls) = ct_handleAddSubtask True signed newId nowMs t ui
                in Some ((ui', run_calls ok nowMs calls c), None))
          else None
      | None \<Rightarrow> None)"
| "dash_step signed ok nowMs newId (DashToggle sid) (ui, c) =
     (case getNextFocusTask (tasks c) of
        Some t \<Rightarrow>
          if sid \<in> set (map st_id (subtasks t))
          then Some ((ui, run_calls ok nowMs (ct_handleToggleSubtask True sid t) c), None)
          else None
      | None \<Rightarrow> None)"
| "dash_step signed ok nowMs newId DashPickTask (ui, c) =
     (if getNextFocusTask (tasks c) = None then Some ((ui, c), Some ''/tasks'') else None)"
| "dash_step signed ok nowMs newId DashViewAll (ui, c) = Some ((ui, c), Some ''/tasks'')"
| "dash_step signed ok nowMs newId DashAuthClose (ui, c) =
     (if ct_showAuthPrompt ui then Some ((ui\<lparr>ct_showAuthPrompt := False\<rparr>, c), None) else None)"


subsection \<open>Adding a subtask from the dashboard\<close>

lemma run_calls_update [simp]:
  "run_calls ok nowMs [CallUpdateTask u] c = fst (updateTask ok nowMs u c)"
  by (simp add: run_calls_def tasks_page_call_def)

lemma run_calls_Nil [simp]: "run_calls ok nowMs [] c = c"
  by (simp add: run_calls_def)

text \<open>C4: on the dashboard the current task's card offers the add-subtask input only when
  the task already has subtasks, so a task without subtasks cannot get its first one
  there; with the input shown, typing a title that is not blank and adding it stores, for
  a signed-in user, the task with the trimmed title appended as a new open subtask and
  the time of the edit, leaves every other task as it was and clears the input, while a
  signed-out user gets the sign-in dialog and the store does not change.\<close>

theorem dashboard_add_subtask:
  assumes "getNextFocusTask (tasks c) = Some t" and "distinct (map task_id (tasks c))"
    and "trim s \<noteq> []"
  shows "(subtasks t = [] \<longrightarrow> dash_step signed ok nowMs newId (DashType s) (ui, c) = None
                                 \<and> dash_step signed ok nowMs newId DashAdd (ui, c) = None)
         \<and> (subtasks t \<noteq> [] \<longrightarrow>
             dash_step signed ok nowMs newId (DashType s) (ui, c) = Some ((ui\<lparr>newSubtaskTitle := s\<rparr>, c), None)
             \<and> (\<exists>ui' c'. dash_step signed ok nowMs newId DashAdd (ui\<lparr>newSubtaskTitle := s\<rparr>, c) = Some ((ui', c'), None)
                  \<and> (if signed
                     then filter (\<lambda>u. task_id u = task_id t) (tasks c')
                            = [t\<lparr>subtasks := subtasks t @ [\<lparr>st_id = newId, st_title = trim s, completed = False,
                                                            isAiSuggested = None, st_estimatedTime = None\<rparr>],
                                 lastEditedAt := Some nowMs\<rparr>]
                          \<and> filter (\<lambda>u. task_id u \<noteq> task_id t) (tasks c') = filter (\<lambda>u. task_id u \<noteq> task_id t) (tasks c)
                          \<and> newSubtaskTitle ui' = []
                     else c' = c \<and> ct_showAuthPrompt ui')))"
proof (intro conjI impI)
  assume "subtasks t = []"
  then show "dash_step signed ok nowMs newId (DashType s) (ui, c) = None"
    and "dash_step signed ok nowMs newId DashAdd (ui, c) = None"
    using assms(1) by (simp_all add: ct_add_shown_def)
next
  assume ne: "subtasks t \<noteq> []"
  then show "dash_step signed ok nowMs newId (DashType s) (ui, c) = Some ((ui\<lparr>newSubtaskTitle := s\<rparr>, c), None)"
    using assms(1) by (simp add: ct_add_shown_def)
  have tin: "t \<in> set (tasks c)" using getNextFocusTask_some [OF assms(1)] by simp
  let ?u = "t\<lparr>subtasks := subtasks t @ [\<lparr>st_id = newId, st_title = trim s, completed = False,
                                         isAiSuggested = None, st_estimatedTime = None\<rparr>],
              lastEditedAt := Some nowMs\<rparr>"
  show "\<exists>ui' c'. dash_step signed ok nowMs newId DashAdd (ui\<lparr>newSubtaskTitle := s\<rparr>, c) = Some ((ui', c'), None)
          \<and> (if signed
             then filter (\<lambda>u. task_id u = task_id t) (tasks c') = [?u]
                  \<and> filter (\<lambda>u. task_id u \<noteq> task_id t) (tasks c') = filter (\<lambda>u. task_id u \<noteq> task_id t) (tasks c)
                  \<and> newSubtaskTitle ui' = []
             else c' = c \<and> ct_showAuthPrompt ui')"
  proof (cases signed)
    case True
    have k: "filter (\<lambda>x. task_id x = task_id t) (replace_task nowMs ?u (tasks c)) = [?u\<lparr>lastEditedAt := Some nowMs\<rparr>]"
         "filter (\<lambda>x. task_id x \<noteq> task_id t) (replace_task nowMs ?u (tasks c))
            = filter (\<lambda>x. task_id x \<noteq> task_id t) (tasks c)"
      using replace_task_key [OF assms(2) tin, of ?u nowMs] by simp_all
    show ?thesis
      using True ne assms(1,3) k
      by (simp add: ct_add_shown_def ct_handleAddSubtask_def checkAuth_def)
  next
    case False
    then show ?thesis
      using ne assms(1) by (simp add: ct_add_shown_def ct_handleAddSubtask_def checkAuth_def)
  qed
qed


subsection \<open>The weekly card\<close>




subsection \<open>Witnesses\<close>

theorem dashboard_add_subtask_witness:
  "\<exists>ui' c'. dash_step True True 10 ''n1'' DashAdd
                (\<lparr>ct_showAuthPrompt = False, newSubtaskTitle = '' ch3 ''\<rparr>, example_dash_ctx) = Some ((ui', c'), None)
     \<and> map st_title (subtasks (hd (filter (\<lambda>u. task_id u = task_id example_edit_task) (tasks c'))))
         = map st_title (subtasks example_edit_task) @ [''ch3'']
     \<and> newSubtaskTitle ui' = []"
proof -
  have h: "getNextFocusTask (tasks example_dash_ctx) = Some example_edit_task"
    "distinct (map task_id (tasks example_dash_ctx))" "trim '' ch3 '' \<noteq> []"
    by (simp_all add: example_dash_ctx_def example_edit_task_def getNextFocusTask_def trim_def js_space_def)
  have ne: "subtasks example_edit_task \<noteq> []" by (simp add: example_edit_task_def)
  have tr: "trim '' ch3 '' = ''ch3''" by (simp add: trim_def js_space_def)
  from dashboard_add_subtask [OF h, of True True 10 "''n1''" "\<lparr>ct_showAuthPrompt = False, newSubtaskTitle = []\<rparr>"] ne
  show ?thesis using tr by auto
qed


end
