(* ===== verification/Spec2Isabelle.thy ===== *)
theory Spec2Isabelle
  imports Timer Ledger Tasks Suggestions Auth TaskViews TimerView Countdown Races TaskDialog SettingsPage Pages CardFlow Navigation Board Dashboard
begin

text \<open>
  \<^bold>\<open>StudyFlow: a verification library of the focus-session and streak engine.\<close>

  The program (\<open>src/src\<close>) is a React study planner. Its state lives in four providers,
  an authentication hook and a few pure functions:
  \<^item> \<open>context/SettingsContext.tsx\<close> holds the timer settings (focus and break
    minutes, auto-start flags) and the profile settings, loads both rows of the user and
    saves changes to the \<open>timer_settings\<close> and \<open>profiles\<close> tables;
  \<^item> \<open>context/TimerContext.tsx\<close> is the Pomodoro state machine: mode, running flag
    and seconds left, a one-second interval and two effects (a sync effect that reloads
    the duration when the timer is stopped, and a completion effect that switches to
    break and reports the finished focus session);
  \<^item> \<open>context/SessionContext.tsx\<close> is the ledger: the completed session is inserted
    into \<open>study_sessions\<close>, the profile's total minutes and streak are updated, and the
    seven-slot weekly array is recomputed from the last week's rows;
    \<open>hooks/useAuth.tsx\<close> bootstraps the profile on sign-in, runs the daily streak
    check, guards the protected routes and signs out; \<open>pages/AuthPage.tsx\<close> signs in
    and up;
  \<^item> \<open>context/TaskContext.tsx\<close> is the task store, \<open>lib/task-utils.ts\<close> chooses the
    task the dashboard shows (\<open>getNextFocusTask\<close>), the task card, the dashboard's
    current task, the task page, the Kanban board and the Eisenhower page act on and
    derive from the tasks, and \<open>lib/gemini.ts\<close> proposes subtasks, from an external
    model or from a keyword classifier;
  \<^item> \<open>App.tsx\<close> routes the locations to the pages, wrapping the protected ones in
    \<open>RequireAuth\<close>; every page but the auth page renders \<open>components/layout/WebLayout.tsx\<close>
    with the \<open>Sidebar\<close>, whose \<open>NavLink\<close>s ask a signed-out user to sign in and remember
    the page in local storage for the auth page's redirect.
  The data flow is settings \<open>\<rightarrow>\<close> timer \<open>\<rightarrow>\<close> (on completion) ledger \<open>\<rightarrow>\<close> profile rows and
  celebration modal; task store \<open>\<rightarrow>\<close> selector \<open>\<rightarrow>\<close> dashboard; suggestions \<open>\<rightarrow>\<close> task card
  \<open>\<rightarrow>\<close> store.

  \<^bold>\<open>Theories.\<close>
  \<^item> \<open>Prelude\<close>: the JavaScript idioms on numbers (\<open>js_or\<close> for \<open>x || d\<close>, \<open>or_zero\<close>
    for a nullable column read), substring search (\<open>starts_with\<close>, \<open>contains\<close>, with
    \<open>contains_iff\<close>), the weekly array helpers \<open>count_pos\<close> and \<open>bump_slot\<close>,
    array indexing past the end (\<open>js_at\<close>), the decimal printing of numbers
    (\<open>digits\<close>, \<open>int_to_string\<close>) with its round trip \<open>digits_roundtrip\<close>,
    \<open>run_emit\<close> (a run of a step function that emits events), and \<open>first_min\<close>, the
    linear scan for the first element of least key, with the lemma that the head of the
    stable \<open>sort_key\<close> is that element.
  \<^item> \<open>Settings\<close>: \<open>timer_settings\<close>, \<open>profile_settings\<close> and their defaults, the
    partial merges of \<open>updateTimerSettings\<close> and \<open>updateProfileSettings\<close> with the
    upsert outcome and its toast, the initial load of both rows with its timeout race and
    the rows it creates (\<open>initSettings\<close>), and the duration inputs of the settings page
    and of the focus timer's dialog.
  \<^item> \<open>Timer\<close>: \<open>timer_state\<close> is the provider's three state hooks. Each handler
    (\<open>toggleTimer\<close>, \<open>resetTimer\<close>, \<open>setMode\<close>, the interval callback
    \<open>interval_tick\<close>, a change of settings) is its direct update followed by one pass of
    the effects, \<open>render_effects = completion_effect \<circ> sync_effect\<close>, in the order React
    runs them. One pass is enough: \<open>render_effects_idem\<close> proves that the re-render caused
    by the effects' own updates changes nothing. \<open>timer_step\<close> dispatches the inputs,
    \<open>timer_run\<close> folds it and collects the reported sessions, and \<open>timer_reachable\<close> is the
    inductive set of reachable states, with the invariant \<open>timer_inv\<close> proved by rule
    induction.
  \<^item> \<open>Ledger\<close>: \<open>ledger\<close> is the session provider's state together with the rows of
    \<open>profiles\<close> and \<open>study_sessions\<close> (\<open>db\<close>). \<open>addSession\<close> runs, in the order the
    code starts them, \<open>incrementStreak\<close>, the insert, \<open>updateProfileStudyTime\<close> and the
    effects on the changed total and slots; \<open>fetchSessions\<close> and \<open>weekly_buckets\<close> load
    the week; \<open>auth_changed\<close> is the load effect on a user change; \<open>checkDailyStreak\<close>,
    \<open>checkAndInitializeUser\<close> and \<open>auth_bootstrap\<close> model \<open>useAuth\<close>'s sign-in handling;
    of the user's \<open>timer_settings\<close> row the ledger's \<open>db\<close> records only its existence
    (\<open>timer_rows\<close>), its columns being the table's defaults and the settings store's.
  \<^item> \<open>Tasks\<close>: \<open>task\<close>, \<open>subtask\<close> and the store \<open>task_ctx\<close> (local list,
    suggestions map, the user's remote rows read back as tasks); \<open>getNextFocusTask\<close>
    with both stable sorts; \<open>addTask\<close>, \<open>updateTask\<close>, \<open>deleteTask\<close>,
    \<open>addSubtask\<close>, \<open>fetchTasks\<close> and the load effect with the demo data;
    \<open>handleToggleSubtask\<close> with \<open>derived_status\<close>; \<open>handleDrop\<close>, \<open>getQuadrant\<close> and
    \<open>overallProgress\<close>.
  \<^item> \<open>Suggestions\<close>: \<open>generateTaskSuggestions\<close> and its streaming variant with the
    external model, \<open>JSON.parse\<close> and the id supply as parameters; the cleaning of the
    answer (\<open>remove_all\<close>, \<open>trim\<close>); the keyword classifier \<open>fallback_kind\<close> (regular
    expression tests as substring search on the lower-cased text) and its thirteen lists;
    \<open>refineSubtasks\<close> with its prompt (\<open>refine_prompt\<close>), the model as a function of
    the prompt, and its result as the JavaScript objects it builds (\<open>js_suggestion\<close>),
    whose fields are JSON values or undefined, read back at the declared type by
    \<open>typed_suggestion\<close>.
  \<^item> \<open>Auth\<close>: the auth page's form, \<open>validateForm\<close>, \<open>handleSubmit\<close> with the requests
    it sends, the rendered form's controls (\<open>auth_form_step\<close>, \<open>auth_form_run\<close>), which
    submissions start a session (\<open>starts_session\<close>), its redirect effect; \<open>RequireAuth\<close> with its prompt; \<open>signOut\<close>.
  \<^item> \<open>TaskViews\<close>: the handlers of \<open>TaskCard\<close> and \<open>CurrentTask\<close> as functions
    returning the card's state and the callbacks they invoke, and \<open>TasksPage\<close>'s filter
    and its wiring of those callbacks to the store (\<open>tasks_page_call\<close>).
  \<^item> \<open>Countdown\<close>: the running timer as the loop the browser executes, one firing
    of \<open>setInterval\<close> after another until the timer stops (\<open>countdown\<close>, a
    \<open>partial_function (option)\<close>: a loop that never stops is the value \<open>None\<close>).
  \<^item> \<open>Races\<close>: \<open>incrementStreak\<close>, \<open>updateProfileStudyTime\<close> and \<open>checkDailyStreak\<close>
    as threads of a read step and a write step on one \<open>profiles\<close> row
    (\<open>thread_step\<close>), schedules as lists of thread indices (\<open>run_schedule\<close>), and the
    reachable states of all interleavings as an inductive relation (\<open>race_reach\<close>).
  \<^item> \<open>TaskDialog\<close>: the task form \<open>AddTaskDialog\<close>: its state hooks (\<open>dialog\<close>), its
    props, the reset effect, each handler (\<open>handleOpenChange\<close>,
    \<open>handleAddManualSubtask\<close>, the suggestion and collaborator handlers,
    \<open>handleSubmit\<close> with the \<open>'auto'\<close> priority), and the event wiring of the rendered
    form with its disabled buttons (\<open>dialog_handler\<close>, \<open>dialog_step\<close>, \<open>run_dialog\<close>).
  \<^item> \<open>SettingsPage\<close>: the settings page over the \<open>Settings\<close> store: its local copies of
    the settings with the two effects that overwrite them (\<open>sync_timer\<close>,
    \<open>sync_profile\<close>), \<open>sp_handleSave\<close>, \<open>handleAvatarSelect\<close>, \<open>handleAvatarUpload\<close>
    with its checks, the removal of a custom avatar, and its inputs as events
    (\<open>sp_step\<close>, \<open>sp_run\<close>).
  \<^item> \<open>Pages\<close>: what the layout header, the dashboard, the study room, the streaks page
    and the celebration modal compute: the header's streak and tasks due today, the
    greeting and recent tasks, the room codes with the join check and the study room's
    controls (\<open>room_step\<close>, \<open>room_run\<close>), the friend search, and the modal's close button.
  \<^item> \<open>CardFlow\<close>: a task card as the user drives it: its rendered buttons and inputs
    with their guards (\<open>card_handler\<close>), the edit dialog it renders (\<open>TaskDialog\<close> in
    edit mode, \<open>card_dialog_props\<close>), and its callbacks run against the store as the
    tasks page wires them (\<open>page_card_step\<close>).
  \<^item> \<open>Navigation\<close>: the whole app as the user moves through it: the route table
    (\<open>app_routes\<close>, \<open>route\<close>), what a location shows (\<open>screen\<close>), the remount of a
    page's sidebar and guard when the route element changes (\<open>go\<close>), the sidebar's
    controls and \<open>NavLink\<close> prompts (\<open>navlink_click\<close>, \<open>navlink_prompt\<close>),
    \<open>AuthRequiredDialog\<close>, the guard's prompt, the auth page's redirect and back link,
    sign-out, the provider's user and loading flag, and the loading screen's overlay;
    \<open>app_step\<close> is one event (\<open>None\<close> when the event is not possible on that screen),
    and \<open>app_reach\<close> the states reachable from a page load, with the invariant
    \<open>nav_inv\<close> proved by rule induction.
  \<^item> \<open>Board\<close>: the task overview page \<open>KanbanPage\<close>: the board's columns
    (\<open>board\<close>, \<open>column_tasks\<close>) and cards, the drag data a card's \<open>dragstart\<close> sets and a
    column's \<open>drop\<close> reads (\<open>getData\<close>), the view switch, the progress header and the
    Eisenhower quadrants, with \<open>kanban_step\<close> running the events against the store.
  \<^item> \<open>Dashboard\<close>: the dashboard's current-task card as the user drives it: what it shows
    (\<open>ct_view\<close>, \<open>ct_add_shown\<close>), its checkboxes, add-subtask input, links and sign-in
    dialog (\<open>dash_step\<close>), with \<open>onUpdateTask = updateTask\<close> of the store; the weekly
    card (\<open>WeeklyStreak\<close>, \<open>getPandaImage\<close>), the progress card
    (\<open>ProgressOverview\<close>) and the page assembled from the settings, the session ledger
    and the task store (\<open>Dashboard\<close>).

  \<^bold>\<open>Modelling choices.\<close>
  Numbers of the engine are whole numbers far inside the safe-integer range and are
  modelled as \<open>int\<close>; \<open>progress\<close> and \<open>overallProgress\<close> are \<open>real\<close>. Time is a
  timestamp in seconds of local time (tasks use \<open>getTime()\<close> milliseconds); the calendar
  day is \<open>t div 86400\<close> and \<open>getDay\<close> is \<open>(day + 4) mod 7\<close>, day 0 being a Thursday.
  Strings are lists of 8-bit characters, the Latin-1 part of JavaScript's strings.
  Every remote call takes its outcome as a parameter (\<open>net_ok\<close>, \<open>ok\<close>,
  \<open>insert_outcome\<close>, the sign-in and sign-up results): a failed read yields no row, a
  failed write leaves the tables unchanged, as supabase reports errors without throwing.
  Library calls the sources only use (zod's e-mail check, \<open>JSON.parse\<close>,
  \<open>crypto.randomUUID\<close>) are parameters too. The asynchronous calls of one handler are
  run to completion in the order the code starts them, except in \<open>Races\<close>, where the
  handlers that read and then write the profile row are split at their \<open>await\<close> and
  interleaved by a schedule; \<open>race_serial_refines\<close> shows that the serial schedule
  is the one-handler-at-a-time model of \<open>Ledger\<close>. Effects are run once per handler, which the idempotence lemma
  justifies for the timer; the ledger's effects are written out in the order their
  dependencies change. The ledger and the settings each model the \<open>profiles\<close> columns
  they use.

  \<^bold>\<open>What the lemmas show.\<close>
  The timer completes a focus interval in exactly as many firings as it has seconds
  left and reports one session (C1), keeps its invariant in every reachable state
  (C3), and its handlers do what the code says, including two departures from the
  specification: pausing reloads the full duration (C6), and a settings change during a
  run can leave more time than the new duration (C12). The interval loop returns
  exactly when the timer has time left, and runs for ever otherwise, which is what a
  negative focus duration, accepted by the settings page, leads to (C14). For the ledger, one session
  raises the stored total by twice the running total, not by the session's minutes, and
  each load of a signed-in user doubles it (C15, C16); the optimistic weekly slot update
  agrees with refetching the rows (C19), the bucketing loop counts what it should (C20),
  and the daily check is idempotent within a day (C21). Interleaved, the streak
  handlers keep the streak between its start value and one more per returned handler
  (C7), run serially they compute what the ledger computes (C11), but a completion on
  the first session of a day loses one of its two increments when both handlers read
  before either writes, and with a third handler the stored streak can fall (C25).
  For the tasks, the selector is
  a linear scan for the least key (C29) and returns the latest edited in-progress task,
  else the most urgent todo task (C30, C31), and a subtask checked off on the dashboard
  keeps its task shown while it stays in progress (C35); a card dragged to another
  column of the board is the one task that changes, moved there (C9); the dashboard adds a
  subtask to its current task only when that task already has one (C4); the store keeps ids unique
  (C36), and a failed task insert leaves orphan suggestions behind (C38). Every task the task form
  creates is well-formed whatever the user did before submitting (C8), while editing a
  task from its card and saving it unchanged stores the first of two same-titled
  subtasks twice (C32). On the
  settings page a save always reports success, also after both upserts failed (C2), and
  a typed name is reverted when an avatar is picked before saving (C37). The fallback lists respect
  the bounds the prompt asks of the model, four keywords of the classifier can
  never select their list (C10), the answer is the fallback or one suggestion per item
  (C13), and the streaming
  variant agrees with the plain one (C33); \<open>refineSubtasks\<close> returns objects of its
  declared type only when the model's items have a string title and a numeric or no
  time, since it copies both unchecked (C26). The dashboard's weekly card shows each day's
  count with its panda, capped at seven, and the ledger's streak (C28), and a user signing
  in for the first time gets a profile with streak 1 and a timer-settings row (C23). The auth page sends requests only for a
  valid form (C5). In every reachable state the key kept for after sign-in is a
  protected path or nothing, so every sign-in lands on a rendered page (C18); a protected
  sidebar link's prompt and a sign-in bring the user to exactly that page (C39); the
  sidebar's Dashboard link, meant as the public demo, leads to the guarded route (C22);
  and a key left by an abandoned prompt redirects a later, unrelated sign-in (C27). There
  is no dead end: from every reachable state, once the provider has answered and off the
  404 page, the user's own clicks bring the dashboard back (C24); this rests on two more
  invariants, that the effects are settled after every event and that at most one link
  prompt is open. A failed settings upsert is kept locally and lost on the next load (C40). The
  last section of this theory runs the components together (C34): settings saved from
  the focus timer's sliders, a start and one firing per second report exactly one
  session, whose recording raises the total by its length; since the slider caps a
  session at 60 minutes, the weekly slots, which count sessions of at least 120
  minutes, never change.

  \<^bold>\<open>Bounds and runs.\<close>
  No fuel is needed: every operation but \<open>countdown\<close> is a total function, and loops
  of the source (the interval as a list of firings, the bucketing \<open>forEach\<close>, the sorts, the string scans) are folds or
  structural recursion over finite lists, except \<open>remove_all\<close>, whose termination is
  proved with the length of the text as measure; the number of interval firings in a
  run is the length of the input list, and \<open>run_ticks_finish\<close> shows that exactly as
  many firings as seconds left finish an interval. \<open>countdown\<close> is the same interval
  without a bound on the firings; it is a \<open>partial_function (option)\<close>, and C14 proves
  both that it returns \<open>Some\<close> when the timer has time left and that it is \<open>None\<close>
  (never stops) otherwise. The race schedules are finite lists; the invariant holds in
  every state \<open>race_reach\<close> admits, whatever its length, and the navigation invariant
  in every state \<open>app_reach\<close> admits. The loading screen's 3000 ms and 500 ms timeouts
  are the constants of the code; the clock only gates the events.

  \<^bold>\<open>Not modelled.\<close>
  The external generative model itself (a parameter); the rounded percentage label of
  the progress card, whose exact halves depend on float rounding; the landing page beyond its link targets, since no route renders it; the
  scroll-to-top button; the 404 page and the error boundary, whose sources
  (\<open>pages/NotFound\<close>, \<open>components/ErrorBoundary\<close>) are not in the repository, so the
  404 page is a page without sidebar or links and C24 excludes it; React Router's case-insensitive and trailing-slash matching
  (the app writes its locations in one form); the rendering of every view; the
  task dialog's toast on a failed generation, which \<open>generateTaskSuggestions\<close> never
  lets happen; interleavings other than those of the three handlers on the profile
  row (the task store's remote calls run to completion).
\<close>

subsection \<open>A focus cycle across the components\<close>

lemma slider_durations:
  assumes "slider_focus_ok f" and "slider_break_ok b"
  shows "focusDuration (s\<lparr>focus_duration := f, short_break := b\<rparr>) = f"
    "breakDuration (s\<lparr>focus_duration := f, short_break := b\<rparr>) = b"
  using assms by (simp_all add: slider_focus_ok_def slider_break_ok_def focusDuration_def breakDuration_def)

text \<open>C34: end to end: settings saved from the focus timer's sliders, a start of the timer and one firing of the interval per second of the focus duration report exactly one session of the chosen length and leave the timer stopped on the chosen break; recording the reported sessions raises the total by that length and, since the slider caps a session at 60 minutes, never touches the weekly slots.\<close>

theorem focus_cycle_end_to_end:
  assumes "slider_focus_ok f" and "slider_break_ok b"
  shows "let cfg = timerSettings (fst (updateTimerSettings ok (focus_timer_patch f b) c));
             run = timer_run (cfg, initial_timer cfg) (Toggle # replicate (nat (f * 60)) Tick);
             ld = foldl (\<lambda>ld m. addSession e m ld) (l, d) (snd run)
         in snd run = [f] \<and> snd (fst run) = \<lparr>mode = Break, isActive = False, timeLeft = b * 60\<rparr>
            \<and> totalMinutes (fst ld) = totalMinutes l + f \<and> sessions (fst ld) = sessions l"
proof -
  define cfg where "cfg = (timerSettings c)\<lparr>focus_duration := f, short_break := b\<rparr>"
  have fd: "focusDuration cfg = f" and bd: "breakDuration cfg = b"
    using slider_durations [OF assms] by (simp_all add: cfg_def)
  have f: "5 \<le> f" "f \<le> 60" using assms(1) by (simp_all add: slider_focus_ok_def)
  let ?s1 = "(initial_timer cfg)\<lparr>isActive := True\<rparr>"
  have start: "toggleTimer cfg (initial_timer cfg) = (?s1, None)"
    using f by (simp add: toggle_start initial_timer_def fd)
  have ticks: "timer_run (cfg, ?s1) (replicate (nat (f * 60)) Tick)
                 = ((cfg, \<lparr>mode = Break, isActive = False, timeLeft = b * 60\<rparr>), [f])"
    using run_ticks_finish [of ?s1 "nat (f * 60)" cfg] f by (simp add: initial_timer_def fd bd)
  have run: "timer_run (cfg, initial_timer cfg) (Toggle # replicate (nat (f * 60)) Tick)
               = ((cfg, \<lparr>mode = Break, isActive = False, timeLeft = b * 60\<rparr>), [f])"
    using start ticks by (simp add: timer_run_def)
  have "\<not> 120 \<le> f" using f by simp
  then show ?thesis
    using run by (simp add: cfg_def addSession_totalMinutes addSession_sessions)
qed

theorem focus_cycle_end_to_end_witness:
  "let cfg = timerSettings (fst (updateTimerSettings True (focus_timer_patch 25 5) example_settings_ctx));
       run = timer_run (cfg, initial_timer cfg) (Toggle # replicate (nat (25 * 60)) Tick);
       ld = foldl (\<lambda>ld m. addSession example_env m ld) (example_ledger, example_db) (snd run)
   in snd run = [25] \<and> snd (fst run) = \<lparr>mode = Break, isActive = False, timeLeft = 5 * 60\<rparr>
      \<and> totalMinutes (fst ld) = totalMinutes example_ledger + 25 \<and> sessions (fst ld) = sessions example_ledger"
proof -
  have "slider_focus_ok 25" "slider_break_ok 5" by (simp_all add: slider_focus_ok_def slider_break_ok_def)
  from focus_cycle_end_to_end [OF this] show ?thesis .
qed

end
